(* ===== verification/Prelude.thy ===== *)
theory Prelude
  imports Complex_Main "HOL-Library.Transitive_Closure_Table"
begin

text \<open>
  Shared vocabulary of the development. The services of the repository are TypeScript
  classes whose state is a plain JavaScript object; this theory fixes how such values are
  represented:
  \<^item> an identifier (scene id, item id, source id, media file id) is a \<open>string\<close>;
  \<^item> a JavaScript object used as a dictionary (\<open>this.state.scenes\<close>, keyed by id) is an
    association list in insertion order, because \<open>Object.keys\<close> enumerates string keys in
    insertion order and the code relies on it (\<open>Object.keys(this.state.scenes)[0]\<close>);
    \<open>Vue.set\<close> is \<open>obj_set\<close>, \<open>Vue.delete\<close> is \<open>obj_del\<close>;
  \<^item> lodash \<open>without\<close> is a filter;
  \<^item> a call that throws (a \<open>TypeError\<close> on \<open>null\<close>, an explicit \<open>throw\<close>) is the
    outcome \<open>Thrown\<close>; the state at the throw is kept, since the code does not roll
    mutations back;
  \<^item> numbers printed into user-visible strings use \<open>nat_str\<close> / \<open>int_str\<close>.
  It also holds the relation lemmas the cycle-freedom proofs of the scene graph share.
\<close>

named_theorems mutation_defs "definitions of the services' @mutation methods"
named_theorems frame_simps "frame facts: what an operation leaves unchanged"

type_synonym ident = string

datatype js_error = TypeError string | JsError string

datatype 'a outcome = Ret 'a | Thrown js_error

subsection \<open>JavaScript objects as insertion-ordered association lists\<close>

definition obj_set :: "'k \<Rightarrow> 'v \<Rightarrow> ('k \<times> 'v) list \<Rightarrow> ('k \<times> 'v) list" where
  "obj_set k v xs =
     (if k \<in> set (map fst xs) then map (\<lambda>(k', v'). if k' = k then (k, v) else (k', v')) xs
      else xs @ [(k, v)])"

definition obj_del :: "'k \<Rightarrow> ('k \<times> 'v) list \<Rightarrow> ('k \<times> 'v) list" where
  "obj_del k xs = filter (\<lambda>(k', _). k' \<noteq> k) xs"

abbreviation obj_keys :: "('k \<times> 'v) list \<Rightarrow> 'k list" where
  "obj_keys xs \<equiv> map fst xs"

definition without :: "'a list \<Rightarrow> 'a \<Rightarrow> 'a list" where
  "without xs x = filter (\<lambda>y. y \<noteq> x) xs"

text \<open>Removing the \<open>k\<close>-th element: a settled promise leaves the list of pending ones.\<close>

definition remove_nth :: "nat \<Rightarrow> 'a list \<Rightarrow> 'a list" where
  "remove_nth k xs = take k xs @ drop (Suc k) xs"

subsection \<open>Numbers as decimal strings\<close>

fun nat_str :: "nat \<Rightarrow> string" where
  "nat_str n = (if n < 10 then [char_of (48 + n)] else nat_str (n div 10) @ [char_of (48 + n mod 10)])"

declare nat_str.simps [simp del]

definition int_str :: "int \<Rightarrow> string" where
  "int_str i = (if i < 0 then CHR ''-'' # nat_str (nat (- i)) else nat_str (nat i))"

subsection \<open>Lemmas on objects\<close>

lemma map_of_replace_value:
  "map_of (map (\<lambda>(k', v'). if k' = k then (k, v) else (k', v')) xs) j =
     (if j = k \<and> k \<in> set (map fst xs) then Some v else map_of xs j)"
proof (induction xs)
  case Nil
  then show ?case by simp
next
  case (Cons p xs)
  obtain a b where "p = (a, b)" by (cases p)
  with Cons.IH show ?case by (cases "a = k"; force)
qed

lemma map_of_obj_set [simp]: "map_of (obj_set k v xs) = (map_of xs)(k \<mapsto> v)"
proof
  fix j
  show "map_of (obj_set k v xs) j = ((map_of xs)(k \<mapsto> v)) j"
  proof (cases "k \<in> set (map fst xs)")
    case True
    then show ?thesis by (simp add: obj_set_def map_of_replace_value)
  next
    case False
    then have "map_of xs k = None" by (simp add: map_of_eq_None_iff)
    with False show ?thesis
      by (auto simp: obj_set_def map_of_append map_add_def split: option.splits)
  qed
qed

lemma obj_keys_obj_set [simp]:
  "obj_keys (obj_set k v xs) = (if k \<in> set (obj_keys xs) then obj_keys xs else obj_keys xs @ [k])"
proof -
  have "map fst (map (\<lambda>(k', v'). if k' = k then (k, v) else (k', v')) xs) = map fst xs"
    by (induction xs) auto
  then show ?thesis by (simp add: obj_set_def)
qed

lemma set_obj_keys_obj_set [simp]: "set (obj_keys (obj_set k v xs)) = insert k (set (obj_keys xs))"
  by auto

lemma image_fst_obj_set [simp]: "fst ` set (obj_set k v xs) = insert k (fst ` set xs)"
  using set_obj_keys_obj_set [of k v xs] by (simp only: set_map)

lemma set_obj_set_subset: "set (obj_set k v xs) \<subseteq> insert (k, v) (set xs)"
  by (auto simp: obj_set_def split: if_split_asm)

lemma length_obj_set: "length (obj_set k v xs) = (if k \<in> set (obj_keys xs) then length xs else Suc (length xs))"
  using obj_keys_obj_set [of k v xs] by (metis length_Suc_conv_rev length_map)

lemma map_of_obj_del [simp]: "map_of (obj_del k xs) = (map_of xs)(k := None)"
  by (induction xs) (auto simp: obj_del_def)

lemma obj_keys_obj_del [simp]: "obj_keys (obj_del k xs) = without (obj_keys xs) k"
  by (induction xs) (auto simp: obj_del_def without_def)

lemma set_without [simp]: "set (without xs x) = set xs - {x}"
  by (auto simp: without_def)

lemma distinct_obj_set [intro]: "distinct (obj_keys xs) \<Longrightarrow> distinct (obj_keys (obj_set k v xs))"
  by simp

lemma distinct_without [intro]: "distinct xs \<Longrightarrow> distinct (without xs x)"
  by (simp add: without_def)

lemma map_of_SomeD_key: "map_of xs k = Some v \<Longrightarrow> k \<in> set (obj_keys xs)"
  by (force dest: map_of_SomeD)

lemma set_remove_nth:
  assumes "k < length xs"
  shows "set xs = insert (xs ! k) (set (remove_nth k xs))"
proof -
  have "set xs = set (take k xs @ xs ! k # drop (Suc k) xs)"
    using arg_cong [OF id_take_nth_drop [OF assms], of set] .
  also have "\<dots> = insert (xs ! k) (set (remove_nth k xs))"
    by (auto simp: remove_nth_def)
  finally show ?thesis .
qed

lemma in_set_remove_nth:
  "k < length xs \<Longrightarrow> x \<noteq> xs ! k \<Longrightarrow> x \<in> set (remove_nth k xs) \<longleftrightarrow> x \<in> set xs"
  using set_remove_nth [of k xs] by auto

lemma length_remove_nth [simp]: "k < length xs \<Longrightarrow> length (remove_nth k xs) = length xs - 1"
  by (simp add: remove_nth_def)

lemma fold_decreasing:
  fixes m :: "'s \<Rightarrow> 'b::preorder"
  assumes "\<And>x s. m (f x s) \<le> m s"
  shows "m (fold f xs s) \<le> m s"
  by (induction xs arbitrary: s) (auto intro: order_trans assms)

subsection \<open>Cycle freedom of a graph that changes\<close>

text \<open>
  A new node with no outgoing edge cannot close a cycle: every cycle of the larger
  relation is already a cycle of the old one. This is the step of the proofs where a
  scene with no nodes is added.
\<close>

lemma trancl_new_sink:
  assumes sub: "r' \<subseteq> r \<union> {(a, b). b = x}" and sink: "\<forall>y. (x, y) \<notin> r'"
    and path: "(u, v) \<in> r'\<^sup>+" and ne: "v \<noteq> x"
  shows "(u, v) \<in> r\<^sup>+"
  using path ne
proof (induction rule: trancl_induct)
  case (base y)
  with sub show ?case by auto
next
  case (step y z)
  from step.hyps(2) sink have "y \<noteq> x" by auto
  with step.IH have "(u, y) \<in> r\<^sup>+" .
  moreover from step.hyps(2) step.prems sub have "(y, z) \<in> r" by auto
  ultimately show ?case by (rule trancl_into_trancl)
qed

lemma acyclic_new_sink:
  assumes "r' \<subseteq> r \<union> {(a, b). b = x}" and "\<forall>y. (x, y) \<notin> r'" and "acyclic r"
  shows "acyclic r'"
  unfolding acyclic_def
proof (intro allI notI)
  fix u assume cyc: "(u, u) \<in> r'\<^sup>+"
  show False
  proof (cases "u = x")
    case True
    with cyc obtain z where "(x, z) \<in> r'" by (auto dest: tranclD)
    with assms(2) show False by blast
  next
    case False
    with trancl_new_sink [OF assms(1,2) cyc] assms(3) show False
      by (auto simp: acyclic_def)
  qed
qed

text \<open>
  A path of distinct nodes, all inside a finite list of nodes, is no longer than the list:
  the pigeonhole step that bounds the depth of a search in a graph without cycles.
\<close>

lemma distinct_path_length:
  assumes "distinct ys" and "set ys \<subseteq> set ks"
  shows "length ys \<le> length ks"
proof -
  have "length ys = card (set ys)" using assms(1) by (simp add: distinct_card)
  also have "\<dots> \<le> card (set ks)" using assms(2) by (simp add: card_mono)
  also have "\<dots> \<le> length ks" by (rule card_length)
  finally show ?thesis .
qed

end
