(* ===== verification/Scenes.thy ===== *)
theory Scenes
  imports Prelude
begin

text \<open>
  The scene graph store: \<open>ScenesService\<close> (src/app/services/notifications/notifications-api.ts,
  lines 83--332 of the concatenated file, a copy of services/scenes/scenes.ts) together with
  the \<open>Scene\<close> and \<open>SceneItem\<close> methods it calls. Those two classes are not under src/;
  their methods (\<open>addSource\<close> with the cycle check, \<open>removeItem\<close>, \<open>getItems\<close>,
  \<open>setSettings\<close>, \<open>setVisibility\<close>, \<open>createAndAddSource\<close>) are modelled from the spec
  (sections 4.1, 4.4 and 8) and the API tests (src/unnamed/part_000).

  The state is \<open>IScenesState\<close> (\<open>activeSceneId\<close>, \<open>displayOrder\<close>, \<open>scenes\<close>)
  extended with what the service shares with its collaborators: the source registry of
  \<open>SourcesService\<close>, the ordered log of notifications (the six \<open>Subject\<close>s, the calls
  into the transition service and \<open>alert\<close>), and the counter behind
  \<open>ipcRenderer.sendSync('getUniqueId')\<close>. Every operation takes the state and returns
  the new one; operations that can throw return an \<open>outcome\<close>.
\<close>

section \<open>Data\<close>

record scene_item =
  sceneItemId :: ident
  item_sourceId :: ident
  item_visible :: bool
  item_locked :: bool

datatype scene_node = NodeItem scene_item | NodeFolder ident string

record scene =
  scene_id :: ident
  scene_name :: string
  resourceId :: string
  nodes :: "scene_node list"

record scenes_state =
  activeSceneId :: ident
  displayOrder :: "ident list"
  scenes :: "(ident \<times> scene) list"

datatype source_kind = SceneSource | InputSource string

record source =
  source_name :: string
  source_kind :: source_kind

datatype scene_event =
    SceneAdded scene | SceneRemoved scene | SceneSwitched scene
  | ItemAdded scene_item | ItemRemoved scene_item | ItemUpdated scene_item
  | TransitionTo ident | SourceAdded ident string | Alert string

record scenes_world = scenes_state +
  sources :: "(ident \<times> source) list"
  events :: "scene_event list"
  uid :: nat

definition scenes_initial :: scenes_world where
  "scenes_initial = \<lparr>activeSceneId = [], displayOrder = [], scenes = [],
     sources = [], events = [], uid = 0\<rparr>"

definition emit :: "scene_event \<Rightarrow> 'a scenes_world_scheme \<Rightarrow> 'a scenes_world_scheme" where
  "emit e w = w\<lparr>events := events w @ [e]\<rparr>"

text \<open>\<open>options.id || ipcRenderer.sendSync('getUniqueId')\<close>: a given non-empty id, else a fresh one.\<close>

definition unique_id :: "string \<Rightarrow> ident option \<Rightarrow> 'a scenes_world_scheme \<Rightarrow> ident \<times> 'a scenes_world_scheme" where
  "unique_id prefix oid w =
     (case oid of
        Some i \<Rightarrow> if i \<noteq> [] then (i, w) else (prefix @ nat_str (uid w), w\<lparr>uid := Suc (uid w)\<rparr>)
      | None \<Rightarrow> (prefix @ nat_str (uid w), w\<lparr>uid := Suc (uid w)\<rparr>))"

text \<open>\<open>'Scene' + JSON.stringify([id])\<close>: the JSON string escapes of ECMAScript.\<close>

definition hex_digit :: "nat \<Rightarrow> char" where
  "hex_digit n = (if n < 10 then char_of (48 + n) else char_of (87 + n))"

definition json_escape_char :: "char \<Rightarrow> string" where
  "json_escape_char c =
     (if c = CHR 0x22 then [CHR 0x5C, CHR 0x22]
      else if c = CHR 0x5C then [CHR 0x5C, CHR 0x5C]
      else if c = CHR 0x08 then [CHR 0x5C, CHR ''b'']
      else if c = CHR 0x09 then [CHR 0x5C, CHR ''t'']
      else if c = CHR 0x0A then [CHR 0x5C, CHR ''n'']
      else if c = CHR 0x0C then [CHR 0x5C, CHR ''f'']
      else if c = CHR 0x0D then [CHR 0x5C, CHR ''r'']
      else if of_char c < (32::nat) then
        [CHR 0x5C, CHR ''u'', CHR ''0'', CHR ''0'', hex_digit (of_char c div 16), hex_digit (of_char c mod 16)]
      else [c])"

definition scene_resource_id :: "ident \<Rightarrow> string" where
  "scene_resource_id i = ''Scene['' @ CHR 0x22 # concat (map json_escape_char i) @ [CHR 0x22] @ '']''"

section \<open>Mutations of ScenesService\<close>

definition ADD_SCENE :: "ident \<Rightarrow> string \<Rightarrow> 'a scenes_state_scheme \<Rightarrow> 'a scenes_state_scheme" where
  "ADD_SCENE i name st =
     st\<lparr>scenes := obj_set i \<lparr>scene_id = i, scene_name = name, resourceId = scene_resource_id i, nodes = []\<rparr> (scenes st),
        displayOrder := displayOrder st @ [i],
        activeSceneId := (if activeSceneId st \<noteq> [] then activeSceneId st else i)\<rparr>"

definition REMOVE_SCENE :: "ident \<Rightarrow> 'a scenes_state_scheme \<Rightarrow> 'a scenes_state_scheme" where
  "REMOVE_SCENE i st = st\<lparr>scenes := obj_del i (scenes st), displayOrder := without (displayOrder st) i\<rparr>"

definition MAKE_SCENE_ACTIVE :: "ident \<Rightarrow> 'a scenes_state_scheme \<Rightarrow> 'a scenes_state_scheme" where
  "MAKE_SCENE_ACTIVE i st = st\<lparr>activeSceneId := i\<rparr>"

definition SET_SCENE_ORDER :: "ident list \<Rightarrow> 'a scenes_state_scheme \<Rightarrow> 'a scenes_state_scheme" where
  "SET_SCENE_ORDER order st = st\<lparr>displayOrder := order\<rparr>"

declare ADD_SCENE_def [mutation_defs] REMOVE_SCENE_def [mutation_defs]
  MAKE_SCENE_ACTIVE_def [mutation_defs] SET_SCENE_ORDER_def [mutation_defs]

section \<open>Queries\<close>

definition getItems :: "scene \<Rightarrow> scene_item list" where
  "getItems sc = [i. NodeItem i \<leftarrow> nodes sc]"

definition scene_getItem :: "scene \<Rightarrow> ident \<Rightarrow> scene_item option" where
  "scene_getItem sc iid = find (\<lambda>i. sceneItemId i = iid) (getItems sc)"

definition getScene :: "ident \<Rightarrow> 'a scenes_state_scheme \<Rightarrow> scene option" where
  "getScene i st = map_of (scenes st) i"

definition getSceneByName :: "string \<Rightarrow> 'a scenes_state_scheme \<Rightarrow> scene option" where
  "getSceneByName name st =
     (case foldl (\<lambda>found (i, sc). if scene_name sc = name then Some sc else found) None (scenes st) of
        None \<Rightarrow> None
      | Some sc \<Rightarrow> getScene (scene_id sc) st)"

definition scenes_get :: "'a scenes_state_scheme \<Rightarrow> scene option list" where
  "scenes_get st = map (\<lambda>i. getScene i st) (displayOrder st)"

definition getSceneItems :: "'a scenes_state_scheme \<Rightarrow> (ident \<times> scene_item) list outcome" where
  "getSceneItems st =
     (case those (scenes_get st) of
        None \<Rightarrow> Thrown (TypeError ''Cannot read property getItems of null'')
      | Some scs \<Rightarrow> Ret (concat (map (\<lambda>sc. map (\<lambda>i. (scene_id sc, i)) (getItems sc)) scs)))"

text \<open>\<open>getSourceScenes\<close>: the scenes, in display order, with an item of the source.\<close>

definition getSourceScenes :: "ident \<Rightarrow> 'a scenes_state_scheme \<Rightarrow> scene list outcome" where
  "getSourceScenes src st =
     (case those (scenes_get st) of
        None \<Rightarrow> Thrown (TypeError ''Cannot read property getItems of null'')
      | Some scs \<Rightarrow> Ret (filter (\<lambda>sc. list_ex (\<lambda>i. item_sourceId i = src) (getItems sc)) scs))"

text \<open>\<open>ScenesService.getSceneItem\<close>: the first scene in display order holding the item; the
  loop stops there, so a missing scene after it is never read.\<close>

fun find_scene_item :: "ident \<Rightarrow> scene option list \<Rightarrow> scene_item option outcome" where
  "find_scene_item iid [] = Ret None"
| "find_scene_item iid (None # scs) = Thrown (TypeError ''Cannot read property getItem of null'')"
| "find_scene_item iid (Some sc # scs) =
     (case scene_getItem sc iid of Some i \<Rightarrow> Ret (Some i) | None \<Rightarrow> find_scene_item iid scs)"

definition service_getSceneItem :: "ident \<Rightarrow> 'a scenes_state_scheme \<Rightarrow> scene_item option outcome" where
  "service_getSceneItem iid st = find_scene_item iid (scenes_get st)"

section \<open>Scene and SceneItem methods\<close>

text \<open>
  The nesting relation: a scene contains a scene when one of its items has that scene as
  its source. \<open>hasNestedScene\<close> is the recursive search of \<open>Scene.hasNestedScene\<close>,
  with the recursion depth bounded by the number of scenes (proved enough below).
\<close>

definition child_scenes :: "(ident \<times> scene) list \<Rightarrow> ident \<Rightarrow> ident list" where
  "child_scenes scs a =
     (case map_of scs a of
        None \<Rightarrow> []
      | Some sc \<Rightarrow> filter (\<lambda>s. s \<in> set (obj_keys scs)) (map item_sourceId (getItems sc)))"

primrec hasNestedScene :: "nat \<Rightarrow> (ident \<times> scene) list \<Rightarrow> ident \<Rightarrow> ident \<Rightarrow> bool" where
  "hasNestedScene 0 scs a t = False"
| "hasNestedScene (Suc n) scs a t = list_ex (\<lambda>c. c = t \<or> hasNestedScene n scs c t) (child_scenes scs a)"

definition canAddSource :: "ident \<Rightarrow> ident \<Rightarrow> 'a scenes_world_scheme \<Rightarrow> bool" where
  "canAddSource sid src w =
     (if map_of (sources w) src = None then False
      else if getScene src w = None then True
      else if sid = src then False
      else \<not> hasNestedScene (length (scenes w)) (scenes w) src sid)"

definition ADD_SOURCE_TO_SCENE :: "ident \<Rightarrow> scene_item \<Rightarrow> 'a scenes_state_scheme \<Rightarrow> 'a scenes_state_scheme" where
  "ADD_SOURCE_TO_SCENE sid item st =
     (case map_of (scenes st) sid of
        None \<Rightarrow> st
      | Some sc \<Rightarrow> st\<lparr>scenes := obj_set sid (sc\<lparr>nodes := NodeItem item # nodes sc\<rparr>) (scenes st)\<rparr>)"

fun node_id :: "scene_node \<Rightarrow> ident" where
  "node_id (NodeItem i) = sceneItemId i"
| "node_id (NodeFolder f n) = f"

definition REMOVE_NODE :: "ident \<Rightarrow> ident \<Rightarrow> 'a scenes_state_scheme \<Rightarrow> 'a scenes_state_scheme" where
  "REMOVE_NODE sid iid st =
     (case map_of (scenes st) sid of
        None \<Rightarrow> st
      | Some sc \<Rightarrow> st\<lparr>scenes := obj_set sid (sc\<lparr>nodes := filter (\<lambda>n. node_id n \<noteq> iid) (nodes sc)\<rparr>) (scenes st)\<rparr>)"

fun map_node_item :: "ident \<Rightarrow> (scene_item \<Rightarrow> scene_item) \<Rightarrow> scene_node \<Rightarrow> scene_node" where
  "map_node_item iid f (NodeItem i) = (if sceneItemId i = iid then NodeItem (f i) else NodeItem i)"
| "map_node_item iid f n = n"

definition UPDATE_ITEM :: "ident \<Rightarrow> ident \<Rightarrow> (scene_item \<Rightarrow> scene_item) \<Rightarrow> 'a scenes_state_scheme \<Rightarrow> 'a scenes_state_scheme" where
  "UPDATE_ITEM sid iid f st =
     (case map_of (scenes st) sid of
        None \<Rightarrow> st
      | Some sc \<Rightarrow> st\<lparr>scenes := obj_set sid (sc\<lparr>nodes := map (map_node_item iid f) (nodes sc)\<rparr>) (scenes st)\<rparr>)"

declare ADD_SOURCE_TO_SCENE_def [mutation_defs] REMOVE_NODE_def [mutation_defs]
  UPDATE_ITEM_def [mutation_defs]

definition addSource :: "ident \<Rightarrow> ident \<Rightarrow> ident option \<Rightarrow> 'a scenes_world_scheme \<Rightarrow>
    scene_item option outcome \<times> 'a scenes_world_scheme" where
  "addSource sid src oid w =
     (if map_of (sources w) src = None then (Thrown (JsError (''Source '' @ src @ '' not found'')), w)
      else if getScene sid w = None then (Thrown (TypeError ''Cannot read property nodes of undefined''), w)
      else if \<not> canAddSource sid src w then (Ret None, w)
      else
        (let (iid, w1) = unique_id [] oid w;
             item = \<lparr>sceneItemId = iid, item_sourceId = src, item_visible = True, item_locked = False\<rparr>
         in (Ret (Some item), emit (ItemAdded item) (ADD_SOURCE_TO_SCENE sid item w1))))"

definition removeItem :: "ident \<Rightarrow> ident \<Rightarrow> 'a scenes_world_scheme \<Rightarrow> 'a scenes_world_scheme" where
  "removeItem sid iid w =
     (case getScene sid w of
        None \<Rightarrow> w
      | Some sc \<Rightarrow>
          (case scene_getItem sc iid of
             None \<Rightarrow> w
           | Some item \<Rightarrow> emit (ItemRemoved item) (REMOVE_NODE sid iid w)))"

text \<open>\<open>setSettings\<close>, \<open>setVisibility\<close>, \<open>setLocked\<close>: an update of the item's fields, then \<open>itemUpdated\<close>.\<close>

definition updateItem :: "ident \<Rightarrow> ident \<Rightarrow> (scene_item \<Rightarrow> scene_item) \<Rightarrow> 'a scenes_world_scheme \<Rightarrow> 'a scenes_world_scheme" where
  "updateItem sid iid f w =
     (let w1 = UPDATE_ITEM sid iid f w in
      case getScene sid w1 of
        None \<Rightarrow> w1
      | Some sc \<Rightarrow> (case scene_getItem sc iid of None \<Rightarrow> w1 | Some item \<Rightarrow> emit (ItemUpdated item) w1))"

definition item_setSettings :: "ident \<Rightarrow> ident \<Rightarrow> scene_item \<Rightarrow> 'a scenes_world_scheme \<Rightarrow> 'a scenes_world_scheme" where
  "item_setSettings sid iid s = updateItem sid iid (\<lambda>i. i\<lparr>item_visible := item_visible s, item_locked := item_locked s\<rparr>)"

definition setVisibility :: "ident \<Rightarrow> ident \<Rightarrow> bool \<Rightarrow> 'a scenes_world_scheme \<Rightarrow> 'a scenes_world_scheme" where
  "setVisibility sid iid b = updateItem sid iid (\<lambda>i. i\<lparr>item_visible := b\<rparr>)"

definition register_source :: "ident \<Rightarrow> source \<Rightarrow> 'a scenes_world_scheme \<Rightarrow> 'a scenes_world_scheme" where
  "register_source i s w = emit (SourceAdded i (source_name s)) (w\<lparr>sources := obj_set i s (sources w)\<rparr>)"

definition createAndAddSource :: "ident \<Rightarrow> string \<Rightarrow> string \<Rightarrow> 'a scenes_world_scheme \<Rightarrow>
    scene_item option outcome \<times> 'a scenes_world_scheme" where
  "createAndAddSource sid name type w =
     (let (src, w1) = unique_id ''source_'' None w
      in addSource sid src None (register_source src \<lparr>source_name = name, source_kind = InputSource type\<rparr> w1))"

text \<open>\<open>Scene.setLockOnAllItems\<close> (not under \<open>src\<close>): \<open>setLocked\<close> on each item the
  scene holds when it is called.\<close>

definition setLockOnAllItems :: "ident \<Rightarrow> bool \<Rightarrow> 'a scenes_world_scheme \<Rightarrow> 'a scenes_world_scheme" where
  "setLockOnAllItems sid b w =
     (case getScene sid w of
        None \<Rightarrow> w
      | Some sc \<Rightarrow> fold (\<lambda>it. updateItem sid (sceneItemId it) (\<lambda>i. i\<lparr>item_locked := b\<rparr>)) (getItems sc) w)"

fun lock_scenes :: "bool \<Rightarrow> scene option list \<Rightarrow> 'a scenes_world_scheme \<Rightarrow> unit outcome \<times> 'a scenes_world_scheme" where
  "lock_scenes b [] w = (Ret (), w)"
| "lock_scenes b (None # scs) w = (Thrown (TypeError ''Cannot read property setLockOnAllItems of null''), w)"
| "lock_scenes b (Some sc # scs) w = lock_scenes b scs (setLockOnAllItems (scene_id sc) b w)"

definition setLockOnAllScenes :: "bool \<Rightarrow> 'a scenes_world_scheme \<Rightarrow> unit outcome \<times> 'a scenes_world_scheme" where
  "setLockOnAllScenes b w = lock_scenes b (scenes_get w) w"

text \<open>What locking does to one node, and the store's scenes stored under their own ids.\<close>

fun lock_node :: "bool \<Rightarrow> scene_node \<Rightarrow> scene_node" where
  "lock_node b (NodeItem i) = NodeItem (i\<lparr>item_locked := b\<rparr>)"
| "lock_node b n = n"

definition scene_ids_match :: "'a scenes_state_scheme \<Rightarrow> bool" where
  "scene_ids_match st \<longleftrightarrow> list_all (\<lambda>(k, sc). scene_id sc = k) (scenes st)"

section \<open>Operations of ScenesService\<close>

definition makeSceneActive :: "ident \<Rightarrow> 'a scenes_world_scheme \<Rightarrow> bool \<times> 'a scenes_world_scheme" where
  "makeSceneActive i w =
     (case getScene i w of
        None \<Rightarrow> (False, w)
      | Some sc \<Rightarrow> (True, emit (SceneSwitched sc) (MAKE_SCENE_ACTIVE i (emit (TransitionTo i) w))))"

definition setSceneOrder :: "ident list \<Rightarrow> 'a scenes_world_scheme \<Rightarrow> 'a scenes_world_scheme" where
  "setSceneOrder order w = SET_SCENE_ORDER order w"

text \<open>
  \<open>removeScene\<close>: the guard on the last scene, the removal of the scene's own items, of
  the items of other scenes that embed it, the mutation, the promotion of the first
  remaining scene (in \<open>Object.keys\<close> order) when the removed one was active, and the
  \<open>sceneRemoved\<close> event last. The event carries the scene object read before the
  mutation; it is the store's own object, so it shows the removals already made.
\<close>

definition promote_first_scene :: "ident \<Rightarrow> 'a scenes_world_scheme \<Rightarrow> 'a scenes_world_scheme" where
  "promote_first_scene i w =
     (if activeSceneId w = i
      then (case obj_keys (scenes w) of
              [] \<Rightarrow> w
            | k # _ \<Rightarrow> if k \<noteq> [] then snd (makeSceneActive k w) else w)
      else w)"

definition remove_embeddings :: "ident \<Rightarrow> (ident \<times> scene_item) list \<Rightarrow> 'a scenes_world_scheme \<Rightarrow> 'a scenes_world_scheme" where
  "remove_embeddings i its w =
     fold (\<lambda>(s, it). if item_sourceId it \<noteq> i then id else removeItem s (sceneItemId it)) its w"

definition removeScene :: "ident \<Rightarrow> bool \<Rightarrow> 'a scenes_world_scheme \<Rightarrow> scene option outcome \<times> 'a scenes_world_scheme" where
  "removeScene i force w =
     (if \<not> force \<and> length (scenes w) < 2
      then (Ret None, emit (Alert ''There needs to be at least one scene.'') w)
      else
        (case getScene i w of
           None \<Rightarrow> (Thrown (TypeError ''Cannot read property getItems of null''), w)
         | Some sc \<Rightarrow>
             (let w1 = fold (\<lambda>it. removeItem i (sceneItemId it)) (getItems sc) w in
              case getSceneItems w1 of
                Thrown e \<Rightarrow> (Thrown e, w1)
              | Ret its \<Rightarrow>
                  (let w2 = remove_embeddings i its w1;
                       model = (case getScene i w2 of None \<Rightarrow> sc | Some m \<Rightarrow> m)
                   in (Ret (Some model), emit (SceneRemoved model) (promote_first_scene i (REMOVE_SCENE i w2)))))))"

record scene_create_opts =
  opt_sceneId :: "ident option"
  opt_duplicateSourcesFromScene :: "string option"
  opt_makeActive :: bool

text \<open>The default \<open>options: ISceneCreateOptions = {}\<close> of \<open>createScene\<close>.\<close>

definition no_opts :: scene_create_opts where
  "no_opts = \<lparr>opt_sceneId = None, opt_duplicateSourcesFromScene = None, opt_makeActive = False\<rparr>"

text \<open>
  Duplication copies the items of the old scene, last first (\<open>slice().reverse()\<close>), each
  by \<open>newScene.addSource(item.sourceId)\<close> followed by \<open>setSettings\<close>; a refused
  \<open>addSource\<close> returns \<open>null\<close> and the call on it throws.
\<close>

fun copyItems :: "ident \<Rightarrow> scene_item list \<Rightarrow> 'a scenes_world_scheme \<Rightarrow> unit outcome \<times> 'a scenes_world_scheme" where
  "copyItems sid [] w = (Ret (), w)"
| "copyItems sid (it # its) w =
     (case addSource sid (item_sourceId it) None w of
        (Thrown e, w1) \<Rightarrow> (Thrown e, w1)
      | (Ret None, w1) \<Rightarrow> (Thrown (TypeError ''Cannot read property setSettings of null''), w1)
      | (Ret (Some ni), w1) \<Rightarrow> copyItems sid its (item_setSettings sid (sceneItemId ni) it w1))"

text \<open>\<open>if (options.duplicateSourcesFromScene)\<close>: an empty name is falsy and copies nothing.\<close>

definition duplicate_items :: "scene_create_opts \<Rightarrow> ident \<Rightarrow> 'a scenes_world_scheme \<Rightarrow> unit outcome \<times> 'a scenes_world_scheme" where
  "duplicate_items opts i w =
     (case opt_duplicateSourcesFromScene opts of
        None \<Rightarrow> (Ret (), w)
      | Some old \<Rightarrow>
          if old = [] then (Ret (), w)
          else (case getSceneByName old w of
                  None \<Rightarrow> (Thrown (TypeError ''Cannot read property getItems of null''), w)
                | Some osc \<Rightarrow> copyItems i (rev (getItems osc)) w))"

definition announce_scene :: "scene_create_opts \<Rightarrow> ident \<Rightarrow> 'a scenes_world_scheme \<Rightarrow> 'a scenes_world_scheme" where
  "announce_scene opts i w =
     (let w1 = (case getScene i w of None \<Rightarrow> w | Some sc \<Rightarrow> emit (SceneAdded sc) w)
      in if opt_makeActive opts then snd (makeSceneActive i w1) else w1)"

definition createScene :: "string \<Rightarrow> scene_create_opts \<Rightarrow> 'a scenes_world_scheme \<Rightarrow> scene option outcome \<times> 'a scenes_world_scheme" where
  "createScene name opts w =
     (let (i, w0) = unique_id ''scene_'' (opt_sceneId opts) w;
          w2 = register_source i \<lparr>source_name = name, source_kind = SceneSource\<rparr> (ADD_SCENE i name w0);
          (r, w3) = duplicate_items opts i w2
      in case r of
           Thrown e \<Rightarrow> (Thrown e, w3)
         | Ret _ \<Rightarrow> (let w5 = announce_scene opts i w3 in (Ret (getSceneByName name w5), w5)))"

section \<open>The operations as one step function\<close>

text \<open>
  The API a caller of the core uses (the remote-control API of the tests, the windows
  \<open>NameScene\<close> and the editor): one constructor per public mutating call.
\<close>

datatype scene_op =
    CreateScene string scene_create_opts
  | RemoveScene ident bool
  | MakeActive ident
  | SetOrder "ident list"
  | AddSource ident ident
  | CreateAndAddSource ident string string
  | RemoveItem ident ident
  | SetVisibility ident ident bool

fun scene_step :: "scene_op \<Rightarrow> 'a scenes_world_scheme \<Rightarrow> 'a scenes_world_scheme" where
  "scene_step (CreateScene name opts) w = snd (createScene name opts w)"
| "scene_step (RemoveScene i force) w = snd (removeScene i force w)"
| "scene_step (MakeActive i) w = snd (makeSceneActive i w)"
| "scene_step (SetOrder order) w = setSceneOrder order w"
| "scene_step (AddSource sid src) w = snd (addSource sid src None w)"
| "scene_step (CreateAndAddSource sid name type) w = snd (createAndAddSource sid name type w)"
| "scene_step (RemoveItem sid iid) w = removeItem sid iid w"
| "scene_step (SetVisibility sid iid b) w = setVisibility sid iid b w"

definition scene_run :: "scene_op list \<Rightarrow> 'a scenes_world_scheme \<Rightarrow> 'a scenes_world_scheme" where
  "scene_run ops w = fold scene_step ops w"

section \<open>Frame lemmas\<close>

lemma scenes_emit [frame_simps]: "scenes (emit e w) = scenes w"
  and sources_emit [frame_simps]: "sources (emit e w) = sources w"
  and active_emit [frame_simps]: "activeSceneId (emit e w) = activeSceneId w"
  and order_emit [frame_simps]: "displayOrder (emit e w) = displayOrder w"
  by (simp_all add: emit_def)

lemma scenes_unique_id [frame_simps]: "scenes (snd (unique_id p oid w)) = scenes w"
  and sources_unique_id [frame_simps]: "sources (snd (unique_id p oid w)) = sources w"
  and active_unique_id [frame_simps]: "activeSceneId (snd (unique_id p oid w)) = activeSceneId w"
  and order_unique_id [frame_simps]: "displayOrder (snd (unique_id p oid w)) = displayOrder w"
  and events_unique_id [frame_simps]: "events (snd (unique_id p oid w)) = events w"
  by (simp_all add: unique_id_def split: option.splits)

lemma scenes_register_source [frame_simps]: "scenes (register_source i s w) = scenes w"
  and active_register_source [frame_simps]: "activeSceneId (register_source i s w) = activeSceneId w"
  and order_register_source [frame_simps]: "displayOrder (register_source i s w) = displayOrder w"
  by (simp_all add: register_source_def emit_def)

lemma scenes_makeSceneActive [frame_simps]: "scenes (snd (makeSceneActive i w)) = scenes w"
  and sources_makeSceneActive [frame_simps]: "sources (snd (makeSceneActive i w)) = sources w"
  and order_makeSceneActive [frame_simps]: "displayOrder (snd (makeSceneActive i w)) = displayOrder w"
  by (simp_all add: makeSceneActive_def MAKE_SCENE_ACTIVE_def emit_def split: option.splits)

lemma scenes_promote_first_scene [frame_simps]: "scenes (promote_first_scene i w) = scenes w"
  and sources_promote_first_scene [frame_simps]: "sources (promote_first_scene i w) = sources w"
  by (simp_all add: promote_first_scene_def frame_simps split: list.split)

lemma scenes_announce_scene [frame_simps]: "scenes (announce_scene opts i w) = scenes w"
  and sources_announce_scene [frame_simps]: "sources (announce_scene opts i w) = sources w"
  by (simp_all add: announce_scene_def Let_def frame_simps split: option.splits)

lemma keys_removeItem [frame_simps]: "obj_keys (scenes (removeItem s i w)) = obj_keys (scenes w)"
  and sources_removeItem [frame_simps]: "sources (removeItem s i w) = sources w"
  and active_removeItem [frame_simps]: "activeSceneId (removeItem s i w) = activeSceneId w"
  and order_removeItem [frame_simps]: "displayOrder (removeItem s i w) = displayOrder w"
  by (auto simp: removeItem_def REMOVE_NODE_def emit_def getScene_def dest: map_of_SomeD_key
           split: option.splits)

lemma keys_updateItem [frame_simps]: "obj_keys (scenes (updateItem s i f w)) = obj_keys (scenes w)"
  and sources_updateItem [frame_simps]: "sources (updateItem s i f w) = sources w"
  and active_updateItem [frame_simps]: "activeSceneId (updateItem s i f w) = activeSceneId w"
  by (auto simp: updateItem_def UPDATE_ITEM_def emit_def getScene_def Let_def dest: map_of_SomeD_key
           split: option.splits)


section \<open>Locking all items\<close>

lemma map_of_updateItem:
  "map_of (scenes (updateItem sid iid f w)) =
     (case map_of (scenes w) sid of
        None \<Rightarrow> map_of (scenes w)
      | Some sc \<Rightarrow> (map_of (scenes w))(sid \<mapsto> sc\<lparr>nodes := map (map_node_item iid f) (nodes sc)\<rparr>))"
  by (simp add: updateItem_def UPDATE_ITEM_def Let_def getScene_def frame_simps split: option.split)

lemma fold_map_node_item_lock:
  "fold (\<lambda>iid. map (map_node_item iid (\<lambda>i. i\<lparr>item_locked := b\<rparr>))) ids ns =
     map (\<lambda>n. case n of NodeItem i \<Rightarrow> if sceneItemId i \<in> set ids then lock_node b n else n | _ \<Rightarrow> n) ns"
proof (induction ids arbitrary: ns)
  case Nil
  show ?case by (simp add: map_idI split: scene_node.split)
next
  case (Cons x xs)
  show ?case
    by (simp add: Cons.IH) (auto split: scene_node.split)
qed

lemma map_of_fold_updateItem_lock:
  "map_of (scenes (fold (\<lambda>it. updateItem sid (sceneItemId it) (\<lambda>i. i\<lparr>item_locked := b\<rparr>)) its w)) =
     (case map_of (scenes w) sid of
        None \<Rightarrow> map_of (scenes w)
      | Some sc \<Rightarrow> (map_of (scenes w))(sid \<mapsto>
          sc\<lparr>nodes := fold (\<lambda>iid. map (map_node_item iid (\<lambda>i. i\<lparr>item_locked := b\<rparr>))) (map sceneItemId its) (nodes sc)\<rparr>))"
  by (induction its arbitrary: w) (auto simp: map_of_updateItem split: option.split)

lemma getItems_lock_all:
  "map (\<lambda>n. case n of NodeItem i \<Rightarrow> if sceneItemId i \<in> set (map sceneItemId (getItems sc)) then lock_node b n else n | _ \<Rightarrow> n)
     (nodes sc) = map (lock_node b) (nodes sc)"
  by (rule map_cong) (auto simp: getItems_def split: scene_node.split)

text \<open>\<open>setLockOnAllItems\<close> locks (or unlocks) every item of its scene and leaves the other
  scenes as they were.\<close>

lemma map_of_setLockOnAllItems:
  "map_of (scenes (setLockOnAllItems sid b w)) =
     (case map_of (scenes w) sid of
        None \<Rightarrow> map_of (scenes w)
      | Some sc \<Rightarrow> (map_of (scenes w))(sid \<mapsto> sc\<lparr>nodes := map (lock_node b) (nodes sc)\<rparr>))"
  by (simp add: setLockOnAllItems_def getScene_def map_of_fold_updateItem_lock fold_map_node_item_lock
                getItems_lock_all split: option.split)

lemma getItems_lock_nodes:
  "[i. NodeItem i \<leftarrow> map (lock_node b) ns] = map (\<lambda>i. i\<lparr>item_locked := b\<rparr>) [i. NodeItem i \<leftarrow> ns]"
proof (induction ns)
  case (Cons n ns)
  then show ?case by (cases n) simp_all
qed simp

lemma getItems_locked [simp]:
  "getItems (sc\<lparr>nodes := map (lock_node b) ns\<rparr>) = map (\<lambda>i. i\<lparr>item_locked := b\<rparr>) (getItems (sc\<lparr>nodes := ns\<rparr>))"
proof (induction ns)
  case (Cons n ns)
  then show ?case by (cases n) (simp_all add: getItems_def)
qed (simp add: getItems_def)

lemma locked_setLockOnAllItems_same:
  "map_of (scenes (setLockOnAllItems sid b w)) sid = Some sc \<Longrightarrow> list_all (\<lambda>i. item_locked i = b) (getItems sc)"
  by (auto simp: map_of_setLockOnAllItems list_all_iff split: option.splits)

lemma locked_setLockOnAllItems_other:
  "(\<forall>sc. map_of (scenes w) k = Some sc \<longrightarrow> list_all (\<lambda>i. item_locked i = b) (getItems sc)) \<Longrightarrow>
   map_of (scenes (setLockOnAllItems sid b w)) k = Some sc \<Longrightarrow> list_all (\<lambda>i. item_locked i = b) (getItems sc)"
  by (cases "k = sid")
     (auto simp: map_of_setLockOnAllItems list_all_iff split: option.splits)

lemma lock_scenes_keeps_locked:
  "(\<forall>sc. map_of (scenes w) k = Some sc \<longrightarrow> list_all (\<lambda>i. item_locked i = b) (getItems sc)) \<Longrightarrow>
   lock_scenes b scs w = (r, w') \<Longrightarrow>
   map_of (scenes w') k = Some sck \<Longrightarrow> list_all (\<lambda>i. item_locked i = b) (getItems sck)"
proof (induction b scs w arbitrary: r rule: lock_scenes.induct)
  case (1 b w)
  then show ?case by simp
next
  case (2 b scs w)
  then show ?case by simp
next
  case (3 b sc1 scs w)
  have "\<forall>sc. map_of (scenes (setLockOnAllItems (scene_id sc1) b w)) k = Some sc \<longrightarrow>
            list_all (\<lambda>i. item_locked i = b) (getItems sc)"
    using locked_setLockOnAllItems_other[OF "3.prems"(1)] by blast
  moreover have "lock_scenes b scs (setLockOnAllItems (scene_id sc1) b w) = (r, w')"
    using "3.prems"(2) by simp
  ultimately show ?case
    using "3.IH" "3.prems"(3) by blast
qed

lemma lock_scenes_locks:
  "lock_scenes b scs w = (Ret (), w') \<Longrightarrow> Some sc0 \<in> set scs \<Longrightarrow>
   map_of (scenes w') (scene_id sc0) = Some sc \<Longrightarrow> list_all (\<lambda>i. item_locked i = b) (getItems sc)"
proof (induction b scs w rule: lock_scenes.induct)
  case (3 b sc1 scs w)
  show ?case
  proof (cases "Some sc0 \<in> set scs")
    case True
    then show ?thesis using 3 by simp
  next
    case False
    then have "sc0 = sc1" using "3.prems"(2) by simp
    then show ?thesis
      using lock_scenes_keeps_locked[of "setLockOnAllItems (scene_id sc1) b w" "scene_id sc1" b scs "Ret ()" w' sc]
            locked_setLockOnAllItems_same[of "scene_id sc1" b w] "3.prems"(1,3) by auto
  qed
qed auto

lemma lock_scenes_Ret_no_None:
  "lock_scenes b scs w = (Ret (), w') \<Longrightarrow> None \<notin> set scs"
  by (induction b scs w rule: lock_scenes.induct) auto

text \<open>\<open>setLockOnAllScenes\<close>: when it returns, every scene of the display order has all its
  items locked (or unlocked), provided each scene is stored under its own id, since the
  loop locks the scene by the id of the scene object.\<close>

lemma setLockOnAllScenes_locks:
  assumes "scene_ids_match w" "setLockOnAllScenes b w = (Ret (), w')" "k \<in> set (displayOrder w)"
    and "map_of (scenes w') k = Some sc"
  shows "list_all (\<lambda>i. item_locked i = b) (getItems sc)"
proof -
  have mem: "getScene k w \<in> set (scenes_get w)"
    using assms(3) by (simp add: scenes_get_def)
  moreover have "None \<notin> set (scenes_get w)"
    using lock_scenes_Ret_no_None assms(2) by (simp add: setLockOnAllScenes_def)
  ultimately have "getScene k w \<noteq> None"
    by metis
  then obtain sc0 where sc0: "getScene k w = Some sc0"
    by blast
  then have "scene_id sc0 = k"
    using assms(1) by (auto simp: scene_ids_match_def getScene_def list_all_iff dest!: map_of_SomeD)
  then have at: "map_of (scenes w') (scene_id sc0) = Some sc"
    using assms(4) by simp
  have run: "lock_scenes b (scenes_get w) w = (Ret (), w')"
    using assms(2) unfolding setLockOnAllScenes_def .
  have "Some sc0 \<in> set (scenes_get w)"
    using sc0 mem by simp
  from lock_scenes_locks[OF run this at] show ?thesis .
qed

end
