(* ===== verification/SceneGraph.thy ===== *)
theory SceneGraph
  imports Scenes
begin

text \<open>
  The "scene contains scene" relation of the store and the proof that the store never
  makes it cyclic. \<open>nest_rel\<close> is the relation the spec names (section 3, Scene); the
  search \<open>hasNestedScene\<close> of the model decides its transitive closure when its depth is
  the number of scenes; \<open>canAddSource\<close> is therefore exactly the test that the new edge
  closes no cycle, and every operation of \<open>scene_step\<close> keeps the relation acyclic.
\<close>

definition nest_rel :: "(ident \<times> scene) list \<Rightarrow> ident rel" where
  "nest_rel scs = {(a, c). c \<in> set (child_scenes scs a)}"

definition scenes_acyclic :: "'a scenes_state_scheme \<Rightarrow> bool" where
  "scenes_acyclic st =
     list_all (\<lambda>a. \<not> hasNestedScene (length (scenes st)) (scenes st) a a) (obj_keys (scenes st))"

text \<open>
  The scenario of the API test "Creating nested scenes" (src/unnamed/part_000, lines
  130--157): scenes A, B and C (ids \<open>scene_0\<close>, \<open>scene_1\<close>, \<open>scene_2\<close>), A embeds B,
  C embeds A.
\<close>

definition nesting_demo :: scenes_world where
  "nesting_demo = scene_run
     [CreateScene ''SceneA'' no_opts, CreateScene ''SceneB'' no_opts, CreateScene ''SceneC'' no_opts,
      AddSource ''scene_0'' ''scene_1'', AddSource ''scene_2'' ''scene_0''] scenes_initial"

section \<open>The search decides reachability\<close>

lemma nest_rel_iff: "(a, c) \<in> nest_rel scs \<longleftrightarrow> c \<in> set (child_scenes scs a)"
  by (simp add: nest_rel_def)

lemma child_scenes_keys:
  assumes "c \<in> set (child_scenes scs a)"
  shows "a \<in> set (obj_keys scs)" and "c \<in> set (obj_keys scs)"
proof -
  from assms obtain sc where "map_of scs a = Some sc"
    by (cases "map_of scs a") (auto simp: child_scenes_def)
  then show "a \<in> set (obj_keys scs)" by (rule map_of_SomeD_key)
  from assms show "c \<in> set (obj_keys scs)"
    by (auto simp: child_scenes_def split: option.splits)
qed

lemma hasNestedScene_sound:
  "hasNestedScene n scs a t \<Longrightarrow> (a, t) \<in> (nest_rel scs)\<^sup>+"
proof (induction n arbitrary: a)
  case 0
  then show ?case by simp
next
  case (Suc n)
  then obtain c where c: "c \<in> set (child_scenes scs a)" and "c = t \<or> hasNestedScene n scs c t"
    by (auto simp: list_ex_iff)
  then have "(c, t) \<in> (nest_rel scs)\<^sup>*" using Suc.IH by (auto intro: trancl_into_rtrancl)
  with c show ?case by (auto simp: nest_rel_iff intro: rtrancl_into_trancl2)
qed

lemma hasNestedScene_path:
  assumes "rtrancl_path (\<lambda>x y. (x, y) \<in> nest_rel scs) c xs t"
    and "(a, c) \<in> nest_rel scs" and "length xs < n"
  shows "hasNestedScene n scs a t"
  using assms
proof (induction arbitrary: a n rule: rtrancl_path.induct)
  case (base x)
  then obtain m where "n = Suc m" by (cases n) auto
  with base.prems(1) show ?case by (auto simp: nest_rel_iff list_ex_iff)
next
  case (step x y ys z)
  then obtain m where m: "n = Suc m" and "length ys < m" by (cases n) auto
  with step.IH step.hyps(1) have "hasNestedScene m scs x z" by blast
  with step.prems(1) m show ?case by (auto simp: nest_rel_iff list_ex_iff)
qed

lemma hasNestedScene_complete:
  assumes path: "(a, t) \<in> (nest_rel scs)\<^sup>+" and fuel: "length scs \<le> n"
  shows "hasNestedScene n scs a t"
proof -
  from path obtain c where ac: "(a, c) \<in> nest_rel scs" and ct: "(c, t) \<in> (nest_rel scs)\<^sup>*"
    by (auto dest: tranclD)
  from ct have "(\<lambda>x y. (x, y) \<in> nest_rel scs)\<^sup>*\<^sup>* c t"
    by (simp add: rtranclp_rtrancl_eq)
  then obtain xs where "rtrancl_path (\<lambda>x y. (x, y) \<in> nest_rel scs) c xs t"
    by (auto simp: rtranclp_eq_rtrancl_path)
  then obtain ys where p: "rtrancl_path (\<lambda>x y. (x, y) \<in> nest_rel scs) c ys t"
    and d: "distinct (c # ys)"
    by (rule rtrancl_path_distinct)
  have "set (c # ys) \<subseteq> set (obj_keys scs)"
  proof
    fix z assume z: "z \<in> set (c # ys)"
    show "z \<in> set (obj_keys scs)"
    proof (cases "z = c")
      case True
      with ac show ?thesis by (auto simp: nest_rel_iff dest: child_scenes_keys)
    next
      case False
      with z have "z \<in> set ys" by simp
      with p have "Rangep (\<lambda>x y. (x, y) \<in> nest_rel scs) z" by (rule rtrancl_path_Range)
      then show ?thesis by (auto simp: nest_rel_iff dest: child_scenes_keys)
    qed
  qed
  with d have "length (c # ys) \<le> length (obj_keys scs)" by (rule distinct_path_length)
  with fuel have "length ys < n" by simp
  with p ac show ?thesis by (rule hasNestedScene_path)
qed

lemma scenes_acyclic_iff: "scenes_acyclic st \<longleftrightarrow> acyclic (nest_rel (scenes st))"
proof
  assume ok: "scenes_acyclic st"
  show "acyclic (nest_rel (scenes st))"
    unfolding acyclic_def
  proof (intro allI notI)
    fix a assume cyc: "(a, a) \<in> (nest_rel (scenes st))\<^sup>+"
    then obtain c where "(a, c) \<in> nest_rel (scenes st)" by (auto dest: tranclD)
    then have key: "a \<in> set (obj_keys (scenes st))" by (auto simp: nest_rel_iff dest: child_scenes_keys(1))
    from cyc have "hasNestedScene (length (scenes st)) (scenes st) a a"
      by (rule hasNestedScene_complete) simp
    with key ok show False by (auto simp: scenes_acyclic_def list_all_iff)
  qed
next
  assume "acyclic (nest_rel (scenes st))"
  then show "scenes_acyclic st"
    by (auto simp: scenes_acyclic_def list_all_iff acyclic_def dest: hasNestedScene_sound)
qed

section \<open>How the mutations change the relation\<close>

lemma child_scenes_obj_set_key:
  assumes "s \<in> set (obj_keys scs)"
  shows "child_scenes (obj_set s sc' scs) a =
    (if a = s then filter (\<lambda>x. x \<in> set (obj_keys scs)) (map item_sourceId (getItems sc'))
     else child_scenes scs a)"
proof -
  from assms have k: "set (obj_keys (obj_set s sc' scs)) = set (obj_keys scs)" by auto
  show ?thesis
    unfolding child_scenes_def map_of_obj_set k by (cases "a = s") auto
qed

lemma nest_rel_obj_set_key:
  assumes "s \<in> set (obj_keys scs)"
  shows "(a, c) \<in> nest_rel (obj_set s sc' scs) \<longleftrightarrow>
    (if a = s then c \<in> set (map item_sourceId (getItems sc')) \<and> c \<in> set (obj_keys scs)
     else (a, c) \<in> nest_rel scs)"
  using assms by (simp add: nest_rel_iff child_scenes_obj_set_key)

lemma map_of_Some_child_scenes:
  "map_of scs s = Some sc \<Longrightarrow>
     c \<in> set (child_scenes scs s) \<longleftrightarrow> c \<in> set (map item_sourceId (getItems sc)) \<and> c \<in> set (obj_keys scs)"
  by (auto simp: child_scenes_def)

lemma getItems_cons_item [simp]: "getItems (sc\<lparr>nodes := NodeItem i # ns\<rparr>) = i # getItems (sc\<lparr>nodes := ns\<rparr>)"
  by (simp add: getItems_def)

lemma getItems_nodes_update [simp]: "getItems (sc\<lparr>nodes := nodes sc\<rparr>) = getItems sc"
  by simp

lemma set_getItems_filter: "set (getItems (sc\<lparr>nodes := filter P (nodes sc)\<rparr>)) \<subseteq> set (getItems sc)"
  by (auto simp: getItems_def)

lemma sources_getItems_map_node_item:
  assumes "\<And>i. item_sourceId (f i) = item_sourceId i"
  shows "map item_sourceId (getItems (sc\<lparr>nodes := map (map_node_item iid f) (nodes sc)\<rparr>)) =
         map item_sourceId (getItems sc)"
proof -
  have "map item_sourceId [i. NodeItem i \<leftarrow> map (map_node_item iid f) ns] =
        map item_sourceId [i. NodeItem i \<leftarrow> ns]" for ns
  proof (induction ns)
    case Nil
    then show ?case by simp
  next
    case (Cons n ns)
    with assms show ?case by (cases n) auto
  qed
  then show ?thesis by (simp add: getItems_def)
qed

lemma nest_rel_ADD_SOURCE_TO_SCENE:
  "nest_rel (scenes (ADD_SOURCE_TO_SCENE sid item st)) =
     (if sid \<in> set (obj_keys (scenes st)) \<and> item_sourceId item \<in> set (obj_keys (scenes st))
      then insert (sid, item_sourceId item) (nest_rel (scenes st)) else nest_rel (scenes st))"
proof (cases "map_of (scenes st) sid")
  case None
  then have "sid \<notin> set (obj_keys (scenes st))" by (simp add: map_of_eq_None_iff)
  with None show ?thesis by (simp add: ADD_SOURCE_TO_SCENE_def)
next
  case (Some sc)
  then have key: "sid \<in> set (obj_keys (scenes st))" by (rule map_of_SomeD_key)
  show ?thesis
  proof (rule set_eqI, clarify)
    fix a c
    show "(a, c) \<in> nest_rel (scenes (ADD_SOURCE_TO_SCENE sid item st)) \<longleftrightarrow>
          (a, c) \<in> (if sid \<in> set (obj_keys (scenes st)) \<and> item_sourceId item \<in> set (obj_keys (scenes st))
             then insert (sid, item_sourceId item) (nest_rel (scenes st)) else nest_rel (scenes st))"
      using Some key
      by (auto simp: ADD_SOURCE_TO_SCENE_def nest_rel_iff child_scenes_obj_set_key [OF key] map_of_Some_child_scenes)
  qed
qed

lemma nest_rel_REMOVE_NODE: "nest_rel (scenes (REMOVE_NODE sid iid st)) \<subseteq> nest_rel (scenes st)"
proof (cases "map_of (scenes st) sid")
  case None
  then show ?thesis by (simp add: REMOVE_NODE_def)
next
  case (Some sc)
  then have key: "sid \<in> set (obj_keys (scenes st))" by (rule map_of_SomeD_key)
  have "set (getItems (sc\<lparr>nodes := filter (\<lambda>n. node_id n \<noteq> iid) (nodes sc)\<rparr>)) \<subseteq> set (getItems sc)"
    by (rule set_getItems_filter)
  with Some key show ?thesis
    by (auto simp: REMOVE_NODE_def nest_rel_iff child_scenes_obj_set_key [OF key] map_of_Some_child_scenes split: if_splits; blast)
qed

lemma nest_rel_UPDATE_ITEM:
  assumes "\<And>i. item_sourceId (f i) = item_sourceId i"
  shows "nest_rel (scenes (UPDATE_ITEM sid iid f st)) = nest_rel (scenes st)"
proof (cases "map_of (scenes st) sid")
  case None
  then show ?thesis by (simp add: UPDATE_ITEM_def)
next
  case (Some sc)
  then have key: "sid \<in> set (obj_keys (scenes st))" by (rule map_of_SomeD_key)
  from Some key sources_getItems_map_node_item [OF assms, of iid sc] show ?thesis
    by (auto simp: UPDATE_ITEM_def nest_rel_iff child_scenes_obj_set_key [OF key] map_of_Some_child_scenes split: if_splits)
qed

lemma child_scenes_obj_set:
  "child_scenes (obj_set s sc' scs) a =
    (if a = s then filter (\<lambda>x. x \<in> insert s (set (obj_keys scs))) (map item_sourceId (getItems sc'))
     else (case map_of scs a of
             None \<Rightarrow> []
           | Some sc \<Rightarrow> filter (\<lambda>x. x \<in> insert s (set (obj_keys scs))) (map item_sourceId (getItems sc))))"
  unfolding child_scenes_def map_of_obj_set set_obj_keys_obj_set by simp

lemma nest_rel_ADD_SCENE:
  "nest_rel (scenes (ADD_SCENE i name st)) \<subseteq> nest_rel (scenes st) \<union> {(a, b). b = i}"
  "(i, c) \<notin> nest_rel (scenes (ADD_SCENE i name st))"
proof -
  show "(i, c) \<notin> nest_rel (scenes (ADD_SCENE i name st))"
    by (simp add: ADD_SCENE_def nest_rel_iff child_scenes_obj_set getItems_def)
  show "nest_rel (scenes (ADD_SCENE i name st)) \<subseteq> nest_rel (scenes st) \<union> {(a, b). b = i}"
  proof (rule subrelI)
    fix a c
    assume edge: "(a, c) \<in> nest_rel (scenes (ADD_SCENE i name st))"
    show "(a, c) \<in> nest_rel (scenes st) \<union> {(a, b). b = i}"
    proof (cases "c = i")
      case True
      then show ?thesis by simp
    next
      case False
      from edge have "a \<noteq> i"
        by (auto simp: ADD_SCENE_def nest_rel_iff child_scenes_obj_set getItems_def)
      with edge False have "(a, c) \<in> nest_rel (scenes st)"
        by (cases "map_of (scenes st) a")
           (auto simp: ADD_SCENE_def nest_rel_iff child_scenes_obj_set child_scenes_def split: if_splits)
      then show ?thesis by simp
    qed
  qed
qed

lemma nest_rel_REMOVE_SCENE: "nest_rel (scenes (REMOVE_SCENE i st)) \<subseteq> nest_rel (scenes st)"
proof clarify
  fix a c
  assume "(a, c) \<in> nest_rel (scenes (REMOVE_SCENE i st))"
  then show "(a, c) \<in> nest_rel (scenes st)"
    by (cases "map_of (scenes st) a")
       (auto simp: REMOVE_SCENE_def nest_rel_iff child_scenes_def split: if_splits)
qed

section \<open>How the operations change the relation\<close>

lemma nest_rel_removeItem: "nest_rel (scenes (removeItem s i w)) \<subseteq> nest_rel (scenes w)"
  using nest_rel_REMOVE_NODE [of s i w]
  by (auto simp: removeItem_def frame_simps split: option.splits)

lemma nest_rel_removeItem_if: "nest_rel (scenes ((if c then id else removeItem s i) w)) \<subseteq> nest_rel (scenes w)"
  by (cases c) (simp_all add: nest_rel_removeItem)

lemma nest_rel_updateItem:
  "(\<And>i. item_sourceId (f i) = item_sourceId i) \<Longrightarrow>
     nest_rel (scenes (updateItem s iid f w)) = nest_rel (scenes w)"
  by (auto simp: updateItem_def Let_def frame_simps nest_rel_UPDATE_ITEM split: option.splits)

lemma nest_rel_item_setSettings: "nest_rel (scenes (item_setSettings s iid it w)) = nest_rel (scenes w)"
  and nest_rel_setVisibility: "nest_rel (scenes (setVisibility s iid b w)) = nest_rel (scenes w)"
  by (simp_all add: item_setSettings_def setVisibility_def nest_rel_updateItem)

lemma nest_rel_remove_embeddings: "nest_rel (scenes (remove_embeddings i its w)) \<subseteq> nest_rel (scenes w)"
  unfolding remove_embeddings_def
  by (rule fold_decreasing) (simp only: split_def, rule nest_rel_removeItem_if)

lemma nest_rel_removeScene: "nest_rel (scenes (snd (removeScene i force w))) \<subseteq> nest_rel (scenes w)"
proof -
  let ?m = "\<lambda>w. nest_rel (scenes w)"
  have own: "?m (fold (\<lambda>it. removeItem i (sceneItemId it)) xs w) \<subseteq> ?m w" for xs
    by (rule fold_decreasing) (rule nest_rel_removeItem)
  have chain: "?m (REMOVE_SCENE i (remove_embeddings i its (fold (\<lambda>it. removeItem i (sceneItemId it)) xs w)))
               \<subseteq> ?m w" for its xs
    using nest_rel_REMOVE_SCENE nest_rel_remove_embeddings own by (blast intro: subset_trans)
  show ?thesis
    unfolding removeScene_def Let_def
    by (auto simp: frame_simps split: option.splits outcome.splits dest: subsetD [OF chain] subsetD [OF own])
qed

lemma acyclic_addSource:
  assumes acyc: "acyclic (nest_rel (scenes w))"
  shows "acyclic (nest_rel (scenes (snd (addSource sid src oid w))))"
proof (cases "map_of (sources w) src = None \<or> getScene sid w = None \<or> \<not> canAddSource sid src w")
  case True
  with acyc show ?thesis by (auto simp: addSource_def)
next
  case False
  then have reg: "map_of (sources w) src \<noteq> None" and sidok: "getScene sid w \<noteq> None"
    and can: "canAddSource sid src w" by auto
  obtain iid w1 where u: "unique_id [] oid w = (iid, w1)" by (cases "unique_id [] oid w")
  have w1: "scenes w1 = scenes w" using scenes_unique_id [of "[]" oid w] u by simp
  let ?item = "\<lparr>sceneItemId = iid, item_sourceId = src, item_visible = True, item_locked = False\<rparr>"
  have res: "snd (addSource sid src oid w) = emit (ItemAdded ?item) (ADD_SOURCE_TO_SCENE sid ?item w1)"
    using u by (simp add: addSource_def reg sidok can Let_def)
  show ?thesis
  proof (cases "src \<in> set (obj_keys (scenes w)) \<and> sid \<in> set (obj_keys (scenes w))")
    case True
    then have "getScene src w \<noteq> None" by (simp add: getScene_def map_of_eq_None_iff)
    with reg can have "src \<noteq> sid" and "\<not> hasNestedScene (length (scenes w)) (scenes w) src sid"
      by (auto simp: canAddSource_def split: if_splits)
    then have "(src, sid) \<notin> (nest_rel (scenes w))\<^sup>*"
      by (auto simp: rtrancl_eq_or_trancl dest: hasNestedScene_complete [OF _ order_refl])
    with acyc True show ?thesis
      by (simp add: res frame_simps nest_rel_ADD_SOURCE_TO_SCENE w1)
  next
    case False
    with acyc show ?thesis
      by (auto simp: res frame_simps nest_rel_ADD_SOURCE_TO_SCENE w1)
  qed
qed

lemma acyclic_copyItems:
  "acyclic (nest_rel (scenes w)) \<Longrightarrow> acyclic (nest_rel (scenes (snd (copyItems sid its w))))"
proof (induction its arbitrary: w)
  case Nil
  then show ?case by simp
next
  case (Cons it its)
  from Cons.prems have a1: "acyclic (nest_rel (scenes (snd (addSource sid (item_sourceId it) None w))))"
    by (rule acyclic_addSource)
  show ?case
  proof (cases "addSource sid (item_sourceId it) None w")
    case (Pair r w1)
    with a1 Cons.IH show ?thesis
      by (auto simp: nest_rel_item_setSettings split: outcome.splits option.splits)
  qed
qed

lemma acyclic_createAndAddSource:
  "acyclic (nest_rel (scenes w)) \<Longrightarrow> acyclic (nest_rel (scenes (snd (createAndAddSource sid name type w))))"
  by (auto simp: createAndAddSource_def frame_simps split: prod.splits
           intro!: acyclic_addSource dest: arg_cong [where f = "\<lambda>p. scenes (snd p)"])

lemma acyclic_ADD_SCENE:
  assumes "acyclic (nest_rel (scenes st))"
  shows "acyclic (nest_rel (scenes (ADD_SCENE i name st)))"
proof (rule acyclic_new_sink [where x = i])
  show "nest_rel (scenes (ADD_SCENE i name st)) \<subseteq> nest_rel (scenes st) \<union> {(a, b). b = i}"
    by (rule nest_rel_ADD_SCENE(1))
  show "\<forall>y. (i, y) \<notin> nest_rel (scenes (ADD_SCENE i name st))"
    using nest_rel_ADD_SCENE(2) by blast
qed (rule assms)

lemma acyclic_duplicate_items:
  "acyclic (nest_rel (scenes w)) \<Longrightarrow> acyclic (nest_rel (scenes (snd (duplicate_items opts i w))))"
  by (auto simp: duplicate_items_def split: option.splits intro: acyclic_copyItems)

lemma acyclic_createScene:
  assumes acyc: "acyclic (nest_rel (scenes w))"
  shows "acyclic (nest_rel (scenes (snd (createScene name opts w))))"
proof -
  obtain i w0 where u: "unique_id ''scene_'' (opt_sceneId opts) w = (i, w0)"
    by (cases "unique_id ''scene_'' (opt_sceneId opts) w")
  have "scenes w0 = scenes w" using scenes_unique_id [of "''scene_''" "opt_sceneId opts" w] u by simp
  with acyc have "acyclic (nest_rel (scenes (register_source i \<lparr>source_name = name, source_kind = SceneSource\<rparr> (ADD_SCENE i name w0))))"
    by (simp add: frame_simps acyclic_ADD_SCENE)
  then have a3: "acyclic (nest_rel (scenes (snd (duplicate_items opts i (register_source i \<lparr>source_name = name, source_kind = SceneSource\<rparr> (ADD_SCENE i name w0))))))"
    by (rule acyclic_duplicate_items)
  obtain r w3 where d: "duplicate_items opts i (register_source i \<lparr>source_name = name, source_kind = SceneSource\<rparr> (ADD_SCENE i name w0)) = (r, w3)"
    by (cases "duplicate_items opts i (register_source i \<lparr>source_name = name, source_kind = SceneSource\<rparr> (ADD_SCENE i name w0))")
  from a3 d have "acyclic (nest_rel (scenes w3))" by simp
  then show ?thesis
    by (cases r) (simp_all add: createScene_def u d Let_def frame_simps)
qed
lemma acyclic_scene_step:
  "acyclic (nest_rel (scenes w)) \<Longrightarrow> acyclic (nest_rel (scenes (scene_step op w)))"
proof (cases op)
  case (RemoveScene i force)
  moreover assume "acyclic (nest_rel (scenes w))"
  ultimately show ?thesis by (simp add: acyclic_subset [OF _ nest_rel_removeScene])
next
  case (RemoveItem s i)
  moreover assume "acyclic (nest_rel (scenes w))"
  ultimately show ?thesis by (simp add: acyclic_subset [OF _ nest_rel_removeItem])
qed (simp_all add: acyclic_createScene acyclic_addSource acyclic_createAndAddSource
       nest_rel_setVisibility frame_simps setSceneOrder_def SET_SCENE_ORDER_def)

lemma acyclic_scene_run:
  "acyclic (nest_rel (scenes w)) \<Longrightarrow> acyclic (nest_rel (scenes (scene_run ops w)))"
  unfolding scene_run_def
  by (induction ops arbitrary: w) (simp_all add: acyclic_scene_step)

lemma scenes_acyclic_initial: "scenes_acyclic scenes_initial"
  by (simp add: scenes_acyclic_def scenes_initial_def)

section \<open>Properties\<close>

text \<open>
  C1. Cycle freedom: whatever sequence of public operations (scene creation with or
  without duplication, removal, activation, reordering, adding and removing items) runs
  from the initial store, no scene contains itself, directly or through other scenes.
\<close>

theorem scene_graph_never_cyclic: "scenes_acyclic (scene_run ops scenes_initial)"
  using acyclic_scene_run [OF scenes_acyclic_initial [unfolded scenes_acyclic_iff]]
  by (simp add: scenes_acyclic_iff)

text \<open>
  C2. Cycle freedom is an invariant of every single operation, from any store where it
  holds (not only the stores reachable from the initial one).
\<close>

theorem scene_step_keeps_acyclic: "scenes_acyclic w \<Longrightarrow> scenes_acyclic (scene_step op w)"
  by (simp add: scenes_acyclic_iff acyclic_scene_step)

lemma scene_step_keeps_acyclic_witness:
  "scenes_acyclic nesting_demo \<and> scenes_acyclic (scene_step (AddSource ''scene_1'' ''scene_2'') nesting_demo)"
proof -
  have h: "scenes_acyclic nesting_demo" by code_simp
  show ?thesis by (rule conjI [OF h scene_step_keeps_acyclic [OF h]])
qed

text \<open>
  C3. The check of \<open>Scene.addSource\<close> on a registered scene source is exactly the
  abstract condition of the spec: the target scene is not reachable from the candidate
  through the nesting relation (reflexively, so that a scene never embeds itself).
\<close>

theorem canAddSource_iff_not_reachable:
  assumes "map_of (sources w) src \<noteq> None" and "getScene src w \<noteq> None"
  shows "canAddSource sid src w \<longleftrightarrow> (src, sid) \<notin> (nest_rel (scenes w))\<^sup>*"
  using assms hasNestedScene_sound hasNestedScene_complete [OF _ order_refl]
  by (auto simp: canAddSource_def rtrancl_eq_or_trancl)

lemma canAddSource_iff_not_reachable_witness:
  "\<not> canAddSource ''scene_0'' ''scene_2'' nesting_demo"
proof -
  have e: "(''scene_2'', ''scene_0'') \<in> nest_rel (scenes nesting_demo)"
    unfolding nest_rel_iff by code_simp
  have r: "map_of (sources nesting_demo) ''scene_2'' \<noteq> None" by code_simp
  have g: "getScene ''scene_2'' nesting_demo \<noteq> None" by code_simp
  show ?thesis using canAddSource_iff_not_reachable [OF r g] r_into_rtrancl [OF e] by simp
qed

text \<open>
  C4. The recursive search \<open>hasNestedScene\<close>, given a depth of at least the number of
  scenes, decides the transitive closure of the nesting relation: it answers true exactly
  when the target is reachable in one or more nesting steps.
\<close>

theorem hasNestedScene_iff:
  "length scs \<le> n \<Longrightarrow> hasNestedScene n scs a t \<longleftrightarrow> (a, t) \<in> (nest_rel scs)\<^sup>+"
  using hasNestedScene_sound hasNestedScene_complete by blast

lemma hasNestedScene_iff_witness:
  "hasNestedScene 3 (scenes nesting_demo) ''scene_2'' ''scene_1'' \<and>
   (''scene_2'', ''scene_1'') \<in> (nest_rel (scenes nesting_demo))\<^sup>+"
proof -
  have l: "length (scenes nesting_demo) \<le> 3" by code_simp
  have h: "hasNestedScene 3 (scenes nesting_demo) ''scene_2'' ''scene_1''" by code_simp
  show ?thesis using h hasNestedScene_iff [OF l] by simp
qed

text \<open>
  C5. A refused nesting changes nothing: when the target scene is reachable from the
  scene being added (A embeds B, C embeds A, then A.addSource(C)), \<open>addSource\<close>
  returns \<open>null\<close> and leaves the whole store, the registry and the event log as they were.
\<close>

theorem addSource_refused_unchanged:
  assumes "map_of (sources w) src \<noteq> None" and "getScene sid w \<noteq> None"
    and "getScene src w \<noteq> None" and "(src, sid) \<in> (nest_rel (scenes w))\<^sup>*"
  shows "addSource sid src oid w = (Ret None, w)"
proof -
  from assms(4) have "src = sid \<or> hasNestedScene (length (scenes w)) (scenes w) src sid"
    by (auto simp: rtrancl_eq_or_trancl intro: hasNestedScene_complete)
  with assms(1-3) show ?thesis by (auto simp: addSource_def canAddSource_def)
qed

lemma addSource_refused_unchanged_witness:
  "addSource ''scene_0'' ''scene_2'' None nesting_demo = (Ret None, nesting_demo)"
proof -
  have e: "(''scene_2'', ''scene_0'') \<in> nest_rel (scenes nesting_demo)"
    unfolding nest_rel_iff by code_simp
  have r: "map_of (sources nesting_demo) ''scene_2'' \<noteq> None" by code_simp
  have g0: "getScene ''scene_0'' nesting_demo \<noteq> None" by code_simp
  have g2: "getScene ''scene_2'' nesting_demo \<noteq> None" by code_simp
  show ?thesis by (rule addSource_refused_unchanged [OF r g0 g2 r_into_rtrancl [OF e]])
qed

end
