(* ===== verification/MediaBackup.thy ===== *)
theory MediaBackup
  imports Prelude
begin

text \<open>
  Model of \<open>MediaBackupService\<close> (\<open>src/unnamed/part_003\<close>). The service keeps a list
  of media files; \<open>createNewFile\<close> uploads a local file and \<open>syncFile\<close> checks a
  server file against local copies and downloads it when needed. Both are \<open>async\<close>:
  between two \<open>await\<close>s a call runs without interruption, and any number of calls
  for the same file may be in flight. Each call is therefore modelled as a process whose
  program counter \<open>media_pc\<close> names the \<open>await\<close> it waits on and holds its local
  variables; the segment that runs when the awaited promise settles is a function of the
  result. \<open>media_step\<close> starts a call or resumes a pending one; \<open>media_reachable\<close>
  closes the initial state under steps. The network, the file system and \<open>uuid\<close>
  are the environment: an event carries the answer of \<open>fs.existsSync\<close> as a predicate,
  the result of every attempt of a retried call, and the \<open>uuid()\<close> chosen as sync lock,
  which the step requires to be fresh (a v4 uuid is never repeated in practice).
\<close>

section \<open>Data\<close>

datatype EMediaFileStatus = Checking | Synced | Uploading | Downloading

datatype EGlobalSyncStatus = GlobalSyncing | GlobalSynced

record IMediaFile =
  file_id :: ident
  serverId :: "int option"
  file_name :: string
  status :: EMediaFileStatus
  filePath :: string
  syncLock :: string

record IMediaFileDataResponse =
  checksum :: string
  filename :: string
  modified :: string
  url :: string

text \<open>The two shapes of \<open>Partial<IMediaFile>\<close> the code passes to \<open>UPDATE_FILE\<close>.\<close>

datatype file_patch = PatchStatus EMediaFileStatus | PatchAll IMediaFile

definition apply_patch :: "file_patch \<Rightarrow> IMediaFile \<Rightarrow> IMediaFile" where
  "apply_patch p f = (case p of PatchStatus st \<Rightarrow> f\<lparr>status := st\<rparr> | PatchAll g \<Rightarrow> g)"

section \<open>Mutations and queries\<close>

definition INSERT_FILE :: "IMediaFile \<Rightarrow> IMediaFile list \<Rightarrow> IMediaFile list" where
  "INSERT_FILE f fs = filter (\<lambda>g. file_id g \<noteq> file_id f) fs @ [f]"

definition UPDATE_FILE :: "ident \<Rightarrow> file_patch \<Rightarrow> IMediaFile list \<Rightarrow> IMediaFile list" where
  "UPDATE_FILE i p fs = map (\<lambda>g. if file_id g = i then apply_patch p g else g) fs"

declare INSERT_FILE_def [mutation_defs] UPDATE_FILE_def [mutation_defs]

definition validateSyncLock :: "ident \<Rightarrow> string \<Rightarrow> IMediaFile list \<Rightarrow> bool" where
  "validateSyncLock i l fs \<longleftrightarrow> list_ex (\<lambda>g. file_id g = i \<and> syncLock g = l) fs"

definition globalSyncStatus :: "IMediaFile list \<Rightarrow> EGlobalSyncStatus" where
  "globalSyncStatus fs = (if list_ex (\<lambda>g. status g \<noteq> Synced) fs then GlobalSyncing else GlobalSynced)"

text \<open>
  \<open>path.parse(p).base\<close>: the part after the last separator (\<open>/\<close> or, on Windows,
  \<open>\\\<close>). \<open>path.join(dir, id)\<close> for the media directory.
\<close>

definition path_base :: "string \<Rightarrow> string" where
  "path_base p = rev (takeWhile (\<lambda>c. c \<noteq> CHR ''/'' \<and> c \<noteq> CHR 0x5C) (rev p))"

definition getMediaFilePath :: "string \<Rightarrow> int \<Rightarrow> string" where
  "getMediaFilePath dir sid = dir @ ''/'' @ int_str sid"

section \<open>Retrying a call\<close>

text \<open>
  \<open>withRetry(executor)\<close>: \<open>retries\<close> starts at 2; a failed attempt is retried while
  \<open>retries > 0\<close>. The executor's \<open>k\<close>-th attempt settles with \<open>ex k\<close>. The result
  carries the number of attempts made.
\<close>

function retry_loop :: "int \<Rightarrow> nat \<Rightarrow> (nat \<Rightarrow> 'e + 'a) \<Rightarrow> ('e + 'a) \<times> nat" where
  "retry_loop retries k ex =
     (case ex k of
        Inr a \<Rightarrow> (Inr a, Suc k)
      | Inl e \<Rightarrow> if retries \<le> 0 then (Inl e, Suc k) else retry_loop (retries - 1) (Suc k) ex)"
  by pat_completeness auto
termination by (relation "measure (\<lambda>(r, _, _). nat r)") auto

declare retry_loop.simps [simp del]

definition withRetry :: "(nat \<Rightarrow> 'e + 'a) \<Rightarrow> 'e + 'a" where
  "withRetry ex = fst (retry_loop 2 0 ex)"

section \<open>The calls as processes\<close>

text \<open>
  Where a call waits, with the locals it still needs: the local \<open>file\<close> object (it
  holds \<open>localId\<close>, the \<open>syncLock\<close> and the paths), the file data returned by the
  server, and in the checksum loop the path being checked and those still to check.
\<close>

datatype media_pc =
    AwaitUpload IMediaFile
  | AwaitFileData IMediaFile int
  | AwaitChecksum IMediaFile IMediaFileDataResponse string "string list"
  | AwaitDownload IMediaFile IMediaFileDataResponse

fun pc_file :: "media_pc \<Rightarrow> IMediaFile" where
  "pc_file (AwaitUpload f) = f"
| "pc_file (AwaitFileData f _) = f"
| "pc_file (AwaitChecksum f _ _ _) = f"
| "pc_file (AwaitDownload f _) = f"

datatype seg_result = Pending media_pc | Done "IMediaFile option"

type_synonym seg = "IMediaFile list \<times> seg_result"

text \<open>The error branches: \<open>if (this.validateSyncLock(...)) UPDATE_FILE(localId, {status: Synced}); return null\<close>.\<close>

definition give_up :: "IMediaFile \<Rightarrow> IMediaFile list \<Rightarrow> seg" where
  "give_up file fs =
     (if validateSyncLock (file_id file) (syncLock file) fs
      then UPDATE_FILE (file_id file) (PatchStatus Synced) fs else fs, Done None)"

text \<open>The success branches: \<open>if (validateSyncLock) { ...; UPDATE_FILE(localId, file); return file }\<close>.\<close>

definition commit_file :: "IMediaFile \<Rightarrow> IMediaFile list \<Rightarrow> seg" where
  "commit_file file fs =
     (if validateSyncLock (file_id file) (syncLock file) fs
      then (UPDATE_FILE (file_id file) (PatchAll file) fs, Done (Some file)) else (fs, Done None))"

definition createNewFile_start :: "(string \<Rightarrow> bool) \<Rightarrow> ident \<Rightarrow> string \<Rightarrow> string \<Rightarrow> IMediaFile list \<Rightarrow> seg" where
  "createNewFile_start exists localId path lock fs =
     (let file = \<lparr>file_id = localId, serverId = None, file_name = path_base path, status = Uploading,
                  filePath = path, syncLock = lock\<rparr>
      in if \<not> exists path then (fs, Done None)
         else (INSERT_FILE file fs, Pending (AwaitUpload file)))"

definition createNewFile_uploaded :: "IMediaFile \<Rightarrow> string + int \<Rightarrow> IMediaFile list \<Rightarrow> seg" where
  "createNewFile_uploaded file r fs =
     (case r of
        Inl _ \<Rightarrow> give_up file fs
      | Inr sid \<Rightarrow> commit_file (file\<lparr>serverId := Some sid, status := Synced\<rparr>) fs)"

definition syncFile_start :: "ident \<Rightarrow> int \<Rightarrow> string \<Rightarrow> string \<Rightarrow> IMediaFile list \<Rightarrow> seg" where
  "syncFile_start localId sid path lock fs =
     (let file = \<lparr>file_id = localId, serverId = Some sid, file_name = path_base path, status = Checking,
                  filePath = path, syncLock = lock\<rparr>
      in (INSERT_FILE file fs, Pending (AwaitFileData file sid)))"

text \<open>Lines 191-193: leave the loop and start the download, unless the lock was taken over.\<close>

definition start_download :: "IMediaFile \<Rightarrow> IMediaFileDataResponse \<Rightarrow> IMediaFile list \<Rightarrow> seg" where
  "start_download file data fs =
     (if \<not> validateSyncLock (file_id file) (syncLock file) fs then (fs, Done None)
      else (UPDATE_FILE (file_id file) (PatchStatus Downloading) fs, Pending (AwaitDownload file data)))"

text \<open>Lines 167-189: the synchronous part of the loop, up to the next \<open>await\<close> of a checksum.\<close>

fun check_loop :: "(string \<Rightarrow> bool) \<Rightarrow> IMediaFile \<Rightarrow> IMediaFileDataResponse \<Rightarrow> string list \<Rightarrow> IMediaFile list \<Rightarrow> seg" where
  "check_loop exists file data [] fs = start_download file data fs"
| "check_loop exists file data (p # ps) fs =
     (if exists p then (fs, Pending (AwaitChecksum file data p ps)) else check_loop exists file data ps fs)"

definition syncFile_fetched :: "(string \<Rightarrow> bool) \<Rightarrow> string \<Rightarrow> IMediaFile \<Rightarrow> int \<Rightarrow> string + IMediaFileDataResponse \<Rightarrow> IMediaFile list \<Rightarrow> seg" where
  "syncFile_fetched exists dir file sid r fs =
     (case r of
        Inl _ \<Rightarrow> give_up file fs
      | Inr data \<Rightarrow> check_loop exists file data [filePath file, getMediaFilePath dir sid] fs)"

text \<open>
  Lines 172-188: a failed checksum leaves \<open>checksum\<close> undefined (falsy, as is the empty
  string); a match whose lock was taken over falls through to the next path.
\<close>

definition syncFile_checked :: "(string \<Rightarrow> bool) \<Rightarrow> IMediaFile \<Rightarrow> IMediaFileDataResponse \<Rightarrow> string \<Rightarrow> string list \<Rightarrow> string + string \<Rightarrow> IMediaFile list \<Rightarrow> seg" where
  "syncFile_checked exists file data p ps r fs =
     (let matched = (case r of Inl _ \<Rightarrow> False | Inr c \<Rightarrow> c \<noteq> [] \<and> c = checksum data)
      in if matched \<and> validateSyncLock (file_id file) (syncLock file) fs
         then commit_file (file\<lparr>filePath := p, status := Synced\<rparr>) fs
         else check_loop exists file data ps fs)"

text \<open>Lines 196-214; when the lock was taken over the call returns \<open>undefined\<close>, here \<open>None\<close>.\<close>

definition syncFile_downloaded :: "IMediaFile \<Rightarrow> string + string \<Rightarrow> IMediaFile list \<Rightarrow> seg" where
  "syncFile_downloaded file r fs =
     (case r of
        Inl _ \<Rightarrow> give_up file fs
      | Inr path \<Rightarrow> commit_file (file\<lparr>status := Synced, filePath := path\<rparr>) fs)"

section \<open>The service with its calls in flight\<close>

record media_world =
  files :: "IMediaFile list"
  procs :: "media_pc list"
  issued :: "string list"
  returned :: "IMediaFile option list"
  mediaDirectory :: string

definition media_initial :: "string \<Rightarrow> media_world" where
  "media_initial dir = \<lparr>files = [], procs = [], issued = [], returned = [], mediaDirectory = dir\<rparr>"

text \<open>
  The events: a call of \<open>createNewFile\<close> or \<open>syncFile\<close> (with the \<open>uuid()\<close> it
  draws), or the settling of the promise the \<open>k\<close>-th pending call awaits, given by the
  outcome of every attempt of \<open>withRetry\<close>.
\<close>

datatype media_event =
    CreateNewFile ident string string
  | SyncFile ident int string string
  | UploadDone nat "nat \<Rightarrow> string + int"
  | FileDataDone nat "nat \<Rightarrow> string + IMediaFileDataResponse"
  | ChecksumDone nat "nat \<Rightarrow> string + string"
  | DownloadDone nat "nat \<Rightarrow> string + string"

text \<open>The segment a settled promise runs, when the event answers what the call awaits.\<close>

fun resume :: "(string \<Rightarrow> bool) \<Rightarrow> string \<Rightarrow> media_pc \<Rightarrow> media_event \<Rightarrow> IMediaFile list \<Rightarrow> seg option" where
  "resume ex dir (AwaitUpload f) (UploadDone _ r) fs = Some (createNewFile_uploaded f (withRetry r) fs)"
| "resume ex dir (AwaitFileData f sid) (FileDataDone _ r) fs = Some (syncFile_fetched ex dir f sid (withRetry r) fs)"
| "resume ex dir (AwaitChecksum f d p ps) (ChecksumDone _ r) fs = Some (syncFile_checked ex f d p ps (withRetry r) fs)"
| "resume ex dir (AwaitDownload f d) (DownloadDone _ r) fs = Some (syncFile_downloaded f (withRetry r) fs)"
| "resume ex dir _ _ fs = None"

fun event_proc :: "media_event \<Rightarrow> nat option" where
  "event_proc (UploadDone k _) = Some k"
| "event_proc (FileDataDone k _) = Some k"
| "event_proc (ChecksumDone k _) = Some k"
| "event_proc (DownloadDone k _) = Some k"
| "event_proc _ = None"

definition finish :: "seg \<Rightarrow> media_pc list \<Rightarrow> media_world \<Rightarrow> media_world" where
  "finish sg ps w =
     (case snd sg of
        Pending pc \<Rightarrow> w\<lparr>files := fst sg, procs := ps @ [pc]\<rparr>
      | Done r \<Rightarrow> w\<lparr>files := fst sg, procs := ps, returned := returned w @ [r]\<rparr>)"

fun media_step :: "(string \<Rightarrow> bool) \<Rightarrow> media_event \<Rightarrow> media_world \<Rightarrow> media_world option" where
  "media_step ex (CreateNewFile i p l) w =
     (if l \<in> set (issued w) then None
      else Some (finish (createNewFile_start ex i p l (files w)) (procs w) (w\<lparr>issued := issued w @ [l]\<rparr>)))"
| "media_step ex (SyncFile i sid p l) w =
     (if l \<in> set (issued w) then None
      else Some (finish (syncFile_start i sid p l (files w)) (procs w) (w\<lparr>issued := issued w @ [l]\<rparr>)))"
| "media_step ex e w =
     (case event_proc e of
        None \<Rightarrow> None
      | Some k \<Rightarrow>
          if k < length (procs w) then
            map_option (\<lambda>sg. finish sg (remove_nth k (procs w)) w)
              (resume ex (mediaDirectory w) (procs w ! k) e (files w))
          else None)"

text \<open>The pair a sync lock validates: \<open>validateSyncLock(id, syncLock)\<close> holds exactly when a stored file has this key.\<close>

definition file_key :: "IMediaFile \<Rightarrow> ident \<times> string" where
  "file_key f = (file_id f, syncLock f)"

abbreviation pc_key :: "media_pc \<Rightarrow> ident \<times> string" where
  "pc_key p \<equiv> file_key (pc_file p)"

definition unsynced_keys :: "IMediaFile list \<Rightarrow> (ident \<times> string) set" where
  "unsynced_keys fs = set (map file_key (filter (\<lambda>f. status f \<noteq> Synced) fs))"

fun pending_keys :: "seg_result \<Rightarrow> (ident \<times> string) set" where
  "pending_keys (Pending pc) = {pc_key pc}"
| "pending_keys (Done _) = {}"

text \<open>
  The invariant of the service: ids are unique in the store, and every file not yet
  \<open>Synced\<close> belongs to a call still in flight that holds its lock.
\<close>

definition media_inv :: "media_world \<Rightarrow> bool" where
  "media_inv w \<longleftrightarrow> distinct (map file_id (files w)) \<and> unsynced_keys (files w) \<subseteq> set (map pc_key (procs w))"

text \<open>What a segment of the call holding lock key \<open>k\<close> may do to the store: keep the ids,
  and leave unsynced only files of other calls, or its own file when it still waits.\<close>

definition seg_respects :: "ident \<times> string \<Rightarrow> IMediaFile list \<Rightarrow> seg \<Rightarrow> bool" where
  "seg_respects k fs sg \<longleftrightarrow>
     map file_id (fst sg) = map file_id fs \<and>
     unsynced_keys (fst sg) \<subseteq> (unsynced_keys fs - {k}) \<union> pending_keys (snd sg) \<and>
     pending_keys (snd sg) \<subseteq> {k}"

inductive media_reachable :: "media_world \<Rightarrow> bool" where
  init: "media_reachable (media_initial dir)"
| step: "media_reachable w \<Longrightarrow> media_step ex e w = Some w' \<Longrightarrow> media_reachable w'"

text \<open>Runs: a sequence of events from one world to another.\<close>

inductive media_run :: "media_world \<Rightarrow> media_world \<Rightarrow> bool" where
  run_refl: "media_run w w"
| run_step: "media_step ex e w = Some w' \<Longrightarrow> media_run w' w'' \<Longrightarrow> media_run w w''"

fun media_exec :: "(string \<Rightarrow> bool) \<Rightarrow> media_event list \<Rightarrow> media_world \<Rightarrow> media_world option" where
  "media_exec ex [] w = Some w"
| "media_exec ex (e # es) w = (case media_step ex e w of None \<Rightarrow> None | Some w' \<Rightarrow> media_exec ex es w')"

text \<open>The event that settles a pending call with every attempt failing.\<close>

fun fail_event :: "nat \<Rightarrow> media_pc \<Rightarrow> media_event" where
  "fail_event k (AwaitUpload _) = UploadDone k (\<lambda>_. Inl ''error'')"
| "fail_event k (AwaitFileData _ _) = FileDataDone k (\<lambda>_. Inl ''error'')"
| "fail_event k (AwaitChecksum _ _ _ _) = ChecksumDone k (\<lambda>_. Inl ''error'')"
| "fail_event k (AwaitDownload _ _) = DownloadDone k (\<lambda>_. Inl ''error'')"

fun pc_weight :: "media_pc \<Rightarrow> nat" where
  "pc_weight (AwaitChecksum _ _ _ _) = 2"
| "pc_weight _ = 1"

text \<open>
  Scenarios: a file \<open>f1\<close> is registered twice in a row (the second call takes over
  the lock), then both uploads settle; and an upload that fails three times.
\<close>

definition media_demo_exists :: "string \<Rightarrow> bool" where
  "media_demo_exists p \<longleftrightarrow> p = ''/home/u/clip.mp4''"

definition media_demo_twice :: "media_event list" where
  "media_demo_twice = [CreateNewFile ''f1'' ''/home/u/clip.mp4'' ''lock-1'', CreateNewFile ''f1'' ''/home/u/clip.mp4'' ''lock-2'']"

definition media_demo_settle :: "media_event list" where
  "media_demo_settle = [UploadDone 0 (\<lambda>_. Inr 17), UploadDone 0 (\<lambda>_. Inr 18)]"

definition media_demo_failed_upload :: "media_event list" where
  "media_demo_failed_upload = [CreateNewFile ''f1'' ''/home/u/clip.mp4'' ''lock-1'', UploadDone 0 (\<lambda>_. Inl ''HTTP 503'')]"

section \<open>The HTTP requests\<close>

text \<open>
  \<open>uploadFile\<close> and \<open>getFileData\<close> wrap \<open>request\<close> in a promise whose callback reads
  \<open>res.statusCode\<close> without looking at \<open>err\<close>. When the request fails without a
  response, \<open>res\<close> is \<open>undefined\<close> and the callback throws; the throw happens outside
  the promise's executor, so the promise never settles. A body that is not JSON makes
  \<open>JSON.parse\<close> throw in the same place. The body parser is a parameter.
\<close>

datatype http_response = HttpResponse int string

definition status_ok :: "int \<Rightarrow> bool" where
  "status_ok code \<longleftrightarrow> code div 100 = 2"

datatype 'a request_outcome = Resolved 'a | Rejected http_response | CallbackThrew js_error

definition request_callback :: "(string \<Rightarrow> 'a option) \<Rightarrow> http_response option \<Rightarrow> 'a request_outcome" where
  "request_callback parse res =
     (case res of
        None \<Rightarrow> CallbackThrew (TypeError ''Cannot read property statusCode of undefined'')
      | Some (HttpResponse code body) \<Rightarrow>
          if status_ok code then
            (case parse body of Some v \<Rightarrow> Resolved v | None \<Rightarrow> CallbackThrew (JsError ''SyntaxError in JSON.parse''))
          else Rejected (HttpResponse code body))"

text \<open>How the promise settles: \<open>None\<close> when it never does.\<close>

definition request_settlement :: "'a request_outcome \<Rightarrow> (string + 'a) option" where
  "request_settlement r =
     (case r of
        Resolved v \<Rightarrow> Some (Inr v)
      | Rejected (HttpResponse code body) \<Rightarrow> Some (Inl (''HTTP '' @ int_str code))
      | CallbackThrew e \<Rightarrow> None)"

definition uploadFile_settlement :: "(string \<Rightarrow> int option) \<Rightarrow> http_response option \<Rightarrow> (string + int) option" where
  "uploadFile_settlement parse_id res = request_settlement (request_callback parse_id res)"

definition getFileData_settlement :: "(string \<Rightarrow> IMediaFileDataResponse option) \<Rightarrow> http_response option \<Rightarrow>
    (string + IMediaFileDataResponse) option" where
  "getFileData_settlement parse res = request_settlement (request_callback parse res)"

section \<open>Lemmas\<close>

lemma validateSyncLock_key: "validateSyncLock i l fs \<longleftrightarrow> (i, l) \<in> file_key ` set fs"
  by (auto simp: validateSyncLock_def list_ex_iff file_key_def)

lemma unsynced_keys_iff: "k \<in> unsynced_keys fs \<longleftrightarrow> (\<exists>f\<in>set fs. status f \<noteq> Synced \<and> file_key f = k)"
  by (auto simp: unsynced_keys_def)

lemma unsynced_keys_subset: "unsynced_keys fs \<subseteq> file_key ` set fs"
  by (auto simp: unsynced_keys_def)

lemma map_file_id_UPDATE_FILE [simp]:
  "map file_id (UPDATE_FILE i (PatchStatus st) fs) = map file_id fs"
  "file_id g = i \<Longrightarrow> map file_id (UPDATE_FILE i (PatchAll g) fs) = map file_id fs"
  by (induction fs) (auto simp: UPDATE_FILE_def apply_patch_def)

lemma distinct_INSERT_FILE [intro]:
  "distinct (map file_id fs) \<Longrightarrow> distinct (map file_id (INSERT_FILE f fs))"
  by (auto simp: INSERT_FILE_def distinct_map_filter)

lemma map_file_key_UPDATE_status [simp]:
  "map file_key (UPDATE_FILE i (PatchStatus st) fs) = map file_key fs"
  by (induction fs) (simp_all add: UPDATE_FILE_def apply_patch_def file_key_def)

lemma unique_id_file:
  "distinct (map file_id fs) \<Longrightarrow> f \<in> set fs \<Longrightarrow> g \<in> set fs \<Longrightarrow> file_id g = file_id f \<Longrightarrow> g = f"
  by (auto simp: distinct_map inj_on_def)

text \<open>With unique ids, \<open>UPDATE_FILE\<close> replaces the one file with that id.\<close>

lemma set_UPDATE_FILE_unique:
  assumes "distinct (map file_id fs)" and "f \<in> set fs" and "file_id f = i"
  shows "set (UPDATE_FILE i p fs) = insert (apply_patch p f) (set fs - {f})"
proof -
  have only: "g \<in> set fs \<Longrightarrow> file_id g = i \<Longrightarrow> g = f" for g
    using unique_id_file [OF assms(1,2), of g] assms(3) by simp
  have "set (UPDATE_FILE i p fs) = (\<lambda>g. if file_id g = i then apply_patch p g else g) ` set fs"
    by (simp add: UPDATE_FILE_def)
  also have "\<dots> = (\<lambda>g. if g = f then apply_patch p f else g) ` set fs"
  proof (rule image_cong [OF refl])
    fix g assume "g \<in> set fs"
    then show "(if file_id g = i then apply_patch p g else g) = (if g = f then apply_patch p f else g)"
      using only [of g] assms(3) by (cases "file_id g = i") auto
  qed
  also have "\<dots> = insert (apply_patch p f) (set fs - {f})"
    using assms(2) by (auto simp: image_iff)
  finally show ?thesis .
qed

lemma unsynced_keys_set: "unsynced_keys fs = file_key ` {f \<in> set fs. status f \<noteq> Synced}"
  by (simp add: unsynced_keys_def)

lemma UPDATE_FILE_valid:
  assumes d: "distinct (map file_id fs)" and f: "f \<in> set fs" "file_key f = (i, l)"
    and keep: "file_key (apply_patch p f) = (i, l)"
  shows "unsynced_keys (UPDATE_FILE i p fs) =
           (if status (apply_patch p f) = Synced then unsynced_keys fs - {(i, l)} else insert (i, l) (unsynced_keys fs))"
proof -
  have fi: "file_id f = i" using f(2) by (simp add: file_key_def)
  have own: "g \<in> set fs \<Longrightarrow> file_key g = (i, l) \<Longrightarrow> g = f" for g
    using unique_id_file [OF d f(1), of g] fi by (simp add: file_key_def)
  have rest: "file_key ` {g \<in> set fs - {f}. status g \<noteq> Synced} =
               file_key ` {g \<in> set fs. status g \<noteq> Synced} - {(i, l)}"
    using f(2) by (auto dest: own)
  have "set (UPDATE_FILE i p fs) = insert (apply_patch p f) (set fs - {f})"
    by (rule set_UPDATE_FILE_unique [OF d f(1) fi])
  then have "unsynced_keys (UPDATE_FILE i p fs) =
      (if status (apply_patch p f) = Synced then {} else {(i, l)}) \<union> file_key ` {g \<in> set fs - {f}. status g \<noteq> Synced}"
    unfolding unsynced_keys_set using keep by (auto simp: image_iff) (metis (mono_tags, lifting))
  then show ?thesis
    unfolding rest unsynced_keys_set by auto
qed

lemma not_valid_unsynced: "\<not> validateSyncLock i l fs \<Longrightarrow> unsynced_keys fs - {(i, l)} = unsynced_keys fs"
  using unsynced_keys_subset [of fs] by (auto simp: validateSyncLock_key)

lemma valid_file:
  assumes "validateSyncLock i l fs"
  obtains f where "f \<in> set fs" "file_key f = (i, l)"
  using assms by (auto simp: validateSyncLock_key)

lemma give_up_respects:
  assumes "distinct (map file_id fs)"
  shows "seg_respects (file_key file) fs (give_up file fs)"
proof (cases "validateSyncLock (file_id file) (syncLock file) fs")
  case True
  then obtain f where f: "f \<in> set fs" "file_key f = (file_id file, syncLock file)" by (rule valid_file)
  then have "file_key (apply_patch (PatchStatus Synced) f) = (file_id file, syncLock file)"
    by (simp add: apply_patch_def file_key_def)
  from UPDATE_FILE_valid [OF assms f this] True show ?thesis
    by (simp add: seg_respects_def give_up_def apply_patch_def file_key_def)
next
  case False
  then show ?thesis by (simp add: seg_respects_def give_up_def not_valid_unsynced file_key_def)
qed

lemma commit_file_respects:
  assumes "distinct (map file_id fs)" and "status file = Synced"
  shows "seg_respects (file_key file) fs (commit_file file fs)"
proof (cases "validateSyncLock (file_id file) (syncLock file) fs")
  case True
  then obtain f where f: "f \<in> set fs" "file_key f = (file_id file, syncLock file)" by (rule valid_file)
  then have "file_key (apply_patch (PatchAll file) f) = (file_id file, syncLock file)"
    by (simp add: apply_patch_def file_key_def)
  from UPDATE_FILE_valid [OF assms(1) f this] True assms(2) show ?thesis
    by (simp add: seg_respects_def commit_file_def apply_patch_def file_key_def)
next
  case False
  then show ?thesis by (simp add: seg_respects_def commit_file_def not_valid_unsynced file_key_def)
qed

lemma commit_file_respects_key:
  "distinct (map file_id fs) \<Longrightarrow> status file = Synced \<Longrightarrow> file_key file = k \<Longrightarrow>
   seg_respects k fs (commit_file file fs)"
  using commit_file_respects by blast

lemma start_download_respects:
  assumes "distinct (map file_id fs)"
  shows "seg_respects (file_key file) fs (start_download file data fs)"
proof (cases "validateSyncLock (file_id file) (syncLock file) fs")
  case True
  then obtain f where f: "f \<in> set fs" "file_key f = (file_id file, syncLock file)" by (rule valid_file)
  then have "file_key (apply_patch (PatchStatus Downloading) f) = (file_id file, syncLock file)"
    by (simp add: apply_patch_def file_key_def)
  from UPDATE_FILE_valid [OF assms f this] True show ?thesis
    by (auto simp: seg_respects_def start_download_def apply_patch_def file_key_def)
next
  case False
  then show ?thesis by (simp add: seg_respects_def start_download_def not_valid_unsynced file_key_def)
qed

lemma check_loop_respects:
  assumes "distinct (map file_id fs)"
  shows "seg_respects (file_key file) fs (check_loop ex file data ps fs)"
proof (induction ps)
  case Nil
  then show ?case using start_download_respects [OF assms] by simp
next
  case (Cons p ps)
  then show ?case by (auto simp: seg_respects_def)
qed

lemma file_key_updates [simp]:
  "file_key (f\<lparr>status := st\<rparr>) = file_key f"
  "file_key (f\<lparr>serverId := sid\<rparr>) = file_key f"
  "file_key (f\<lparr>filePath := p\<rparr>) = file_key f"
  by (simp_all add: file_key_def)

lemma resume_respects:
  assumes "distinct (map file_id fs)" and "resume ex dir p e fs = Some sg"
  shows "seg_respects (pc_key p) fs sg"
  using assms
  by (cases "(ex, dir, p, e, fs)" rule: resume.cases)
     (auto simp: createNewFile_uploaded_def syncFile_fetched_def syncFile_checked_def syncFile_downloaded_def Let_def
        give_up_respects commit_file_respects_key check_loop_respects simp del: check_loop.simps split: sum.splits)

lemma unsynced_INSERT_FILE: "unsynced_keys (INSERT_FILE f fs) \<subseteq> unsynced_keys fs \<union> {file_key f}"
  by (auto simp: unsynced_keys_def INSERT_FILE_def)

lemma createNewFile_start_seg:
  assumes "distinct (map file_id fs)"
  shows "distinct (map file_id (fst (createNewFile_start ex i p l fs))) \<and>
    unsynced_keys (fst (createNewFile_start ex i p l fs)) \<subseteq> unsynced_keys fs \<union> pending_keys (snd (createNewFile_start ex i p l fs))"
  using assms unsynced_INSERT_FILE distinct_INSERT_FILE by (simp add: createNewFile_start_def Let_def)

lemma syncFile_start_seg:
  assumes "distinct (map file_id fs)"
  shows "distinct (map file_id (fst (syncFile_start i sid p l fs))) \<and>
    unsynced_keys (fst (syncFile_start i sid p l fs)) \<subseteq> unsynced_keys fs \<union> pending_keys (snd (syncFile_start i sid p l fs))"
  using assms unsynced_INSERT_FILE distinct_INSERT_FILE by (simp add: syncFile_start_def Let_def)

lemma finish_fields [simp]:
  "files (finish sg ps w) = fst sg"
  "pc_key ` set (procs (finish sg ps w)) = pc_key ` set ps \<union> pending_keys (snd sg)"
  "issued (finish sg ps w) = issued w"
  "mediaDirectory (finish sg ps w) = mediaDirectory w"
  by (auto simp: finish_def split: seg_result.splits)

lemma keys_remove_nth:
  assumes "k < length xs"
  shows "h ` set xs - {h (xs ! k)} \<subseteq> h ` set (remove_nth k xs)"
  using set_remove_nth [OF assms] by auto

lemma media_step_resume:
  assumes "event_proc e = Some k" and "media_step ex e w = Some w'"
  obtains sg where "k < length (procs w)"
    and "resume ex (mediaDirectory w) (procs w ! k) e (files w) = Some sg"
    and "w' = finish sg (remove_nth k (procs w)) w"
  using assms by (cases e) (auto split: if_splits)

lemma media_inv_resume:
  assumes inv: "media_inv w" and st: "media_step ex e w = Some w'" and k: "event_proc e = Some k"
  shows "media_inv w'"
proof -
  from media_step_resume [OF k st] obtain sg where
    lt: "k < length (procs w)" and
    res: "resume ex (mediaDirectory w) (procs w ! k) e (files w) = Some sg" and
    w': "w' = finish sg (remove_nth k (procs w)) w" .
  from inv have d: "distinct (map file_id (files w))" by (simp add: media_inv_def)
  have r: "seg_respects (pc_key (procs w ! k)) (files w) sg" by (rule resume_respects [OF d res])
  have "unsynced_keys (fst sg) \<subseteq> (pc_key ` set (procs w) - {pc_key (procs w ! k)}) \<union> pending_keys (snd sg)"
    using r inv by (auto simp: seg_respects_def media_inv_def)
  also have "\<dots> \<subseteq> pc_key ` set (remove_nth k (procs w)) \<union> pending_keys (snd sg)"
    using keys_remove_nth [OF lt, of pc_key] by blast
  finally show ?thesis using r d w' by (simp add: media_inv_def seg_respects_def flip: distinct_map)
qed

lemma media_inv_step:
  assumes inv: "media_inv w" and st: "media_step ex e w = Some w'"
  shows "media_inv w'"
proof (cases e)
  case (CreateNewFile i p l)
  with st have "w' = finish (createNewFile_start ex i p l (files w)) (procs w) (w\<lparr>issued := issued w @ [l]\<rparr>)"
    by (simp split: if_splits)
  with inv createNewFile_start_seg [of "files w" ex i p l] show ?thesis
    by (auto simp: media_inv_def)
next
  case (SyncFile i sid p l)
  with st have "w' = finish (syncFile_start i sid p l (files w)) (procs w) (w\<lparr>issued := issued w @ [l]\<rparr>)"
    by (simp split: if_splits)
  with inv syncFile_start_seg [of "files w" i sid p l] show ?thesis
    by (auto simp: media_inv_def)
qed (auto intro: media_inv_resume [OF inv st])

subsection \<open>Lock keys: a segment never creates a key\<close>

lemma keys_UPDATE_status [simp]:
  "file_key ` set (UPDATE_FILE i (PatchStatus st) fs) = file_key ` set fs"
  by (metis list.set_map map_file_key_UPDATE_status)

lemma keys_commit_file: "file_key ` set (fst (commit_file file fs)) \<subseteq> file_key ` set fs"
  by (auto simp: commit_file_def UPDATE_FILE_def apply_patch_def validateSyncLock_key file_key_def)

lemma keys_give_up: "file_key ` set (fst (give_up file fs)) \<subseteq> file_key ` set fs"
  by (simp add: give_up_def)

lemma keys_check_loop: "file_key ` set (fst (check_loop ex file data ps fs)) \<subseteq> file_key ` set fs"
  by (induction ps) (simp_all add: start_download_def)

lemma resume_keys:
  "resume ex dir p e fs = Some sg \<Longrightarrow> file_key ` set (fst sg) \<subseteq> file_key ` set fs"
  by (cases p; cases e)
     (auto simp: createNewFile_uploaded_def syncFile_fetched_def syncFile_checked_def syncFile_downloaded_def Let_def
        simp del: check_loop.simps split: sum.splits if_splits
        intro: keys_give_up [THEN subsetD, OF imageI] keys_commit_file [THEN subsetD, OF imageI]
          keys_check_loop [THEN subsetD, OF imageI])

subsection \<open>A call whose lock was taken over\<close>

lemma give_up_stale: "\<not> validateSyncLock (file_id file) (syncLock file) fs \<Longrightarrow> give_up file fs = (fs, Done None)"
  by (simp add: give_up_def)

lemma commit_file_stale: "\<not> validateSyncLock (file_id file) (syncLock file) fs \<Longrightarrow> commit_file file fs = (fs, Done None)"
  by (simp add: commit_file_def)

lemma check_loop_stale:
  "\<not> validateSyncLock (file_id file) (syncLock file) fs \<Longrightarrow>
   fst (check_loop ex file data ps fs) = fs \<and> snd (check_loop ex file data ps fs) \<in> range Pending \<union> {Done None}"
  by (induction ps) (simp_all add: start_download_def)

lemma resume_stale_seg:
  assumes "\<not> validateSyncLock (file_id (pc_file p)) (syncLock (pc_file p)) fs"
    and "resume ex dir p e fs = Some sg"
  shows "fst sg = fs \<and> snd sg \<in> range Pending \<union> {Done None}"
  using assms check_loop_stale [of "pc_file p" fs]
  by (cases p; cases e)
     (auto simp: createNewFile_uploaded_def syncFile_fetched_def syncFile_checked_def syncFile_downloaded_def Let_def
        give_up_stale commit_file_stale simp del: check_loop.simps split: sum.splits)

lemma keys_INSERT_FILE: "file_key ` set (INSERT_FILE f fs) \<subseteq> insert (file_id f, syncLock f) (file_key ` set fs)"
  by (auto simp: INSERT_FILE_def file_key_def)

lemma media_step_issued: "media_step ex e w = Some w' \<Longrightarrow> set (issued w) \<subseteq> set (issued w')"
  by (cases e) (auto split: if_splits option.splits elim: media_step_resume [rotated])

lemma media_inv_initial: "media_inv (media_initial dir)"
  by (simp add: media_inv_def media_initial_def unsynced_keys_def)

lemma media_reachable_inv: "media_reachable w \<Longrightarrow> media_inv w"
  by (induction rule: media_reachable.induct) (auto intro: media_inv_initial media_inv_step)

lemma media_step_keys:
  assumes "media_step ex e w = Some w'"
  shows "file_key ` set (files w') \<subseteq> file_key ` set (files w) \<union>
           (case e of CreateNewFile i p l \<Rightarrow> {(i, l)} | SyncFile i sid p l \<Rightarrow> {(i, l)} | _ \<Rightarrow> {})"
proof (cases "event_proc e")
  case None
  with assms show ?thesis
    by (cases e) (auto simp: createNewFile_start_def syncFile_start_def Let_def split: if_splits
                   dest!: keys_INSERT_FILE [THEN subsetD, OF imageI])
next
  case (Some k)
  from media_step_resume [OF Some assms] obtain sg where
    r: "resume ex (mediaDirectory w) (procs w ! k) e (files w) = Some sg" and "w' = finish sg (remove_nth k (procs w)) w" .
  with resume_keys [OF r] show ?thesis by auto
qed


lemma media_inv_quiescent:
  "media_inv w \<Longrightarrow> procs w = [] \<Longrightarrow> globalSyncStatus (files w) = GlobalSynced"
  by (auto simp: media_inv_def globalSyncStatus_def list_ex_iff unsynced_keys_def)

subsection \<open>Every state can settle\<close>

lemma withRetry_all_fail: "withRetry (\<lambda>_. Inl x) = Inl x"
  by (simp add: withRetry_def retry_loop.simps)

lemma check_loop_nothing_exists: "check_loop (\<lambda>_. False) file data ps fs = start_download file data fs"
  by (induction ps) simp_all

lemma settle_step:
  assumes "procs w \<noteq> []"
  obtains w' where "media_step (\<lambda>_. False) (fail_event 0 (hd (procs w))) w = Some w'"
    and "sum_list (map pc_weight (procs w')) < sum_list (map pc_weight (procs w))"
proof -
  obtain p ps where ps: "procs w = p # ps" using assms by (cases "procs w") auto
  have "\<exists>w'. media_step (\<lambda>_. False) (fail_event 0 p) w = Some w' \<and>
          sum_list (map pc_weight (procs w')) < pc_weight p + sum_list (map pc_weight ps)"
    using ps
    by (cases p)
       (auto simp: withRetry_all_fail createNewFile_uploaded_def syncFile_fetched_def syncFile_checked_def
          syncFile_downloaded_def check_loop_nothing_exists give_up_def start_download_def
          finish_def remove_nth_def)
  with ps that show ?thesis by auto
qed

lemma media_can_settle:
  "media_reachable w \<Longrightarrow> \<exists>w'. media_run w w' \<and> media_reachable w' \<and> procs w' = []"
proof (induction "sum_list (map pc_weight (procs w))" arbitrary: w rule: less_induct)
  case less
  show ?case
  proof (cases "procs w = []")
    case True
    with less.prems show ?thesis by (blast intro: media_run.run_refl)
  next
    case False
    then obtain w1 where st: "media_step (\<lambda>_. False) (fail_event 0 (hd (procs w))) w = Some w1"
      and lt: "sum_list (map pc_weight (procs w1)) < sum_list (map pc_weight (procs w))"
      by (rule settle_step)
    have "media_reachable w1" using less.prems st by (rule media_reachable.step)
    from less.hyps [OF lt this] obtain w' where "media_run w1 w'" "media_reachable w'" "procs w' = []"
      by blast
    with st show ?thesis by (blast intro: media_run.run_step)
  qed
qed

lemma media_exec_reachable:
  "media_reachable w \<Longrightarrow> media_exec ex es w = Some w' \<Longrightarrow> media_reachable w'"
  by (induction es arbitrary: w) (auto split: option.splits intro: media_reachable.step)

lemma retry_loop_search:
  "retry_loop (int n) k ex =
     (case find (\<lambda>j. \<not> isl (ex j)) [k..<k + n + 1] of
        Some j \<Rightarrow> (ex j, Suc j) | None \<Rightarrow> (ex (k + n), k + n + 1))"
proof (induction n arbitrary: k)
  case 0
  then show ?case by (subst retry_loop.simps) (simp split: sum.split)
next
  case (Suc n)
  have upt: "[k..<k + Suc n + 1] = k # [Suc k..<Suc k + n + 1]" by (simp add: upt_conv_Cons)
  show ?case
  proof (cases "ex k")
    case (Inl e)
    then have "retry_loop (int (Suc n)) k ex = retry_loop (int n) (Suc k) ex"
      by (subst retry_loop.simps) simp
    also have "\<dots> = (case find (\<lambda>j. \<not> isl (ex j)) [Suc k..<Suc k + n + 1] of
        Some j \<Rightarrow> (ex j, Suc j) | None \<Rightarrow> (ex (Suc k + n), Suc k + n + 1))"
      by (rule Suc.IH)
    also have "\<dots> = (case find (\<lambda>j. \<not> isl (ex j)) [k..<k + Suc n + 1] of
        Some j \<Rightarrow> (ex j, Suc j) | None \<Rightarrow> (ex (k + Suc n), k + Suc n + 1))"
      unfolding upt using Inl by (simp del: upt_Suc split: option.split)
    finally show ?thesis .
  next
    case (Inr a)
    then show ?thesis unfolding upt by (subst retry_loop.simps) (simp del: upt_Suc)
  qed
qed

section \<open>Properties of the media backup service\<close>

text \<open>
  C14. A sync lock that no longer validates never validates again: once a newer
  \<open>createNewFile\<close> or \<open>syncFile\<close> call for the same file has replaced the stored
  entry, no later event, in any interleaving, brings the old lock back.
\<close>

theorem superseded_lock_stays_invalid:
  assumes "\<not> validateSyncLock i l (files w)" and "l \<in> set (issued w)" and "media_step ex e w = Some w'"
  shows "\<not> validateSyncLock i l (files w') \<and> l \<in> set (issued w')"
proof
  show "l \<in> set (issued w')" using assms(2) media_step_issued [OF assms(3)] by blast
  have fresh: "e = CreateNewFile i' p l' \<or> e = SyncFile i' sid p l' \<Longrightarrow> l' \<noteq> l" for i' p l' sid
    using assms(2,3) by (auto split: if_splits)
  show "\<not> validateSyncLock i l (files w')"
    using media_step_keys [OF assms(3)] assms(1) fresh
    by (cases e) (auto simp: validateSyncLock_key)
qed

theorem superseded_lock_stays_invalid_witness:
  "\<not> validateSyncLock ''f1'' ''lock-1'' (files (the (media_exec media_demo_exists media_demo_twice (media_initial ''/data/Media'')))) \<and>
   \<not> validateSyncLock ''f1'' ''lock-1''
       (files (the (media_exec media_demo_exists (media_demo_twice @ [UploadDone 0 (\<lambda>_. Inr 17)]) (media_initial ''/data/Media''))))"
proof -
  let ?w = "the (media_exec media_demo_exists media_demo_twice (media_initial ''/data/Media''))"
  let ?e = "UploadDone 0 (\<lambda>_. Inr (17::int))"
  have h1: "\<not> validateSyncLock ''f1'' ''lock-1'' (files ?w)" by code_simp
  have h2: "''lock-1'' \<in> set (issued ?w)" by code_simp
  have h3: "media_step media_demo_exists ?e ?w = Some (the (media_step media_demo_exists ?e ?w))" by code_simp
  have h4: "media_exec media_demo_exists (media_demo_twice @ [?e]) (media_initial ''/data/Media'') =
            media_step media_demo_exists ?e ?w" by code_simp
  from superseded_lock_stays_invalid [OF h1 h2 h3] h1 h3 h4 show ?thesis by simp
qed

text \<open>
  C15. When the promise awaited by a call settles after its sync lock was taken over, the
  call changes no stored file and returns \<open>null\<close> (or keeps waiting), whatever the
  network and the file system answer.
\<close>

theorem superseded_call_never_writes:
  assumes "media_step ex e w = Some w'" and "event_proc e = Some k"
    and "\<not> validateSyncLock (file_id (pc_file (procs w ! k))) (syncLock (pc_file (procs w ! k))) (files w)"
  shows "files w' = files w \<and> (returned w' = returned w \<or> returned w' = returned w @ [None])"
proof -
  from media_step_resume [OF assms(2,1)] obtain sg where
    r: "resume ex (mediaDirectory w) (procs w ! k) e (files w) = Some sg" and
    w': "w' = finish sg (remove_nth k (procs w)) w" .
  from resume_stale_seg [OF assms(3) r] w' show ?thesis
    by (auto simp: finish_def split: seg_result.split)
qed

theorem superseded_call_never_writes_witness:
  "files (the (media_exec media_demo_exists (media_demo_twice @ [UploadDone 0 (\<lambda>_. Inr 17)]) (media_initial ''/data/Media''))) =
   files (the (media_exec media_demo_exists media_demo_twice (media_initial ''/data/Media'')))"
proof -
  let ?w = "the (media_exec media_demo_exists media_demo_twice (media_initial ''/data/Media''))"
  let ?e = "UploadDone 0 (\<lambda>_. Inr (17::int))"
  have h1: "media_step media_demo_exists ?e ?w = Some (the (media_step media_demo_exists ?e ?w))" by code_simp
  have h2: "event_proc ?e = Some 0" by simp
  have h3: "\<not> validateSyncLock (file_id (pc_file (procs ?w ! 0))) (syncLock (pc_file (procs ?w ! 0))) (files ?w)"
    by code_simp
  have h4: "media_exec media_demo_exists (media_demo_twice @ [?e]) (media_initial ''/data/Media'') =
            media_step media_demo_exists ?e ?w" by code_simp
  from superseded_call_never_writes [OF h1 h2 h3] h4 show ?thesis by simp
qed

text \<open>
  C16. In every state reachable by any interleaving of calls and settlements, local ids
  are unique in the store, and every file that is not \<open>Synced\<close> is owned by a call
  still in flight that holds exactly its id and sync lock.
\<close>

theorem unsynced_file_has_pending_call:
  assumes "media_reachable w"
  shows "distinct (map file_id (files w)) \<and>
         (\<forall>f\<in>set (files w). status f \<noteq> Synced \<longrightarrow>
            (\<exists>p\<in>set (procs w). file_id (pc_file p) = file_id f \<and> syncLock (pc_file p) = syncLock f))"
  using media_reachable_inv [OF assms]
  by (fastforce simp: media_inv_def unsynced_keys_def file_key_def)

theorem unsynced_file_has_pending_call_witness:
  "media_reachable (the (media_exec media_demo_exists media_demo_twice (media_initial ''/data/Media''))) \<and>
   distinct (map file_id (files (the (media_exec media_demo_exists media_demo_twice (media_initial ''/data/Media'')))))"
proof -
  let ?w = "the (media_exec media_demo_exists media_demo_twice (media_initial ''/data/Media''))"
  have "media_exec media_demo_exists media_demo_twice (media_initial ''/data/Media'') = Some ?w" by code_simp
  then have r: "media_reachable ?w" by (rule media_exec_reachable [OF media_reachable.init])
  from unsynced_file_has_pending_call [OF r] r show ?thesis by simp
qed

text \<open>
  C17. When no call is in flight, \<open>globalSyncStatus\<close> is \<open>Synced\<close>: no file is left
  \<open>Checking\<close>, \<open>Uploading\<close> or \<open>Downloading\<close> by an interleaving of calls.
\<close>

theorem quiescent_all_synced:
  "media_reachable w \<Longrightarrow> procs w = [] \<Longrightarrow> globalSyncStatus (files w) = GlobalSynced"
  by (rule media_inv_quiescent [OF media_reachable_inv])

theorem quiescent_all_synced_witness:
  "globalSyncStatus (files (the (media_exec media_demo_exists (media_demo_twice @ media_demo_settle) (media_initial ''/data/Media'')))) = GlobalSynced"
proof -
  let ?w = "the (media_exec media_demo_exists (media_demo_twice @ media_demo_settle) (media_initial ''/data/Media''))"
  have "media_exec media_demo_exists (media_demo_twice @ media_demo_settle) (media_initial ''/data/Media'') = Some ?w" by code_simp
  then have r: "media_reachable ?w" by (rule media_exec_reachable [OF media_reachable.init])
  have p: "procs ?w = []" by code_simp
  show ?thesis by (rule quiescent_all_synced [OF r p])
qed

text \<open>
  C18. From every reachable state the service can settle: some sequence of settlements of
  the pending promises (here, every remaining attempt failing and no local copy existing)
  leads to a state with no call in flight and \<open>globalSyncStatus\<close> \<open>Synced\<close>. No
  interleaving leaves the service stuck in \<open>Syncing\<close>.
\<close>

theorem media_eventually_synced:
  assumes "media_reachable w"
  shows "\<exists>w'. media_run w w' \<and> procs w' = [] \<and> globalSyncStatus (files w') = GlobalSynced"
proof -
  from media_can_settle [OF assms] obtain w' where "media_run w w'" "media_reachable w'" "procs w' = []"
    by blast
  then show ?thesis using media_inv_quiescent [OF media_reachable_inv] by blast
qed

theorem media_eventually_synced_witness:
  "\<exists>w'. media_run (the (media_exec media_demo_exists media_demo_twice (media_initial ''/data/Media''))) w' \<and>
        procs w' = [] \<and> globalSyncStatus (files w') = GlobalSynced"
proof -
  let ?w = "the (media_exec media_demo_exists media_demo_twice (media_initial ''/data/Media''))"
  have "media_exec media_demo_exists media_demo_twice (media_initial ''/data/Media'') = Some ?w" by code_simp
  then have r: "media_reachable ?w" by (rule media_exec_reachable [OF media_reachable.init])
  show ?thesis by (rule media_eventually_synced [OF r])
qed

text \<open>
  C19. \<open>withRetry\<close> runs the executor at most three times and returns the first
  successful attempt, or the error of the third when all three fail: it equals a search
  for the first success among attempts 0, 1, 2.
\<close>

theorem withRetry_first_success:
  "withRetry ex = (case find (\<lambda>j. \<not> isl (ex j)) [0, 1, 2] of Some j \<Rightarrow> ex j | None \<Rightarrow> ex 2) \<and>
   snd (retry_loop 2 0 ex) \<le> 3"
proof -
  have "retry_loop (int 2) 0 ex =
     (case find (\<lambda>j. \<not> isl (ex j)) [0..<0 + 2 + 1] of Some j \<Rightarrow> (ex j, Suc j) | None \<Rightarrow> (ex (0 + 2), 0 + 2 + 1))"
    by (rule retry_loop_search)
  moreover have "[0..<0 + 2 + 1] = [0, 1, 2::nat]" by (simp add: upt_rec)
  moreover have "find P [0, 1, 2::nat] = Some j \<Longrightarrow> j \<le> 2" for P j
    by (auto split: if_splits)
  ultimately show ?thesis
    by (auto simp: withRetry_def numeral_2_eq_2 split: option.split)
qed

lemma withRetry_attempts_fail:
  assumes "\<forall>j<3. isl (r j)"
  shows "isl (withRetry r)"
proof -
  have "retry_loop (int 2) 0 r =
     (case find (\<lambda>j. \<not> isl (r j)) [0..<0 + 2 + 1] of Some j \<Rightarrow> (r j, Suc j) | None \<Rightarrow> (r (0 + 2), 0 + 2 + 1))"
    by (rule retry_loop_search)
  moreover have "[0..<0 + 2 + 1] = [0, 1, 2::nat]" by (simp add: upt_rec)
  ultimately show ?thesis using assms by (simp add: withRetry_def numeral_2_eq_2)
qed

lemma remove_nth_snoc [simp]: "remove_nth (length xs) (xs @ [x]) = xs"
  by (simp add: remove_nth_def)

text \<open>
  C20. Error path of \<open>createNewFile\<close>: in any state of the service, whatever other calls
  are in flight, a new upload whose three attempts all fail returns \<open>null\<close>, and leaves
  its file in the store marked \<open>Synced\<close> with no server id; \<open>globalSyncStatus\<close> then
  counts the file as synced although nothing was uploaded.
\<close>

theorem failed_upload_reported_synced:
  assumes "ex path" and "lock \<notin> set (issued w)" and "\<forall>j<3. isl (r j)"
  shows "\<exists>w''. media_exec ex [CreateNewFile i path lock, UploadDone (length (procs w)) r] w = Some w'' \<and>
     returned w'' = returned w @ [None] \<and> procs w'' = procs w \<and>
     files w'' = filter (\<lambda>g. file_id g \<noteq> i) (files w) @
        [\<lparr>file_id = i, serverId = None, file_name = path_base path, status = Synced, filePath = path, syncLock = lock\<rparr>] \<and>
     globalSyncStatus (files w'') = globalSyncStatus (filter (\<lambda>g. file_id g \<noteq> i) (files w))"
proof -
  let ?f = "\<lparr>file_id = i, serverId = None, file_name = path_base path, status = Uploading, filePath = path, syncLock = lock\<rparr>"
  let ?w1 = "w\<lparr>issued := issued w @ [lock], files := INSERT_FILE ?f (files w), procs := procs w @ [AwaitUpload ?f]\<rparr>"
  have s1: "media_step ex (CreateNewFile i path lock) w = Some ?w1"
    using assms(1,2) by (simp add: createNewFile_start_def finish_def Let_def)
  obtain e where e: "withRetry r = Inl e" using withRetry_attempts_fail [OF assms(3)] by (cases "withRetry r") auto
  have v: "validateSyncLock i lock (INSERT_FILE ?f (files w))"
    by (simp add: validateSyncLock_def INSERT_FILE_def)
  have u: "UPDATE_FILE i (PatchStatus Synced) (INSERT_FILE ?f (files w)) =
     filter (\<lambda>g. file_id g \<noteq> i) (files w) @ [?f\<lparr>status := Synced\<rparr>]"
    by (auto simp: UPDATE_FILE_def INSERT_FILE_def apply_patch_def intro!: map_idI)
  have s2: "media_step ex (UploadDone (length (procs w)) r) ?w1 =
     Some (?w1\<lparr>files := filter (\<lambda>g. file_id g \<noteq> i) (files w) @ [?f\<lparr>status := Synced\<rparr>], procs := procs w,
               returned := returned w @ [None]\<rparr>)"
    using e v u by (simp add: createNewFile_uploaded_def give_up_def finish_def)
  have g: "globalSyncStatus (xs @ [?f\<lparr>status := Synced\<rparr>]) = globalSyncStatus xs" for xs
    by (simp add: globalSyncStatus_def list_ex_append)
  show ?thesis using s1 s2 g by simp
qed

theorem failed_upload_reported_synced_witness:
  "\<exists>w''. media_exec media_demo_exists media_demo_failed_upload (media_initial ''/data/Media'') = Some w'' \<and>
     returned w'' = [None] \<and> globalSyncStatus (files w'') = GlobalSynced \<and>
     files w'' = [\<lparr>file_id = ''f1'', serverId = None, file_name = ''clip.mp4'', status = Synced,
                    filePath = ''/home/u/clip.mp4'', syncLock = ''lock-1''\<rparr>]"
proof -
  let ?w = "media_initial ''/data/Media''"
  have h: "media_demo_exists ''/home/u/clip.mp4''" "''lock-1'' \<notin> set (issued ?w)"
    "\<forall>j<3. isl ((\<lambda>_. Inl ''HTTP 503'') j :: string + int)"
    by (simp_all add: media_demo_exists_def media_initial_def)
  from failed_upload_reported_synced [where ex = media_demo_exists and path = "''/home/u/clip.mp4''"
      and lock = "''lock-1''" and w = ?w and r = "\<lambda>_. Inl ''HTTP 503''" and i = "''f1''", OF h]
  obtain w'' where
    x: "media_exec media_demo_exists [CreateNewFile ''f1'' ''/home/u/clip.mp4'' ''lock-1'',
          UploadDone (length (procs ?w)) (\<lambda>_. Inl ''HTTP 503'')] ?w = Some w''" and
    rest: "returned w'' = returned ?w @ [None] \<and> procs w'' = procs ?w \<and>
      files w'' = filter (\<lambda>g. file_id g \<noteq> ''f1'') (files ?w) @
        [\<lparr>file_id = ''f1'', serverId = None, file_name = path_base ''/home/u/clip.mp4'', status = Synced,
           filePath = ''/home/u/clip.mp4'', syncLock = ''lock-1''\<rparr>] \<and>
      globalSyncStatus (files w'') = globalSyncStatus (filter (\<lambda>g. file_id g \<noteq> ''f1'') (files ?w))"
    by blast
  have l: "media_demo_failed_upload = [CreateNewFile ''f1'' ''/home/u/clip.mp4'' ''lock-1'',
          UploadDone (length (procs ?w)) (\<lambda>_. Inl ''HTTP 503'')]"
    by (simp add: media_demo_failed_upload_def media_initial_def)
  from x have x': "media_exec media_demo_exists media_demo_failed_upload ?w = Some w''" by (simp only: l)
  have b: "path_base ''/home/u/clip.mp4'' = ''clip.mp4''" by (simp add: path_base_def)
  from x' rest show ?thesis by (simp add: media_initial_def b globalSyncStatus_def)
qed


text \<open>The status test accepts exactly the 2xx codes.\<close>

lemma status_ok_range: "status_ok code \<longleftrightarrow> 200 \<le> code \<and> code < 300"
  unfolding status_ok_def by linarith

text \<open>A request that fails without a response leaves the upload or the metadata fetch
  pending for good, so the file stays in its Uploading or Checking state; any response
  settles it unless a 2xx body is not JSON.\<close>

lemma request_settles_iff:
  "request_settlement (request_callback parse res) = None \<longleftrightarrow>
   (case res of None \<Rightarrow> True | Some (HttpResponse code body) \<Rightarrow> status_ok code \<and> parse body = None)"
  by (auto simp: request_callback_def request_settlement_def split: option.splits http_response.splits)

lemma upload_without_response_never_settles:
  "uploadFile_settlement parse_id None = None \<and> getFileData_settlement parse None = None"
  by (simp add: uploadFile_settlement_def getFileData_settlement_def request_callback_def request_settlement_def)

lemma uploadFile_settlement_response:
  "uploadFile_settlement (\<lambda>b. if b = ''{id:17}'' then Some 17 else None) (Some (HttpResponse 201 ''{id:17}'')) = Some (Inr 17) \<and>
   uploadFile_settlement parse_id (Some (HttpResponse 503 b)) = Some (Inl ''HTTP 503'')"
  by (simp add: uploadFile_settlement_def request_callback_def request_settlement_def status_ok_def int_str_def
                nat_str.simps[of 503] nat_str.simps[of 50] nat_str.simps[of 5]) code_simp

end
