(* ===== verification/Streaming.thy ===== *)
theory Streaming
  imports Prelude
begin

text \<open>
  The streaming and recording outputs: \<open>StreamingService\<close> (src/app/services/selection/
  selection-api.ts, lines 177--499 of the concatenated file, a copy of
  services/streaming/streaming.ts). The service never changes its status on a user action:
  \<open>toggleStreaming\<close> and \<open>toggleRecording\<close> only call into the native OBS module, and
  the status changes when OBS answers with an output signal (\<open>handleOBSOutputSignal\<close>).
  Calls into collaborators (the OBS module, the power-save blocker of Electron, the
  \<open>confirm\<close>/\<open>alert\<close> dialogs, usage statistics, the two status \<open>Subject\<close>s) are
  recorded in order in an effect log. The answers of the environment (what the user answers
  to \<open>confirm\<close>, the id the blocker returns, the clock) are parameters.
  The settings read here are the \<open>General\<close> and \<open>Advanced\<close> groups of
  \<open>ISettingsState\<close> (src/unnamed/part_002, lines 216--241).
\<close>

section \<open>Data\<close>

datatype EStreamingState =
  StreamingOffline | StreamingStarting | StreamingLive | StreamingReconnecting | StreamingEnding

datatype ERecordingState = RecordingOffline | RecordingStarting | RecordingRecording | RecordingStopping

datatype EOBSOutputType = OutputStreaming | OutputRecording

datatype EOBSOutputSignal =
  SignalStarting | SignalStart | SignalStopping | SignalStop | SignalReconnect | SignalReconnectSuccess

text \<open>The native result codes \<open>EOutputCode\<close> (services/obs-api, the values of libobs' \<open>OBS_OUTPUT_*\<close>).\<close>

datatype EOutputCode = Success | BadPath | ConnectFailed | InvalidStream | Error | Disconnected
  | Unsupported | NoSpace

fun output_code_value :: "EOutputCode \<Rightarrow> int" where
  "output_code_value Success = 0"
| "output_code_value BadPath = -1"
| "output_code_value ConnectFailed = -2"
| "output_code_value InvalidStream = -3"
| "output_code_value Error = -4"
| "output_code_value Disconnected = -5"
| "output_code_value Unsupported = -6"
| "output_code_value NoSpace = -7"

record IOBSOutputSignalInfo =
  info_type :: EOBSOutputType
  info_signal :: EOBSOutputSignal
  info_code :: int
  info_error :: string

record general_settings =
  KeepRecordingWhenStreamStops :: bool
  RecordWhenStreaming :: bool
  WarnBeforeStartingStream :: bool
  WarnBeforeStoppingStream :: bool

record advanced_settings =
  DelayEnable :: bool
  DelaySec :: int

datatype streaming_effect =
    ObsStartStreaming | ObsStopStreaming bool | ObsStartRecording | ObsStopRecording
  | PowerSaveStart | PowerSaveStop int
  | ConfirmDialog string | AlertDialog string
  | StreamingStatusChange EStreamingState | RecordingStatusChange ERecordingState
  | UsageEvent string | ShowWindow string

text \<open>Times are milliseconds since the epoch (\<open>new Date().toISOString()\<close> of the clock).\<close>

record IStreamingServiceState =
  streamingStatus :: EStreamingState
  streamingStatusTime :: int
  recordingStatus :: ERecordingState
  recordingStatusTime :: int

record streaming_service = IStreamingServiceState +
  powerSaveId :: "int option"
  effects :: "streaming_effect list"

definition streaming_initial :: "int \<Rightarrow> streaming_service" where
  "streaming_initial t = \<lparr>streamingStatus = StreamingOffline, streamingStatusTime = t,
     recordingStatus = RecordingOffline, recordingStatusTime = t, powerSaveId = None, effects = []\<rparr>"

definition perform :: "streaming_effect \<Rightarrow> 'a streaming_service_scheme \<Rightarrow> 'a streaming_service_scheme" where
  "perform e s = s\<lparr>effects := effects s @ [e]\<rparr>"

section \<open>Getters\<close>

definition isStreaming :: "'a IStreamingServiceState_scheme \<Rightarrow> bool" where
  "isStreaming s \<longleftrightarrow> streamingStatus s \<noteq> StreamingOffline"

definition isRecording :: "'a IStreamingServiceState_scheme \<Rightarrow> bool" where
  "isRecording s \<longleftrightarrow> recordingStatus s \<noteq> RecordingOffline"

text \<open>\<open>if (this.powerSaveId)\<close>: \<open>undefined\<close> and \<open>0\<close> are false in JavaScript.\<close>

definition power_save_truthy :: "int option \<Rightarrow> bool" where
  "power_save_truthy p \<longleftrightarrow> (case p of None \<Rightarrow> False | Some i \<Rightarrow> i \<noteq> 0)"

text \<open>
  \<open>delaySecondsRemaining\<close>: \<open>moment().unix()\<close> and \<open>moment(time).unix()\<close> are whole
  seconds (milliseconds divided by 1000, rounded down).
\<close>

definition delaySecondsRemaining :: "advanced_settings \<Rightarrow> int \<Rightarrow> 'a IStreamingServiceState_scheme \<Rightarrow> int" where
  "delaySecondsRemaining adv now s =
     (if \<not> DelayEnable adv then 0
      else if streamingStatus s = StreamingStarting \<or> streamingStatus s = StreamingEnding
      then max (DelaySec adv - (now div 1000 - streamingStatusTime s div 1000)) 0
      else 0)"

section \<open>User actions\<close>

definition toggleRecording :: "'a streaming_service_scheme \<Rightarrow> 'a streaming_service_scheme" where
  "toggleRecording s =
     (if recordingStatus s = RecordingRecording then perform ObsStopRecording s
      else if recordingStatus s = RecordingOffline then perform ObsStartRecording s
      else s)"

text \<open>
  \<open>toggleStreaming\<close>: \<open>ok\<close> is the user's answer to \<open>confirm\<close>, asked only when the
  corresponding warning setting is on; \<open>blocker\<close> is the id returned by
  \<open>powerSaveBlocker.start\<close>.
\<close>

definition confirm_start_text :: string where
  "confirm_start_text = ''Are you sure you want to start streaming?''"

definition confirm_stop_text :: string where
  "confirm_stop_text = ''Are you sure you want to stop streaming?''"

definition start_branch :: "general_settings \<Rightarrow> bool \<Rightarrow> int \<Rightarrow> 'a streaming_service_scheme \<Rightarrow> 'a streaming_service_scheme" where
  "start_branch g ok blocker s =
     (let s0 = (if WarnBeforeStartingStream g then perform (ConfirmDialog confirm_start_text) s else s)
      in if WarnBeforeStartingStream g \<and> \<not> ok then s0
         else
           (let s1 = perform ObsStartStreaming (perform PowerSaveStart (s0\<lparr>powerSaveId := Some blocker\<rparr>))
            in if RecordWhenStreaming g \<and> recordingStatus s1 = RecordingOffline then toggleRecording s1 else s1))"

definition stop_branch :: "general_settings \<Rightarrow> bool \<Rightarrow> 'a streaming_service_scheme \<Rightarrow> 'a streaming_service_scheme" where
  "stop_branch g ok s =
     (let s0 = (if WarnBeforeStoppingStream g then perform (ConfirmDialog confirm_stop_text) s else s)
      in if WarnBeforeStoppingStream g \<and> \<not> ok then s0
         else
           (let s1 = (case powerSaveId s0 of
                        Some i \<Rightarrow> if power_save_truthy (Some i) then perform (PowerSaveStop i) s0 else s0
                      | None \<Rightarrow> s0);
                s2 = perform (ObsStopStreaming False) s1
            in if \<not> KeepRecordingWhenStreamStops g \<and> recordingStatus s2 = RecordingRecording
               then toggleRecording s2 else s2))"

definition toggleStreaming :: "general_settings \<Rightarrow> bool \<Rightarrow> int \<Rightarrow> 'a streaming_service_scheme \<Rightarrow> 'a streaming_service_scheme" where
  "toggleStreaming g ok blocker s =
     (if streamingStatus s = StreamingOffline then start_branch g ok blocker s
      else if streamingStatus s = StreamingStarting \<or> streamingStatus s = StreamingLive then stop_branch g ok s
      else if streamingStatus s = StreamingEnding then perform (ObsStopStreaming True) s
      else s)"

definition showEditStreamInfo :: "'a streaming_service_scheme \<Rightarrow> 'a streaming_service_scheme" where
  "showEditStreamInfo s = perform (ShowWindow ''EditStreamInfo'') s"

section \<open>Output signals from OBS\<close>

definition SET_STREAMING_STATUS :: "EStreamingState \<Rightarrow> int option \<Rightarrow> 'a IStreamingServiceState_scheme \<Rightarrow> 'a IStreamingServiceState_scheme" where
  "SET_STREAMING_STATUS st t s =
     s\<lparr>streamingStatus := st, streamingStatusTime := (case t of None \<Rightarrow> streamingStatusTime s | Some x \<Rightarrow> x)\<rparr>"

definition SET_RECORDING_STATUS :: "ERecordingState \<Rightarrow> int \<Rightarrow> 'a IStreamingServiceState_scheme \<Rightarrow> 'a IStreamingServiceState_scheme" where
  "SET_RECORDING_STATUS st t s = s\<lparr>recordingStatus := st, recordingStatusTime := t\<rparr>"

declare SET_STREAMING_STATUS_def [mutation_defs] SET_RECORDING_STATUS_def [mutation_defs]

definition set_streaming :: "EStreamingState \<Rightarrow> int option \<Rightarrow> 'a streaming_service_scheme \<Rightarrow> 'a streaming_service_scheme" where
  "set_streaming st t s = perform (StreamingStatusChange st) (SET_STREAMING_STATUS st t s)"

definition set_recording :: "ERecordingState \<Rightarrow> int \<Rightarrow> 'a streaming_service_scheme \<Rightarrow> 'a streaming_service_scheme" where
  "set_recording st t s = perform (RecordingStatusChange st) (SET_RECORDING_STATUS st t s)"

fun streaming_signal :: "EOBSOutputSignal \<Rightarrow> int \<Rightarrow> 'a streaming_service_scheme \<Rightarrow> 'a streaming_service_scheme" where
  "streaming_signal SignalStart now s = perform (UsageEvent ''stream_start'') (set_streaming StreamingLive (Some now) s)"
| "streaming_signal SignalStarting now s = set_streaming StreamingStarting (Some now) s"
| "streaming_signal SignalStop now s = perform (UsageEvent ''stream_end'') (set_streaming StreamingOffline (Some now) s)"
| "streaming_signal SignalStopping now s = set_streaming StreamingEnding (Some now) s"
| "streaming_signal SignalReconnect now s = set_streaming StreamingReconnecting None s"
| "streaming_signal SignalReconnectSuccess now s = set_streaming StreamingLive None s"

fun recording_signal :: "EOBSOutputSignal \<Rightarrow> int \<Rightarrow> 'a streaming_service_scheme \<Rightarrow> 'a streaming_service_scheme" where
  "recording_signal SignalStart now s = set_recording RecordingRecording now s"
| "recording_signal SignalStarting now s = set_recording RecordingStarting now s"
| "recording_signal SignalStop now s = set_recording RecordingOffline now s"
| "recording_signal SignalStopping now s = set_recording RecordingStopping now s"
| "recording_signal SignalReconnect now s = s"
| "recording_signal SignalReconnectSuccess now s = s"

definition output_error_text :: "int \<Rightarrow> string \<Rightarrow> string" where
  "output_error_text c err =
     (if c = output_code_value BadPath then
        ''Invalid Path or Connection URL.  Please check your settings to confirm that they are valid.''
      else if c = output_code_value ConnectFailed then
        ''Failed to connect to the streaming server.  Please check your internet connection.''
      else if c = output_code_value Disconnected then
        ''Disconnected from the streaming server.  Please check your internet connection.''
      else if c = output_code_value InvalidStream then
        ''Could not access the specified channel or stream key, please double-check your stream key.  '' @
        ''If it is correct, there may be a problem connecting to the server.''
      else if c = output_code_value NoSpace then
        ''There is not sufficient disk space to continue recording.''
      else if c = output_code_value Unsupported then
        ''The output format is either unsupported or does not support more than one audio track.  '' @
        ''Please check your settings and try again.''
      else if c = output_code_value Error then
        ''An unexpected error occurred: '' @ err
      else [])"

definition handleOBSOutputSignal :: "IOBSOutputSignalInfo \<Rightarrow> int \<Rightarrow> 'a streaming_service_scheme \<Rightarrow> 'a streaming_service_scheme" where
  "handleOBSOutputSignal info now s =
     (let s1 = (case info_type info of
                  OutputStreaming \<Rightarrow> streaming_signal (info_signal info) now s
                | OutputRecording \<Rightarrow> recording_signal (info_signal info) now s)
      in if info_code info \<noteq> 0 then perform (AlertDialog (output_error_text (info_code info) (info_error info))) s1
         else s1)"

section \<open>The service as a machine\<close>

text \<open>
  The events the service reacts to: the two user actions (from the start button, the
  footer, the edit-stream-info window and the deprecated start/stop aliases) and the
  signals OBS sends, each with what the environment answers.
\<close>

datatype streaming_input =
    UserToggleStreaming general_settings bool int
  | UserToggleRecording
  | ObsSignal IOBSOutputSignalInfo int

fun streaming_step :: "streaming_input \<Rightarrow> 'a streaming_service_scheme \<Rightarrow> 'a streaming_service_scheme" where
  "streaming_step (UserToggleStreaming g ok b) s = toggleStreaming g ok b s"
| "streaming_step UserToggleRecording s = toggleRecording s"
| "streaming_step (ObsSignal info now) s = handleOBSOutputSignal info now s"

text \<open>
  What a subscriber of \<open>streamingStatusChange\<close> / \<open>recordingStatusChange\<close> that saw
  every event since start-up believes the status to be.
\<close>

definition observed_streaming :: "streaming_effect list \<Rightarrow> EStreamingState" where
  "observed_streaming es =
     foldl (\<lambda>st e. case e of StreamingStatusChange x \<Rightarrow> x | _ \<Rightarrow> st) StreamingOffline es"

definition observed_recording :: "streaming_effect list \<Rightarrow> ERecordingState" where
  "observed_recording es =
     foldl (\<lambda>st e. case e of RecordingStatusChange x \<Rightarrow> x | _ \<Rightarrow> st) RecordingOffline es"

definition status_observed :: "'a streaming_service_scheme \<Rightarrow> bool" where
  "status_observed s \<longleftrightarrow>
     observed_streaming (effects s) = streamingStatus s \<and> observed_recording (effects s) = recordingStatus s"

inductive streaming_reachable :: "streaming_service \<Rightarrow> bool" where
  init: "streaming_reachable (streaming_initial t)"
| step: "streaming_reachable s \<Longrightarrow> streaming_reachable (streaming_step i s)"

fun is_user_action :: "streaming_input \<Rightarrow> bool" where
  "is_user_action (ObsSignal _ _) = False"
| "is_user_action _ = True"

text \<open>
  A run of the service: the user starts a stream (no warnings, record when streaming,
  power-save blocker id 7), OBS reports the stream and the recording as started, the user
  stops the stream.
\<close>

definition demo_settings :: general_settings where
  "demo_settings = \<lparr>KeepRecordingWhenStreamStops = False, RecordWhenStreaming = True,
     WarnBeforeStartingStream = False, WarnBeforeStoppingStream = False\<rparr>"

definition demo_signal :: "EOBSOutputType \<Rightarrow> EOBSOutputSignal \<Rightarrow> IOBSOutputSignalInfo" where
  "demo_signal t sg = \<lparr>info_type = t, info_signal = sg, info_code = 0, info_error = []\<rparr>"

definition streaming_demo_inputs :: "int \<Rightarrow> streaming_input list" where
  "streaming_demo_inputs b =
     [UserToggleStreaming demo_settings True b,
      ObsSignal (demo_signal OutputStreaming SignalStarting) 1000,
      ObsSignal (demo_signal OutputStreaming SignalStart) 2000,
      ObsSignal (demo_signal OutputRecording SignalStart) 2100,
      UserToggleStreaming demo_settings True b]"

text \<open>The id \<open>powerSaveBlocker.start\<close> answered, when the event is a toggle.\<close>

fun blocker_answer :: "streaming_input \<Rightarrow> int option" where
  "blocker_answer (UserToggleStreaming g ok b) = Some b"
| "blocker_answer _ = None"

definition no_release :: "'a streaming_service_scheme \<Rightarrow> bool" where
  "no_release s \<longleftrightarrow> powerSaveId s \<in> {None, Some 0} \<and> (\<forall>i. PowerSaveStop i \<notin> set (effects s))"

section \<open>Lemmas\<close>

lemma perform_fields [simp]:
  "streamingStatus (perform e s) = streamingStatus s"
  "recordingStatus (perform e s) = recordingStatus s"
  "streamingStatusTime (perform e s) = streamingStatusTime s"
  "recordingStatusTime (perform e s) = recordingStatusTime s"
  "powerSaveId (perform e s) = powerSaveId s"
  "effects (perform e s) = effects s @ [e]"
  by (simp_all add: perform_def)

lemma toggleRecording_fields [simp]:
  "streamingStatus (toggleRecording s) = streamingStatus s"
  "recordingStatus (toggleRecording s) = recordingStatus s"
  "streamingStatusTime (toggleRecording s) = streamingStatusTime s"
  "recordingStatusTime (toggleRecording s) = recordingStatusTime s"
  "powerSaveId (toggleRecording s) = powerSaveId s"
  by (simp_all add: toggleRecording_def)

lemma toggleRecording_effects:
  "effects (toggleRecording s) =
     effects s @ (if recordingStatus s = RecordingRecording then [ObsStopRecording]
                  else if recordingStatus s = RecordingOffline then [ObsStartRecording] else [])"
  by (simp add: toggleRecording_def)

lemma start_branch_fields [simp]:
  "streamingStatus (start_branch g ok b s) = streamingStatus s"
  "recordingStatus (start_branch g ok b s) = recordingStatus s"
  "streamingStatusTime (start_branch g ok b s) = streamingStatusTime s"
  "recordingStatusTime (start_branch g ok b s) = recordingStatusTime s"
  by (simp_all add: start_branch_def Let_def)

lemma stop_branch_fields [simp]:
  "streamingStatus (stop_branch g ok s) = streamingStatus s"
  "recordingStatus (stop_branch g ok s) = recordingStatus s"
  "streamingStatusTime (stop_branch g ok s) = streamingStatusTime s"
  "recordingStatusTime (stop_branch g ok s) = recordingStatusTime s"
  by (simp_all add: stop_branch_def Let_def split: option.splits)

lemma toggleStreaming_fields [simp]:
  "streamingStatus (toggleStreaming g ok b s) = streamingStatus s"
  "recordingStatus (toggleStreaming g ok b s) = recordingStatus s"
  "streamingStatusTime (toggleStreaming g ok b s) = streamingStatusTime s"
  "recordingStatusTime (toggleStreaming g ok b s) = recordingStatusTime s"
  by (simp_all add: toggleStreaming_def)

lemma observed_streaming_append [simp]:
  "observed_streaming (es @ fs) =
     foldl (\<lambda>st e. case e of StreamingStatusChange x \<Rightarrow> x | _ \<Rightarrow> st) (observed_streaming es) fs"
  by (simp add: observed_streaming_def)

lemma observed_recording_append [simp]:
  "observed_recording (es @ fs) =
     foldl (\<lambda>st e. case e of RecordingStatusChange x \<Rightarrow> x | _ \<Rightarrow> st) (observed_recording es) fs"
  by (simp add: observed_recording_def)

lemma observed_toggleRecording [simp]:
  "observed_streaming (effects (toggleRecording s)) = observed_streaming (effects s)"
  "observed_recording (effects (toggleRecording s)) = observed_recording (effects s)"
  by (simp_all add: toggleRecording_def)

lemma observed_toggleStreaming [simp]:
  "observed_streaming (effects (toggleStreaming g ok b s)) = observed_streaming (effects s)"
  "observed_recording (effects (toggleStreaming g ok b s)) = observed_recording (effects s)"
  by (simp_all add: toggleStreaming_def start_branch_def stop_branch_def Let_def split: option.splits)

lemma status_observed_step:
  "status_observed s \<Longrightarrow> status_observed (streaming_step i s)"
proof (cases i)
  case (ObsSignal info now)
  moreover assume "status_observed s"
  ultimately show ?thesis
    by (cases "info_type info"; cases "info_signal info")
       (auto simp: status_observed_def handleOBSOutputSignal_def Let_def set_streaming_def
          set_recording_def mutation_defs)
qed (simp_all add: status_observed_def)

lemma streaming_reachable_fold:
  "streaming_reachable s \<Longrightarrow> streaming_reachable (fold streaming_step is s)"
  by (induction "is" arbitrary: s) (auto intro: streaming_reachable.step)

lemma status_observed_initial: "status_observed (streaming_initial t)"
  by (simp add: status_observed_def streaming_initial_def observed_streaming_def observed_recording_def)

text \<open>
  C6. In every reachable state of the streaming service, the streaming and recording
  statuses held in the store equal the last value announced on
  \<open>streamingStatusChange\<close> / \<open>recordingStatusChange\<close> (Offline when nothing was
  announced): subscribers of the subjects never miss a status change.
\<close>

theorem streaming_status_announced:
  "streaming_reachable s \<Longrightarrow> status_observed s"
  by (induction rule: streaming_reachable.induct) (simp_all add: status_observed_step status_observed_initial)

theorem streaming_status_announced_witness:
  "streaming_reachable (fold streaming_step (streaming_demo_inputs 7) (streaming_initial 0)) \<and>
   status_observed (fold streaming_step (streaming_demo_inputs 7) (streaming_initial 0))"
proof
  show reach: "streaming_reachable (fold streaming_step (streaming_demo_inputs 7) (streaming_initial 0))"
    by (rule streaming_reachable_fold [OF streaming_reachable.init])
  show "status_observed (fold streaming_step (streaming_demo_inputs 7) (streaming_initial 0))"
    by (rule streaming_status_announced [OF reach])
qed

text \<open>
  C7. The user actions (toggling streaming, toggling recording) never change the
  streaming or recording status or their timestamps: only OBS output signals do.
\<close>

theorem user_actions_keep_status:
  "is_user_action i \<Longrightarrow>
   streamingStatus (streaming_step i s) = streamingStatus s \<and>
   streamingStatusTime (streaming_step i s) = streamingStatusTime s \<and>
   recordingStatus (streaming_step i s) = recordingStatus s \<and>
   recordingStatusTime (streaming_step i s) = recordingStatusTime s"
  by (cases i) simp_all

theorem user_actions_keep_status_witness:
  "is_user_action (UserToggleStreaming demo_settings True 7) \<and>
   streamingStatus (streaming_step (UserToggleStreaming demo_settings True 7) (streaming_initial 0)) = StreamingOffline"
proof -
  have h: "is_user_action (UserToggleStreaming demo_settings True 7)" by simp
  from user_actions_keep_status [OF h, of "streaming_initial 0"] h show ?thesis
    by (simp add: streaming_initial_def)
qed

text \<open>
  C8. \<open>toggleStreaming\<close> from Offline: when the start warning is on, a confirm dialog
  is shown first, and a declined confirm ends the call; otherwise the power-save blocker is
  started, OBS is told to start streaming and, when recording-when-streaming is on and the
  recorder is offline, to start recording, in that order.
\<close>

theorem toggleStreaming_start_effects:
  assumes "streamingStatus s = StreamingOffline"
  shows "effects (toggleStreaming g ok b s) =
    effects s @ (if WarnBeforeStartingStream g then [ConfirmDialog confirm_start_text] else []) @
    (if WarnBeforeStartingStream g \<and> \<not> ok then []
     else [PowerSaveStart, ObsStartStreaming] @
          (if RecordWhenStreaming g \<and> recordingStatus s = RecordingOffline then [ObsStartRecording] else []))"
  using assms by (simp add: toggleStreaming_def start_branch_def Let_def toggleRecording_effects)

theorem toggleStreaming_start_effects_witness:
  "effects (toggleStreaming demo_settings True 7 (streaming_initial 0)) =
     [PowerSaveStart, ObsStartStreaming, ObsStartRecording]"
  using toggleStreaming_start_effects [of "streaming_initial 0" demo_settings True 7]
  by (simp add: streaming_initial_def demo_settings_def)

text \<open>
  C9. \<open>toggleStreaming\<close> while Starting or Live: after the optional confirm, the
  power-save blocker is released when its id is truthy (present and non-zero), OBS is told
  to stop streaming without forcing, and the recording is stopped unless keep-recording is
  on or nothing is being recorded.
\<close>

theorem toggleStreaming_stop_effects:
  assumes "streamingStatus s = StreamingStarting \<or> streamingStatus s = StreamingLive"
  shows "effects (toggleStreaming g ok b s) =
    effects s @ (if WarnBeforeStoppingStream g then [ConfirmDialog confirm_stop_text] else []) @
    (if WarnBeforeStoppingStream g \<and> \<not> ok then []
     else (case powerSaveId s of Some i \<Rightarrow> if i \<noteq> 0 then [PowerSaveStop i] else [] | None \<Rightarrow> []) @
          [ObsStopStreaming False] @
          (if \<not> KeepRecordingWhenStreamStops g \<and> recordingStatus s = RecordingRecording then [ObsStopRecording] else []))"
  using assms by (auto simp: toggleStreaming_def stop_branch_def Let_def toggleRecording_effects power_save_truthy_def split: option.splits)

theorem toggleStreaming_stop_effects_witness:
  "effects (toggleStreaming demo_settings True 9
     ((streaming_initial 0)\<lparr>streamingStatus := StreamingLive, recordingStatus := RecordingRecording,
        powerSaveId := Some 7\<rparr>)) = [PowerSaveStop 7, ObsStopStreaming False, ObsStopRecording]"
  using toggleStreaming_stop_effects [of "(streaming_initial 0)\<lparr>streamingStatus := StreamingLive,
     recordingStatus := RecordingRecording, powerSaveId := Some 7\<rparr>" demo_settings True 9]
  by (simp add: streaming_initial_def demo_settings_def)

text \<open>
  C10. While the stream is Reconnecting, \<open>toggleStreaming\<close> does nothing: no dialog, no
  call into OBS, no state change. The start button, the footer and the deprecated
  \<open>stopStreaming\<close> alias cannot end a stream that is reconnecting.
\<close>

theorem toggleStreaming_reconnecting:
  "streamingStatus s = StreamingReconnecting \<Longrightarrow> toggleStreaming g ok b s = s"
  by (simp add: toggleStreaming_def)

theorem toggleStreaming_reconnecting_witness:
  "toggleStreaming demo_settings True 7 ((streaming_initial 0)\<lparr>streamingStatus := StreamingReconnecting\<rparr>) =
     (streaming_initial 0)\<lparr>streamingStatus := StreamingReconnecting\<rparr>"
  by (rule toggleStreaming_reconnecting) simp

text \<open>
  C11. The stream-delay countdown is never negative and never exceeds the configured delay
  (or 0 when a negative delay is configured), as long as the clock has not gone back
  behind the last status change.
\<close>

theorem delaySecondsRemaining_bounds:
  assumes "streamingStatusTime s \<le> now"
  shows "0 \<le> delaySecondsRemaining adv now s \<and> delaySecondsRemaining adv now s \<le> max 0 (DelaySec adv)"
proof -
  have "streamingStatusTime s div 1000 \<le> now div 1000" using assms by (rule zdiv_mono1) simp
  then show ?thesis by (auto simp: delaySecondsRemaining_def)
qed

theorem delaySecondsRemaining_bounds_witness:
  "0 \<le> delaySecondsRemaining \<lparr>DelayEnable = True, DelaySec = 20\<rparr> 5500
          ((streaming_initial 1000)\<lparr>streamingStatus := StreamingStarting\<rparr>) \<and>
   delaySecondsRemaining \<lparr>DelayEnable = True, DelaySec = 20\<rparr> 5500
          ((streaming_initial 1000)\<lparr>streamingStatus := StreamingStarting\<rparr>) = 16"
  using delaySecondsRemaining_bounds [of "(streaming_initial 1000)\<lparr>streamingStatus := StreamingStarting\<rparr>" 5500
          "\<lparr>DelayEnable = True, DelaySec = 20\<rparr>"]
  by (simp add: streaming_initial_def delaySecondsRemaining_def)

lemma handle_signal_effects_prefix:
  "\<exists>es. effects (streaming_signal sg now s) = effects s @ es \<and> AlertDialog t \<notin> set es"
  "\<exists>es. effects (recording_signal sg now s) = effects s @ es \<and> AlertDialog t \<notin> set es"
  by (cases sg; simp add: set_streaming_def set_recording_def mutation_defs)+

lemma output_error_text_empty_iff:
  "output_error_text c err = [] \<longleftrightarrow> c \<notin> {-7..-1}"
proof -
  have "c \<in> {-7..-1} \<longleftrightarrow> c \<in> {-1, -2, -3, -4, -5, -6, -7}" by auto
  then show ?thesis by (auto simp: output_error_text_def)
qed

text \<open>
  C12. An OBS output signal with a non-zero code raises exactly one alert, after the
  status update, and its text is empty exactly when the code is none of the seven known
  failure codes; a signal with code 0 raises no alert.
\<close>

theorem output_signal_alert:
  "\<exists>es. effects (handleOBSOutputSignal info now s) =
     effects s @ es @ (if info_code info \<noteq> 0 then [AlertDialog (output_error_text (info_code info) (info_error info))] else []) \<and>
     (\<forall>t. AlertDialog t \<notin> set es) \<and>
     (output_error_text (info_code info) (info_error info) = [] \<longleftrightarrow> info_code info \<notin> {-7..-1})"
proof -
  note etext = output_error_text_empty_iff
  show ?thesis
  proof (cases "info_type info")
    case OutputStreaming
    then show ?thesis using etext by (cases "info_signal info"; simp add: handleOBSOutputSignal_def Let_def set_streaming_def mutation_defs)
  next
    case OutputRecording
    then show ?thesis using etext by (cases "info_signal info"; simp add: handleOBSOutputSignal_def Let_def set_recording_def mutation_defs)
  qed
qed

theorem output_signal_alert_witness:
  "output_error_text (-5) [] \<noteq> [] \<and> output_error_text 3 [] = [] \<and>
   effects (handleOBSOutputSignal \<lparr>info_type = OutputStreaming, info_signal = SignalStop, info_code = 3, info_error = []\<rparr>
      2000 (streaming_initial 0)) =
     [StreamingStatusChange StreamingOffline, UsageEvent ''stream_end'', AlertDialog []]"
  using output_signal_alert [of "\<lparr>info_type = OutputStreaming, info_signal = SignalStop, info_code = 3, info_error = []\<rparr>"
      2000 "streaming_initial 0"]
  by (simp add: output_error_text_def handleOBSOutputSignal_def set_streaming_def mutation_defs streaming_initial_def)

lemma no_release_toggleRecording [simp]: "no_release (toggleRecording s) = no_release s"
  by (auto simp: no_release_def toggleRecording_effects)

lemma signal_power_save:
  "powerSaveId (handleOBSOutputSignal info now s) = powerSaveId s"
  "PowerSaveStop i \<in> set (effects (handleOBSOutputSignal info now s)) \<longleftrightarrow> PowerSaveStop i \<in> set (effects s)"
  by (cases "info_type info"; cases "info_signal info";
      simp add: handleOBSOutputSignal_def Let_def set_streaming_def set_recording_def mutation_defs)+

lemma no_release_start: "no_release s \<Longrightarrow> no_release (start_branch g ok 0 s)"
  unfolding start_branch_def Let_def by (simp add: no_release_def toggleRecording_effects)

lemma no_release_stop: "no_release s \<Longrightarrow> no_release (stop_branch g ok s)"
  unfolding stop_branch_def Let_def by (auto simp: no_release_def power_save_truthy_def toggleRecording_effects)

lemma no_release_step:
  assumes "no_release s" and "blocker_answer inp \<in> {None, Some 0}"
  shows "no_release (streaming_step inp s)"
proof (cases inp)
  case (UserToggleStreaming g ok b)
  with assms have "b = 0" by simp
  with UserToggleStreaming assms(1) show ?thesis
    by (simp add: toggleStreaming_def no_release_start no_release_stop) (simp add: no_release_def)
next
  case UserToggleRecording
  with assms show ?thesis by simp
next
  case (ObsSignal info now)
  with assms show ?thesis by (simp add: no_release_def signal_power_save)
qed

lemma no_release_fold:
  "no_release s \<Longrightarrow> \<forall>inp\<in>set ins. blocker_answer inp \<in> {None, Some 0} \<Longrightarrow> no_release (fold streaming_step ins s)"
  by (induction ins arbitrary: s) (simp_all add: no_release_step)

text \<open>
  C13. The power-save blocker is released on stop only when its id is truthy. Electron
  numbers blockers from 0; in every run of the service in which \<open>powerSaveBlocker.start\<close>
  answers 0, whatever the user does and whatever OBS signals, no blocker is ever
  released, so the display is kept awake after the stream ends.
\<close>

theorem power_save_blocker_zero_never_released:
  assumes "\<forall>inp\<in>set ins. blocker_answer inp \<in> {None, Some 0}"
  shows "PowerSaveStop i \<notin> set (effects (fold streaming_step ins (streaming_initial t)))"
proof -
  have "no_release (streaming_initial t)" by (simp add: no_release_def streaming_initial_def)
  from no_release_fold [OF this assms] show ?thesis by (simp add: no_release_def)
qed

theorem power_save_blocker_zero_never_released_witness:
  "PowerSaveStart \<in> set (effects (fold streaming_step (streaming_demo_inputs 0) (streaming_initial 0))) \<and>
   PowerSaveStop 0 \<notin> set (effects (fold streaming_step (streaming_demo_inputs 0) (streaming_initial 0)))"
proof
  show "PowerSaveStart \<in> set (effects (fold streaming_step (streaming_demo_inputs 0) (streaming_initial 0)))"
    by code_simp
  have "\<forall>inp\<in>set (streaming_demo_inputs 0). blocker_answer inp \<in> {None, Some 0}"
    by (simp add: streaming_demo_inputs_def)
  from power_save_blocker_zero_never_released [OF this] show
    "PowerSaveStop 0 \<notin> set (effects (fold streaming_step (streaming_demo_inputs 0) (streaming_initial 0)))" .
qed

end
