(* ===== verification/StreamInfo.thy ===== *)
theory StreamInfo
  imports Streaming
begin

text \<open>
  Model of \<open>StreamInfoService\<close> (\<open>src/app/components/TopNav.vue.ts\<close>, lines
  222-349). The service keeps the channel information of the logged-in user's platform
  with a \<open>fetching\<close> and an \<open>error\<close> flag, and the viewer count. Its operations
  start platform requests whose promises settle later, in any order; as for the media
  backup, a pending promise is an entry of \<open>si_pending\<close> and its settlement is an
  event that runs the \<open>then\<close> or \<open>catch\<close> handler. The platform requests themselves
  (\<open>fetchChannelInfo\<close>, \<open>putChannelInfo\<close>, \<open>fetchViewerCount\<close>, the game
  association \<open>fetch\<close>) are recorded, in order, in \<open>si_calls\<close>. The user service is
  an input: whether the user is logged in and the platform type (\<open>null\<close> when no
  platform is linked).
\<close>

section \<open>Data\<close>

datatype platform_type = Twitch | Youtube | Mixer

record IChannelInfo =
  ci_title :: string
  ci_game :: string

record IStreamInfoServiceState =
  fetching :: bool
  si_error :: bool
  viewerCount :: int
  channelInfo :: "IChannelInfo option"

datatype si_call =
    FetchChannelInfo platform_type
  | PutChannelInfo platform_type string string
  | FetchViewerCount platform_type
  | PostGameAssociation string

text \<open>
  The promises the service itself chains on: a \<open>refreshStreamInfo\<close> fetch, the put of
  \<open>setStreamInfo\<close> (with the game it will associate), a viewer-count fetch.
\<close>

datatype si_promise = RefreshPromise | PutPromise string | ViewerPromise

record stream_info_world = IStreamInfoServiceState +
  si_pending :: "si_promise list"
  si_calls :: "si_call list"

record user_env =
  isLoggedIn :: bool
  user_platform :: "platform_type option"

definition si_initial :: stream_info_world where
  "si_initial = \<lparr>fetching = False, si_error = False, viewerCount = 0, channelInfo = None,
     si_pending = [], si_calls = []\<rparr>"

section \<open>Mutations\<close>

definition SET_FETCHING :: "bool \<Rightarrow> 'a IStreamInfoServiceState_scheme \<Rightarrow> 'a IStreamInfoServiceState_scheme" where
  "SET_FETCHING b s = s\<lparr>fetching := b\<rparr>"

definition SET_ERROR :: "bool \<Rightarrow> 'a IStreamInfoServiceState_scheme \<Rightarrow> 'a IStreamInfoServiceState_scheme" where
  "SET_ERROR b s = s\<lparr>si_error := b\<rparr>"

definition SET_CHANNEL_INFO :: "IChannelInfo \<Rightarrow> 'a IStreamInfoServiceState_scheme \<Rightarrow> 'a IStreamInfoServiceState_scheme" where
  "SET_CHANNEL_INFO i s = s\<lparr>channelInfo := Some i\<rparr>"

definition SET_VIEWER_COUNT :: "int \<Rightarrow> 'a IStreamInfoServiceState_scheme \<Rightarrow> 'a IStreamInfoServiceState_scheme" where
  "SET_VIEWER_COUNT n s = s\<lparr>viewerCount := n\<rparr>"

declare SET_FETCHING_def [mutation_defs] SET_ERROR_def [mutation_defs]
  SET_CHANNEL_INFO_def [mutation_defs] SET_VIEWER_COUNT_def [mutation_defs]

definition si_call_platform :: "si_call \<Rightarrow> si_promise option \<Rightarrow> stream_info_world \<Rightarrow> stream_info_world" where
  "si_call_platform c p w =
     w\<lparr>si_calls := si_calls w @ [c], si_pending := si_pending w @ (case p of None \<Rightarrow> [] | Some q \<Rightarrow> [q])\<rparr>"

section \<open>Operations\<close>

text \<open>
  \<open>refreshStreamInfo\<close>: rejected at once when logged out (the result \<open>False\<close>);
  otherwise clears the error, sets \<open>fetching\<close> and fetches the channel info.
  \<open>getPlatformService(this.userService.platform.type)\<close> dereferences the platform, a
  \<open>TypeError\<close> when none is linked.
\<close>

definition refreshStreamInfo :: "user_env \<Rightarrow> stream_info_world \<Rightarrow> bool outcome \<times> stream_info_world" where
  "refreshStreamInfo u w =
     (if \<not> isLoggedIn u then (Ret False, w)
      else let w1 = SET_FETCHING True (SET_ERROR False w)
           in case user_platform u of
                None \<Rightarrow> (Thrown (TypeError ''platform is null''), w1)
              | Some p \<Rightarrow> (Ret True, si_call_platform (FetchChannelInfo p) (Some RefreshPromise) w1))"

text \<open>
  The operands of \<open>platform instanceof TwitchService || MixerService\<close>: a boolean or a
  class. \<open>a || b\<close> is \<open>a\<close> when \<open>a\<close> is truthy and \<open>b\<close> otherwise; a class is
  a function object, which is truthy. The service object of a platform is an instance of
  its own class only.
\<close>

datatype js_operand = JsBool bool | JsClass string

fun js_truthy :: "js_operand \<Rightarrow> bool" where
  "js_truthy (JsBool b) = b"
| "js_truthy (JsClass c) = True"

definition js_or :: "js_operand \<Rightarrow> js_operand \<Rightarrow> js_operand" where
  "js_or a b = (if js_truthy a then a else b)"

fun platform_service_class :: "platform_type \<Rightarrow> string" where
  "platform_service_class Twitch = ''TwitchService''"
| "platform_service_class Youtube = ''YoutubeService''"
| "platform_service_class Mixer = ''MixerService''"

definition instance_of :: "platform_type \<Rightarrow> string \<Rightarrow> bool" where
  "instance_of p c \<longleftrightarrow> platform_service_class p = c"

text \<open>
  \<open>setStreamInfo\<close>: each \<open>if\<close> that holds calls \<open>putChannelInfo\<close> and assigns
  its promise; the call chains on the last one assigned, and \<open>promise.then\<close> throws a
  \<open>TypeError\<close> when neither was.
\<close>

definition setStreamInfo :: "user_env \<Rightarrow> string \<Rightarrow> string \<Rightarrow> string \<Rightarrow> stream_info_world \<Rightarrow> unit outcome \<times> stream_info_world" where
  "setStreamInfo u title description game w =
     (case user_platform u of
        None \<Rightarrow> (Thrown (TypeError ''platform is null''), w)
      | Some p \<Rightarrow>
          let put1 = js_truthy (js_or (JsBool (instance_of p ''TwitchService'')) (JsClass ''MixerService''));
              w1 = (if put1 then si_call_platform (PutChannelInfo p title game) None w else w);
              put2 = instance_of p ''YoutubeService'';
              w2 = (if put2 then si_call_platform (PutChannelInfo p title description) None w1 else w1)
          in if put1 \<or> put2 then (Ret (), w2\<lparr>si_pending := si_pending w2 @ [PutPromise game]\<rparr>)
             else (Thrown (TypeError ''Cannot read property then of undefined''), w2))"

definition createGameAssociation :: "string \<Rightarrow> stream_info_world \<Rightarrow> stream_info_world" where
  "createGameAssociation game w = si_call_platform (PostGameAssociation game) None w"

text \<open>The viewer-count timer of \<open>init\<close>: a fetch only while streaming.\<close>

definition viewer_tick :: "user_env \<Rightarrow> bool \<Rightarrow> stream_info_world \<Rightarrow> unit outcome \<times> stream_info_world" where
  "viewer_tick u streaming w =
     (if \<not> streaming then (Ret (), w)
      else case user_platform u of
             None \<Rightarrow> (Thrown (TypeError ''platform is null''), w)
           | Some p \<Rightarrow> (Ret (), si_call_platform (FetchViewerCount p) (Some ViewerPromise) w))"

section \<open>Settling a promise\<close>

definition settle_refresh :: "IChannelInfo option \<Rightarrow> stream_info_world \<Rightarrow> stream_info_world" where
  "settle_refresh r w =
     (case r of
        Some info \<Rightarrow> SET_FETCHING False (SET_CHANNEL_INFO info w)
      | None \<Rightarrow> SET_ERROR True (SET_FETCHING False w))"

text \<open>
  \<open>promise.then(A).catch(B)\<close>: \<open>A\<close> refreshes, associates the game and returns the
  put's result; \<open>B\<close> runs when the put rejected or \<open>A\<close> threw, refreshes and returns
  \<open>false\<close>. A throw in \<open>B\<close> rejects the promise of \<open>setStreamInfo\<close>.
\<close>

definition put_catch :: "user_env \<Rightarrow> stream_info_world \<Rightarrow> bool outcome \<times> stream_info_world" where
  "put_catch u w =
     (case refreshStreamInfo u w of (Thrown e, w1) \<Rightarrow> (Thrown e, w1) | (Ret _, w1) \<Rightarrow> (Ret False, w1))"

definition settle_put :: "user_env \<Rightarrow> string \<Rightarrow> bool option \<Rightarrow> stream_info_world \<Rightarrow> bool outcome \<times> stream_info_world" where
  "settle_put u game r w =
     (case r of
        None \<Rightarrow> put_catch u w
      | Some success \<Rightarrow>
          (case refreshStreamInfo u w of
             (Thrown _, w1) \<Rightarrow> put_catch u w1
           | (Ret _, w1) \<Rightarrow> (Ret success, createGameAssociation game w1)))"

definition settle_viewers :: "int option \<Rightarrow> stream_info_world \<Rightarrow> stream_info_world" where
  "settle_viewers r w = (case r of Some n \<Rightarrow> SET_VIEWER_COUNT n w | None \<Rightarrow> w)"

datatype si_event =
    Refresh
  | SetInfo string string string
  | ViewerTick
  | RefreshSettles nat "IChannelInfo option"
  | PutSettles nat "bool option"
  | ViewersSettle nat "int option"

text \<open>
  One event of the service, with the user service and whether the streaming service is
  streaming; \<open>None\<close> when the event does not match a pending promise. The second
  component is the outcome of a \<open>setStreamInfo\<close> promise, if one settled.
\<close>

fun si_step :: "user_env \<Rightarrow> bool \<Rightarrow> si_event \<Rightarrow> stream_info_world \<Rightarrow> (bool outcome option \<times> stream_info_world) option" where
  "si_step u st Refresh w = Some (None, snd (refreshStreamInfo u w))"
| "si_step u st (SetInfo t d g) w = Some (None, snd (setStreamInfo u t d g w))"
| "si_step u st ViewerTick w = Some (None, snd (viewer_tick u st w))"
| "si_step u st (RefreshSettles k r) w =
     (if k < length (si_pending w) \<and> si_pending w ! k = RefreshPromise
      then Some (None, settle_refresh r (w\<lparr>si_pending := remove_nth k (si_pending w)\<rparr>)) else None)"
| "si_step u st (PutSettles k r) w =
     (if k < length (si_pending w)
      then (case si_pending w ! k of
              PutPromise g \<Rightarrow> let (b, w') = settle_put u g r (w\<lparr>si_pending := remove_nth k (si_pending w)\<rparr>)
                              in Some (Some b, w')
            | _ \<Rightarrow> None)
      else None)"
| "si_step u st (ViewersSettle k r) w =
     (if k < length (si_pending w) \<and> si_pending w ! k = ViewerPromise
      then Some (None, settle_viewers r (w\<lparr>si_pending := remove_nth k (si_pending w)\<rparr>)) else None)"

text \<open>
  The user service is consistent: \<open>isLoggedIn()\<close> holds only with a linked platform
  (both come from the same \<open>auth\<close> object of \<open>UserService\<close>).
\<close>

definition user_ok :: "user_env \<Rightarrow> bool" where
  "user_ok u \<longleftrightarrow> (isLoggedIn u \<longrightarrow> user_platform u \<noteq> None)"

inductive si_reachable :: "stream_info_world \<Rightarrow> bool" where
  init: "si_reachable si_initial"
| step: "si_reachable w \<Longrightarrow> user_ok u \<Longrightarrow> si_step u st e w = Some (r, w') \<Longrightarrow> si_reachable w'"

fun si_exec :: "user_env \<Rightarrow> bool \<Rightarrow> si_event list \<Rightarrow> stream_info_world \<Rightarrow> stream_info_world option" where
  "si_exec u st [] w = Some w"
| "si_exec u st (e # es) w = (case si_step u st e w of None \<Rightarrow> None | Some (_, w') \<Rightarrow> si_exec u st es w')"

definition si_flags_ok :: "stream_info_world \<Rightarrow> bool" where
  "si_flags_ok w \<longleftrightarrow> (fetching w \<longrightarrow> RefreshPromise \<in> set (si_pending w)) \<and> \<not> (si_error w \<and> fetching w)"

definition demo_user :: user_env where
  "demo_user = \<lparr>isLoggedIn = True, user_platform = Some Twitch\<rparr>"

definition demo_info :: IChannelInfo where
  "demo_info = \<lparr>ci_title = ''Speedrun'', ci_game = ''Celeste''\<rparr>"

text \<open>Two refreshes in flight, after the first failed, and after the second loaded.\<close>

definition si_demo_two_refreshes :: stream_info_world where
  "si_demo_two_refreshes = si_initial\<lparr>fetching := True, si_pending := [RefreshPromise, RefreshPromise],
     si_calls := [FetchChannelInfo Twitch, FetchChannelInfo Twitch]\<rparr>"

definition si_demo_first_failed :: stream_info_world where
  "si_demo_first_failed = si_initial\<lparr>si_error := True, si_pending := [RefreshPromise],
     si_calls := [FetchChannelInfo Twitch, FetchChannelInfo Twitch]\<rparr>"

definition si_demo_second_loaded :: stream_info_world where
  "si_demo_second_loaded = si_initial\<lparr>si_error := True, channelInfo := Some demo_info,
     si_calls := [FetchChannelInfo Twitch, FetchChannelInfo Twitch]\<rparr>"

section \<open>Lemmas\<close>

lemma si_call_platform_fields [simp]:
  "fetching (si_call_platform c p w) = fetching w"
  "si_error (si_call_platform c p w) = si_error w"
  "channelInfo (si_call_platform c p w) = channelInfo w"
  "set (si_pending (si_call_platform c p w)) = set (si_pending w) \<union> set_option p"
  by (auto simp: si_call_platform_def split: option.splits)

lemma refresh_flags:
  "user_ok u \<Longrightarrow> si_flags_ok w \<Longrightarrow> si_flags_ok (snd (refreshStreamInfo u w))"
  by (auto simp: refreshStreamInfo_def si_flags_ok_def user_ok_def Let_def mutation_defs)

lemma setStreamInfo_flags: "si_flags_ok w \<Longrightarrow> si_flags_ok (snd (setStreamInfo u t d g w))"
  by (auto simp: setStreamInfo_def si_flags_ok_def Let_def si_call_platform_def split: option.splits)

lemma si_flags_step:
  assumes "si_flags_ok w" and "user_ok u" and "si_step u st e w = Some (r, w')"
  shows "si_flags_ok w'"
proof (cases e)
  case (PutSettles k res)
  then obtain g where k: "k < length (si_pending w)" "si_pending w ! k = PutPromise g"
    using assms(3) by (auto split: if_splits si_promise.splits)
  let ?w0 = "w\<lparr>si_pending := remove_nth k (si_pending w)\<rparr>"
  have "RefreshPromise \<in> set (si_pending w) \<Longrightarrow> RefreshPromise \<in> set (si_pending ?w0)"
    using in_set_remove_nth [OF k(1)] k(2) by simp
  then have ok0: "si_flags_ok ?w0" using assms(1) by (auto simp: si_flags_ok_def)
  have "w' = snd (settle_put u g res ?w0)"
    using assms(3) PutSettles k by (auto split: prod.splits)
  then show ?thesis
    using refresh_flags [OF assms(2) ok0] refresh_flags [OF assms(2)] assms(2)
    by (auto simp: settle_put_def put_catch_def createGameAssociation_def si_flags_ok_def user_ok_def
        refreshStreamInfo_def Let_def mutation_defs split: option.splits prod.splits outcome.splits if_splits)
next
  case (SetInfo t d g)
  with assms(3) have "w' = snd (setStreamInfo u t d g w)" by simp
  with assms(1) show ?thesis by (simp add: setStreamInfo_flags)
qed (use assms in \<open>auto simp: si_flags_ok_def refreshStreamInfo_def viewer_tick_def settle_refresh_def
        settle_viewers_def user_ok_def Let_def mutation_defs in_set_remove_nth split: if_splits option.splits\<close>)

lemma si_flags_initial: "si_flags_ok si_initial"
  by (simp add: si_flags_ok_def si_initial_def)

lemma si_exec_reachable:
  "si_reachable w \<Longrightarrow> user_ok u \<Longrightarrow> si_exec u st es w = Some w' \<Longrightarrow> si_reachable w'"
  by (induction es arbitrary: w) (auto split: option.splits intro: si_reachable.step)

lemma refreshStreamInfo_logged_in:
  "user_platform u = Some p \<Longrightarrow> isLoggedIn u \<Longrightarrow>
   refreshStreamInfo u w = (Ret True, si_call_platform (FetchChannelInfo p) (Some RefreshPromise) (SET_FETCHING True (SET_ERROR False w)))"
  by (simp add: refreshStreamInfo_def)

lemma si_step_put:
  assumes "si_step u st (PutSettles k r) w = Some (res, w')"
  obtains g where "k < length (si_pending w)" "si_pending w ! k = PutPromise g"
    "res = Some (fst (settle_put u g r (w\<lparr>si_pending := remove_nth k (si_pending w)\<rparr>)))"
    "w' = snd (settle_put u g r (w\<lparr>si_pending := remove_nth k (si_pending w)\<rparr>))"
  using assms by (auto split: if_splits si_promise.splits prod.splits)

section \<open>Properties of the stream info service\<close>

text \<open>
  C21. In every reachable state of \<open>StreamInfoService\<close> (any interleaving of refreshes,
  updates, timer ticks and settlements), \<open>fetching\<close> is set only while a channel-info
  fetch is in flight, and the service never shows \<open>fetching\<close> and \<open>error\<close> at once.
\<close>

theorem stream_info_flags:
  "si_reachable w \<Longrightarrow> (fetching w \<longrightarrow> RefreshPromise \<in> set (si_pending w)) \<and> \<not> (si_error w \<and> fetching w)"
proof (induction rule: si_reachable.induct)
  case init
  then show ?case using si_flags_initial by (simp add: si_flags_ok_def)
next
  case (step w u st e r w')
  then show ?case using si_flags_step [of w u st e r w'] by (simp add: si_flags_ok_def)
qed

theorem stream_info_flags_witness:
  "si_reachable (the (si_exec demo_user False [Refresh, Refresh, RefreshSettles 0 (Some demo_info)] si_initial)) \<and>
   \<not> (si_error (the (si_exec demo_user False [Refresh, Refresh, RefreshSettles 0 (Some demo_info)] si_initial)) \<and>
        fetching (the (si_exec demo_user False [Refresh, Refresh, RefreshSettles 0 (Some demo_info)] si_initial)))"
proof -
  let ?w = "the (si_exec demo_user False [Refresh, Refresh, RefreshSettles 0 (Some demo_info)] si_initial)"
  have u: "user_ok demo_user" by (simp add: user_ok_def demo_user_def)
  have "si_exec demo_user False [Refresh, Refresh, RefreshSettles 0 (Some demo_info)] si_initial = Some ?w" by code_simp
  then have r: "si_reachable ?w" by (rule si_exec_reachable [OF si_reachable.init u])
  from stream_info_flags [OF r] r show ?thesis by blast
qed

text \<open>
  C22. \<open>setStreamInfo\<close> on a linked platform calls \<open>putChannelInfo(title, game)\<close>
  first on every platform, YouTube included: \<open>instanceof TwitchService || MixerService\<close>
  is always truthy. On YouTube it then calls \<open>putChannelInfo(title, description)\<close>; it
  chains on the last put, so it never reaches the \<open>TypeError\<close> of an unassigned
  promise. Without a linked platform it throws before any call.
\<close>

theorem setStreamInfo_calls:
  "setStreamInfo u t d g w =
     (case user_platform u of
        None \<Rightarrow> (Thrown (TypeError ''platform is null''), w)
      | Some p \<Rightarrow> (Ret (), w\<lparr>si_calls := si_calls w @ [PutChannelInfo p t g] @ (if p = Youtube then [PutChannelInfo p t d] else []),
                             si_pending := si_pending w @ [PutPromise g]\<rparr>))"
proof (cases "user_platform u")
  case (Some p)
  then show ?thesis
    by (cases p) (simp_all add: setStreamInfo_def si_call_platform_def js_or_def instance_of_def)
qed (simp add: setStreamInfo_def)

text \<open>
  C23. When the put of \<open>setStreamInfo\<close> settles, the service refreshes the channel
  info (when logged in), posts the game association only if the put succeeded, and the
  promise resolves to the put's result, or to \<open>false\<close> when the put rejected; with a
  consistent user service it never rejects.
\<close>

theorem settle_put_result:
  assumes "user_ok u"
  shows "fst (settle_put u g r w) = Ret (case r of Some b \<Rightarrow> b | None \<Rightarrow> False) \<and>
         si_calls (snd (settle_put u g r w)) =
           si_calls w @ (case user_platform u of Some p \<Rightarrow> if isLoggedIn u then [FetchChannelInfo p] else [] | None \<Rightarrow> []) @
           (if r = None then [] else [PostGameAssociation g])"
  using assms
  by (auto simp: settle_put_def put_catch_def refreshStreamInfo_def createGameAssociation_def si_call_platform_def
      user_ok_def Let_def mutation_defs split: option.splits)

theorem settle_put_result_witness:
  "user_ok demo_user \<and> fst (settle_put demo_user ''Celeste'' None si_initial) = Ret False"
proof -
  have u: "user_ok demo_user" by (simp add: user_ok_def demo_user_def)
  from settle_put_result [OF u, of "''Celeste''" None si_initial] u show ?thesis by simp
qed

text \<open>
  C24. Overlapping refreshes: when a channel-info fetch fails while another is still in
  flight, the service shows \<open>fetching = false\<close> and the error although a fetch is
  running; and when that other fetch then succeeds, the channel info is fresh but the error
  flag stays set, so the edit window reports an error for data that loaded. This holds in
  any state of the service, for any user and any pending promises.
\<close>

theorem overlapping_refresh_keeps_error:
  assumes "si_step u st (RefreshSettles k None) w = Some (r, w1)"
    and "RefreshPromise \<in> set (remove_nth k (si_pending w))"
  shows "si_error w1 \<and> \<not> fetching w1 \<and> RefreshPromise \<in> set (si_pending w1) \<and>
    (\<forall>j info r2 w2. si_step u st (RefreshSettles j (Some info)) w1 = Some (r2, w2) \<longrightarrow>
        si_error w2 \<and> \<not> fetching w2 \<and> channelInfo w2 = Some info)"
proof -
  have w1: "w1 = SET_ERROR True (SET_FETCHING False (w\<lparr>si_pending := remove_nth k (si_pending w)\<rparr>))"
    using assms(1) by (simp add: settle_refresh_def split: if_splits)
  show ?thesis
    using assms(2) by (auto simp: w1 settle_refresh_def mutation_defs split: if_splits)
qed

theorem overlapping_refresh_keeps_error_witness:
  "si_step demo_user False (RefreshSettles 0 None) si_demo_two_refreshes = Some (None, si_demo_first_failed) \<and>
   si_step demo_user False (RefreshSettles 0 (Some demo_info)) si_demo_first_failed = Some (None, si_demo_second_loaded) \<and>
   si_error si_demo_second_loaded \<and> channelInfo si_demo_second_loaded = Some demo_info"
proof -
  have s1: "si_step demo_user False (RefreshSettles 0 None) si_demo_two_refreshes = Some (None, si_demo_first_failed)"
    by (simp add: si_demo_two_refreshes_def si_demo_first_failed_def si_initial_def settle_refresh_def remove_nth_def mutation_defs)
  have s2: "si_step demo_user False (RefreshSettles 0 (Some demo_info)) si_demo_first_failed = Some (None, si_demo_second_loaded)"
    by (simp add: si_demo_first_failed_def si_demo_second_loaded_def si_initial_def settle_refresh_def remove_nth_def mutation_defs)
  have m: "RefreshPromise \<in> set (remove_nth 0 (si_pending si_demo_two_refreshes))"
    by (simp add: si_demo_two_refreshes_def remove_nth_def)
  from overlapping_refresh_keeps_error [OF s1 m] s2 have
    "si_error si_demo_second_loaded \<and> channelInfo si_demo_second_loaded = Some demo_info" by blast
  with s1 s2 show ?thesis by blast
qed

end
