(* ===== verification/GoLive.thy ===== *)
theory GoLive
  imports StreamInfo
begin

text \<open>
  The components through which the user starts and ends a stream, composed with the two
  services they call: \<open>StartStreamingButton\<close>
  (\<open>src/app/components/StartStreamingButton.vue.ts\<close>), the stream-info window
  \<open>EditStreamInfo\<close> (\<open>src/app/components/windows/EditStreamInfo.vue.ts\<close>), the
  footer's record button \<open>StudioFooterComponent\<close> (\<open>src/unnamed/part_001\<close>) and the
  status line of \<open>PerformanceMetrics\<close>
  (\<open>src/app/components/PerformanceMetrics.vue.ts\<close>). The state \<open>studio\<close> holds the
  \<open>StreamingService\<close> model of theory \<open>Streaming\<close>, the \<open>StreamInfoService\<close> model of
  theory \<open>StreamInfo\<close>, the customization flag \<open>updateStreamInfoOnLive\<close>, the edit
  window's flags, and a log of what the components ask the navigation, windows and
  encoder services to do.
\<close>

section \<open>State\<close>

datatype ui_effect = Navigate string | CloseChildWindow | AlertBox string | ApplyProfile
  | VerifyAbleToStream | ShellOpenExternal string

record studio =
  streaming :: streaming_service
  stream_info :: stream_info_world
  updateStreamInfoOnLive :: bool
  updatingInfo :: bool
  updateError :: bool
  ui_log :: "ui_effect list"

definition studio_initial :: "int \<Rightarrow> studio" where
  "studio_initial t = \<lparr>streaming = streaming_initial t, stream_info = si_initial, updateStreamInfoOnLive = True,
     updatingInfo = False, updateError = False, ui_log = []\<rparr>"

definition ui :: "ui_effect \<Rightarrow> studio \<Rightarrow> studio" where
  "ui e w = w\<lparr>ui_log := ui_log w @ [e]\<rparr>"

section \<open>StartStreamingButton\<close>

text \<open>
  \<open>toggleStreaming\<close> of the button. The test
  \<open>isLoggedIn() && updateStreamInfoOnLive && (platform.type === 'twitch' || ...)\<close>
  dereferences the platform only when the first two hold.
\<close>

definition button_toggleStreaming :: "user_env \<Rightarrow> general_settings \<Rightarrow> bool \<Rightarrow> int \<Rightarrow> studio \<Rightarrow> unit outcome \<times> studio" where
  "button_toggleStreaming u g ok b w =
     (if isStreaming (streaming w) then (Ret (), w\<lparr>streaming := toggleStreaming g ok b (streaming w)\<rparr>)
      else if isLoggedIn u \<and> updateStreamInfoOnLive w then
        (case user_platform u of
           None \<Rightarrow> (Thrown (TypeError ''platform is null''), w)
         | Some p \<Rightarrow>
             if p = Twitch \<or> p = Mixer then (Ret (), w\<lparr>streaming := showEditStreamInfo (streaming w)\<rparr>)
             else (Ret (), ui (Navigate ''Live'') (w\<lparr>streaming := toggleStreaming g ok b (streaming w)\<rparr>)))
      else
        let w1 = w\<lparr>streaming := toggleStreaming g ok b (streaming w)\<rparr>
        in (Ret (), if isLoggedIn u then ui (Navigate ''Live'') w1 else w1))"

definition getStreamButtonLabel :: "advanced_settings \<Rightarrow> int \<Rightarrow> streaming_service \<Rightarrow> string" where
  "getStreamButtonLabel adv now s =
     (if streamingStatus s = StreamingLive then ''END STREAM''
      else if streamingStatus s = StreamingStarting then
        (if DelayEnable adv then ''STARTING '' @ int_str (delaySecondsRemaining adv now s) @ ''s'' else ''STARTING'')
      else if streamingStatus s = StreamingEnding then
        (if DelayEnable adv then ''DISCARD '' @ int_str (delaySecondsRemaining adv now s) @ ''s'' else ''ENDING'')
      else if streamingStatus s = StreamingReconnecting then ''RECONNECTING''
      else ''GO LIVE'')"

definition getIsRedButton :: "streaming_service \<Rightarrow> bool" where
  "getIsRedButton s \<longleftrightarrow> streamingStatus s \<noteq> StreamingOffline"

definition isDisabled :: "bool \<Rightarrow> advanced_settings \<Rightarrow> int \<Rightarrow> streaming_service \<Rightarrow> bool" where
  "isDisabled disabled adv now s \<longleftrightarrow>
     disabled \<or>
     (streamingStatus s = StreamingStarting \<and> delaySecondsRemaining adv now s = 0) \<or>
     (streamingStatus s = StreamingEnding \<and> delaySecondsRemaining adv now s = 0)"

section \<open>PerformanceMetrics and the footer\<close>

text \<open>
  A JavaScript value read from a property: \<open>streamOk\<close> is read from
  \<open>streamingService.streamOk\<close>, which \<open>StreamingService\<close> does not declare, so it
  reads \<open>undefined\<close>.
\<close>

datatype js_value = JsUndefined | JsNull | JsBool bool

definition js_truthy :: "js_value \<Rightarrow> bool" where
  "js_truthy v = (case v of JsBool b \<Rightarrow> b | _ \<Rightarrow> False)"

definition streamOk :: "streaming_service \<Rightarrow> js_value" where
  "streamOk s = JsUndefined"

definition streamStatusMsg :: "js_value \<Rightarrow> streaming_service \<Rightarrow> string option" where
  "streamStatusMsg ok s =
     (if isStreaming s \<and> ok \<noteq> JsNull then Some (if js_truthy ok then ''Stream OK'' else ''Stream Error'') else None)"

definition footer_toggleRecording :: "studio \<Rightarrow> studio" where
  "footer_toggleRecording w = w\<lparr>streaming := toggleRecording (streaming w)\<rparr>"

definition footer_recording :: "studio \<Rightarrow> bool" where
  "footer_recording w = isRecording (streaming w)"

definition footer_loggedIn :: "user_env \<Rightarrow> bool" where
  "footer_loggedIn u = isLoggedIn u"

text \<open>\<open>getPlatformService(platform) instanceof YoutubeService\<close> holds exactly for the
  YouTube platform; \<open>liveStreamingEnabled\<close> of the YouTube service's state is a parameter.\<close>

definition youtubeEnabled :: "user_env \<Rightarrow> bool \<Rightarrow> bool" where
  "youtubeEnabled u liveStreamingEnabled =
     (case user_platform u of Some Youtube \<Rightarrow> liveStreamingEnabled | _ \<Rightarrow> True)"

definition openYoutubeEnable :: "studio \<Rightarrow> studio" where
  "openYoutubeEnable w = ui (ShellOpenExternal ''https://youtube.com/live_dashboard_splash'') w"

definition confirmYoutubeEnabled :: "user_env \<Rightarrow> studio \<Rightarrow> studio" where
  "confirmYoutubeEnabled u w = (case user_platform u of Some Youtube \<Rightarrow> ui VerifyAbleToStream w | _ \<Rightarrow> w)"

definition footer_mounted :: "user_env \<Rightarrow> studio \<Rightarrow> studio" where
  "footer_mounted u w = confirmYoutubeEnabled u w"

definition recordTooltip :: string where
  "recordTooltip = ''Set path in Settings > Output.''"

section \<open>EditStreamInfo\<close>

definition midStreamMode :: "studio \<Rightarrow> bool" where
  "midStreamMode w \<longleftrightarrow> isStreaming (streaming w)"

definition submitText :: "studio \<Rightarrow> string" where
  "submitText w = (if midStreamMode w then ''Update'' else ''Confirm & Go Live'')"

definition goLive :: "general_settings \<Rightarrow> bool \<Rightarrow> int \<Rightarrow> studio \<Rightarrow> studio" where
  "goLive g ok b w =
     ui CloseChildWindow (ui (Navigate ''Live'') (w\<lparr>streaming := toggleStreaming g ok b (streaming w)\<rparr>))"

definition dont_show_text :: string where
  "dont_show_text = ''You will not be asked again to update your stream info when going live.  '' @
     ''You can re-enable this from the settings.''"

text \<open>
  \<open>updateAndGoLive\<close>: \<open>profile\<close> is \<open>areAvailableProfiles && useOptimizedProfile\<close>.
  A throw of \<open>setStreamInfo\<close> ends the handler before the profile is applied.
\<close>

definition updateAndGoLive :: "user_env \<Rightarrow> string \<Rightarrow> string \<Rightarrow> string \<Rightarrow> bool \<Rightarrow> bool \<Rightarrow> studio \<Rightarrow> unit outcome \<times> studio" where
  "updateAndGoLive u title description game dontShow profile w =
     (let w1 = w\<lparr>updatingInfo := True\<rparr>;
          w2 = (if dontShow then (ui (AlertBox dont_show_text) w1)\<lparr>updateStreamInfoOnLive := False\<rparr> else w1);
          (r, si) = setStreamInfo u title description game (stream_info w2);
          w3 = w2\<lparr>stream_info := si\<rparr>
      in case r of
           Thrown e \<Rightarrow> (Thrown e, w3)
         | Ret _ \<Rightarrow> (Ret (), if profile then ui ApplyProfile w3 else w3))"

text \<open>The \<open>then\<close> handler of \<open>updateAndGoLive\<close>, run when the put's promise resolves.\<close>

definition edit_put_handler :: "general_settings \<Rightarrow> bool \<Rightarrow> int \<Rightarrow> bool \<Rightarrow> studio \<Rightarrow> studio" where
  "edit_put_handler g ok b success w =
     (if success then (if midStreamMode w then ui CloseChildWindow w else goLive g ok b w)
      else w\<lparr>updateError := True, updatingInfo := False\<rparr>)"

section \<open>The composed machine\<close>

text \<open>
  The events: a click on the button, a click on the footer's record button, the
  confirmation of the edit window, an event of the stream-info service (a settled put
  runs the edit window's handler), and an OBS output signal. Each carries the answers of
  the environment the code consults: the user service, the general settings, the confirm
  answer and the power-save blocker id.
\<close>

datatype studio_event =
    ButtonClick user_env general_settings bool int
  | FooterRecordClick
  | EditConfirm user_env string string string bool bool
  | InfoEvent user_env si_event general_settings bool int
  | OutputSignal IOBSOutputSignalInfo int

fun studio_step :: "studio_event \<Rightarrow> studio \<Rightarrow> studio option" where
  "studio_step (ButtonClick u g ok b) w = Some (snd (button_toggleStreaming u g ok b w))"
| "studio_step FooterRecordClick w = Some (footer_toggleRecording w)"
| "studio_step (EditConfirm u t d gm dontShow profile) w = Some (snd (updateAndGoLive u t d gm dontShow profile w))"
| "studio_step (InfoEvent u e g ok b) w =
     (case si_step u (isStreaming (streaming w)) e (stream_info w) of
        None \<Rightarrow> None
      | Some (res, si) \<Rightarrow>
          let w1 = w\<lparr>stream_info := si\<rparr>
          in Some (case res of Some (Ret success) \<Rightarrow> edit_put_handler g ok b success w1 | _ \<Rightarrow> w1))"
| "studio_step (OutputSignal info now) w = Some (w\<lparr>streaming := handleOBSOutputSignal info now (streaming w)\<rparr>)"

fun studio_exec :: "studio_event list \<Rightarrow> studio \<Rightarrow> studio option" where
  "studio_exec [] w = Some w"
| "studio_exec (e # es) w = (case studio_step e w of None \<Rightarrow> None | Some w' \<Rightarrow> studio_exec es w')"

definition twitch_user :: user_env where
  "twitch_user = \<lparr>isLoggedIn = True, user_platform = Some Twitch\<rparr>"

definition go_live_settings :: general_settings where
  "go_live_settings = \<lparr>KeepRecordingWhenStreamStops = False, RecordWhenStreaming = False,
     WarnBeforeStartingStream = False, WarnBeforeStoppingStream = False\<rparr>"

text \<open>The user clicks GO LIVE, confirms the stream info, and the platform accepts the update.\<close>

definition go_live_run :: "bool option \<Rightarrow> studio_event list" where
  "go_live_run put = [ButtonClick twitch_user go_live_settings True 7,
     EditConfirm twitch_user ''Speedrun'' [] ''Celeste'' False False,
     InfoEvent twitch_user (PutSettles 0 put) go_live_settings True 7]"

section \<open>Properties of the stream controls\<close>

text \<open>
  The button is red exactly when its label is not \<open>GO LIVE\<close>: every state but
  Offline, with or without the delay countdown in the label, shows a red button with
  another text.
\<close>

theorem button_red_iff_not_go_live:
  "getIsRedButton s \<longleftrightarrow> getStreamButtonLabel adv now s \<noteq> ''GO LIVE''"
  by (cases "streamingStatus s") (auto simp: getIsRedButton_def getStreamButtonLabel_def)

text \<open>
  A click on the stream button while the stream is reconnecting does nothing at
  all: the button calls \<open>toggleStreaming\<close>, which has no branch for Reconnecting.
\<close>

theorem button_click_reconnecting_noop:
  "streamingStatus (streaming w) = StreamingReconnecting \<Longrightarrow> button_toggleStreaming u g ok b w = (Ret (), w)"
  by (simp add: button_toggleStreaming_def isStreaming_def toggleStreaming_def)

theorem button_click_reconnecting_noop_witness:
  "button_toggleStreaming twitch_user go_live_settings True 7
     ((studio_initial 0)\<lparr>streaming := (streaming_initial 0)\<lparr>streamingStatus := StreamingReconnecting\<rparr>\<rparr>) =
   (Ret (), (studio_initial 0)\<lparr>streaming := (streaming_initial 0)\<lparr>streamingStatus := StreamingReconnecting\<rparr>\<rparr>)"
  by (rule button_click_reconnecting_noop) simp

text \<open>
  C27. The edit window starts the stream only after the platform accepted the update: when
  the put of \<open>setStreamInfo\<close> settles, the streaming service is toggled exactly when the
  put succeeded and no stream is running; a failed put sets \<open>updateError\<close> and leaves
  the streaming service untouched.
\<close>

theorem put_settled_starts_stream_only_on_success:
  assumes "user_ok u" and "studio_step (InfoEvent u (PutSettles k r) g ok b) w = Some w'"
  shows "streaming w' =
           (if r = Some True \<and> \<not> isStreaming (streaming w) then toggleStreaming g ok b (streaming w) else streaming w) \<and>
         updateError w' = (updateError w \<or> r \<noteq> Some True)"
proof (cases "si_step u (isStreaming (streaming w)) (PutSettles k r) (stream_info w)")
  case None
  with assms(2) show ?thesis by simp
next
  case (Some p)
  obtain res si where p: "p = (res, si)" by (cases p)
  with Some have "si_step u (isStreaming (streaming w)) (PutSettles k r) (stream_info w) = Some (res, si)" by simp
  then obtain gm where
    res: "res = Some (fst (settle_put u gm r ((stream_info w)\<lparr>si_pending := remove_nth k (si_pending (stream_info w))\<rparr>)))"
    by (rule si_step_put)
  then have res': "res = Some (Ret (case r of Some b \<Rightarrow> b | None \<Rightarrow> False))"
    using settle_put_result [OF assms(1)] by simp
  from assms(2) Some p have "w' = (case res of Some (Ret success) \<Rightarrow> edit_put_handler g ok b success (w\<lparr>stream_info := si\<rparr>)
                   | _ \<Rightarrow> w\<lparr>stream_info := si\<rparr>)" by (simp add: Let_def del: si_step.simps)
  with res' show ?thesis
    by (auto simp: edit_put_handler_def goLive_def midStreamMode_def ui_def split: option.splits)
qed

theorem put_settled_starts_stream_only_on_success_witness:
  "studio_exec (go_live_run (Some False)) (studio_initial 0) \<noteq> None \<and>
   effects (streaming (the (studio_exec (go_live_run (Some False)) (studio_initial 0)))) = [ShowWindow ''EditStreamInfo''] \<and>
   updateError (the (studio_exec (go_live_run (Some False)) (studio_initial 0)))"
proof -
  let ?w = "the (studio_exec (butlast (go_live_run (Some False))) (studio_initial 0))"
  let ?e = "InfoEvent twitch_user (PutSettles 0 (Some False)) go_live_settings True 7"
  have u: "user_ok twitch_user" by (simp add: user_ok_def twitch_user_def)
  have st: "studio_step ?e ?w = Some (the (studio_exec (go_live_run (Some False)) (studio_initial 0)))" by code_simp
  have run: "studio_exec (go_live_run (Some False)) (studio_initial 0) \<noteq> None" by code_simp
  have pre: "streaming ?w = (streaming_initial 0)\<lparr>effects := [ShowWindow ''EditStreamInfo'']\<rparr>" by code_simp
  have e: "updateError ?w = False" by code_simp
  from put_settled_starts_stream_only_on_success [OF u st] run pre e show ?thesis
    by (simp add: streaming_initial_def isStreaming_def)
qed

text \<open>
  The whole go-live flow on Twitch: the button opens the edit window instead of
  starting the stream; confirming sends the update; when the platform accepts it, the
  stream is started (power-save blocker, then OBS), the app navigates to the Live page
  and the window closes.
\<close>

theorem go_live_flow:
  "studio_exec (go_live_run (Some True)) (studio_initial 0) =
     Some \<lparr>streaming = (streaming_initial 0)\<lparr>powerSaveId := Some 7,
              effects := [ShowWindow ''EditStreamInfo'', PowerSaveStart, ObsStartStreaming]\<rparr>,
           stream_info = si_initial\<lparr>fetching := True,
              si_calls := [PutChannelInfo Twitch ''Speedrun'' ''Celeste'', FetchChannelInfo Twitch, PostGameAssociation ''Celeste''],
              si_pending := [RefreshPromise]\<rparr>,
           updateStreamInfoOnLive = True, updatingInfo = True, updateError = False,
           ui_log = [Navigate ''Live'', CloseChildWindow]\<rparr>"
  by code_simp

text \<open>
  C29. The stream status line of \<open>PerformanceMetrics\<close> reads
  \<open>streamingService.streamOk\<close>, which the streaming service does not define: whenever
  a stream is running it shows \<open>Stream Error\<close>, and never \<open>Stream OK\<close>.
\<close>

theorem stream_status_always_error:
  "streamStatusMsg (streamOk s) s = (if isStreaming s then Some ''Stream Error'' else None)"
  by (simp add: streamStatusMsg_def streamOk_def js_truthy_def)

text \<open>The footer asks YouTube to verify the channel on mount exactly for a YouTube user,
  and only such a user can be shown as not enabled for live streaming.\<close>

lemma footer_youtube_checks:
  "ui_log (footer_mounted u w) = ui_log w @ (if user_platform u = Some Youtube then [VerifyAbleToStream] else []) \<and>
   (\<not> youtubeEnabled u en \<longleftrightarrow> user_platform u = Some Youtube \<and> \<not> en)"
  by (auto simp: footer_mounted_def confirmYoutubeEnabled_def youtubeEnabled_def ui_def
           split: option.split platform_type.split)

end
