(* ===== verification/EditStream.thy ===== *)
theory EditStream
  imports GoLive
begin

text \<open>
  The form of the edit-stream-info window (\<open>EditStreamInfo\<close>,
  \<open>src/app/components/windows/EditStreamInfo.vue.ts\<close> 24-176, 217-276): its models, the
  game search, the encoder profiles, and the submit that hands the form to
  \<open>updateAndGoLive\<close> of \<open>GoLive\<close>. A game search started by \<open>onGameSearchChange\<close>
  is a pending promise, settled later in any order; the platform's answer, the profiles of
  \<open>videoEncodingOptimizationService.getGameProfiles\<close> and the refresh of the stream info
  are parameters.
\<close>

section \<open>Form state\<close>

record encoder_preset =
  preset_game :: string
  preset_description :: string
  preset_longDescription :: string

record IMultiSelectProfiles =
  msp_value :: encoder_preset
  msp_description :: string
  msp_longDescription :: string

text \<open>The list input's options are pairs of description and value.\<close>

record edit_form =
  searchingGames :: bool
  areAvailableProfiles :: bool
  useOptimizedProfile :: bool
  isGenericProfiles :: bool
  streamTitle :: string
  streamDescription :: string
  gameValue :: string
  gameOptions :: "(string \<times> string) list"
  doNotShowAgain :: bool
  encoderProfile :: "IMultiSelectProfiles option"
  game_searches :: "string list"

definition edit_form_initial :: edit_form where
  "edit_form_initial =
     \<lparr>searchingGames = False, areAvailableProfiles = False, useOptimizedProfile = False,
      isGenericProfiles = False, streamTitle = [], streamDescription = [], gameValue = [], gameOptions = [],
      doNotShowAgain = False, encoderProfile = None, game_searches = []\<rparr>"

definition to_multiselect :: "encoder_preset \<Rightarrow> IMultiSelectProfiles" where
  "to_multiselect p = \<lparr>msp_value = p, msp_description = preset_description p,
                        msp_longDescription = preset_longDescription p\<rparr>"

section \<open>Profiles\<close>

definition loadAvailableProfiles :: "(string \<Rightarrow> encoder_preset list) \<Rightarrow> bool \<Rightarrow> edit_form \<Rightarrow> edit_form" where
  "loadAvailableProfiles getGameProfiles midStream f =
     (if midStream then f
      else
        let availableProfiles = getGameProfiles (gameValue f);
            genericProfiles = getGameProfiles ''Generic'';
            are = (availableProfiles \<noteq> [] \<or> genericProfiles \<noteq> [])
        in if are then
             let (profiles, generic) =
                   (if availableProfiles \<noteq> [] then (availableProfiles, False) else (genericProfiles, True))
             in f\<lparr>areAvailableProfiles := True, isGenericProfiles := generic,
                  encoderProfile := Some (to_multiselect (hd profiles))\<rparr>
           else f\<lparr>areAvailableProfiles := False\<rparr>)"

definition edit_profiles :: "(string \<Rightarrow> encoder_preset list) \<Rightarrow> edit_form \<Rightarrow> IMultiSelectProfiles list" where
  "edit_profiles getGameProfiles f =
     (let profiles = getGameProfiles (gameValue f);
          profiles = (if profiles = [] then getGameProfiles ''Generic'' else profiles)
      in map to_multiselect profiles)"

section \<open>Models and game search\<close>

definition populateModels :: "IChannelInfo \<Rightarrow> (string \<Rightarrow> encoder_preset list) \<Rightarrow> bool \<Rightarrow> edit_form \<Rightarrow> edit_form" where
  "populateModels ci getGameProfiles midStream f =
     loadAvailableProfiles getGameProfiles midStream
       (f\<lparr>streamTitle := ci_title ci, gameValue := ci_game ci, gameOptions := [(ci_game ci, ci_game ci)]\<rparr>)"

text \<open>\<open>created\<close>: with channel info the models are filled at once; otherwise the window asks
  for a refresh (the first component of the result) and fills them in its \<open>then\<close> handler.\<close>

definition edit_created :: "stream_info_world \<Rightarrow> (string \<Rightarrow> encoder_preset list) \<Rightarrow> bool \<Rightarrow> edit_form \<Rightarrow> bool \<times> edit_form" where
  "edit_created si getGameProfiles midStream f =
     (case channelInfo si of
        Some ci \<Rightarrow> (False, populateModels ci getGameProfiles midStream f)
      | None \<Rightarrow> (True, f))"

definition refresh_then :: "stream_info_world \<Rightarrow> (string \<Rightarrow> encoder_preset list) \<Rightarrow> bool \<Rightarrow> edit_form \<Rightarrow> edit_form" where
  "refresh_then si getGameProfiles midStream f =
     (case channelInfo si of Some ci \<Rightarrow> populateModels ci getGameProfiles midStream f | None \<Rightarrow> f)"

text \<open>\<open>onGameSearchChange\<close> sets \<open>searchingGames\<close> before it reads the platform, so a
  missing platform throws with the flag already set.\<close>

definition onGameSearchChange :: "user_env \<Rightarrow> string \<Rightarrow> edit_form \<Rightarrow> unit outcome \<times> edit_form" where
  "onGameSearchChange u searchString f =
     (if searchString = [] then (Ret (), f)
      else
        let f1 = f\<lparr>searchingGames := True\<rparr>
        in case user_platform u of
             None \<Rightarrow> (Thrown (TypeError ''platform is null''), f1)
           | Some p \<Rightarrow> (Ret (), f1\<lparr>gameOptions := [], game_searches := game_searches f1 @ [searchString]\<rparr>))"

text \<open>The \<open>i\<close>-th pending search settles: \<open>None\<close> when the promise rejects, otherwise
  the games found (\<open>null\<close> and the empty list alike).\<close>

definition settle_search :: "nat \<Rightarrow> string list option \<Rightarrow> edit_form \<Rightarrow> edit_form option" where
  "settle_search i res f =
     (if i < length (game_searches f) then
        let f1 = f\<lparr>game_searches := remove_nth i (game_searches f)\<rparr>
        in Some (case res of
                   None \<Rightarrow> f1
                 | Some games \<Rightarrow> f1\<lparr>searchingGames := False,
                                     gameOptions := gameOptions f1 @ map (\<lambda>g. (g, g)) games\<rparr>)
      else None)"

definition onGameInput :: "(string \<Rightarrow> encoder_preset list) \<Rightarrow> bool \<Rightarrow> string \<Rightarrow> (string \<times> string) list \<Rightarrow> edit_form \<Rightarrow> edit_form" where
  "onGameInput getGameProfiles midStream v opts f =
     loadAvailableProfiles getGameProfiles midStream (f\<lparr>gameValue := v, gameOptions := opts\<rparr>)"

section \<open>Getters, cancel and submit\<close>

definition platform_is :: "platform_type \<Rightarrow> user_env \<Rightarrow> bool outcome" where
  "platform_is t u = (case user_platform u of None \<Rightarrow> Thrown (TypeError ''platform is null'') | Some p \<Rightarrow> Ret (p = t))"

definition isTwitch :: "user_env \<Rightarrow> bool outcome" where "isTwitch u = platform_is Twitch u"
definition isYoutube :: "user_env \<Rightarrow> bool outcome" where "isYoutube u = platform_is Youtube u"
definition isMixer :: "user_env \<Rightarrow> bool outcome" where "isMixer u = platform_is Mixer u"

definition infoLoading :: "studio \<Rightarrow> bool" where
  "infoLoading w = fetching (stream_info w)"

definition infoError :: "studio \<Rightarrow> bool" where
  "infoError w = si_error (stream_info w)"

definition edit_cancel :: "studio \<Rightarrow> studio" where
  "edit_cancel w = ui CloseChildWindow w"

text \<open>Submitting the form: \<open>updateAndGoLive\<close> with the form's models, applying the profile
  when \<open>areAvailableProfiles && useOptimizedProfile\<close>.\<close>

definition edit_submit :: "user_env \<Rightarrow> edit_form \<Rightarrow> studio \<Rightarrow> unit outcome \<times> studio" where
  "edit_submit u f w =
     updateAndGoLive u (streamTitle f) (streamDescription f) (gameValue f) (doNotShowAgain f)
       (areAvailableProfiles f \<and> useOptimizedProfile f) w"

definition demo_profiles :: "string \<Rightarrow> encoder_preset list" where
  "demo_profiles g =
     (if g = ''Fortnite'' then [\<lparr>preset_game = ''Fortnite'', preset_description = ''Fortnite high'',
                                   preset_longDescription = ''Tuned for Fortnite''\<rparr>]
      else if g = ''Generic'' then [\<lparr>preset_game = ''Generic'', preset_description = ''Generic'',
                                     preset_longDescription = ''Any game''\<rparr>]
      else [])"

section \<open>Lemmas\<close>

text \<open>Outside a stream, \<open>loadAvailableProfiles\<close> agrees with the \<open>profiles\<close> getter:
  profiles are available exactly when the getter lists some, the chosen profile is the
  first it lists, and they are generic exactly when the game has none of its own.\<close>

lemma loadAvailableProfiles_profiles:
  "areAvailableProfiles (loadAvailableProfiles gp False f) = (edit_profiles gp f \<noteq> []) \<and>
   (edit_profiles gp f \<noteq> [] \<longrightarrow>
      encoderProfile (loadAvailableProfiles gp False f) = Some (hd (edit_profiles gp f)) \<and>
      isGenericProfiles (loadAvailableProfiles gp False f) = (gp (gameValue f) = []))"
  by (cases "gp (gameValue f)"; cases "gp ''Generic''")
     (simp_all add: loadAvailableProfiles_def edit_profiles_def Let_def)

lemma loadAvailableProfiles_midStream [simp]:
  "loadAvailableProfiles gp True f = f"
  by (simp add: loadAvailableProfiles_def)

lemma loadAvailableProfiles_models [simp]:
  "gameValue (loadAvailableProfiles gp m f) = gameValue f \<and> gameOptions (loadAvailableProfiles gp m f) = gameOptions f \<and>
   streamTitle (loadAvailableProfiles gp m f) = streamTitle f \<and> game_searches (loadAvailableProfiles gp m f) = game_searches f"
  by (simp add: loadAvailableProfiles_def Let_def split: prod.split)

text \<open>A settled search clears \<open>searchingGames\<close> and appends its games, whatever other
  search is still pending; a rejected one leaves the flag set.\<close>

lemma settle_search_effect:
  "settle_search i res f = Some f' \<Longrightarrow>
   game_searches f' = remove_nth i (game_searches f) \<and>
   (case res of
      None \<Rightarrow> searchingGames f' = searchingGames f \<and> gameOptions f' = gameOptions f
    | Some games \<Rightarrow> \<not> searchingGames f' \<and> gameOptions f' = gameOptions f @ map (\<lambda>g. (g, g)) games)"
  by (auto simp: settle_search_def Let_def split: if_splits option.splits)

text \<open>The window filled from the stream info offers its game and, for a game with a profile
  of its own, that profile.\<close>

lemma populateModels_demo:
  "populateModels \<lparr>ci_title = ''Friday'', ci_game = ''Fortnite''\<rparr> demo_profiles False edit_form_initial =
     edit_form_initial\<lparr>areAvailableProfiles := True, streamTitle := ''Friday'', gameValue := ''Fortnite'',
       gameOptions := [(''Fortnite'', ''Fortnite'')],
       encoderProfile := Some (to_multiselect (hd (demo_profiles ''Fortnite'')))\<rparr>"
  by (simp add: populateModels_def loadAvailableProfiles_def demo_profiles_def edit_form_initial_def Let_def)

text \<open>Two overlapping searches: the answer to the first, typed earlier, arrives after the
  second started and is added to the options of the second; the flag is cleared while the
  second search is still pending.\<close>

lemma overlapping_game_search:
  "(let f1 = snd (onGameSearchChange twitch_user ''fort'' edit_form_initial);
        f2 = snd (onGameSearchChange twitch_user ''mine'' f1)
    in map_option (\<lambda>f. (searchingGames f, gameOptions f, game_searches f)) (settle_search 0 (Some [''Fortnite'']) f2)) =
   Some (False, [(''Fortnite'', ''Fortnite'')], [''mine''])"
  by (simp add: onGameSearchChange_def settle_search_def twitch_user_def edit_form_initial_def remove_nth_def)

end
