(* ===== verification/App.thy ===== *)
theory App
  imports Prelude
begin

text \<open>
  Model of \<open>AppService\<close> (\<open>src/app/services/app/app.ts\<close>), which runs start-up and
  shutdown, and of \<open>Main.shouldLockContent\<close>
  (\<open>src/app/components/windows/Main.vue.ts\<close>), which locks the Studio and Live pages
  while the application is loading. \<open>load\<close> and the shutdown handler are asynchronous:
  \<open>load\<close> continues when \<open>sceneCollectionsService.initialize()\<close> resolves, and the
  shutdown handler runs a 300 ms timer whose body awaits \<open>deinitialize()\<close> and
  \<open>flushAll()\<close>. Each pending continuation is an entry of \<open>app_pending\<close>; the
  calls into the other services are recorded in order in \<open>app_log\<close>. The shutdown
  listener exists only once \<open>load\<close>'s continuation has registered it; the \<open>shutdown\<close>
  message runs every registered listener.
\<close>

section \<open>State\<close>

record IAppState =
  loading :: bool
  argv :: "string list"

datatype app_call =
    Track string
  | InitializeCollections
  | StartOnboardingIfRequired
  | RegisterShutdownListener
  | PerformanceMonitorStart
  | IpcListen
  | TcpListen
  | ShowPatchNotesIfRequired bool
  | ProtocolLinksStart "string list"
  | AcknowledgeShutdown
  | IpcStopListening
  | TcpStopListening
  | DeinitializeCollections
  | PerformanceMonitorStop
  | TransitionsReset
  | CloseAllOneOffs
  | FlushAll
  | ShutdownComplete

datatype app_pending = AwaitInitialize | ShutdownTimer | AwaitDeinitialize | AwaitFlush

record app_world = IAppState +
  listeners :: nat
  app_pending :: "app_pending list"
  app_log :: "app_call list"

definition app_initial :: app_world where
  "app_initial = \<lparr>loading = True, argv = [], listeners = 0, app_pending = [], app_log = []\<rparr>"

definition START_LOADING :: "'a IAppState_scheme \<Rightarrow> 'a IAppState_scheme" where
  "START_LOADING s = s\<lparr>loading := True\<rparr>"

definition FINISH_LOADING :: "'a IAppState_scheme \<Rightarrow> 'a IAppState_scheme" where
  "FINISH_LOADING s = s\<lparr>loading := False\<rparr>"

definition SET_ARGV :: "string list \<Rightarrow> 'a IAppState_scheme \<Rightarrow> 'a IAppState_scheme" where
  "SET_ARGV a s = s\<lparr>argv := a\<rparr>"

declare START_LOADING_def [mutation_defs] FINISH_LOADING_def [mutation_defs] SET_ARGV_def [mutation_defs]

definition app_call :: "app_call list \<Rightarrow> app_world \<Rightarrow> app_world" where
  "app_call cs w = w\<lparr>app_log := app_log w @ cs\<rparr>"

definition app_await :: "app_pending \<Rightarrow> app_world \<Rightarrow> app_world" where
  "app_await p w = w\<lparr>app_pending := app_pending w @ [p]\<rparr>"

section \<open>Operations\<close>

text \<open>\<open>load\<close>, tracked as \<open>app_start\<close>, up to the \<open>initialize()\<close> promise.\<close>

definition load :: "app_world \<Rightarrow> app_world" where
  "load w = app_await AwaitInitialize (app_call [Track ''app_start'', InitializeCollections] (START_LOADING w))"

text \<open>The continuation of \<open>load\<close>; \<open>onboarded\<close> is what onboarding answered.\<close>

definition load_initialized :: "bool \<Rightarrow> app_world \<Rightarrow> app_world" where
  "load_initialized onboarded w =
     FINISH_LOADING (app_call [ShowPatchNotesIfRequired onboarded]
       (app_call [PerformanceMonitorStart, IpcListen, TcpListen]
         ((app_call [StartOnboardingIfRequired, RegisterShutdownListener] w)\<lparr>listeners := Suc (listeners w)\<rparr>)))"

definition setArgv :: "string list \<Rightarrow> app_world \<Rightarrow> app_world" where
  "setArgv a w = app_call [ProtocolLinksStart a] (SET_ARGV a w)"

text \<open>The \<open>shutdown\<close> listener: acknowledge, then \<open>shutdownHandler\<close> (tracked as \<open>app_close\<close>).\<close>

definition shutdownHandler :: "app_world \<Rightarrow> app_world" where
  "shutdownHandler w =
     app_await ShutdownTimer (app_call [Track ''app_close'', IpcStopListening, TcpStopListening] (START_LOADING w))"

definition on_shutdown :: "app_world \<Rightarrow> app_world" where
  "on_shutdown w = shutdownHandler (app_call [AcknowledgeShutdown] w)"

definition shutdown_timer :: "app_world \<Rightarrow> app_world" where
  "shutdown_timer w = app_await AwaitDeinitialize (app_call [DeinitializeCollections] w)"

definition shutdown_deinitialized :: "app_world \<Rightarrow> app_world" where
  "shutdown_deinitialized w =
     app_await AwaitFlush (app_call [PerformanceMonitorStop, TransitionsReset, CloseAllOneOffs, FlushAll] w)"

definition shutdown_flushed :: "app_world \<Rightarrow> app_world" where
  "shutdown_flushed w = app_call [ShutdownComplete] w"

definition startLoading :: "app_world \<Rightarrow> app_world" where
  "startLoading w = START_LOADING w"

definition finishLoading :: "app_world \<Rightarrow> app_world" where
  "finishLoading w = FINISH_LOADING w"

section \<open>The main window\<close>

definition shouldLockContent :: "bool \<Rightarrow> string \<Rightarrow> bool" where
  "shouldLockContent applicationLoading currentPage \<longleftrightarrow>
     applicationLoading \<and> (currentPage = ''Studio'' \<or> currentPage = ''Live'')"

section \<open>The service as a machine\<close>

datatype app_event =
    Load
  | Settle nat bool
  | ShutdownSignal
  | SetArgv "string list"
  | StartLoading
  | FinishLoading

fun resume_app :: "app_pending \<Rightarrow> bool \<Rightarrow> app_world \<Rightarrow> app_world" where
  "resume_app AwaitInitialize onboarded w = load_initialized onboarded w"
| "resume_app ShutdownTimer _ w = shutdown_timer w"
| "resume_app AwaitDeinitialize _ w = shutdown_deinitialized w"
| "resume_app AwaitFlush _ w = shutdown_flushed w"

fun app_step :: "app_event \<Rightarrow> app_world \<Rightarrow> app_world option" where
  "app_step Load w = Some (load w)"
| "app_step (Settle k onboarded) w =
     (if k < length (app_pending w)
      then Some (resume_app (app_pending w ! k) onboarded (w\<lparr>app_pending := remove_nth k (app_pending w)\<rparr>))
      else None)"
| "app_step ShutdownSignal w = Some ((on_shutdown ^^ listeners w) w)"
| "app_step (SetArgv a) w = Some (setArgv a w)"
| "app_step StartLoading w = Some (startLoading w)"
| "app_step FinishLoading w = Some (finishLoading w)"

inductive app_reachable :: "app_world \<Rightarrow> bool" where
  init: "app_reachable app_initial"
| step: "app_reachable w \<Longrightarrow> app_step e w = Some w' \<Longrightarrow> app_reachable w'"

fun app_exec :: "app_event list \<Rightarrow> app_world \<Rightarrow> app_world option" where
  "app_exec [] w = Some w"
| "app_exec (e # es) w = (case app_step e w of None \<Rightarrow> None | Some w' \<Rightarrow> app_exec es w')"

text \<open>\<open>a\<close> occurs before the first \<open>b\<close> of a log, if there is one.\<close>

definition occurs_before :: "'a \<Rightarrow> 'a \<Rightarrow> 'a list \<Rightarrow> bool" where
  "occurs_before a b xs \<longleftrightarrow> (b \<in> set xs \<longrightarrow> a \<in> set (takeWhile (\<lambda>x. x \<noteq> b) xs))"

text \<open>What the shutdown sequence guarantees at every moment.\<close>

definition shutdown_order :: "app_world \<Rightarrow> bool" where
  "shutdown_order w \<longleftrightarrow>
     (ShutdownTimer \<in> set (app_pending w) \<or> AwaitDeinitialize \<in> set (app_pending w) \<or> AwaitFlush \<in> set (app_pending w) \<longrightarrow>
        IpcStopListening \<in> set (app_log w) \<and> TcpStopListening \<in> set (app_log w)) \<and>
     (AwaitDeinitialize \<in> set (app_pending w) \<or> AwaitFlush \<in> set (app_pending w) \<longrightarrow> DeinitializeCollections \<in> set (app_log w)) \<and>
     (AwaitFlush \<in> set (app_pending w) \<longrightarrow> FlushAll \<in> set (app_log w)) \<and>
     (0 < listeners w \<longrightarrow> RegisterShutdownListener \<in> set (app_log w)) \<and>
     occurs_before RegisterShutdownListener AcknowledgeShutdown (app_log w) \<and>
     occurs_before IpcStopListening DeinitializeCollections (app_log w) \<and>
     occurs_before TcpStopListening DeinitializeCollections (app_log w) \<and>
     occurs_before DeinitializeCollections FlushAll (app_log w) \<and>
     occurs_before FlushAll ShutdownComplete (app_log w)"

definition app_startup_run :: "app_event list" where
  "app_startup_run = [Load, Settle 0 True, ShutdownSignal, Settle 0 False, Settle 0 False, Settle 0 False]"

text \<open>
  A session of the application: \<open>load\<close> runs once at start-up, and then promises, timers,
  the shutdown message and \<open>setArgv\<close> interleave. \<open>startLoading\<close> and
  \<open>finishLoading\<close> are public but no code under \<open>src\<close> calls them.
\<close>

fun is_lifecycle :: "app_event \<Rightarrow> bool" where
  "is_lifecycle Load = False"
| "is_lifecycle StartLoading = False"
| "is_lifecycle FinishLoading = False"
| "is_lifecycle _ = True"

inductive app_session :: "app_world \<Rightarrow> bool" where
  start: "app_session (load app_initial)"
| step: "app_session w \<Longrightarrow> is_lifecycle e \<Longrightarrow> app_step e w = Some w' \<Longrightarrow> app_session w'"

text \<open>What a session keeps: \<open>loading\<close> is set exactly while the scene collections
  initialize or once a shutdown was acknowledged, and the shutdown listener exists exactly
  once \<open>initialize()\<close> has resolved.\<close>

definition session_inv :: "app_world \<Rightarrow> bool" where
  "session_inv w \<longleftrightarrow>
     (loading w \<longleftrightarrow> AwaitInitialize \<in> set (app_pending w) \<or> AcknowledgeShutdown \<in> set (app_log w)) \<and>
     (listeners w = 0 \<longrightarrow> app_pending w = [AwaitInitialize] \<and> AcknowledgeShutdown \<notin> set (app_log w)) \<and>
     (0 < listeners w \<longrightarrow> AwaitInitialize \<notin> set (app_pending w))"

section \<open>Lemmas\<close>

lemma app_call_fields [simp]:
  "app_pending (app_call cs w) = app_pending w" "listeners (app_call cs w) = listeners w"
  "app_log (app_call cs w) = app_log w @ cs"
  "app_pending (app_await p w) = app_pending w @ [p]" "listeners (app_await p w) = listeners w"
  "app_log (app_await p w) = app_log w"
  "app_pending (START_LOADING w) = app_pending w" "listeners (START_LOADING w) = listeners w" "app_log (START_LOADING w) = app_log w"
  "app_pending (FINISH_LOADING w) = app_pending w" "listeners (FINISH_LOADING w) = listeners w" "app_log (FINISH_LOADING w) = app_log w"
  by (simp_all add: app_call_def app_await_def mutation_defs)

lemma occurs_before_snoc_list [simp]:
  "occurs_before a b (xs @ cs) \<longleftrightarrow>
     (if b \<in> set xs then occurs_before a b xs
      else b \<in> set cs \<longrightarrow> a \<in> set xs \<or> a \<in> set (takeWhile (\<lambda>x. x \<noteq> b) cs))"
proof (cases "b \<in> set xs")
  case True
  then show ?thesis by (simp add: occurs_before_def takeWhile_append1)
next
  case False
  then have "takeWhile (\<lambda>x. x \<noteq> b) (xs @ cs) = xs @ takeWhile (\<lambda>x. x \<noteq> b) cs"
    by (induction xs) auto
  with False show ?thesis by (auto simp: occurs_before_def)
qed

lemma shutdown_order_on_shutdown:
  "shutdown_order w \<Longrightarrow> 0 < listeners w \<Longrightarrow> shutdown_order (on_shutdown w)"
  unfolding shutdown_order_def on_shutdown_def shutdownHandler_def by auto

lemma listeners_on_shutdown [simp]: "listeners (on_shutdown w) = listeners w"
  by (simp add: on_shutdown_def shutdownHandler_def)

lemma shutdown_order_signal:
  assumes "shutdown_order w" and "0 < listeners w \<or> n = 0"
  shows "shutdown_order ((on_shutdown ^^ n) w) \<and> listeners ((on_shutdown ^^ n) w) = listeners w"
  using assms(2)
proof (induction n)
  case 0
  then show ?case using assms(1) by simp
next
  case (Suc n)
  then have pos: "0 < listeners w" by simp
  with Suc.IH have "shutdown_order ((on_shutdown ^^ n) w)" "listeners ((on_shutdown ^^ n) w) = listeners w" by auto
  with pos shutdown_order_on_shutdown show ?case by simp
qed

lemma shutdown_order_drop_pending:
  "shutdown_order w \<Longrightarrow> set ps \<subseteq> set (app_pending w) \<Longrightarrow> shutdown_order (w\<lparr>app_pending := ps\<rparr>)"
  unfolding shutdown_order_def by auto

lemma shutdown_order_resume:
  assumes inv: "shutdown_order w" and k: "k < length (app_pending w)"
  shows "shutdown_order (resume_app (app_pending w ! k) b (w\<lparr>app_pending := remove_nth k (app_pending w)\<rparr>))"
proof -
  let ?w0 = "w\<lparr>app_pending := remove_nth k (app_pending w)\<rparr>"
  have inv0: "shutdown_order ?w0"
    using shutdown_order_drop_pending [OF inv] set_remove_nth [OF k] by blast
  have mem: "app_pending w ! k \<in> set (app_pending w)" using k by simp
  show ?thesis
  proof (cases "app_pending w ! k")
    case AwaitInitialize
    with inv0 show ?thesis
      unfolding shutdown_order_def by (auto simp: load_initialized_def)
  next
    case ShutdownTimer
    with inv0 inv mem show ?thesis
      unfolding shutdown_order_def by (auto simp: shutdown_timer_def)
  next
    case AwaitDeinitialize
    with inv0 inv mem show ?thesis
      unfolding shutdown_order_def by (auto simp: shutdown_deinitialized_def)
  next
    case AwaitFlush
    with inv0 inv mem show ?thesis
      unfolding shutdown_order_def by (auto simp: shutdown_flushed_def)
  qed
qed

lemma shutdown_order_step:
  assumes inv: "shutdown_order w" and st: "app_step e w = Some w'"
  shows "shutdown_order w'"
proof (cases e)
  case Load
  with st have "w' = load w" by simp
  with inv show ?thesis unfolding shutdown_order_def load_def by simp
next
  case (Settle k b)
  with st have "k < length (app_pending w)"
    and "w' = resume_app (app_pending w ! k) b (w\<lparr>app_pending := remove_nth k (app_pending w)\<rparr>)"
    by (simp_all split: if_splits)
  with inv show ?thesis by (simp add: shutdown_order_resume)
next
  case ShutdownSignal
  with st have "w' = (on_shutdown ^^ listeners w) w" by simp
  moreover have "0 < listeners w \<or> listeners w = 0" by auto
  ultimately show ?thesis using shutdown_order_signal [OF inv, of "listeners w"] by simp
next
  case (SetArgv a)
  with st have "w' = setArgv a w" by simp
  with inv show ?thesis unfolding shutdown_order_def setArgv_def by (simp add: SET_ARGV_def)
next
  case StartLoading
  with st have "w' = startLoading w" by simp
  with inv show ?thesis unfolding shutdown_order_def startLoading_def by simp
next
  case FinishLoading
  with st have "w' = finishLoading w" by simp
  with inv show ?thesis unfolding shutdown_order_def finishLoading_def by simp
qed

lemma shutdown_order_initial: "shutdown_order app_initial"
  by (simp add: shutdown_order_def app_initial_def occurs_before_def)

lemma app_exec_reachable:
  "app_reachable w \<Longrightarrow> app_exec es w = Some w' \<Longrightarrow> app_reachable w'"
  by (induction es arbitrary: w) (auto split: option.splits intro: app_reachable.step)

section \<open>Properties of start-up and shutdown\<close>

text \<open>
  C30. In every run of the application service, whatever the order in which promises and
  timers settle: the shutdown listener is registered before the first shutdown is
  acknowledged, the IPC and TCP servers stop listening before the scene collections are
  deinitialized, deinitialization comes before the final flush, and
  \<open>shutdownComplete\<close> is sent only after the flush finished.
\<close>

theorem shutdown_sequence_order:
  assumes "app_reachable w"
  shows "occurs_before RegisterShutdownListener AcknowledgeShutdown (app_log w) \<and>
         occurs_before IpcStopListening DeinitializeCollections (app_log w) \<and>
         occurs_before TcpStopListening DeinitializeCollections (app_log w) \<and>
         occurs_before DeinitializeCollections FlushAll (app_log w) \<and>
         occurs_before FlushAll ShutdownComplete (app_log w)"
proof -
  from assms have "shutdown_order w"
    by (induction rule: app_reachable.induct) (auto intro: shutdown_order_initial shutdown_order_step)
  then show ?thesis by (simp add: shutdown_order_def)
qed

theorem shutdown_sequence_order_witness:
  "app_reachable (the (app_exec app_startup_run app_initial)) \<and>
   occurs_before FlushAll ShutdownComplete (app_log (the (app_exec app_startup_run app_initial))) \<and>
   ShutdownComplete \<in> set (app_log (the (app_exec app_startup_run app_initial)))"
proof -
  have "app_exec app_startup_run app_initial = Some (the (app_exec app_startup_run app_initial))" by code_simp
  then have r: "app_reachable (the (app_exec app_startup_run app_initial))"
    by (rule app_exec_reachable [OF app_reachable.init])
  have c: "ShutdownComplete \<in> set (app_log (the (app_exec app_startup_run app_initial)))" by code_simp
  from shutdown_sequence_order [OF r] r c show ?thesis by blast
qed

lemma app_call_loading [simp]:
  "loading (app_call cs w) = loading w" "loading (app_await p w) = loading w"
  by (simp_all add: app_call_def app_await_def)

lemma on_shutdown_fields [simp]:
  "loading (on_shutdown w)"
  "AcknowledgeShutdown \<in> set (app_log (on_shutdown w))"
  "set (app_log (on_shutdown w)) = set (app_log w) \<union> {AcknowledgeShutdown, Track ''app_close'', IpcStopListening, TcpStopListening}"
  "set (app_pending (on_shutdown w)) = insert ShutdownTimer (set (app_pending w))"
  by (auto simp: on_shutdown_def shutdownHandler_def mutation_defs)

lemma on_shutdown_pow:
  "set (app_pending ((on_shutdown ^^ n) w)) \<subseteq> insert ShutdownTimer (set (app_pending w)) \<and>
   set (app_log w) \<subseteq> set (app_log ((on_shutdown ^^ n) w)) \<and>
   listeners ((on_shutdown ^^ n) w) = listeners w \<and>
   (0 < n \<longrightarrow> loading ((on_shutdown ^^ n) w) \<and> AcknowledgeShutdown \<in> set (app_log ((on_shutdown ^^ n) w)))"
proof (induction n)
  case (Suc n)
  then show ?case using on_shutdown_fields [of "(on_shutdown ^^ n) w"] by auto
qed auto

lemma session_inv_resume:
  assumes inv: "session_inv w" and pos: "0 < listeners w" and k: "k < length (app_pending w)"
  shows "session_inv (resume_app (app_pending w ! k) b (w\<lparr>app_pending := remove_nth k (app_pending w)\<rparr>))"
proof -
  have ni: "AwaitInitialize \<notin> set (app_pending w)" using inv pos by (simp add: session_inv_def)
  then have p: "app_pending w ! k \<noteq> AwaitInitialize" using k nth_mem by fastforce
  have sub: "set (remove_nth k (app_pending w)) \<subseteq> set (app_pending w)" using set_remove_nth [OF k] by blast
  show ?thesis
  proof (cases "app_pending w ! k")
    case ShutdownTimer
    with inv pos ni sub show ?thesis by (auto simp: session_inv_def shutdown_timer_def)
  next
    case AwaitDeinitialize
    with inv pos ni sub show ?thesis by (auto simp: session_inv_def shutdown_deinitialized_def)
  next
    case AwaitFlush
    with inv pos ni sub show ?thesis by (auto simp: session_inv_def shutdown_flushed_def)
  qed (use p in simp)
qed

lemma session_inv_step:
  assumes inv: "session_inv w" and lc: "is_lifecycle e" and st: "app_step e w = Some w'"
  shows "session_inv w'"
proof (cases e)
  case (Settle k b)
  with st have k: "k < length (app_pending w)"
    and w': "w' = resume_app (app_pending w ! k) b (w\<lparr>app_pending := remove_nth k (app_pending w)\<rparr>)"
    by (simp_all split: if_splits)
  show ?thesis
  proof (cases "listeners w")
    case 0
    with inv have "app_pending w = [AwaitInitialize]" "AcknowledgeShutdown \<notin> set (app_log w)"
      by (simp_all add: session_inv_def)
    with k w' show ?thesis by (simp add: session_inv_def load_initialized_def remove_nth_def mutation_defs)
  next
    case (Suc n)
    with session_inv_resume [OF inv _ k] w' show ?thesis by simp
  qed
next
  case ShutdownSignal
  with st have w': "w' = (on_shutdown ^^ listeners w) w" by simp
  show ?thesis
  proof (cases "listeners w")
    case 0
    with w' inv show ?thesis by simp
  next
    case (Suc n)
    have "AwaitInitialize \<notin> set (app_pending w)" using inv Suc by (simp add: session_inv_def)
    with on_shutdown_pow [of "listeners w" w] Suc w' show ?thesis by (auto simp: session_inv_def)
  qed
next
  case (SetArgv a)
  with st inv show ?thesis by (auto simp: session_inv_def setArgv_def mutation_defs)
qed (use lc in simp_all)

lemma app_session_exec:
  "app_session w \<Longrightarrow> list_all is_lifecycle es \<Longrightarrow> app_exec es w = Some w' \<Longrightarrow> app_session w'"
  by (induction es arbitrary: w) (auto split: option.splits intro: app_session.step)

text \<open>
  C31. In every session of the application, whatever the order in which promises, timers
  and the shutdown message arrive, the main window locks its content exactly on the Studio
  and Live pages, and exactly while the scene collections are being initialized or once a
  shutdown has been acknowledged: nothing clears \<open>loading\<close> after shutdown, and every
  other page stays usable throughout.
\<close>

theorem studio_locked_while_loading:
  assumes "app_session w"
  shows "shouldLockContent (loading w) page \<longleftrightarrow>
           (page = ''Studio'' \<or> page = ''Live'') \<and>
           (AwaitInitialize \<in> set (app_pending w) \<or> AcknowledgeShutdown \<in> set (app_log w))"
proof -
  from assms have "session_inv w"
  proof (induction rule: app_session.induct)
    case start
    then show ?case by (simp add: session_inv_def load_def app_initial_def mutation_defs)
  next
    case (step w e w')
    then show ?case using session_inv_step by blast
  qed
  then show ?thesis by (auto simp: session_inv_def shouldLockContent_def)
qed

theorem studio_locked_while_loading_witness:
  "shouldLockContent (loading (the (app_exec [Settle 0 True, ShutdownSignal] (load app_initial)))) ''Live'' \<and>
   \<not> shouldLockContent (loading (the (app_exec [Settle 0 True] (load app_initial)))) ''Studio''"
proof -
  have e1: "app_exec [Settle 0 True, ShutdownSignal] (load app_initial) =
      Some (the (app_exec [Settle 0 True, ShutdownSignal] (load app_initial)))" by code_simp
  have e2: "app_exec [Settle 0 True] (load app_initial) = Some (the (app_exec [Settle 0 True] (load app_initial)))"
    by code_simp
  have s1: "app_session (the (app_exec [Settle 0 True, ShutdownSignal] (load app_initial)))"
    by (rule app_session_exec [OF app_session.start _ e1]) simp
  have s2: "app_session (the (app_exec [Settle 0 True] (load app_initial)))"
    by (rule app_session_exec [OF app_session.start _ e2]) simp
  have a1: "AcknowledgeShutdown \<in> set (app_log (the (app_exec [Settle 0 True, ShutdownSignal] (load app_initial))))"
    by code_simp
  have a2: "AwaitInitialize \<notin> set (app_pending (the (app_exec [Settle 0 True] (load app_initial)))) \<and>
            AcknowledgeShutdown \<notin> set (app_log (the (app_exec [Settle 0 True] (load app_initial))))"
    by code_simp
  from studio_locked_while_loading [OF s1, of "''Live''"] studio_locked_while_loading [OF s2, of "''Studio''"] a1 a2
  show ?thesis by simp
qed

end
