(* ===== verification/Settings.thy ===== *)
theory Settings
  imports App
begin

text \<open>
  Model of \<open>SettingsService\<close> (\<open>src/unnamed/part_002\<close>, lines 215-521). The settings
  live in OBS; the service reads them as form data (categories of sub-categories of
  parameters), keeps a flattened copy in its state (category \<open>\<rightarrow>\<close> parameter name
  \<open>\<rightarrow>\<close> value) and writes them back. The audio category is special: its form is built
  from the audio sources bound to the five OBS audio channels, and saving it creates,
  updates or removes those sources. Dictionaries are association lists in insertion order
  (theory \<open>Prelude\<close>); the OBS store, the device list and the sources are inputs, and
  the calls into OBS and \<open>SourcesService\<close> are returned as a list of effects.
\<close>

section \<open>Form data and state\<close>

datatype obs_value = OStr string | ONum int | OBool bool | ONull

record settings_param =
  p_name :: string
  p_description :: string
  p_value :: obs_value
  p_currentValue :: obs_value
  p_enabled :: bool
  p_visible :: bool
  p_options :: "(string \<times> obs_value) list"

record ISettingsSubCategory =
  nameSubCategory :: string
  parameters :: "settings_param list"

type_synonym form_data = "(string \<times> ISettingsSubCategory list) list"

type_synonym settings_state = "(string \<times> (string \<times> obs_value) list) list"

text \<open>\<open>settingsState[groupName] = settingsState[groupName] || {}; ...[parameter.name] = value\<close>.\<close>

definition set_param :: "string \<Rightarrow> settings_param \<Rightarrow> settings_state \<Rightarrow> settings_state" where
  "set_param g p st = obj_set g (obj_set (p_name p) (p_value p) (case map_of st g of None \<Rightarrow> [] | Some m \<Rightarrow> m)) st"

definition convertFormDataToState :: "form_data \<Rightarrow> settings_state" where
  "convertFormDataToState fd =
     fold (\<lambda>(g, sgs). fold (\<lambda>sg. fold (set_param g) (parameters sg)) sgs) fd []"

text \<open>\<open>SET_SETTINGS\<close>: \<open>Object.assign({}, this.state, settingsData)\<close>, a merge of whole categories.\<close>

definition SET_SETTINGS :: "settings_state \<Rightarrow> settings_state \<Rightarrow> settings_state" where
  "SET_SETTINGS data st = fold (\<lambda>(k, v). obj_set k v) data st"

declare SET_SETTINGS_def [mutation_defs]

section \<open>Categories\<close>

definition advancedSettingEnabled :: "bool \<Rightarrow> string list \<Rightarrow> bool" where
  "advancedSettingEnabled devMode args \<longleftrightarrow> devMode \<or> ''--adv-settings'' \<in> set args"

definition getCategories :: "string list \<Rightarrow> bool \<Rightarrow> string list \<Rightarrow> string list" where
  "getCategories obsCategories devMode args =
     obsCategories @ [''Scene Collections'', ''Notifications'', ''Appearance'', ''Remote Control''] @
     (if advancedSettingEnabled devMode args then [''API'', ''Experimental''] else [])"

section \<open>Reading a category\<close>

definition BLACK_LIST_NAMES :: "string list" where
  "BLACK_LIST_NAMES = [''SysTrayMinimizeToTray'', ''ReplayBufferWhileStreaming'', ''KeepReplayBufferStreamStops'',
     ''SysTrayEnabled'', ''CenterSnapping'', ''HideProjectorCursor'', ''ProjectorAlwaysOnTop'', ''SaveProjectors'',
     ''SysTrayWhenStarted'', ''RecRBSuffix'', ''LowLatencyEnable'', ''BindIP'', ''FilenameFormatting'', ''MaxRetries'',
     ''NewSocketLoopEnable'', ''OverwriteIfExists'', ''RecRBPrefix'', ''Reconnect'', ''RetryDelay'']"

text \<open>
  The form helpers (not under \<open>src\<close>) move a parameter's value between the two fields
  of an OBS property: OBS reads and writes \<open>currentValue\<close>, a form shows \<open>value\<close>.
  \<open>obsValuesToInputValues(parameters, {disabledFields})\<close> shows the current value and
  disables the listed fields; \<open>inputValuesToObsValues(parameters, {valueToCurrentValue:
  true})\<close> copies the edited value into the current value. The type conversions of the
  helpers (booleans and numbers between their OBS and form encodings) are not modelled.
\<close>

definition obsValuesToInputValues :: "string list \<Rightarrow> settings_param list \<Rightarrow> settings_param list" where
  "obsValuesToInputValues disabled ps =
     map (\<lambda>p. p\<lparr>p_value := p_currentValue p, p_enabled := p_enabled p \<and> p_name p \<notin> set disabled\<rparr>) ps"

definition inputValuesToObsValues :: "settings_param list \<Rightarrow> settings_param list" where
  "inputValuesToObsValues ps = map (\<lambda>p. p\<lparr>p_currentValue := p_value p\<rparr>) ps"

text \<open>The encoder fields an optimized profile controls, when one is in use.\<close>

record IOutputSettings =
  presetField :: string
  encoderSettingsField :: string

fun find_index :: "('a \<Rightarrow> bool) \<Rightarrow> 'a list \<Rightarrow> nat option" where
  "find_index P [] = None"
| "find_index P (x # xs) = (if P x then Some 0 else map_option Suc (find_index P xs))"

text \<open>
  \<open>settings.indexOf(settings.find(...))\<close> is \<open>-1\<close> when nothing matches, and
  \<open>settings[-1]\<close> is \<open>undefined\<close>: reading or setting a property of it throws.
\<close>

definition hide_param :: "string \<Rightarrow> settings_param list \<Rightarrow> settings_param list outcome" where
  "hide_param n ps =
     (case find_index (\<lambda>p. p_name p = n) ps of
        None \<Rightarrow> Thrown (TypeError ''Cannot set property visible of undefined'')
      | Some i \<Rightarrow> Ret (ps[i := (ps ! i)\<lparr>p_visible := False\<rparr>]))"

definition hide_optimized_fields :: "IOutputSettings \<Rightarrow> ISettingsSubCategory list \<Rightarrow> ISettingsSubCategory list outcome" where
  "hide_optimized_fields os settings =
     (case find_index (\<lambda>c. nameSubCategory c = ''Streaming'') settings of
        None \<Rightarrow> Thrown (TypeError ''Cannot read property parameters of undefined'')
      | Some k \<Rightarrow>
          (case hide_param (presetField os) (parameters (settings ! k)) of
             Thrown e \<Rightarrow> Thrown e
           | Ret ps1 \<Rightarrow>
               (case hide_param (encoderSettingsField os) ps1 of
                  Thrown e \<Rightarrow> Thrown e
                | Ret ps2 \<Rightarrow> Ret (settings[k := (settings ! k)\<lparr>parameters := ps2\<rparr>]))))"

section \<open>The audio category\<close>

text \<open>
  \<open>E_AUDIO_CHANNELS\<close> (from \<open>obs-studio-node\<close>, not under \<open>src\<close>): the two desktop
  outputs are channels 1 and 2, the three microphone inputs channels 3 to 5.
\<close>

definition OUTPUT_1 :: nat where "OUTPUT_1 = 1"
definition OUTPUT_2 :: nat where "OUTPUT_2 = 2"
definition INPUT_1 :: nat where "INPUT_1 = 3"
definition INPUT_3 :: nat where "INPUT_3 = 5"

datatype device_type = DevInput | DevOutput

record IAudioDevice =
  dev_id :: string
  dev_description :: string
  dev_type :: device_type

text \<open>An audio source of \<open>SourcesService\<close>: its id, its channel (\<open>undefined\<close> is
  \<open>None\<close>) and the \<open>device_id\<close> of its OBS input settings.\<close>

record audio_source =
  sourceId :: string
  src_channel :: "nat option"
  device_id :: obs_value

datatype audio_effect =
    RemoveSource string
  | CreateSource string string nat
  | UpdateSettings string obs_value string

record audio_store =
  as_sources :: "audio_source list"
  as_next :: nat
  as_log :: "audio_effect list"

definition removeSource :: "string \<Rightarrow> audio_store \<Rightarrow> audio_store" where
  "removeSource sid st =
     st\<lparr>as_sources := filter (\<lambda>s. sourceId s \<noteq> sid) (as_sources st), as_log := as_log st @ [RemoveSource sid]\<rparr>"

text \<open>\<open>createSource(name, type, {}, {channel})\<close>: the new source gets a fresh id and no
  device of its own: OBS gives it the default device, whose id is \<open>default\<close>.\<close>

definition createSource :: "string \<Rightarrow> string \<Rightarrow> nat \<Rightarrow> audio_store \<Rightarrow> audio_store" where
  "createSource name typ c st =
     st\<lparr>as_sources := as_sources st @ [\<lparr>sourceId = ''source_'' @ nat_str (as_next st), src_channel = Some c, device_id = OStr ''default''\<rparr>],
        as_next := Suc (as_next st), as_log := as_log st @ [CreateSource name typ c]\<rparr>"

text \<open>\<open>source.updateSettings({device_id, name})\<close> on the \<open>i\<close>-th source.\<close>

definition updateSettings :: "nat \<Rightarrow> obs_value \<Rightarrow> string \<Rightarrow> audio_store \<Rightarrow> audio_store" where
  "updateSettings i v name st =
     st\<lparr>as_sources := (as_sources st)[i := (as_sources st ! i)\<lparr>device_id := v\<rparr>],
        as_log := as_log st @ [UpdateSettings (sourceId (as_sources st ! i)) v name]\<rparr>"

definition audio_param :: "IAudioDevice list \<Rightarrow> audio_source list \<Rightarrow> device_type \<Rightarrow> nat \<Rightarrow> string \<Rightarrow> string \<Rightarrow> settings_param" where
  "audio_param devs sic typ c desc name =
     \<lparr>p_name = name, p_description = desc,
      p_value = (case find (\<lambda>s. src_channel s = Some c) sic of Some s \<Rightarrow> device_id s | None \<Rightarrow> ONull),
      p_currentValue = (case find (\<lambda>s. src_channel s = Some c) sic of Some s \<Rightarrow> device_id s | None \<Rightarrow> ONull),
      p_enabled = True, p_visible = True,
      p_options = (''Disabled'', ONull) # map (\<lambda>d. (dev_description d, OStr (dev_id d))) (filter (\<lambda>d. dev_type d = typ) devs)\<rparr>"

definition getAudioSettingsFormData :: "IAudioDevice list \<Rightarrow> audio_source list \<Rightarrow> ISettingsSubCategory list" where
  "getAudioSettingsFormData devs srcs =
     (let sic = filter (\<lambda>s. src_channel s \<noteq> None) srcs;
          outs = map (\<lambda>c. audio_param devs sic DevOutput c (''Desktop Audio Device '' @ nat_str c)
                          (''Desktop Audio '' @ (if c > 1 then nat_str c else []))) [OUTPUT_1..<Suc OUTPUT_2];
          ins = map (\<lambda>c. audio_param devs sic DevInput c (''Mic/Auxiliary device '' @ nat_str (c - 2))
                          (''Mic/Aux '' @ (if c - 2 > 1 then nat_str (c - 2) else []))) [INPUT_1..<Suc INPUT_3]
      in [\<lparr>nameSubCategory = ''Untitled'', parameters = outs @ ins\<rparr>])"

text \<open>One iteration of the \<open>forEach\<close> of \<open>setAudioSettings\<close>, for channel \<open>c = ind + 1\<close>.
  \<open>audioDevices.find(...)\<close> is \<open>undefined\<close> for a device that is not plugged in, and
  \<open>device.id\<close> then throws.\<close>

definition audio_channel_step :: "IAudioDevice list \<Rightarrow> nat \<Rightarrow> settings_param \<Rightarrow> audio_store \<Rightarrow> audio_store outcome" where
  "audio_channel_step devs c p st =
     (let isOutput = c \<in> {OUTPUT_1, OUTPUT_2};
          src = find_index (\<lambda>s. src_channel s = Some c) (as_sources st)
      in if src \<noteq> None \<and> p_value p = ONull then Ret (removeSource (sourceId (as_sources st ! the src)) st)
         else if p_value p \<noteq> ONull then
           (case find (\<lambda>d. OStr (dev_id d) = p_value p) devs of
              None \<Rightarrow> Thrown (TypeError ''Cannot read property id of undefined'')
            | Some d \<Rightarrow>
                (let displayName = (if dev_id d = ''default'' then p_name p else dev_description d)
                 in case src of
                      None \<Rightarrow> Ret (createSource displayName
                                  (if isOutput then ''wasapi_output_capture'' else ''wasapi_input_capture'') c st)
                    | Some i \<Rightarrow> Ret (updateSettings i (p_value p) displayName st)))
         else Ret st)"

text \<open>The \<open>forEach\<close>: a throw stops it, and what the earlier iterations did stays done.\<close>

fun audio_loop :: "IAudioDevice list \<Rightarrow> nat \<Rightarrow> settings_param list \<Rightarrow> audio_store \<Rightarrow> unit outcome \<times> audio_store" where
  "audio_loop devs ind [] st = (Ret (), st)"
| "audio_loop devs ind (p # ps) st =
     (case audio_channel_step devs (Suc ind) p st of
        Thrown e \<Rightarrow> (Thrown e, st)
      | Ret st' \<Rightarrow> audio_loop devs (Suc ind) ps st')"

definition setAudioSettings :: "IAudioDevice list \<Rightarrow> ISettingsSubCategory list \<Rightarrow> audio_store \<Rightarrow> unit outcome \<times> audio_store" where
  "setAudioSettings devs data st =
     (case data of
        [] \<Rightarrow> (Thrown (TypeError ''Cannot read property parameters of undefined''), st)
      | sg # _ \<Rightarrow> audio_loop devs 0 (parameters sg) st)"

section \<open>The service: reading, loading and saving\<close>

text \<open>
  The OBS side (\<open>nodeObs.OBS_settings_*\<close>, not under \<open>src\<close>) is a store of forms
  by category, which \<open>OBS_settings_saveSettings\<close> overwrites; the service's state, the
  audio devices and sources, and the current encoder optimization sit beside it.
\<close>

record settings_world =
  ss_state :: settings_state
  obs_settings :: form_data
  obs_categories :: "string list"
  devices :: "IAudioDevice list"
  audio :: audio_store
  optimization :: "IOutputSettings option"

definition OBS_settings_getSettings :: "form_data \<Rightarrow> string \<Rightarrow> ISettingsSubCategory list" where
  "OBS_settings_getSettings obs cat = (case map_of obs cat of Some f \<Rightarrow> f | None \<Rightarrow> [])"

definition getSettingsFormData :: "settings_world \<Rightarrow> string \<Rightarrow> ISettingsSubCategory list outcome" where
  "getSettingsFormData w cat =
     (if cat = ''Audio'' then Ret (getAudioSettingsFormData (devices w) (as_sources (audio w)))
      else
        (let settings = map (\<lambda>g. g\<lparr>parameters := obsValuesToInputValues BLACK_LIST_NAMES (parameters g)\<rparr>)
                          (OBS_settings_getSettings (obs_settings w) cat)
         in case optimization w of
              Some os \<Rightarrow> if cat = ''Output'' then hide_optimized_fields os settings else Ret settings
            | None \<Rightarrow> Ret settings))"

text \<open>\<open>loadSettingsIntoStore\<close>: read every category, then one \<open>SET_SETTINGS\<close>; a throw
  while reading leaves the state as it was.\<close>

fun collect_forms :: "settings_world \<Rightarrow> string list \<Rightarrow> form_data \<Rightarrow> form_data outcome" where
  "collect_forms w [] acc = Ret acc"
| "collect_forms w (c # cs) acc =
     (case getSettingsFormData w c of
        Thrown e \<Rightarrow> Thrown e
      | Ret f \<Rightarrow> collect_forms w cs (obj_set c f acc))"

definition loadSettingsIntoStore :: "bool \<Rightarrow> string list \<Rightarrow> settings_world \<Rightarrow> unit outcome \<times> settings_world" where
  "loadSettingsIntoStore devMode args w =
     (case collect_forms w (getCategories (obs_categories w) devMode args) [] of
        Thrown e \<Rightarrow> (Thrown e, w)
      | Ret fd \<Rightarrow> (Ret (), w\<lparr>ss_state := SET_SETTINGS (convertFormDataToState fd) (ss_state w)\<rparr>))"

text \<open>\<open>setSettings\<close>: the audio category goes to \<open>setAudioSettings\<close> (and the state is not
  touched); any other is saved to OBS with each sub-category's parameters passed through
  \<open>inputValuesToObsValues\<close>, and merged into the state as the form was given.\<close>

definition setSettings :: "string \<Rightarrow> ISettingsSubCategory list \<Rightarrow> settings_world \<Rightarrow> unit outcome \<times> settings_world" where
  "setSettings cat data w =
     (if cat = ''Audio'' then
        (case setAudioSettings (devices w) data (audio w) of (r, a) \<Rightarrow> (r, w\<lparr>audio := a\<rparr>))
      else (Ret (), w\<lparr>obs_settings := obj_set cat (map (\<lambda>sg. sg\<lparr>parameters := inputValuesToObsValues (parameters sg)\<rparr>) data)
                                         (obs_settings w),
                      ss_state := SET_SETTINGS (convertFormDataToState [(cat, data)]) (ss_state w)\<rparr>))"

section \<open>Specification vocabulary\<close>

text \<open>
  The state read as a two-level dictionary (\<open>state[g][n]\<close>), the form read as the list
  of its \<open>((category, name), value)\<close> entries in order, and one entry written the way
  \<open>convertFormDataToState\<close> writes a parameter.
\<close>


definition state_lookup :: "settings_state \<Rightarrow> string \<Rightarrow> string \<Rightarrow> obs_value option" where
  "state_lookup st g n = (case map_of st g of None \<Rightarrow> None | Some m \<Rightarrow> map_of m n)"

definition form_entries :: "form_data \<Rightarrow> ((string \<times> string) \<times> obs_value) list" where
  "form_entries fd = concat (map (\<lambda>(g, sgs). map (\<lambda>p. ((g, p_name p), p_value p)) (concat (map parameters sgs))) fd)"

definition obs_entries :: "string \<Rightarrow> ISettingsSubCategory list \<Rightarrow> ((string \<times> string) \<times> obs_value) list" where
  "obs_entries c sgs = map (\<lambda>p. ((c, p_name p), p_currentValue p)) (concat (map parameters sgs))"

definition set_entry :: "(string \<times> string) \<times> obs_value \<Rightarrow> settings_state \<Rightarrow> settings_state" where
  "set_entry e st = obj_set (fst (fst e)) (obj_set (snd (fst e)) (snd e) (case map_of st (fst (fst e)) of None \<Rightarrow> [] | Some m \<Rightarrow> m)) st"

text \<open>
  The audio channels as the audio form sees them: the first source bound to channel
  \<open>c\<close>, the device id it shows, and whether that device is plugged in (\<open>chan_ok\<close>) or
  not (\<open>chan_unplugged\<close>).
\<close>

definition chan_source :: "audio_source list \<Rightarrow> nat \<Rightarrow> audio_source option" where
  "chan_source srcs c = find (\<lambda>s. src_channel s = Some c) srcs"

definition chan_value :: "audio_source list \<Rightarrow> nat \<Rightarrow> obs_value" where
  "chan_value srcs c = (case chan_source srcs c of None \<Rightarrow> ONull | Some s \<Rightarrow> device_id s)"

definition chan_ok :: "IAudioDevice list \<Rightarrow> audio_source list \<Rightarrow> nat \<Rightarrow> bool" where
  "chan_ok devs srcs c =
     (case chan_source srcs c of None \<Rightarrow> True | Some s \<Rightarrow> list_ex (\<lambda>d. device_id s = OStr (dev_id d)) devs)"

definition chan_unplugged :: "IAudioDevice list \<Rightarrow> audio_source list \<Rightarrow> nat \<Rightarrow> bool" where
  "chan_unplugged devs srcs c =
     (case chan_source srcs c of None \<Rightarrow> False
      | Some s \<Rightarrow> device_id s \<noteq> ONull \<and> \<not> list_ex (\<lambda>d. device_id s = OStr (dev_id d)) devs)"

fun is_update :: "audio_effect \<Rightarrow> bool" where
  "is_update (UpdateSettings _ _ _) = True"
| "is_update _ = False"

text \<open>Well-formed settings state: no category twice, no parameter twice within a category.\<close>

definition settings_wf :: "settings_state \<Rightarrow> bool" where
  "settings_wf st \<longleftrightarrow> distinct (map fst st) \<and> list_all (\<lambda>(g, m). distinct (map fst m)) st"

section \<open>Demo world\<close>

definition demo_param :: "string \<Rightarrow> obs_value \<Rightarrow> settings_param" where
  "demo_param n v = \<lparr>p_name = n, p_description = n, p_value = v, p_currentValue = v, p_enabled = True, p_visible = True, p_options = []\<rparr>"

definition demo_stream_form :: "ISettingsSubCategory list" where
  "demo_stream_form =
     [\<lparr>nameSubCategory = ''Untitled'',
       parameters = [demo_param ''service'' (OStr ''Twitch''), demo_param ''key'' (OStr []),
                     demo_param ''server'' (OStr ''auto'')]\<rparr>]"

definition demo_general_form :: "ISettingsSubCategory list" where
  "demo_general_form =
     [\<lparr>nameSubCategory = ''Snapping'',
       parameters = [demo_param ''SnappingEnabled'' (OBool True), demo_param ''SnapDistance'' (ONum 10)]\<rparr>]"

definition demo_mic :: IAudioDevice where
  "demo_mic = \<lparr>dev_id = ''mic1'', dev_description = ''Microphone'', dev_type = DevInput\<rparr>"

definition demo_audio :: audio_store where
  "demo_audio = \<lparr>as_sources = [\<lparr>sourceId = ''mic_source'', src_channel = Some 3, device_id = OStr ''mic1''\<rparr>],
                 as_next = 0, as_log = []\<rparr>"

definition settings_demo :: settings_world where
  "settings_demo =
     \<lparr>ss_state = [], obs_settings = [(''Stream'', demo_stream_form), (''General'', demo_general_form)],
      obs_categories = [''General'', ''Stream''], devices = [demo_mic], audio = demo_audio, optimization = None\<rparr>"

text \<open>An output form with a streaming and a recording sub-category, and a profile that
  controls the streaming preset and encoder settings.\<close>

definition demo_output_form :: "ISettingsSubCategory list" where
  "demo_output_form =
     [\<lparr>nameSubCategory = ''Streaming'',
       parameters = [demo_param ''VBitrate'' (ONum 2500), demo_param ''Preset'' (OStr ''veryfast''),
                     demo_param ''EncoderSettings'' (OStr [])]\<rparr>,
      \<lparr>nameSubCategory = ''Recording'', parameters = [demo_param ''RecFormat'' (OStr ''mp4'')]\<rparr>]"

definition demo_profile :: IOutputSettings where
  "demo_profile = \<lparr>presetField = ''Preset'', encoderSettingsField = ''EncoderSettings''\<rparr>"

section \<open>Lemmas\<close>

lemma set_param_entry: "set_param g p = set_entry ((g, p_name p), p_value p)"
  by (rule ext) (simp add: set_param_def set_entry_def)

lemma fold_concat_map: "fold f (concat (map h xs)) = fold (\<lambda>x. fold f (h x)) xs"
  by (induction xs) auto

lemma fold_set_param_group:
  "fold (\<lambda>sg. fold (set_param g) (parameters sg)) sgs =
     fold set_entry (map (\<lambda>p. ((g, p_name p), p_value p)) (concat (map parameters sgs)))"
  by (induction sgs) (simp_all add: set_param_entry fold_map comp_def)

lemma convertFormDataToState_entries: "convertFormDataToState fd = fold set_entry (form_entries fd) []"
proof -
  have "fold (\<lambda>(g, sgs). fold (\<lambda>sg. fold (set_param g) (parameters sg)) sgs) fd =
        fold set_entry (form_entries fd)"
    by (induction fd) (auto simp: form_entries_def fold_set_param_group)
  then show ?thesis by (simp add: convertFormDataToState_def)
qed

lemma state_lookup_set_entry:
  "state_lookup (set_entry e st) g n = (if (g, n) = fst e then Some (snd e) else state_lookup st g n)"
proof -
  obtain a b v where "e = ((a, b), v)" by (metis prod.collapse)
  then show ?thesis by (auto simp: state_lookup_def set_entry_def split: option.split)
qed

lemma state_lookup_fold_set_entry:
  "state_lookup (fold set_entry es st) g n =
     (case map_of (rev es) (g, n) of None \<Rightarrow> state_lookup st g n | Some v \<Rightarrow> Some v)"
  by (induction es arbitrary: st) (auto simp: state_lookup_set_entry map_of_append split: option.split)

lemma keys_set_entry: "fst ` set (set_entry e st) = insert (fst (fst e)) (fst ` set st)"
  by (simp add: set_entry_def)

lemma keys_fold_set_entry:
  "fst ` set (fold set_entry es st) = fst ` set st \<union> fst ` fst ` set es"
  by (induction es arbitrary: st) (auto simp: keys_set_entry)

lemma state_lookup_empty [simp]: "state_lookup [] g n = None"
  by (simp add: state_lookup_def)

lemma convertFormDataToState_lookup:
  "state_lookup (convertFormDataToState fd) g n = map_of (rev (form_entries fd)) (g, n)"
  by (simp add: convertFormDataToState_entries state_lookup_fold_set_entry split: option.split)

lemma map_of_SET_SETTINGS: "map_of (SET_SETTINGS data st) = map_of st ++ map_of (rev data)"
  by (induction data arbitrary: st) (auto simp: SET_SETTINGS_def map_add_def fun_eq_iff split: option.split)

lemma distinct_fold_set_entry: "distinct (obj_keys st) \<Longrightarrow> distinct (obj_keys (fold set_entry es st))"
  by (induction es arbitrary: st) (auto simp: set_entry_def)

lemma map_of_rev_distinct:
  assumes "distinct (map fst xs)"
  shows "map_of (rev xs) = map_of xs"
proof
  fix x
  have d: "distinct (map fst (rev xs))" using assms by (simp add: rev_map [symmetric])
  show "map_of (rev xs) x = map_of xs x"
  proof (cases "map_of xs x")
    case None
    then show ?thesis by (metis map_of_eq_None_iff set_rev)
  next
    case (Some y)
    then have "(x, y) \<in> set (rev xs)" by (simp add: map_of_SomeD)
    with d Some show ?thesis by (simp add: map_of_is_SomeI)
  qed
qed

lemma map_of_convert_None: "map_of (convertFormDataToState fd) g = None \<longleftrightarrow> g \<notin> fst ` fst ` set (form_entries fd)"
  by (simp add: convertFormDataToState_entries map_of_eq_None_iff keys_fold_set_entry)

lemma form_entries_single:
  "form_entries [(c, sgs)] = map (\<lambda>p. ((c, p_name p), p_value p)) (concat (map parameters sgs))"
  by (simp add: form_entries_def)

lemma form_entries_single_keys:
  "fst ` fst ` set (form_entries [(c, sgs)]) = (if form_entries [(c, sgs)] = [] then {} else {c})"
  unfolding form_entries_single by (cases "concat (map parameters sgs)") auto

lemma map_update_same_image: "i < length xs \<Longrightarrow> f x = f (xs ! i) \<Longrightarrow> map f (xs[i := x]) = map f xs"
  by (metis list_update_id map_update nth_map)

lemma state_lookup_SET_SETTINGS_convert:
  "state_lookup (SET_SETTINGS (convertFormDataToState fd) st) g n =
     (if g \<in> fst ` fst ` set (form_entries fd) then map_of (rev (form_entries fd)) (g, n) else state_lookup st g n)"
proof -
  let ?C = "convertFormDataToState fd"
  have d: "distinct (obj_keys ?C)"
    by (simp add: convertFormDataToState_entries distinct_fold_set_entry)
  have "map_of (SET_SETTINGS ?C st) g = (case map_of ?C g of None \<Rightarrow> map_of st g | Some m \<Rightarrow> Some m)"
    by (simp add: map_of_SET_SETTINGS map_of_rev_distinct [OF d] map_add_def)
  then show ?thesis
    using convertFormDataToState_lookup [of fd g n] map_of_convert_None [of fd g]
    by (auto simp: state_lookup_def split: option.split)
qed

lemma obs_entries_inputValuesToObsValues:
  "obs_entries c (map (\<lambda>sg. sg\<lparr>parameters := inputValuesToObsValues (parameters sg)\<rparr>) data) = form_entries [(c, data)]"
  by (simp add: obs_entries_def form_entries_def inputValuesToObsValues_def map_concat comp_def)

lemma setSettings_other:
  "cat \<noteq> ''Audio'' \<Longrightarrow> setSettings cat data w =
     (Ret (), w\<lparr>obs_settings := obj_set cat (map (\<lambda>sg. sg\<lparr>parameters := inputValuesToObsValues (parameters sg)\<rparr>) data)
                                   (obs_settings w),
                ss_state := SET_SETTINGS (convertFormDataToState [(cat, data)]) (ss_state w)\<rparr>)"
  by (simp add: setSettings_def)

text \<open>
  C33. \<open>setSettings\<close> on a category other than audio always returns, saves the form to OBS
  with every parameter's value as its current value (the value OBS reads), and replaces that
  category of the state by the parameters of the form (the last occurrence of each name; the
  category is left as it was when the form has no parameter), leaving every other category
  unchanged.
\<close>

theorem setSettings_category:
  "cat \<noteq> ''Audio'' \<Longrightarrow> setSettings cat data w = (r, w') \<Longrightarrow>
     r = Ret () \<and> obs_entries cat (OBS_settings_getSettings (obs_settings w') cat) = form_entries [(cat, data)] \<and>
     (\<forall>g n. state_lookup (ss_state w') g n =
        (if g = cat \<and> form_entries [(cat, data)] \<noteq> [] then map_of (rev (form_entries [(cat, data)])) (cat, n)
         else state_lookup (ss_state w) g n))"
  by (auto simp: setSettings_other OBS_settings_getSettings_def state_lookup_SET_SETTINGS_convert
                 form_entries_single_keys obs_entries_inputValuesToObsValues)

lemma form_entries_obsValuesToInputValues:
  "form_entries [(c, map (\<lambda>g. g\<lparr>parameters := obsValuesToInputValues bl (parameters g)\<rparr>) sgs)] = obs_entries c sgs"
  by (simp add: form_entries_def obs_entries_def obsValuesToInputValues_def map_concat comp_def)

lemma find_index_Some: "find_index P xs = Some i \<Longrightarrow> i < length xs \<and> P (xs ! i)"
  by (induction xs arbitrary: i) (auto split: if_splits)

lemma hide_param_entries:
  "hide_param n ps = Ret ps' \<Longrightarrow> map (\<lambda>p. (p_name p, p_value p)) ps' = map (\<lambda>p. (p_name p, p_value p)) ps"
  by (auto simp: hide_param_def map_update_same_image dest: find_index_Some split: option.splits)

lemma hide_optimized_fields_entries:
  assumes "hide_optimized_fields os s = Ret s'"
  shows "form_entries [(c, s')] = form_entries [(c, s)]"
proof -
  let ?f = "\<lambda>p. ((c, p_name p), p_value p)"
  obtain k ps1 ps2 where k: "find_index (\<lambda>g. nameSubCategory g = ''Streaming'') s = Some k"
    and h1: "hide_param (presetField os) (parameters (s ! k)) = Ret ps1"
    and h2: "hide_param (encoderSettingsField os) ps1 = Ret ps2"
    and s': "s' = s[k := (s ! k)\<lparr>parameters := ps2\<rparr>]"
    using assms by (auto simp: hide_optimized_fields_def split: option.splits outcome.splits)
  have e: "map (\<lambda>p. (p_name p, p_value p)) ps2 = map (\<lambda>p. (p_name p, p_value p)) (parameters (s ! k))"
    using hide_param_entries [OF h1] hide_param_entries [OF h2] by simp
  have "map ?f ps2 = map ?f (parameters (s ! k))"
  proof -
    from e have "map (\<lambda>(a, b). ((c, a), b)) (map (\<lambda>p. (p_name p, p_value p)) ps2) =
        map (\<lambda>(a, b). ((c, a), b)) (map (\<lambda>p. (p_name p, p_value p)) (parameters (s ! k)))"
      by (rule arg_cong)
    then show ?thesis by (simp add: comp_def)
  qed
  then have "map (map ?f \<circ> parameters) s' = map (map ?f \<circ> parameters) s"
    using find_index_Some [OF k] unfolding s' by (intro map_update_same_image) simp_all
  then show ?thesis
    by (simp add: form_entries_def map_concat)
qed

lemma convert_entries_eq:
  "form_entries fd = form_entries fd' \<Longrightarrow> convertFormDataToState fd = convertFormDataToState fd'"
  by (simp add: convertFormDataToState_entries)

lemma getSettingsFormData_other:
  assumes "cat \<noteq> ''Audio''" and "getSettingsFormData w cat = Ret f"
  shows "form_entries [(cat, f)] = obs_entries cat (OBS_settings_getSettings (obs_settings w) cat)"
proof -
  let ?s = "map (\<lambda>g. g\<lparr>parameters := obsValuesToInputValues BLACK_LIST_NAMES (parameters g)\<rparr>)
              (OBS_settings_getSettings (obs_settings w) cat)"
  have r: "(case optimization w of Some os \<Rightarrow> if cat = ''Output'' then hide_optimized_fields os ?s else Ret ?s
            | None \<Rightarrow> Ret ?s) = Ret f"
    using assms by (simp add: getSettingsFormData_def Let_def)
  have "form_entries [(cat, f)] = form_entries [(cat, ?s)]"
  proof (cases "optimization w")
    case None
    with r show ?thesis by simp
  next
    case (Some os)
    with r show ?thesis
      by (cases "cat = ''Output''") (simp_all add: hide_optimized_fields_entries)
  qed
  then show ?thesis by (simp only: form_entries_obsValuesToInputValues)
qed

lemma getSettingsFormData_throws:
  "getSettingsFormData w cat = Thrown e \<Longrightarrow> cat = ''Output'' \<and> optimization w \<noteq> None"
  by (cases "optimization w"; cases "cat = ''Audio''"; cases "cat = ''Output''")
     (simp_all add: getSettingsFormData_def Let_def)

text \<open>
  C34. Round trip: after \<open>setSettings\<close> on a category other than audio, reading the category
  back with \<open>getSettingsFormData\<close> gives a form with the values that were saved: the value
  \<open>inputValuesToObsValues\<close> stores as current value is the one \<open>obsValuesToInputValues\<close>
  shows again; only the
  encoder check of the output category, when an optimized profile is in use, may throw.
\<close>

theorem setSettings_read_back:
  assumes "cat \<noteq> ''Audio''" and "setSettings cat data w = (r, w')"
  shows "case getSettingsFormData w' cat of
           Ret f \<Rightarrow> convertFormDataToState [(cat, f)] = convertFormDataToState [(cat, data)]
         | Thrown e \<Rightarrow> cat = ''Output'' \<and> optimization w \<noteq> None"
proof -
  have w': "w' = w\<lparr>obs_settings := obj_set cat (map (\<lambda>sg. sg\<lparr>parameters := inputValuesToObsValues (parameters sg)\<rparr>) data)
                                       (obs_settings w),
                    ss_state := SET_SETTINGS (convertFormDataToState [(cat, data)]) (ss_state w)\<rparr>"
    using assms by (simp add: setSettings_other)
  show ?thesis
  proof (cases "getSettingsFormData w' cat")
    case (Ret f)
    have "obs_entries cat (OBS_settings_getSettings (obs_settings w') cat) = form_entries [(cat, data)]"
      by (simp add: w' OBS_settings_getSettings_def obs_entries_inputValuesToObsValues)
    with Ret assms(1) have "form_entries [(cat, f)] = form_entries [(cat, data)]"
      using getSettingsFormData_other [of cat w' f] by simp
    then have "convertFormDataToState [(cat, f)] = convertFormDataToState [(cat, data)]"
      by (rule convert_entries_eq)
    with Ret show ?thesis by simp
  next
    case (Thrown e)
    with getSettingsFormData_throws [OF Thrown] show ?thesis by (simp add: w')
  qed
qed

lemma find_filter_weaker: "(\<And>x. P x \<Longrightarrow> Q x) \<Longrightarrow> find P (filter Q xs) = find P xs"
  by (induction xs) auto

lemma find_index_None: "find_index P xs = None \<longleftrightarrow> find P xs = None"
  by (induction xs) auto

lemma find_index_find: "find_index P xs = Some i \<Longrightarrow> find P xs = Some (xs ! i)"
  by (induction xs arbitrary: i) (auto split: if_splits)

lemma find_channel_filter:
  "find (\<lambda>s. src_channel s = Some c) (filter (\<lambda>s. src_channel s \<noteq> None) xs) = find (\<lambda>s. src_channel s = Some c) xs"
  by (induction xs) auto

lemma setAudioSettings_form:
  "setAudioSettings devs (getAudioSettingsFormData devs srcs) st =
     audio_loop devs 0 (parameters (hd (getAudioSettingsFormData devs srcs))) st"
  by (simp add: setAudioSettings_def getAudioSettingsFormData_def Let_def)

lemma getAudioSettingsFormData_values:
  "map p_value (parameters (hd (getAudioSettingsFormData devs srcs))) = map (chan_value srcs) [1..<6]"
  unfolding getAudioSettingsFormData_def Let_def audio_param_def find_channel_filter
  by (simp add: chan_value_def chan_source_def OUTPUT_1_def OUTPUT_2_def INPUT_1_def INPUT_3_def upt_rec eval_nat_numeral)

lemma audio_channel_step_ok:
  assumes v: "p_value p = chan_value (as_sources st) c" and ok: "chan_ok devs (as_sources st) c"
  shows "\<exists>st'. audio_channel_step devs c p st = Ret st' \<and> as_sources st' = as_sources st \<and>
           as_next st' = as_next st \<and> (\<exists>es. as_log st' = as_log st @ es \<and> list_all is_update es)"
proof (cases "find_index (\<lambda>s. src_channel s = Some c) (as_sources st)")
  case None
  then have "p_value p = ONull"
    using v by (simp add: chan_value_def chan_source_def find_index_None)
  with None show ?thesis by (simp add: audio_channel_step_def)
next
  case (Some i)
  let ?s = "as_sources st ! i"
  have i: "i < length (as_sources st)" using find_index_Some [OF Some] by simp
  have fs: "chan_source (as_sources st) c = Some ?s"
    using find_index_find [OF Some] by (simp add: chan_source_def)
  then obtain d where d: "d \<in> set devs" "device_id ?s = OStr (dev_id d)"
    using ok by (auto simp: chan_ok_def list_ex_iff)
  then obtain d' where "find (\<lambda>d. OStr (dev_id d) = p_value p) devs = Some d'"
    using v fs by (metis (mono_tags, lifting) chan_value_def find_None_iff not_Some_eq option.simps(5))
  moreover have upd: "(as_sources st)[i := ?s\<lparr>device_id := OStr (dev_id d)\<rparr>] = as_sources st"
  proof -
    have "?s\<lparr>device_id := OStr (dev_id d)\<rparr> = ?s" using d(2) by (cases ?s) simp
    then show ?thesis by simp
  qed
  ultimately show ?thesis
    using Some v fs d i by (auto simp: audio_channel_step_def chan_value_def updateSettings_def Let_def upd)
qed

lemma audio_channel_step_unplugged:
  assumes v: "p_value p = chan_value (as_sources st) c" and u: "chan_unplugged devs (as_sources st) c"
  shows "audio_channel_step devs c p st = Thrown (TypeError ''Cannot read property id of undefined'')"
proof -
  obtain s where fs: "chan_source (as_sources st) c = Some s" and s: "device_id s \<noteq> ONull"
    and nd: "\<not> list_ex (\<lambda>d. device_id s = OStr (dev_id d)) devs"
    using u by (auto simp: chan_unplugged_def split: option.splits)
  then have "find_index (\<lambda>s. src_channel s = Some c) (as_sources st) \<noteq> None"
    by (simp add: chan_source_def find_index_None)
  moreover have "find (\<lambda>d. OStr (dev_id d) = p_value p) devs = None"
    using v fs nd by (auto simp: chan_value_def find_None_iff list_ex_iff)
  ultimately show ?thesis
    using v fs s by (auto simp: audio_channel_step_def chan_value_def Let_def)
qed

lemma upt_Suc_Cons: "[Suc i..<Suc i + length (x # xs)] = Suc i # [Suc (Suc i)..<Suc (Suc i) + length xs]"
  by (simp del: upt_Suc add: upt_conv_Cons)

lemma audio_loop_ok:
  "map p_value ps = map (chan_value (as_sources st)) [Suc ind..<Suc ind + length ps] \<Longrightarrow>
   (\<forall>c\<in>set [Suc ind..<Suc ind + length ps]. chan_ok devs (as_sources st) c) \<Longrightarrow>
   \<exists>st'. audio_loop devs ind ps st = (Ret (), st') \<and> as_sources st' = as_sources st \<and>
     as_next st' = as_next st \<and> (\<exists>es. as_log st' = as_log st @ es \<and> list_all is_update es)"
proof (induction ps arbitrary: ind st)
  case Nil
  then show ?case by simp
next
  case (Cons p ps)
  have v: "p_value p = chan_value (as_sources st) (Suc ind)"
    and vs: "map p_value ps = map (chan_value (as_sources st)) [Suc (Suc ind)..<Suc (Suc ind) + length ps]"
    using Cons.prems(1) unfolding upt_Suc_Cons by simp_all
  have ok: "chan_ok devs (as_sources st) (Suc ind)"
    and oks: "\<forall>c\<in>set [Suc (Suc ind)..<Suc (Suc ind) + length ps]. chan_ok devs (as_sources st) c"
    using Cons.prems(2) unfolding upt_Suc_Cons by auto
  obtain st1 es1 where s1: "audio_channel_step devs (Suc ind) p st = Ret st1" "as_sources st1 = as_sources st"
      "as_next st1 = as_next st" "as_log st1 = as_log st @ es1" "list_all is_update es1"
    using audio_channel_step_ok [OF v ok] by blast
  obtain st2 es2 where s2: "audio_loop devs (Suc ind) ps st1 = (Ret (), st2)" "as_sources st2 = as_sources st1"
      "as_next st2 = as_next st1" "as_log st2 = as_log st1 @ es2" "list_all is_update es2"
    using Cons.IH [where ind = "Suc ind" and st = st1] vs oks s1(2) by auto
  show ?case
    using s1 s2 by (intro exI [of _ st2]) (auto intro: exI [of _ "es1 @ es2"])
qed

lemma audio_loop_unplugged:
  "map p_value ps = map (chan_value (as_sources st)) [Suc ind..<Suc ind + length ps] \<Longrightarrow>
   (\<forall>c\<in>set [Suc ind..<Suc ind + length ps]. chan_ok devs (as_sources st) c \<or> chan_unplugged devs (as_sources st) c) \<Longrightarrow>
   (\<exists>c\<in>set [Suc ind..<Suc ind + length ps]. chan_unplugged devs (as_sources st) c) \<Longrightarrow>
   fst (audio_loop devs ind ps st) = Thrown (TypeError ''Cannot read property id of undefined'')"
proof (induction ps arbitrary: ind st)
  case Nil
  then show ?case by simp
next
  case (Cons p ps)
  have v: "p_value p = chan_value (as_sources st) (Suc ind)"
    and vs: "map p_value ps = map (chan_value (as_sources st)) [Suc (Suc ind)..<Suc (Suc ind) + length ps]"
    using Cons.prems(1) unfolding upt_Suc_Cons by simp_all
  show ?case
  proof (cases "chan_unplugged devs (as_sources st) (Suc ind)")
    case True
    then show ?thesis by (simp add: audio_channel_step_unplugged [OF v True])
  next
    case False
    then have ok: "chan_ok devs (as_sources st) (Suc ind)" using Cons.prems(2) unfolding upt_Suc_Cons by auto
    have rest: "\<exists>c\<in>set [Suc (Suc ind)..<Suc (Suc ind) + length ps]. chan_unplugged devs (as_sources st) c"
      using Cons.prems(3) False unfolding upt_Suc_Cons by auto
    have alls: "\<forall>c\<in>set [Suc (Suc ind)..<Suc (Suc ind) + length ps].
                  chan_ok devs (as_sources st) c \<or> chan_unplugged devs (as_sources st) c"
      using Cons.prems(2) unfolding upt_Suc_Cons by auto
    obtain st1 where s1: "audio_channel_step devs (Suc ind) p st = Ret st1" "as_sources st1 = as_sources st"
      using audio_channel_step_ok [OF v ok] by blast
    show ?thesis
      using Cons.IH [where ind = "Suc ind" and st = st1] vs alls rest s1 by simp
  qed
qed

lemma set_upt_1_6: "set [1..<6] = {1..5::nat}"
  by auto

text \<open>
  C37. Round trip: saving the audio form exactly as \<open>getAudioSettingsFormData\<close> built it, when
  the device of every channel is plugged in, returns normally and changes no source: none is
  created or removed, and the only calls are \<open>updateSettings\<close> with the device each source
  already has.
\<close>

theorem audio_settings_roundtrip:
  assumes "\<forall>c\<in>{1..5}. chan_ok devs (as_sources st) c"
    and "setAudioSettings devs (getAudioSettingsFormData devs (as_sources st)) st = (r, st')"
  shows "r = Ret () \<and> as_sources st' = as_sources st \<and> as_next st' = as_next st \<and>
         (\<exists>es. as_log st' = as_log st @ es \<and> list_all is_update es)"
proof -
  let ?ps = "parameters (hd (getAudioSettingsFormData devs (as_sources st)))"
  have l: "length ?ps = 5"
    using arg_cong [OF getAudioSettingsFormData_values, of length devs "as_sources st"] by simp
  have "map p_value ?ps = map (chan_value (as_sources st)) [Suc 0..<Suc 0 + length ?ps]"
    using getAudioSettingsFormData_values l by simp
  moreover have "\<forall>c\<in>set [Suc 0..<Suc 0 + length ?ps]. chan_ok devs (as_sources st) c"
    using assms(1) l by auto
  ultimately show ?thesis
    using audio_loop_ok [of ?ps st 0 devs] assms(2) by (auto simp: setAudioSettings_form)
qed

text \<open>
  C38. Error path: when a channel's source is bound to a device that is no longer plugged in,
  saving the audio form as it was read throws a \<open>TypeError\<close> (\<open>device.id\<close> of
  \<open>undefined\<close>), whatever the other channels hold.
\<close>

theorem audio_settings_unplugged_throws:
  assumes "\<forall>c\<in>{1..5}. chan_ok devs (as_sources st) c \<or> chan_unplugged devs (as_sources st) c"
    and "\<exists>c\<in>{1..5}. chan_unplugged devs (as_sources st) c"
  shows "fst (setAudioSettings devs (getAudioSettingsFormData devs (as_sources st)) st) =
           Thrown (TypeError ''Cannot read property id of undefined'')"
proof -
  let ?ps = "parameters (hd (getAudioSettingsFormData devs (as_sources st)))"
  have l: "length ?ps = 5"
    using arg_cong [OF getAudioSettingsFormData_values, of length devs "as_sources st"] by simp
  have "map p_value ?ps = map (chan_value (as_sources st)) [Suc 0..<Suc 0 + length ?ps]"
    using getAudioSettingsFormData_values l by simp
  moreover have "set [Suc 0..<Suc 0 + length ?ps] = {1..5}" using l by auto
  ultimately show ?thesis
    using audio_loop_unplugged [of ?ps st 0 devs] assms by (simp add: setAudioSettings_form)
qed

lemma keys_form_entries: "fst ` fst ` set (form_entries fd) \<subseteq> fst ` set fd"
  by (force simp: form_entries_def)

lemma map_of_rev_append_left: "map_of (rev ys) k = None \<Longrightarrow> map_of (rev (xs @ ys)) k = map_of (rev xs) k"
  by (simp add: map_of_append map_add_def)

lemma map_of_rev_append_right: "map_of (rev xs) k = None \<Longrightarrow> map_of (rev (xs @ ys)) k = map_of (rev ys) k"
  by (simp add: map_of_append map_add_def split: option.split)

lemma map_of_rev_form_entries:
  "distinct (map fst fd) \<Longrightarrow> map_of fd c = Some f \<Longrightarrow>
     map_of (rev (form_entries fd)) (c, n) = map_of (rev (form_entries [(c, f)])) (c, n)"
proof (induction fd)
  case Nil
  then show ?case by simp
next
  case (Cons gs fd)
  obtain g sgs where gs: "gs = (g, sgs)" by (cases gs)
  have split: "form_entries (gs # fd) = form_entries [(g, sgs)] @ form_entries fd"
    by (simp add: gs form_entries_def)
  show ?case
  proof (cases "g = c")
    case True
    with Cons.prems gs have "c \<notin> fst ` set fd" and f: "f = sgs" by auto
    then have "map_of (rev (form_entries fd)) (c, n) = None"
      using keys_form_entries [of fd] by (force simp: map_of_eq_None_iff)
    then have "map_of (rev (form_entries (gs # fd))) (c, n) = map_of (rev (form_entries [(g, sgs)])) (c, n)"
      unfolding split by (rule map_of_rev_append_left)
    with True f show ?thesis by simp
  next
    case False
    have "map_of (rev (form_entries [(g, sgs)])) (c, n) = None"
      using False by (auto simp: map_of_eq_None_iff form_entries_single)
    then have "map_of (rev (form_entries (gs # fd))) (c, n) = map_of (rev (form_entries fd)) (c, n)"
      unfolding split by (rule map_of_rev_append_right)
    moreover have "map_of fd c = Some f" using Cons.prems gs False by simp
    moreover have "distinct (map fst fd)" using Cons.prems(1) by simp
    ultimately show ?thesis using Cons.IH by simp
  qed
qed

lemma collect_forms_other:
  "collect_forms w cs acc = Ret fd \<Longrightarrow> c \<notin> set cs \<Longrightarrow> map_of fd c = map_of acc c"
  by (induction w cs acc rule: collect_forms.induct) (auto split: outcome.splits)

lemma collect_forms_Ret:
  "collect_forms w cs acc = Ret fd \<Longrightarrow> distinct (obj_keys acc) \<Longrightarrow>
     distinct (obj_keys fd) \<and> (\<forall>c\<in>set cs. \<exists>f. getSettingsFormData w c = Ret f \<and> map_of fd c = Some f)"
proof (induction cs arbitrary: acc)
  case Nil
  then show ?case by simp
next
  case (Cons c cs)
  then obtain f where f: "getSettingsFormData w c = Ret f"
    and r: "collect_forms w cs (obj_set c f acc) = Ret fd"
    by (auto split: outcome.splits)
  have "distinct (obj_keys (obj_set c f acc))" using Cons.prems(2) by (rule distinct_obj_set)
  then have d: "distinct (obj_keys fd)" and cs: "\<forall>c\<in>set cs. \<exists>f. getSettingsFormData w c = Ret f \<and> map_of fd c = Some f"
    using Cons.IH [OF r] by auto
  have "map_of fd c = Some f"
  proof (cases "c \<in> set cs")
    case True
    with cs f show ?thesis by auto
  next
    case False
    with collect_forms_other [OF r] show ?thesis by simp
  qed
  with d cs f show ?case by auto
qed

lemma collect_forms_Thrown:
  "collect_forms w cs acc = Thrown e \<Longrightarrow> \<exists>c\<in>set cs. getSettingsFormData w c = Thrown e"
  by (induction w cs acc rule: collect_forms.induct) (auto split: outcome.splits)

lemma form_entries_member: "(c, f) \<in> set fd \<Longrightarrow> set (form_entries [(c, f)]) \<subseteq> set (form_entries fd)"
  unfolding form_entries_def set_concat set_map by (rule subsetI) (simp, blast)

text \<open>
  C35. \<open>loadSettingsIntoStore\<close> either throws, which only the encoder check of the output
  category can do, and then leaves everything as it was; or it returns, and then every
  category it lists (the OBS ones, the four fixed ones, and API and Experimental when advanced
  settings are on) was read, and the state holds, for each parameter of that form, the value
  of its last occurrence.
\<close>

theorem loadSettingsIntoStore_mirrors:
  assumes "loadSettingsIntoStore dev args w = (r, w')"
  shows "case r of
           Thrown e \<Rightarrow> w' = w \<and> ''Output'' \<in> set (getCategories (obs_categories w) dev args) \<and> optimization w \<noteq> None
         | Ret u \<Rightarrow> (\<forall>c\<in>set (getCategories (obs_categories w) dev args). \<exists>f. getSettingsFormData w c = Ret f \<and>
                     (\<forall>n. form_entries [(c, f)] \<noteq> [] \<longrightarrow>
                          state_lookup (ss_state w') c n = map_of (rev (form_entries [(c, f)])) (c, n)))"
proof (cases "collect_forms w (getCategories (obs_categories w) dev args) []")
  case (Thrown e)
  then obtain c where c: "c \<in> set (getCategories (obs_categories w) dev args)" "getSettingsFormData w c = Thrown e"
    using collect_forms_Thrown by blast
  have r: "r = Thrown e" and w: "w' = w" using assms Thrown by (simp_all add: loadSettingsIntoStore_def)
  show ?thesis
    unfolding r outcome.case using w c(1) getSettingsFormData_throws [OF c(2)] by blast
next
  case (Ret fd)
  have r: "r = Ret ()" and st: "ss_state w' = SET_SETTINGS (convertFormDataToState fd) (ss_state w)"
    using assms Ret by (auto simp: loadSettingsIntoStore_def)
  have "distinct (obj_keys ([] :: form_data))" by simp
  note fr = collect_forms_Ret [OF Ret this]
  have all: "\<exists>f. getSettingsFormData w c = Ret f \<and>
          (\<forall>n. form_entries [(c, f)] \<noteq> [] \<longrightarrow>
               state_lookup (ss_state w') c n = map_of (rev (form_entries [(c, f)])) (c, n))"
    if c: "c \<in> set (getCategories (obs_categories w) dev args)" for c
  proof -
    obtain f where f: "getSettingsFormData w c = Ret f" and m: "map_of fd c = Some f" using fr c by blast
    have "state_lookup (ss_state w') c n = map_of (rev (form_entries [(c, f)])) (c, n)"
      if ne: "form_entries [(c, f)] \<noteq> []" for n
    proof -
      have "c \<in> fst ` fst ` set (form_entries [(c, f)])"
        using ne form_entries_single_keys [of c f] by simp
      then have "c \<in> fst ` fst ` set (form_entries fd)"
        using form_entries_member [OF map_of_SomeD [OF m]] by blast
      then show ?thesis
        using st map_of_rev_form_entries [of fd c f n] fr m by (simp add: state_lookup_SET_SETTINGS_convert)
    qed
    with f show ?thesis by blast
  qed
  show ?thesis
    unfolding r outcome.case using all by blast
qed

lemma hide_param_Thrown: "(\<exists>e. hide_param n ps = Thrown e) \<longleftrightarrow> n \<notin> p_name ` set ps"
proof (cases "find_index (\<lambda>p. p_name p = n) ps")
  case None
  then have "n \<notin> p_name ` set ps" by (auto simp: find_index_None find_None_iff)
  with None show ?thesis by (simp add: hide_param_def)
next
  case (Some i)
  then have "i < length ps" "p_name (ps ! i) = n" using find_index_Some by blast+
  then have "n \<in> p_name ` set ps" by (metis image_eqI nth_mem)
  with Some show ?thesis by (simp add: hide_param_def)
qed

lemma hide_param_Ret:
  assumes "hide_param n ps = Ret ps'"
  shows "map p_name ps' = map p_name ps \<and> (\<exists>i<length ps'. p_name (ps' ! i) = n \<and> \<not> p_visible (ps' ! i)) \<and>
         (\<forall>i<length ps. \<not> p_visible (ps ! i) \<longrightarrow> \<not> p_visible (ps' ! i))"
proof -
  obtain i where i: "find_index (\<lambda>p. p_name p = n) ps = Some i" and ps': "ps' = ps[i := (ps ! i)\<lparr>p_visible := False\<rparr>]"
    using assms by (auto simp: hide_param_def split: option.splits)
  have "i < length ps" "p_name (ps ! i) = n" using find_index_Some [OF i] by simp_all
  then show ?thesis unfolding ps' by (auto simp: nth_list_update map_update_same_image intro!: exI [of _ i])
qed

lemma hide_param_twice:
  assumes "hide_param a ps = Ret ps1" and "hide_param b ps1 = Ret ps2"
  shows "(\<exists>p\<in>set ps2. p_name p = a \<and> \<not> p_visible p) \<and> (\<exists>p\<in>set ps2. p_name p = b \<and> \<not> p_visible p)"
proof -
  note r1 = hide_param_Ret [OF assms(1)] and r2 = hide_param_Ret [OF assms(2)]
  obtain i where i: "i < length ps1" "p_name (ps1 ! i) = a" "\<not> p_visible (ps1 ! i)" using r1 by blast
  have m: "map p_name ps2 = map p_name ps1" using r2 by blast
  then have len: "length ps2 = length ps1" by (metis length_map)
  have "map p_name ps2 ! i = map p_name ps1 ! i" using m by simp
  then have "p_name (ps2 ! i) = a" using i len by simp
  moreover have "\<not> p_visible (ps2 ! i)" using r2 i(1) i(3) by blast
  moreover have "ps2 ! i \<in> set ps2" using i(1) len by simp
  ultimately have pre: "\<exists>p\<in>set ps2. p_name p = a \<and> \<not> p_visible p" by blast
  obtain j where j: "j < length ps2" "p_name (ps2 ! j) = b" "\<not> p_visible (ps2 ! j)" using r2 by blast
  have "ps2 ! j \<in> set ps2" using j(1) by simp
  with j pre show ?thesis by blast
qed

lemma find_index_update_same:
  "find_index P xs = Some k \<Longrightarrow> P x \<Longrightarrow> find_index P (xs[k := x]) = Some k"
  by (induction xs arbitrary: k) (auto split: if_splits nat.splits)

lemma find_update_first:
  assumes "find_index P xs = Some k" and "P x"
  shows "find P (xs[k := x]) = Some x"
proof -
  have "find P (xs[k := x]) = Some (xs[k := x] ! k)"
    using find_index_find [OF find_index_update_same [OF assms]] .
  with find_index_Some [OF assms(1)] show ?thesis by simp
qed

text \<open>
  C36. Reading the output category under an optimized encoder profile: the encoder fields
  the profile controls are hidden in the first \<open>Streaming\<close> sub-category, and reading
  throws exactly when there is no such sub-category or it lacks one of the two fields
  (\<open>settings[-1]\<close> is \<open>undefined\<close>). When it returns, the form keeps every
  sub-category and every parameter value, and both fields are present and invisible.
\<close>

theorem hide_optimized_fields_branches:
  "case hide_optimized_fields os s of
     Thrown e \<Rightarrow> (case find (\<lambda>c. nameSubCategory c = ''Streaming'') s of
                   None \<Rightarrow> True
                 | Some sg \<Rightarrow> presetField os \<notin> p_name ` set (parameters sg) \<or>
                              encoderSettingsField os \<notin> p_name ` set (parameters sg))
   | Ret s' \<Rightarrow> form_entries [(c, s')] = form_entries [(c, s)] \<and> map nameSubCategory s' = map nameSubCategory s \<and>
       (\<exists>sg. find (\<lambda>c. nameSubCategory c = ''Streaming'') s' = Some sg \<and>
          (\<exists>p\<in>set (parameters sg). p_name p = presetField os \<and> \<not> p_visible p) \<and>
          (\<exists>p\<in>set (parameters sg). p_name p = encoderSettingsField os \<and> \<not> p_visible p))"
proof (cases "find_index (\<lambda>c. nameSubCategory c = ''Streaming'') s")
  case None
  moreover have "find (\<lambda>c. nameSubCategory c = ''Streaming'') s = None" using None find_index_None by blast
  ultimately show ?thesis by (simp add: hide_optimized_fields_def)
next
  case (Some k)
  let ?sg = "s ! k"
  have k: "k < length s" "nameSubCategory ?sg = ''Streaming''" using find_index_Some [OF Some] by simp_all
  have fs: "find (\<lambda>c. nameSubCategory c = ''Streaming'') s = Some ?sg" using find_index_find [OF Some] .
  show ?thesis
  proof (cases "hide_param (presetField os) (parameters ?sg)")
    case (Thrown e)
    then have "presetField os \<notin> p_name ` set (parameters ?sg)" using hide_param_Thrown by blast
    with Some Thrown fs show ?thesis by (simp add: hide_optimized_fields_def)
  next
    case (Ret ps1)
    note r1 = hide_param_Ret [OF Ret]
    show ?thesis
    proof (cases "hide_param (encoderSettingsField os) ps1")
      case (Thrown e)
      then have "encoderSettingsField os \<notin> p_name ` set ps1" using hide_param_Thrown by blast
      moreover have "set (map p_name ps1) = set (map p_name (parameters ?sg))"
        using r1 by simp
      ultimately show ?thesis using Some Ret Thrown fs by (simp add: hide_optimized_fields_def)
    next
      case (Ret ps2)
      let ?s' = "s[k := ?sg\<lparr>parameters := ps2\<rparr>]"
      have h: "hide_optimized_fields os s = Ret ?s'"
        using Some \<open>hide_param (presetField os) (parameters ?sg) = Ret ps1\<close> Ret by (simp add: hide_optimized_fields_def)
      have fe: "form_entries [(c, ?s')] = form_entries [(c, s)]" by (rule hide_optimized_fields_entries [OF h])
      have nm: "map nameSubCategory ?s' = map nameSubCategory s" using k by (simp add: map_update_same_image)
      have fs': "find (\<lambda>c. nameSubCategory c = ''Streaming'') ?s' = Some (?sg\<lparr>parameters := ps2\<rparr>)"
        using find_update_first [OF Some] k by simp
      have "(\<exists>p\<in>set ps2. p_name p = presetField os \<and> \<not> p_visible p) \<and>
            (\<exists>p\<in>set ps2. p_name p = encoderSettingsField os \<and> \<not> p_visible p)"
        using hide_param_twice [OF \<open>hide_param (presetField os) (parameters ?sg) = Ret ps1\<close> Ret] .
      then show ?thesis using h fe nm fs' by simp
    qed
  qed
qed

lemma settings_wf_obj_set:
  assumes "settings_wf st" and "distinct (map fst m)"
  shows "settings_wf (obj_set g m st)"
proof -
  have "\<forall>x\<in>set (obj_set g m st). (\<lambda>(g, m). distinct (map fst m)) x"
    using set_obj_set_subset [of g m st] assms by (auto simp: settings_wf_def list_all_iff)
  with assms show ?thesis by (auto simp: settings_wf_def list_all_iff)
qed

lemma settings_wf_set_entry: "settings_wf st \<Longrightarrow> settings_wf (set_entry e st)"
proof -
  assume wf: "settings_wf st"
  have "distinct (map fst (case map_of st (fst (fst e)) of None \<Rightarrow> [] | Some m \<Rightarrow> m))"
    using wf by (auto simp: settings_wf_def list_all_iff dest: map_of_SomeD split: option.split)
  with wf show ?thesis unfolding set_entry_def by (intro settings_wf_obj_set) simp_all
qed

lemma settings_wf_fold_set_entry: "settings_wf st \<Longrightarrow> settings_wf (fold set_entry es st)"
  by (induction es arbitrary: st) (simp_all add: settings_wf_set_entry)

lemma settings_wf_convert: "settings_wf (convertFormDataToState fd)"
  unfolding convertFormDataToState_entries by (rule settings_wf_fold_set_entry) (simp add: settings_wf_def)

text \<open>
  C32. \<open>convertFormDataToState\<close> builds a well-formed state whose categories are exactly those
  with at least one parameter, and in which each parameter has the value of its last
  occurrence in the form data (a later sub-category or category of the same name overrides).
\<close>

theorem convertFormDataToState_last_value:
  "fst ` set (convertFormDataToState fd) = fst ` fst ` set (form_entries fd) \<and>
   settings_wf (convertFormDataToState fd) \<and>
   (\<forall>g n. state_lookup (convertFormDataToState fd) g n = map_of (rev (form_entries fd)) (g, n))"
  using convertFormDataToState_lookup [of fd] settings_wf_convert [of fd]
  by (simp add: convertFormDataToState_entries keys_fold_set_entry)

section \<open>Witnesses at the demo world\<close>

theorem setSettings_category_witness:
  "fst (setSettings ''General'' demo_general_form settings_demo) = Ret () \<and>
   state_lookup (ss_state (snd (setSettings ''General'' demo_general_form settings_demo))) ''General'' ''SnapDistance'' =
     Some (ONum 10)"
proof -
  have a: "''General'' \<noteq> ''Audio''" by simp
  note r = setSettings_category [OF a prod.collapse [symmetric], of demo_general_form settings_demo]
  have "form_entries [(''General'', demo_general_form)] \<noteq> []"
    by (simp add: form_entries_def demo_general_form_def)
  moreover have "map_of (rev (form_entries [(''General'', demo_general_form)])) (''General'', ''SnapDistance'') = Some (ONum 10)"
    by (simp add: form_entries_def demo_general_form_def demo_param_def)
  ultimately show ?thesis using r by simp
qed

theorem setSettings_read_back_witness:
  "''General'' \<noteq> ''Audio'' \<and>
   (case getSettingsFormData (snd (setSettings ''General'' demo_general_form settings_demo)) ''General'' of
      Ret f \<Rightarrow> convertFormDataToState [(''General'', f)] = convertFormDataToState [(''General'', demo_general_form)]
    | Thrown e \<Rightarrow> ''General'' = ''Output'' \<and> optimization settings_demo \<noteq> None)"
proof -
  have a: "''General'' \<noteq> ''Audio''" by simp
  show ?thesis using a setSettings_read_back [OF a prod.collapse [symmetric]] by blast
qed

theorem loadSettingsIntoStore_mirrors_witness:
  "fst (loadSettingsIntoStore False [] settings_demo) = Ret () \<and>
   state_lookup (ss_state (snd (loadSettingsIntoStore False [] settings_demo))) ''Stream'' ''key'' = Some (OStr [])"
proof -
  have r: "fst (loadSettingsIntoStore False [] settings_demo) = Ret ()" by code_simp
  note inst = loadSettingsIntoStore_mirrors [OF prod.collapse [symmetric], where dev = False and args = "[]" and w = settings_demo]
  have all: "\<forall>c\<in>set (getCategories (obs_categories settings_demo) False []). \<exists>f. getSettingsFormData settings_demo c = Ret f \<and>
      (\<forall>n. form_entries [(c, f)] \<noteq> [] \<longrightarrow>
         state_lookup (ss_state (snd (loadSettingsIntoStore False [] settings_demo))) c n =
           map_of (rev (form_entries [(c, f)])) (c, n))"
    using inst unfolding r outcome.case .
  have c: "''Stream'' \<in> set (getCategories (obs_categories settings_demo) False [])"
    by (simp add: getCategories_def settings_demo_def)
  define F where "F = map (\<lambda>g. g\<lparr>parameters := obsValuesToInputValues BLACK_LIST_NAMES (parameters g)\<rparr>) demo_stream_form"
  have g: "getSettingsFormData settings_demo ''Stream'' = Ret F"
    by (simp add: getSettingsFormData_def F_def OBS_settings_getSettings_def settings_demo_def)
  have ne: "form_entries [(''Stream'', F)] \<noteq> []"
    by (simp add: F_def form_entries_def demo_stream_form_def obsValuesToInputValues_def)
  have v: "map_of (rev (form_entries [(''Stream'', F)])) (''Stream'', ''key'') = Some (OStr [])"
    by (simp add: F_def form_entries_def demo_stream_form_def obsValuesToInputValues_def demo_param_def)
  from all c g ne v r show ?thesis by auto
qed

lemma demo_channels: "{1..5::nat} = {1, 2, 3, 4, 5}"
  by auto

theorem hide_optimized_fields_branches_witness:
  "\<exists>s'. hide_optimized_fields demo_profile demo_output_form = Ret s' \<and>
     map nameSubCategory s' = [''Streaming'', ''Recording''] \<and>
     (\<exists>p\<in>set (parameters (hd s')). p_name p = ''Preset'' \<and> \<not> p_visible p)"
proof -
  have "\<exists>s'. hide_optimized_fields demo_profile demo_output_form = Ret s'"
    by (simp add: hide_optimized_fields_def hide_param_def demo_profile_def demo_output_form_def demo_param_def)
  then obtain s' where h: "hide_optimized_fields demo_profile demo_output_form = Ret s'" by blast
  from hide_optimized_fields_branches [where os = demo_profile and s = demo_output_form and c = "''Output''"] h
  obtain sg where n: "map nameSubCategory s' = map nameSubCategory demo_output_form"
    and f: "find (\<lambda>c. nameSubCategory c = ''Streaming'') s' = Some sg"
    and pre: "\<exists>p\<in>set (parameters sg). p_name p = presetField demo_profile \<and> \<not> p_visible p"
    by auto
  have n': "map nameSubCategory s' = [''Streaming'', ''Recording'']" using n by (simp add: demo_output_form_def)
  then obtain a b where ab: "s' = [a, b]" "nameSubCategory a = ''Streaming''"
    by (cases s'; cases "tl s'") auto
  with f have "sg = hd s'" by simp
  with h n' pre show ?thesis by (simp add: demo_profile_def)
qed

theorem audio_settings_roundtrip_witness:
  "fst (setAudioSettings [demo_mic] (getAudioSettingsFormData [demo_mic] (as_sources demo_audio)) demo_audio) = Ret () \<and>
   as_sources (snd (setAudioSettings [demo_mic] (getAudioSettingsFormData [demo_mic] (as_sources demo_audio)) demo_audio)) =
     as_sources demo_audio"
proof -
  have ok: "\<forall>c\<in>{1..5}. chan_ok [demo_mic] (as_sources demo_audio) c"
    unfolding demo_channels by (simp add: chan_ok_def chan_source_def demo_audio_def demo_mic_def)
  from audio_settings_roundtrip [OF ok prod.collapse [symmetric]] show ?thesis by blast
qed

theorem audio_settings_unplugged_throws_witness:
  "fst (setAudioSettings [] (getAudioSettingsFormData [] (as_sources demo_audio)) demo_audio) =
     Thrown (TypeError ''Cannot read property id of undefined'')"
proof -
  have all: "\<forall>c\<in>{1..5}. chan_ok [] (as_sources demo_audio) c \<or> chan_unplugged [] (as_sources demo_audio) c"
    unfolding demo_channels by (simp add: chan_ok_def chan_unplugged_def chan_source_def demo_audio_def)
  have ex: "\<exists>c\<in>{1..5}. chan_unplugged [] (as_sources demo_audio) c"
    unfolding demo_channels by (simp add: chan_unplugged_def chan_source_def demo_audio_def)
  from audio_settings_unplugged_throws [OF all ex] show ?thesis .
qed

end
