(* ===== verification/Mixer.thy ===== *)
theory Mixer
  imports Settings StreamInfo
begin

text \<open>
  Model of \<open>MixerService\<close> (\<open>src/unnamed/part_002\<close>, lines 11-194), the Mixer platform
  service. Its only state is \<open>typeIdMap\<close>, from game names to Mixer type ids, filled by
  \<open>searchGames\<close> and read by \<open>putChannelInfo\<close>. Each request is modelled by the
  \<open>Request\<close> it builds (URL, method, headers, body object) and each \<open>.then\<close> by a
  function of the decoded JSON response; \<open>setupStreamSettings\<close> composes with the
  settings service of theory \<open>Settings\<close>, and \<open>fetchChannelInfo\<close> produces the
  \<open>IChannelInfo\<close> of theory \<open>StreamInfo\<close>.
\<close>

section \<open>State and requests\<close>

record IMixerServiceState =
  typeIdMap :: "(string \<times> int) list"

definition mixer_initial :: IMixerServiceState where
  "mixer_initial = \<lparr>typeIdMap = []\<rparr>"

definition ADD_GAME_MAPPING :: "string \<Rightarrow> int \<Rightarrow> IMixerServiceState \<Rightarrow> IMixerServiceState" where
  "ADD_GAME_MAPPING game i st = st\<lparr>typeIdMap := obj_set game i (typeIdMap st)\<rparr>"

declare ADD_GAME_MAPPING_def [mutation_defs]

definition apiBase :: string where
  "apiBase = ''https://mixer.com/api/v1/''"

text \<open>What the service's getters read from \<open>UserService\<close>: the platform (\<open>null\<close>
  when logged out, and then every getter on it throws), the widget token and the channel id.\<close>

record platform_auth =
  platform_token :: string
  platform_username :: string
  platform_id :: string

record mixer_user_service =
  mu_platform :: "platform_auth option"
  mu_widgetToken :: string
  mu_channelId :: string

definition platform_field :: "(platform_auth \<Rightarrow> string) \<Rightarrow> string \<Rightarrow> mixer_user_service \<Rightarrow> string outcome" where
  "platform_field f name u =
     (case mu_platform u of None \<Rightarrow> Thrown (TypeError (''Cannot read property '' @ name @ '' of null'')) | Some p \<Rightarrow> Ret (f p))"

definition mixer_oauthToken :: "mixer_user_service \<Rightarrow> string outcome" where
  "mixer_oauthToken u = platform_field platform_token ''token'' u"

definition mixer_mixerUsername :: "mixer_user_service \<Rightarrow> string outcome" where
  "mixer_mixerUsername u = platform_field platform_username ''username'' u"

definition mixer_widgetToken :: "mixer_user_service \<Rightarrow> string" where
  "mixer_widgetToken u = mu_widgetToken u"

definition mixer_mixerId :: "mixer_user_service \<Rightarrow> string outcome" where
  "mixer_mixerId u = platform_field platform_id ''id'' u"

definition mixer_channelId :: "mixer_user_service \<Rightarrow> string" where
  "mixer_channelId u = mu_channelId u"

record mixer_request =
  req_url :: string
  req_method :: string
  req_headers :: "(string \<times> string) list"
  req_body :: "(string \<times> obs_value) list"

definition getHeaders :: "bool \<Rightarrow> string \<Rightarrow> (string \<times> string) list" where
  "getHeaders authorized oauthToken =
     [(''Content-Type'', ''application/json'')] @
     (if authorized then [(''Authorization'', ''Bearer '' @ oauthToken)] else [])"

definition authUrl :: "string \<Rightarrow> int \<Rightarrow> string" where
  "authUrl host now =
     ''https://'' @ host @ ''/slobs/login?'' @
     ''_='' @ int_str now @ ''&skip_splash=true&external=electron&mixer&force_verify&origin=slobs''"

text \<open>\<open>fetchNewToken\<close>: the refresh request, and its \<open>.then\<close>, which hands
  \<open>response.access_token\<close> to \<open>userService.updatePlatformToken\<close>.\<close>

definition fetchNewToken_request :: "string \<Rightarrow> string \<Rightarrow> mixer_request" where
  "fetchNewToken_request host widgetToken =
     \<lparr>req_url = ''https://'' @ host @ ''/api/v5/slobs/mixer/refresh?token='' @ widgetToken, req_method = ''GET'',
      req_headers = [], req_body = []\<rparr>"

definition fetchNewToken_then :: "string \<Rightarrow> string \<Rightarrow> string" where
  "fetchNewToken_then access_token platformToken = access_token"

section \<open>Channel information\<close>

text \<open>The JSON of \<open>channels/<username>/details\<close>: \<open>type\<close> may be \<open>null\<close> (\<open>None\<close>) or
  have no name (\<open>Some None\<close>).\<close>

record mixer_channel_json =
  json_id :: int
  json_name :: string
  json_streamKey :: string
  json_type :: "string option option"
  viewersCurrent :: int

definition fetchRawChannelInfo_request :: "string \<Rightarrow> string \<Rightarrow> mixer_request" where
  "fetchRawChannelInfo_request oauthToken mixerUsername =
     \<lparr>req_url = apiBase @ ''channels/'' @ mixerUsername @ ''/details'', req_method = ''GET'',
      req_headers = getHeaders True oauthToken, req_body = []\<rparr>"

text \<open>\<open>fetchRawChannelInfo\<close>'s \<open>.then\<close>: \<open>updatePlatformChannelId(json.id)\<close>, then the JSON.\<close>

definition fetchRawChannelInfo_then :: "mixer_channel_json \<Rightarrow> int option \<Rightarrow> int option \<times> mixer_channel_json" where
  "fetchRawChannelInfo_then json channelId = (Some (json_id json), json)"

definition fetchStreamKey :: "mixer_channel_json \<Rightarrow> string" where
  "fetchStreamKey json = int_str (json_id json) @ ''-'' @ json_streamKey json"

text \<open>\<open>if (json.type && json.type.name) gameTitle = json.type.name\<close>: an empty name is falsy,
  which gives the same \<open>''''\<close>.\<close>

definition fetchChannelInfo :: "mixer_channel_json \<Rightarrow> IChannelInfo" where
  "fetchChannelInfo json =
     \<lparr>ci_title = json_name json,
      ci_game = (case json_type json of Some (Some n) \<Rightarrow> n | _ \<Rightarrow> [])\<rparr>"

definition fetchViewerCount :: "mixer_channel_json \<Rightarrow> int" where
  "fetchViewerCount json = viewersCurrent json"

definition getChatUrl :: "mixer_channel_json \<Rightarrow> string" where
  "getChatUrl json = ''https://mixer.com/embed/chat/'' @ int_str (json_id json)"

section \<open>Games\<close>

text \<open>\<open>putChannelInfo\<close>: the body is \<open>{name}\<close>, with \<open>typeId\<close> added only when
  \<open>this.state.typeIdMap[streamGame]\<close> is truthy; an unknown game and the id \<open>0\<close>
  both leave it out.\<close>

definition putChannelInfo :: "IMixerServiceState \<Rightarrow> string \<Rightarrow> string \<Rightarrow> string \<Rightarrow> string \<Rightarrow> mixer_request" where
  "putChannelInfo st oauthToken channelId streamTitle streamGame =
     \<lparr>req_url = apiBase @ ''channels/'' @ channelId, req_method = ''PATCH'',
      req_headers = getHeaders True oauthToken,
      req_body = [(''name'', OStr streamTitle)] @
        (case map_of (typeIdMap st) streamGame of
           Some i \<Rightarrow> if i \<noteq> 0 then [(''typeId'', ONum i)] else []
         | None \<Rightarrow> [])\<rparr>"

definition searchGames_request :: "string \<Rightarrow> mixer_request" where
  "searchGames_request searchString =
     \<lparr>req_url = apiBase @ ''types?limit=10&noCount=1&scope=all&query='' @ searchString, req_method = ''GET'',
      req_headers = getHeaders False [], req_body = []\<rparr>"

text \<open>\<open>searchGames\<close>'s \<open>.then\<close>: one \<open>ADD_GAME_MAPPING(game.name, game.id)\<close> per game,
  in the order of the response, which is returned.\<close>

definition searchGames_then :: "(string \<times> int) list \<Rightarrow> IMixerServiceState \<Rightarrow> IMixerServiceState \<times> (string \<times> int) list" where
  "searchGames_then response st = (fold (\<lambda>(name, i). ADD_GAME_MAPPING name i) response st, response)"

section \<open>Stream settings\<close>

text \<open>\<open>setupStreamSettings\<close>'s \<open>.then\<close>, once the stream key is fetched: the \<open>Stream\<close>
  form gets the Mixer service and the key, and is saved through \<open>setSettings\<close>.\<close>

definition mixer_param :: "string \<Rightarrow> settings_param \<Rightarrow> settings_param" where
  "mixer_param key p =
     (let p1 = (if p_name p = ''service'' then p\<lparr>p_value := OStr ''Mixer.com - FTL''\<rparr> else p)
      in if p_name p1 = ''key'' then p1\<lparr>p_value := OStr key\<rparr> else p1)"

definition setupStreamSettings :: "mixer_channel_json \<Rightarrow> settings_world \<Rightarrow> unit outcome \<times> settings_world" where
  "setupStreamSettings json w =
     (let key = fetchStreamKey json
      in case getSettingsFormData w ''Stream'' of
           Thrown e \<Rightarrow> (Thrown e, w)
         | Ret settings \<Rightarrow>
             setSettings ''Stream'' (map (\<lambda>sg. sg\<lparr>parameters := map (mixer_param key) (parameters sg)\<rparr>) settings) w)"

section \<open>Demo channel\<close>

definition demo_channel :: mixer_channel_json where
  "demo_channel = \<lparr>json_id = 42, json_name = ''Speedrun night'', json_streamKey = ''abc'',
                    json_type = Some (Some ''Fortnite''), viewersCurrent = 3\<rparr>"

section \<open>Lemmas\<close>

lemma map_of_fold_ADD_GAME_MAPPING:
  "map_of (typeIdMap (fold (\<lambda>(name, i). ADD_GAME_MAPPING name i) response st)) =
     map_of (typeIdMap st) ++ map_of (rev response)"
  by (induction response arbitrary: st) (auto simp: ADD_GAME_MAPPING_def map_add_def fun_eq_iff split: option.split)

lemma getSettingsFormData_plain:
  "cat \<noteq> ''Audio'' \<Longrightarrow> cat \<noteq> ''Output'' \<Longrightarrow>
     getSettingsFormData w cat =
       Ret (map (\<lambda>g. g\<lparr>parameters := obsValuesToInputValues BLACK_LIST_NAMES (parameters g)\<rparr>)
              (OBS_settings_getSettings (obs_settings w) cat))"
  by (simp add: getSettingsFormData_def Let_def split: option.split)

lemma map_of_rev_same_value:
  "n \<in> p_name ` set ps \<Longrightarrow> (\<And>p. p \<in> set ps \<Longrightarrow> p_name p = n \<Longrightarrow> f p = v) \<Longrightarrow>
     map_of (rev (map (\<lambda>p. ((c, p_name p), f p)) ps)) (c, n) = Some v"
proof (induction ps rule: rev_induct)
  case Nil
  then show ?case by simp
next
  case (snoc p ps)
  then show ?case by (cases "p_name p = n") auto
qed

lemma mixer_param_name [simp]: "p_name (mixer_param key p) = p_name p"
  by (simp add: mixer_param_def Let_def)

lemma mixer_param_enabled [simp]:
  "p_value (mixer_param key (p\<lparr>p_value := v, p_enabled := b\<rparr>)) = p_value (mixer_param key (p\<lparr>p_value := v\<rparr>))"
  by (simp add: mixer_param_def Let_def)

lemma setupStreamSettings_form:
  "setupStreamSettings json w =
     setSettings ''Stream''
       (map (\<lambda>sg. sg\<lparr>parameters := map (mixer_param (fetchStreamKey json)) (parameters sg)\<rparr>)
          (map (\<lambda>g. g\<lparr>parameters := obsValuesToInputValues BLACK_LIST_NAMES (parameters g)\<rparr>)
             (OBS_settings_getSettings (obs_settings w) ''Stream''))) w"
  by (simp add: setupStreamSettings_def getSettingsFormData_plain)

lemma form_entries_mixer:
  "form_entries [(''Stream'', map (\<lambda>sg. sg\<lparr>parameters := map (mixer_param key) (parameters sg)\<rparr>)
       (map (\<lambda>g. g\<lparr>parameters := obsValuesToInputValues bl (parameters g)\<rparr>) sgs))] =
     map (\<lambda>p. ((''Stream'', p_name p), p_value (mixer_param key (p\<lparr>p_value := p_currentValue p\<rparr>)))) (concat (map parameters sgs))"
  by (simp add: form_entries_def obsValuesToInputValues_def map_concat comp_def)

text \<open>
  C39. Composition with the settings service: once the channel details arrive,
  \<open>setupStreamSettings\<close> returns normally and the settings state of the \<open>Stream\<close>
  category holds the Mixer FTL service and the key \<open>id-streamKey\<close> of the channel, provided
  the OBS \<open>Stream\<close> form has a \<open>service\<close> and a \<open>key\<close> parameter.
\<close>

theorem setupStreamSettings_stores_key:
  assumes "''key'' \<in> p_name ` set (concat (map parameters (OBS_settings_getSettings (obs_settings w) ''Stream'')))"
    and "''service'' \<in> p_name ` set (concat (map parameters (OBS_settings_getSettings (obs_settings w) ''Stream'')))"
    and "setupStreamSettings json w = (r, w')"
  shows "r = Ret () \<and>
         state_lookup (ss_state w') ''Stream'' ''key'' = Some (OStr (fetchStreamKey json)) \<and>
         state_lookup (ss_state w') ''Stream'' ''service'' = Some (OStr ''Mixer.com - FTL'')"
proof -
  let ?ps = "concat (map parameters (OBS_settings_getSettings (obs_settings w) ''Stream''))"
  let ?fd = "[(''Stream'', map (\<lambda>sg. sg\<lparr>parameters := map (mixer_param (fetchStreamKey json)) (parameters sg)\<rparr>)
          (map (\<lambda>g. g\<lparr>parameters := obsValuesToInputValues BLACK_LIST_NAMES (parameters g)\<rparr>)
             (OBS_settings_getSettings (obs_settings w) ''Stream'')))]"
  have st: "r = Ret ()" "ss_state w' = SET_SETTINGS (convertFormDataToState ?fd) (ss_state w)"
    using assms(3) by (auto simp: setupStreamSettings_form setSettings_other simp del: map_map)
  have e: "form_entries ?fd = map (\<lambda>p. ((''Stream'', p_name p), p_value (mixer_param (fetchStreamKey json) (p\<lparr>p_value := p_currentValue p\<rparr>)))) ?ps"
    by (rule form_entries_mixer)
  have k: "''Stream'' \<in> fst ` fst ` set (form_entries ?fd)"
    using assms(1) unfolding e by force
  have "map_of (rev (form_entries ?fd)) (''Stream'', ''key'') = Some (OStr (fetchStreamKey json))"
    unfolding e using assms(1) by (rule map_of_rev_same_value) (simp add: mixer_param_def Let_def)
  moreover have "map_of (rev (form_entries ?fd)) (''Stream'', ''service'') = Some (OStr ''Mixer.com - FTL'')"
    unfolding e using assms(2) by (rule map_of_rev_same_value) (simp add: mixer_param_def Let_def)
  ultimately show ?thesis
    using st k by (simp add: state_lookup_SET_SETTINGS_convert)
qed

text \<open>
  C40. Composition of \<open>searchGames\<close> and \<open>putChannelInfo\<close>: after a search whose response
  lists the game (the last entry of that name wins), the channel update sends that game's
  type id, except when the id is \<open>0\<close>, which the truthiness test drops.
\<close>

theorem putChannelInfo_after_search:
  assumes "map_of (rev response) game = Some i"
  shows "map_of (req_body (putChannelInfo (fst (searchGames_then response st)) oauthToken channelId title game)) ''typeId'' =
           (if i = 0 then None else Some (ONum i))"
proof -
  have "map_of (typeIdMap (fst (searchGames_then response st))) game = Some i"
    using assms by (simp add: searchGames_then_def map_of_fold_ADD_GAME_MAPPING)
  then show ?thesis by (simp add: putChannelInfo_def)
qed

section \<open>Witnesses at the demo channel\<close>

theorem setupStreamSettings_stores_key_witness:
  "fst (setupStreamSettings demo_channel settings_demo) = Ret () \<and>
   state_lookup (ss_state (snd (setupStreamSettings demo_channel settings_demo))) ''Stream'' ''key'' = Some (OStr ''42-abc'')"
proof -
  have k: "''key'' \<in> p_name ` set (concat (map parameters (OBS_settings_getSettings (obs_settings settings_demo) ''Stream'')))"
    and s: "''service'' \<in> p_name ` set (concat (map parameters (OBS_settings_getSettings (obs_settings settings_demo) ''Stream'')))"
    by (simp_all add: OBS_settings_getSettings_def settings_demo_def demo_stream_form_def demo_param_def)
  have key: "fetchStreamKey demo_channel = ''42-abc''" by code_simp
  from setupStreamSettings_stores_key [OF k s prod.collapse [symmetric]] key show ?thesis by simp
qed

theorem putChannelInfo_after_search_witness:
  "map_of (rev [(''Fortnite'', 7), (''Minecraft'', 0)]) ''Fortnite'' = Some (7::int) \<and>
   map_of (req_body (putChannelInfo (fst (searchGames_then [(''Fortnite'', 7), (''Minecraft'', 0)] mixer_initial))
     ''token'' ''42'' ''Speedrun night'' ''Fortnite'')) ''typeId'' = Some (ONum 7)"
proof -
  have m: "map_of (rev [(''Fortnite'', 7), (''Minecraft'', 0)]) ''Fortnite'' = Some (7::int)" by simp
  from putChannelInfo_after_search [OF m] m show ?thesis by simp
qed

end
