(* ===== verification/NameScene.thy ===== *)
theory NameScene
  imports Scenes
begin

text \<open>
  Model of the window \<open>NameScene\<close> (\<open>src/app/components/windows/NameScene.vue.ts\<close>),
  which names a new scene, a duplicate, a renamed scene or a group, composed with the
  scene store of theory \<open>Scenes\<close>: the window's fields extend \<open>scenes_world\<close>, so
  \<open>createScene\<close>, \<open>getSceneByName\<close>, \<open>makeSceneActive\<close> and \<open>addSource\<close> run
  on the same state. The calls into services that are not under \<open>src\<close> and that the
  store does not model (the selection's \<open>moveTo\<close>, \<open>selectionService.select\<close>,
  \<open>setContentCrop\<close>, closing the window) are recorded as effects;
  \<open>sourcesService.suggestName\<close> is a parameter.
\<close>

section \<open>The window\<close>

text \<open>\<open>getChildWindowQueryParams()\<close>: each option may be absent (\<open>None\<close>).\<close>

record name_scene_options =
  sceneToDuplicate :: "string option"
  rename :: "string option"
  itemsToGroup :: "ident list option"

datatype ns_effect =
    MoveTo "ident list" ident
  | SelectItem ident
  | SetContentCrop ident
  | CloseChildWindow

record name_scene_world = scenes_world +
  ns_name :: string
  ns_error :: string
  ns_effects :: "ns_effect list"

text \<open>A string option is truthy when present and non-empty; an array is always truthy.\<close>

definition truthy_str :: "string option \<Rightarrow> bool" where
  "truthy_str s = (case s of Some x \<Rightarrow> x \<noteq> [] | None \<Rightarrow> False)"

definition ns_call :: "ns_effect \<Rightarrow> 'a name_scene_world_scheme \<Rightarrow> 'a name_scene_world_scheme" where
  "ns_call e w = w\<lparr>ns_effects := ns_effects w @ [e]\<rparr>"

text \<open>\<open>scenesService.activeScene\<close>: the scene of \<open>activeSceneId\<close>, \<open>null\<close> when none.\<close>

definition activeScene :: "'a scenes_state_scheme \<Rightarrow> scene option" where
  "activeScene w = getScene (activeSceneId w) w"

text \<open>\<open>Scene.setName\<close> (not under \<open>src\<close>): the scene's name in the store.\<close>

definition setName :: "ident \<Rightarrow> string \<Rightarrow> 'a scenes_state_scheme \<Rightarrow> 'a scenes_state_scheme" where
  "setName i name w =
     w\<lparr>scenes := map (\<lambda>(j, sc). if j = i then (j, sc\<lparr>scene_name := name\<rparr>) else (j, sc)) (scenes w)\<rparr>"

section \<open>mounted and submit\<close>

definition mounted :: "(string \<Rightarrow> string) \<Rightarrow> name_scene_options \<Rightarrow> 'a name_scene_world_scheme \<Rightarrow>
    unit outcome \<times> 'a name_scene_world_scheme" where
  "mounted suggestName opts w =
     (let base =
        (if truthy_str (rename opts) then Ret (the (rename opts))
         else if truthy_str (sceneToDuplicate opts) then Ret (the (sceneToDuplicate opts))
         else if itemsToGroup opts \<noteq> None then
           (case activeScene w of
              None \<Rightarrow> Thrown (TypeError ''Cannot read property name of null'')
            | Some sc \<Rightarrow> Ret (scene_name sc @ '' Group''))
         else Ret ''New Scene'')
      in case base of
           Thrown e \<Rightarrow> (Thrown e, w)
         | Ret name \<Rightarrow> (Ret (), w\<lparr>ns_name := suggestName name\<rparr>))"

text \<open>The group branch: move the items into the new scene, add it to the active scene, select
  the new item and crop it.\<close>

definition group_items :: "scene option \<Rightarrow> ident list \<Rightarrow> scene \<Rightarrow> 'a name_scene_world_scheme \<Rightarrow>
    unit outcome \<times> 'a name_scene_world_scheme" where
  "group_items act items newScene w =
     (case act of
        None \<Rightarrow> (Thrown (TypeError ''Cannot read property getSelection of null''), w)
      | Some sc \<Rightarrow>
          (let w1 = ns_call (MoveTo items (scene_id newScene)) w
           in case addSource (scene_id sc) (scene_id newScene) None w1 of
                (Thrown e, w2) \<Rightarrow> (Thrown e, w2)
              | (Ret None, w2) \<Rightarrow> (Thrown (TypeError ''Cannot read property sceneItemId of null''), w2)
              | (Ret (Some item), w2) \<Rightarrow>
                  (Ret (), ns_call (SetContentCrop (sceneItemId item)) (ns_call (SelectItem (sceneItemId item)) w2))))"

definition submit :: "name_scene_options \<Rightarrow> 'a name_scene_world_scheme \<Rightarrow> unit outcome \<times> 'a name_scene_world_scheme" where
  "submit opts w =
     (let act = activeScene w
      in if ns_name w = [] then (Ret (), w\<lparr>ns_error := ''The scene name is required''\<rparr>)
         else if truthy_str (rename opts) then
           (case getSceneByName (the (rename opts)) w of
              None \<Rightarrow> (Thrown (TypeError ''Cannot read property setName of null''), w)
            | Some sc \<Rightarrow> (Ret (), ns_call CloseChildWindow (setName (scene_id sc) (ns_name w) w)))
         else
           (case createScene (ns_name w)
                   \<lparr>opt_sceneId = None, opt_duplicateSourcesFromScene = sceneToDuplicate opts, opt_makeActive = False\<rparr> w of
              (Thrown e, w1) \<Rightarrow> (Thrown e, w1)
            | (Ret None, w1) \<Rightarrow> (Thrown (TypeError ''Cannot read property id of null''), w1)
            | (Ret (Some newScene), w1) \<Rightarrow>
                (case itemsToGroup opts of
                   Some items \<Rightarrow>
                     (case group_items act items newScene w1 of
                        (Thrown e, w2) \<Rightarrow> (Thrown e, w2)
                      | (Ret u, w2) \<Rightarrow> (Ret (), ns_call CloseChildWindow w2))
                 | None \<Rightarrow> (Ret (), ns_call CloseChildWindow (snd (makeSceneActive (scene_id newScene) w1))))))"

section \<open>Demo\<close>

definition ns_demo :: name_scene_world where
  "ns_demo = \<lparr>activeSceneId = [], displayOrder = [], scenes = [], sources = [], events = [], uid = 0,
              ns_name = [], ns_error = [], ns_effects = []\<rparr>"

definition ns_no_options :: name_scene_options where
  "ns_no_options = \<lparr>sceneToDuplicate = None, rename = None, itemsToGroup = None\<rparr>"

section \<open>Lemmas\<close>

lemma submit_empty_name:
  "ns_name w = [] \<Longrightarrow> submit opts w = (Ret (), w\<lparr>ns_error := ''The scene name is required''\<rparr>)"
  by (simp add: submit_def)

lemma submit_rename:
  "ns_name w \<noteq> [] \<Longrightarrow> rename opts = Some r \<Longrightarrow> r \<noteq> [] \<Longrightarrow> getSceneByName r w = Some sc \<Longrightarrow>
     submit opts w = (Ret (), ns_call CloseChildWindow (setName (scene_id sc) (ns_name w) w))"
  by (simp add: submit_def truthy_str_def)

text \<open>Opening the window with no options and submitting the suggested name creates the scene
  \<open>New Scene\<close>, makes it active and closes the window.\<close>

lemma submit_new_scene_run:
  "activeSceneId (snd (submit ns_no_options (snd (mounted id ns_no_options ns_demo)))) = ''scene_0'' \<and>
   map (scene_name \<circ> snd) (scenes (snd (submit ns_no_options (snd (mounted id ns_no_options ns_demo))))) = [''New Scene''] \<and>
   ns_effects (snd (submit ns_no_options (snd (mounted id ns_no_options ns_demo)))) = [CloseChildWindow] \<and>
   fst (submit ns_no_options (snd (mounted id ns_no_options ns_demo))) = Ret ()"
  by code_simp

text \<open>Renaming a scene that no longer exists throws from \<open>getSceneByName(...).setName\<close>.\<close>

lemma submit_rename_missing:
  "ns_name w \<noteq> [] \<Longrightarrow> truthy_str (rename opts) \<Longrightarrow> getSceneByName (the (rename opts)) w = None \<Longrightarrow>
     submit opts w = (Thrown (TypeError ''Cannot read property setName of null''), w)"
  by (simp add: submit_def)

end
