(* ===== verification/Release.thy ===== *)
theory Release
  imports Prelude
begin

text \<open>
  Model of the interactive release script (\<open>src/unnamed/part_001\<close>, lines 1-312). The script
  is a sequence of steps: messages (\<open>info\<close>, \<open>error\<close>), shell commands run through
  \<open>executeCmd\<close> (which exits with code 1 when a command fails), prompts, environment
  checks, file writes and S3 uploads. The answers to the prompts, the environment variables,
  the outcome of each shell command, the files found in \<open>dist\<close> and the outcome of each
  upload are the environment (\<open>release_env\<close>); the script's trace is the list of actions
  it performs (\<open>release_action\<close>). \<open>sh.exit\<close> ends the run; an uncaught exception ends
  it without an exit code (\<open>Crashed\<close>).
\<close>

section \<open>Environment, actions and runs\<close>

record release_env =
  confirm_release :: bool
  release_type :: string
  branch_choice :: string
  confirm_package :: bool
  confirm_deploy :: bool
  env_vars :: "string list"
  cmd_ok :: "string \<Rightarrow> bool"
  path_sep :: string
  currentVersion :: string
  semver_inc :: "string \<Rightarrow> string \<Rightarrow> string option \<Rightarrow> string"
  pick_version :: "string list \<Rightarrow> string"
  dist_dir :: string
  yml_files :: "string list"
  yml_path :: "string \<Rightarrow> string"
  file_exists :: "string \<Rightarrow> bool"
  upload_error :: "string \<Rightarrow> string option"

datatype release_action =
    Echo string
  | Exec string
  | RemoveDir string
  | WritePackage string
  | S3Upload string string string

datatype release_run =
    Running "release_action list"
  | Exited "release_action list" int
  | Crashed "release_action list"

fun run_log :: "release_run \<Rightarrow> release_action list" where
  "run_log (Running l) = l"
| "run_log (Exited l c) = l"
| "run_log (Crashed l) = l"

section \<open>The helpers\<close>

definition dq :: string where
  "dq = [CHR 0x22]"

definition s3Bucket :: string where "s3Bucket = ''streamlabs-obs''"
definition sentryOrg :: string where "sentryOrg = ''streamlabs-obs''"
definition sentryProject :: string where "sentryProject = ''streamlabs-obs''"

text \<open>\<open>path.join\<close> of plain segments, with the platform's separator.\<close>

fun path_join :: "release_env \<Rightarrow> string list \<Rightarrow> string" where
  "path_join env [] = []"
| "path_join env [x] = x"
| "path_join env (x # xs) = x @ path_sep env @ path_join env xs"

definition info :: "string \<Rightarrow> release_action" where
  "info msg = Echo msg"

definition error :: "string \<Rightarrow> release_action" where
  "error msg = Echo (''ERROR: '' @ msg)"

definition executeCmd :: "release_env \<Rightarrow> string \<Rightarrow> release_action list \<Rightarrow> release_run" where
  "executeCmd env cmd tr =
     (if cmd_ok env cmd then Running (tr @ [Exec cmd])
      else Exited (tr @ [Exec cmd, error (''Command Failed >>> '' @ cmd)]) 1)"

definition sentry_command :: "release_env \<Rightarrow> string \<Rightarrow> string" where
  "sentry_command env cmd =
     path_join env [''bin'', ''node_modules'', ''sentry-cli-binary'', ''bin'', ''sentry-cli''] @
     '' releases --org '' @ dq @ sentryOrg @ dq @ '' --project '' @ dq @ sentryProject @ dq @ '' '' @ cmd"

definition sentryCli :: "release_env \<Rightarrow> string \<Rightarrow> release_action list \<Rightarrow> release_run" where
  "sentryCli env cmd tr = executeCmd env (sentry_command env cmd) tr"

text \<open>\<open>!process.env[varName]\<close>: \<open>env_vars\<close> lists the variables set to a non-empty value.\<close>

definition checkEnv :: "release_env \<Rightarrow> string \<Rightarrow> release_action list \<Rightarrow> release_run" where
  "checkEnv env v tr =
     (if v \<in> set (env_vars env) then Running tr
      else Exited (tr @ [error (''Missing environment variable '' @ v)]) 1)"

definition uploadS3File :: "release_env \<Rightarrow> string \<Rightarrow> string \<Rightarrow> release_action list \<Rightarrow> release_run" where
  "uploadS3File env name filePath tr =
     (let tr1 = tr @ [info (''Starting upload of '' @ name @ ''...'')]
      in case upload_error env name of
           None \<Rightarrow> Running (tr1 @ [S3Upload s3Bucket name filePath])
         | Some err \<Rightarrow> Exited (tr1 @ [error (''Upload of '' @ name @ '' failed''), Echo err]) 1)"

section \<open>Steps\<close>

datatype release_step =
    Info string
  | ExecuteCmd string
  | SentryCli string
  | Confirm bool
  | CheckEnv string
  | RmRf string
  | WritePkg string
  | UploadS3 string string
  | RequireFile string
  | Crash

fun run_step :: "release_env \<Rightarrow> release_step \<Rightarrow> release_action list \<Rightarrow> release_run" where
  "run_step env (Info m) tr = Running (tr @ [info m])"
| "run_step env (ExecuteCmd c) tr = executeCmd env c tr"
| "run_step env (SentryCli c) tr = sentryCli env c tr"
| "run_step env (Confirm b) tr = (if b then Running tr else Exited tr 0)"
| "run_step env (CheckEnv v) tr = checkEnv env v tr"
| "run_step env (RmRf p) tr = Running (tr @ [RemoveDir p])"
| "run_step env (WritePkg v) tr = Running (tr @ [WritePackage v])"
| "run_step env (UploadS3 name p) tr = uploadS3File env name p tr"
| "run_step env (RequireFile p) tr =
     (if file_exists env p then Running tr else Exited (tr @ [error (''Could not find '' @ p)]) 1)"
| "run_step env Crash tr = Crashed tr"

fun exec_steps :: "release_env \<Rightarrow> release_step list \<Rightarrow> release_action list \<Rightarrow> release_run" where
  "exec_steps env [] tr = Running tr"
| "exec_steps env (s # ss) tr =
     (case run_step env s tr of
        Running tr' \<Rightarrow> exec_steps env ss tr'
      | r \<Rightarrow> r)"

section \<open>runScript\<close>

definition release_header :: "release_env \<Rightarrow> release_step list" where
  "release_header env =
     [Info ''|-------------------------------------------|'',
      Info ''| Streamlabs OBS Interactive Release Script |'',
      Info ''|-------------------------------------------|'',
      Confirm (confirm_release env),
      CheckEnv ''AWS_ACCESS_KEY_ID'', CheckEnv ''AWS_SECRET_ACCESS_KEY'', CheckEnv ''CSC_LINK'',
      CheckEnv ''CSC_KEY_PASSWORD'', CheckEnv ''SENTRY_AUTH_TOKEN'']"

definition isPreview :: "release_env \<Rightarrow> bool" where
  "isPreview env \<longleftrightarrow> release_type env = ''preview''"

text \<open>Preview releases go from \<open>staging\<close> to \<open>preview\<close>; the others from the chosen branch
  to \<open>master\<close>.\<close>

definition release_branches :: "release_env \<Rightarrow> string \<times> string" where
  "release_branches env = (if isPreview env then (''staging'', ''preview'') else (branch_choice env, ''master''))"

definition sync_steps :: "string \<Rightarrow> string \<Rightarrow> release_step list" where
  "sync_steps src tgt =
     [Info ''Stashing all uncommitted changes...'', ExecuteCmd ''git add -A'', ExecuteCmd ''git stash'',
      Info (''Syncing '' @ src @ '' with the origin...''), ExecuteCmd ''git fetch'',
      ExecuteCmd (''git checkout '' @ src), ExecuteCmd ''git pull'', ExecuteCmd (''git reset --hard origin/'' @ src)] @
     (if src \<noteq> tgt then
        [Info (''Syncing '' @ tgt @ '' with the origin...''), ExecuteCmd ''git fetch'',
         ExecuteCmd (''git checkout '' @ tgt), ExecuteCmd ''git pull'', ExecuteCmd (''git reset --hard origin/'' @ tgt),
         Info (''Merging '' @ src @ '' into '' @ tgt @ ''...''), ExecuteCmd (''git merge '' @ src)]
      else [])"

definition build_steps :: "release_step list" where
  "build_steps =
     [Info ''Ensuring submodules are up to date...'', ExecuteCmd ''git submodule update --init --recursive'',
      Info ''Removing old packages...'', RmRf ''node_modules'',
      Info ''Installing fresh packages...'', ExecuteCmd ''yarn install'',
      Info ''Installing OBS plugins...'', ExecuteCmd ''yarn install-plugins'',
      Info ''Compiling assets...'', ExecuteCmd ''yarn compile:production'',
      Info ''Running tests...'', ExecuteCmd ''yarn test'',
      Info ''The current revision has passed testing and is ready to be'', Info ''packaged and released'']"

text \<open>\<open>[...new Set(versionOptions)]\<close>: duplicates removed, first occurrences kept.\<close>

definition dedup_first :: "'a list \<Rightarrow> 'a list" where
  "dedup_first xs = rev (remdups (rev xs))"

definition versionOptions :: "release_env \<Rightarrow> string list" where
  "versionOptions env =
     (let v = currentVersion env; inc = semver_inc env
      in dedup_first
           (if isPreview env then
              [inc v ''prerelease'' (Some ''preview''), inc v ''prepatch'' (Some ''preview''),
               inc v ''preminor'' (Some ''preview''), inc v ''premajor'' (Some ''preview'')]
            else [inc v ''patch'' None, inc v ''minor'' None, inc v ''major'' None]))"

definition newVersion :: "release_env \<Rightarrow> string" where
  "newVersion env = pick_version env (versionOptions env)"

definition yarn_package :: "release_env \<Rightarrow> string" where
  "yarn_package env = ''yarn package'' @ (if isPreview env then '':preview'' else [])"

definition package_steps :: "release_env \<Rightarrow> string \<Rightarrow> release_step list" where
  "package_steps env nv =
     [Info (''The current application version is '' @ currentVersion env),
      Confirm (confirm_package env),
      Info (''Writing '' @ nv @ '' to package.json...''), WritePkg nv,
      Info ''Packaging the app...'', ExecuteCmd (yarn_package env),
      Info (''Version '' @ nv @ '' is ready to be deployed.''),
      Info ''You can find the packaged app at dist/win-unpacked.'',
      Info ''Please run the packaged application now to ensure it starts up properly.'',
      Info ''When you have confirmed the packaged app works properly, you'',
      Info ''can continue with the deploy.'',
      Confirm (confirm_deploy env)]"

definition commit_steps :: "string \<Rightarrow> release_step list" where
  "commit_steps nv =
     [Info ''Committing changes...'', ExecuteCmd ''git add -A'',
      ExecuteCmd (''git commit -m '' @ dq @ ''Release version '' @ nv @ dq), Info ''Pushing changes...'']"

definition deploy_steps :: "release_env \<Rightarrow> string \<Rightarrow> release_step list" where
  "deploy_steps env nv =
     [ExecuteCmd ''git push origin HEAD'',
      Info (''Tagging version '' @ nv @ ''...''), ExecuteCmd (''git tag -f v'' @ nv), ExecuteCmd ''git push --tags'',
      Info (''Registering '' @ nv @ '' with sentry...''),
      SentryCli (''new '' @ dq @ nv @ dq), SentryCli (''set-commits --auto '' @ dq @ nv @ dq),
      Info ''Uploading compiled source to sentry...'',
      SentryCli (''files '' @ dq @ nv @ dq @ '' delete --all''),
      SentryCli (''files '' @ dq @ nv @ dq @ '' upload '' @ dq @ path_join env [''bundles'', ''renderer.js''] @ dq),
      SentryCli (''files '' @ dq @ nv @ dq @ '' upload '' @ dq @ path_join env [''bundles'', ''renderer.js.map''] @ dq)]"

text \<open>
  Publishing: \<open>sh.ls(...)[0]\<close> is \<open>undefined\<close> when \<open>dist\<close> holds no \<open>.yml\<close> file, and
  \<open>path.parse(undefined)\<close> throws, which rejects the script's promise (\<open>Crash\<close>). The
  \<open>finalize\<close> command is built with an opening quote and no closing one.
\<close>

definition publish_steps :: "release_env \<Rightarrow> string \<Rightarrow> string \<Rightarrow> release_step list" where
  "publish_steps env nv tgt =
     Info ''Discovering publishing artifacts...'' #
     (case yml_files env of
        [] \<Rightarrow> [Crash]
      | cf # _ \<Rightarrow>
          (let cfp = path_join env [dist_dir env, cf];
               inst = yml_path env cfp;
               ip = path_join env [dist_dir env, inst]
           in [Info (''Discovered '' @ cf), RequireFile ip, Info (''Disovered '' @ inst),
               Info ''Uploading publishing artifacts...'', UploadS3 inst ip, UploadS3 cf cfp,
               Info ''Finalizing release with sentry...'', SentryCli (''finalize '' @ dq @ nv),
               Info (''Merging '' @ tgt @ '' back into staging...''),
               ExecuteCmd ''git checkout staging'', ExecuteCmd (''git merge '' @ tgt), ExecuteCmd ''git push origin HEAD'',
               Info (''Version '' @ nv @ '' released successfully!'')]))"

definition release_steps :: "release_env \<Rightarrow> release_step list" where
  "release_steps env =
     (let (src, tgt) = release_branches env; nv = newVersion env
      in release_header env @ sync_steps src tgt @ build_steps @ package_steps env nv @ commit_steps nv @
         deploy_steps env nv @ publish_steps env nv tgt)"

text \<open>\<open>runScript().then(() => sh.exit(0))\<close>.\<close>

definition runScript :: "release_env \<Rightarrow> release_run" where
  "runScript env =
     (case exec_steps env (release_steps env) [] of
        Running l \<Rightarrow> Exited l 0
      | r \<Rightarrow> r)"

section \<open>What a step may tr, and when it goes on\<close>

fun step_actions :: "release_env \<Rightarrow> release_step \<Rightarrow> release_action list" where
  "step_actions env (Info m) = [info m]"
| "step_actions env (ExecuteCmd c) = [Exec c, error (''Command Failed >>> '' @ c)]"
| "step_actions env (SentryCli c) = [Exec (sentry_command env c), error (''Command Failed >>> '' @ sentry_command env c)]"
| "step_actions env (Confirm b) = []"
| "step_actions env (CheckEnv v) = [error (''Missing environment variable '' @ v)]"
| "step_actions env (RmRf p) = [RemoveDir p]"
| "step_actions env (WritePkg v) = [WritePackage v]"
| "step_actions env (UploadS3 name p) =
     [info (''Starting upload of '' @ name @ ''...''), S3Upload s3Bucket name p, error (''Upload of '' @ name @ '' failed'')] @
     (case upload_error env name of Some err \<Rightarrow> [Echo err] | None \<Rightarrow> [])"
| "step_actions env (RequireFile p) = [error (''Could not find '' @ p)]"
| "step_actions env Crash = []"

fun step_ok :: "release_env \<Rightarrow> release_step \<Rightarrow> bool" where
  "step_ok env (ExecuteCmd c) = cmd_ok env c"
| "step_ok env (SentryCli c) = cmd_ok env (sentry_command env c)"
| "step_ok env (Confirm b) = b"
| "step_ok env (CheckEnv v) = (v \<in> set (env_vars env))"
| "step_ok env (UploadS3 name p) = (upload_error env name = None)"
| "step_ok env (RequireFile p) = file_exists env p"
| "step_ok env Crash = False"
| "step_ok env _ = True"

section \<open>Demo environment\<close>

definition demo_release_env :: release_env where
  "demo_release_env =
     \<lparr>confirm_release = True, release_type = ''normal'', branch_choice = ''staging'',
      confirm_package = True, confirm_deploy = True,
      env_vars = [''AWS_ACCESS_KEY_ID'', ''AWS_SECRET_ACCESS_KEY'', ''CSC_LINK'', ''CSC_KEY_PASSWORD'', ''SENTRY_AUTH_TOKEN''],
      cmd_ok = (\<lambda>c. True), path_sep = ''/'', currentVersion = ''0.9.0'',
      semver_inc = (\<lambda>v k p. v @ ''+'' @ k), pick_version = (\<lambda>vs. hd vs),
      dist_dir = ''/slobs/dist'', yml_files = [''latest.yml''], yml_path = (\<lambda>p. ''Setup.exe''),
      file_exists = (\<lambda>p. True), upload_error = (\<lambda>n. None)\<rparr>"

section \<open>Lemmas\<close>

text \<open>A step appends only what it may log, and goes on exactly when it succeeds.\<close>

lemma run_step_extends:
  "\<exists>xs. run_log (run_step env s tr) = tr @ xs \<and> set xs \<subseteq> set (step_actions env s)"
  by (cases s) (auto simp: executeCmd_def sentryCli_def checkEnv_def uploadS3File_def Let_def
                     split: option.split)

lemma run_step_Running_iff:
  "(\<exists>tr'. run_step env s tr = Running tr') \<longleftrightarrow> step_ok env s"
  by (cases s) (auto simp: executeCmd_def sentryCli_def checkEnv_def uploadS3File_def Let_def
                     split: option.split)

lemma exec_steps_append:
  "exec_steps env (ss @ rest) tr =
     (case exec_steps env ss tr of Running tr' \<Rightarrow> exec_steps env rest tr' | r \<Rightarrow> r)"
  by (induction ss arbitrary: tr) (auto split: release_run.split)

text \<open>An action that appears in the trace and that no step of a prefix logs was performed
  after the prefix: every step of the prefix succeeded.\<close>

lemma exec_steps_stops:
  assumes "a \<in> set (run_log (exec_steps env (pre @ rest) tr))" "a \<notin> set tr"
    and "\<forall>s\<in>set pre. a \<notin> set (step_actions env s)"
  shows "list_all (step_ok env) pre"
  using assms
proof (induction pre arbitrary: tr)
  case Nil
  then show ?case by simp
next
  case (Cons s pre)
  obtain xs where xs: "run_log (run_step env s tr) = tr @ xs" "set xs \<subseteq> set (step_actions env s)"
    using run_step_extends by blast
  have new: "a \<notin> set (tr @ xs)" using Cons.prems(2,3) xs(2) by auto
  show ?case
  proof (cases "step_ok env s")
    case True
    then obtain tr' where r: "run_step env s tr = Running tr'" using run_step_Running_iff by blast
    then have "a \<in> set (run_log (exec_steps env (pre @ rest) tr'))" using Cons.prems(1) by simp
    moreover have "a \<notin> set tr'" using new xs(1) r by simp
    ultimately show ?thesis using Cons.IH Cons.prems(3) True by simp
  next
    case False
    then have "exec_steps env ((s # pre) @ rest) tr = run_step env s tr"
      using run_step_Running_iff[of env s tr] by (auto split: release_run.split)
    then show ?thesis using Cons.prems(1) new xs(1) by simp
  qed
qed

lemma run_log_runScript:
  "run_log (runScript env) = run_log (exec_steps env (release_steps env) [])"
  by (simp add: runScript_def split: release_run.split)

lemma runScript_prefix_ok:
  assumes "release_steps env = pre @ rest" "a \<in> set (run_log (runScript env))"
    and "\<forall>s\<in>set pre. a \<notin> set (step_actions env s)"
  shows "list_all (step_ok env) pre"
  using assms exec_steps_stops[of a env pre rest "[]"] by (simp add: run_log_runScript)

lemma release_steps_split:
  "release_steps env =
     release_header env @ sync_steps (fst (release_branches env)) (snd (release_branches env)) @
     build_steps @ package_steps env (newVersion env) @ commit_steps (newVersion env) @
     deploy_steps env (newVersion env) @ publish_steps env (newVersion env) (snd (release_branches env))"
  by (simp add: release_steps_def Let_def split: prod.split)

lemmas release_phase_defs = release_header_def sync_steps_def build_steps_def package_steps_def
  commit_steps_def info_def error_def yarn_package_def

text \<open>
  C25. The release is pushed (\<open>git push origin HEAD\<close>) only after the operator confirmed
  the release, the package and the deploy, every required environment variable was set, and
  the tests and the packaging succeeded.
\<close>

theorem release_push_requires_checks:
  assumes "Exec ''git push origin HEAD'' \<in> set (run_log (runScript env))"
  shows "confirm_release env \<and> set [''AWS_ACCESS_KEY_ID'', ''AWS_SECRET_ACCESS_KEY'', ''CSC_LINK'',
           ''CSC_KEY_PASSWORD'', ''SENTRY_AUTH_TOKEN''] \<subseteq> set (env_vars env) \<and>
         cmd_ok env ''yarn test'' \<and> confirm_package env \<and> cmd_ok env (yarn_package env) \<and>
         confirm_deploy env"
proof -
  define pre where "pre = release_header env @
    sync_steps (fst (release_branches env)) (snd (release_branches env)) @
    build_steps @ package_steps env (newVersion env) @ commit_steps (newVersion env)"
  have "\<forall>s\<in>set pre. Exec ''git push origin HEAD'' \<notin> set (step_actions env s)"
    by (auto simp: pre_def release_phase_defs)
  moreover have "release_steps env = pre @ deploy_steps env (newVersion env) @
      publish_steps env (newVersion env) (snd (release_branches env))"
    unfolding pre_def by (simp add: release_steps_split)
  ultimately have "list_all (step_ok env) pre"
    using runScript_prefix_ok[OF _ assms] by blast
  then show ?thesis
    by (simp add: pre_def release_header_def build_steps_def package_steps_def)
qed

lemma release_push_requires_checks_witness:
  "Exec ''git push origin HEAD'' \<in> set (run_log (runScript demo_release_env)) \<and>
   cmd_ok demo_release_env ''yarn test''"
  using release_push_requires_checks [of demo_release_env]
  by code_simp

text \<open>
  C26. When the tests fail, the script stops there: \<open>package.json\<close> is never written
  and nothing is uploaded to S3.
\<close>

theorem release_failed_tests_stop:
  assumes "\<not> cmd_ok env ''yarn test''"
  shows "WritePackage v \<notin> set (run_log (runScript env)) \<and>
         S3Upload b name p \<notin> set (run_log (runScript env))"
proof -
  define pre where "pre = release_header env @
    sync_steps (fst (release_branches env)) (snd (release_branches env)) @ build_steps"
  have split: "release_steps env = pre @ package_steps env (newVersion env) @
      commit_steps (newVersion env) @ deploy_steps env (newVersion env) @
      publish_steps env (newVersion env) (snd (release_branches env))"
    unfolding pre_def by (simp add: release_steps_split)
  have tests: "\<not> list_all (step_ok env) pre"
    using assms by (simp add: pre_def build_steps_def)
  have "\<forall>s\<in>set pre. WritePackage v \<notin> set (step_actions env s)"
    by (auto simp: pre_def release_phase_defs)
  moreover have "\<forall>s\<in>set pre. S3Upload b name p \<notin> set (step_actions env s)"
    by (auto simp: pre_def release_phase_defs)
  ultimately show ?thesis
    using runScript_prefix_ok[OF split, of "WritePackage v"] runScript_prefix_ok[OF split, of "S3Upload b name p"]
      tests by blast
qed

lemma release_failed_tests_stop_witness:
  "\<not> cmd_ok (demo_release_env\<lparr>cmd_ok := (\<lambda>c. c \<noteq> ''yarn test'')\<rparr>) ''yarn test'' \<and>
   WritePackage ''0.9.0+patch'' \<notin> set (run_log (runScript (demo_release_env\<lparr>cmd_ok := (\<lambda>c. c \<noteq> ''yarn test'')\<rparr>))) \<and>
   S3Upload s3Bucket ''Setup.exe'' ''/slobs/dist/Setup.exe'' \<notin>
     set (run_log (runScript (demo_release_env\<lparr>cmd_ok := (\<lambda>c. c \<noteq> ''yarn test'')\<rparr>)))"
  using release_failed_tests_stop [of "demo_release_env\<lparr>cmd_ok := (\<lambda>c. c \<noteq> ''yarn test'')\<rparr>"
      "''0.9.0+patch''" s3Bucket "''Setup.exe''" "''/slobs/dist/Setup.exe''"]
  by (simp add: demo_release_env_def)

text \<open>The script ends with \<open>sh.exit(0)\<close> or \<open>sh.exit(1)\<close>, or by the uncaught
  exception of the artifact discovery.\<close>

lemma exec_steps_exit_code:
  "exec_steps env ss tr = Exited tr' c \<Longrightarrow> c = 0 \<or> c = 1"
proof (induction ss arbitrary: tr)
  case (Cons s ss)
  then show ?case
    by (cases s) (auto simp: executeCmd_def sentryCli_def checkEnv_def uploadS3File_def Let_def
                       split: if_splits option.splits release_run.splits)
qed simp

lemma runScript_exit_code:
  "runScript env = Exited tr c \<Longrightarrow> c = 0 \<or> c = 1"
  by (auto simp: runScript_def dest: exec_steps_exit_code split: release_run.splits)

lemma runScript_never_running:
  "runScript env \<noteq> Running tr"
  by (simp add: runScript_def split: release_run.split)

lemma versionOptions_distinct:
  "distinct (versionOptions env)"
  by (simp add: versionOptions_def dedup_first_def Let_def)

lemma set_versionOptions_preview:
  "isPreview env \<Longrightarrow> set (versionOptions env) =
     (\<lambda>k. semver_inc env (currentVersion env) k (Some ''preview'')) `
       {''prerelease'', ''prepatch'', ''preminor'', ''premajor''}"
  by (auto simp: versionOptions_def dedup_first_def Let_def)

text \<open>With no \<open>.yml\<close> file in \<open>dist\<close>, a run that got that far ends by the uncaught
  exception, not by the script's own error message and exit code.\<close>

lemma release_no_yml_crashes:
  assumes "yml_files env = []"
    and "exec_steps env (release_header env @ sync_steps (fst (release_branches env)) (snd (release_branches env)) @
       build_steps @ package_steps env (newVersion env) @ commit_steps (newVersion env) @
       deploy_steps env (newVersion env)) [] = Running tr"
  shows "runScript env = Crashed (tr @ [info ''Discovering publishing artifacts...''])"
proof -
  define pre where "pre = release_header env @
    sync_steps (fst (release_branches env)) (snd (release_branches env)) @
    build_steps @ package_steps env (newVersion env) @ commit_steps (newVersion env) @
    deploy_steps env (newVersion env)"
  have "release_steps env = pre @ publish_steps env (newVersion env) (snd (release_branches env))"
    unfolding pre_def by (simp add: release_steps_split)
  moreover have "exec_steps env pre [] = Running tr"
    using assms(2) unfolding pre_def .
  ultimately show ?thesis
    unfolding runScript_def by (simp add: exec_steps_append publish_steps_def assms(1))
qed

lemma release_no_yml_crashes_witness:
  "runScript (demo_release_env\<lparr>yml_files := []\<rparr>) =
     Crashed (run_log (exec_steps demo_release_env (release_header demo_release_env @ sync_steps ''staging'' ''master'' @
       build_steps @ package_steps demo_release_env ''0.9.0+patch'' @ commit_steps ''0.9.0+patch'' @
       deploy_steps demo_release_env ''0.9.0+patch'') []) @ [info ''Discovering publishing artifacts...''])"
  using release_no_yml_crashes [of "demo_release_env\<lparr>yml_files := []\<rparr>"]
  by code_simp

lemma filter_path_join:
  "filter P (path_sep env) = [] \<Longrightarrow> \<forall>x\<in>set xs. filter P x = [] \<Longrightarrow> filter P (path_join env xs) = []"
  by (induction env xs rule: path_join.induct) simp_all

text \<open>The \<open>finalize\<close> command opens a quote it never closes.\<close>

lemma finalize_unbalanced_quote:
  assumes "CHR 0x22 \<notin> set nv" "CHR 0x22 \<notin> set (path_sep env)"
  shows "odd (length (filter (\<lambda>c. c = CHR 0x22) (sentry_command env (''finalize '' @ dq @ nv))))"
proof -
  have "filter (\<lambda>c. c = CHR 0x22) (path_sep env) = []"
    using assms(2) by (auto simp: filter_empty_conv)
  then have "filter (\<lambda>c. c = CHR 0x22)
      (path_join env [''bin'', ''node_modules'', ''sentry-cli-binary'', ''bin'', ''sentry-cli'']) = []"
    by (rule filter_path_join) simp
  moreover have "filter (\<lambda>c. c = CHR 0x22) nv = []"
    using assms(1) by (auto simp: filter_empty_conv)
  ultimately show ?thesis
    by (simp add: sentry_command_def dq_def sentryOrg_def sentryProject_def)
qed

lemma finalize_unbalanced_quote_witness:
  "odd (length (filter (\<lambda>c. c = CHR 0x22) (sentry_command demo_release_env (''finalize '' @ dq @ ''0.9.1''))))"
  using finalize_unbalanced_quote [of "''0.9.1''" demo_release_env]
  by (simp add: demo_release_env_def)

end
