(* ===== verification/Selection.thy ===== *)
theory Selection
  imports Scenes
begin

text \<open>
  The selection of a scene (\<open>ISelection\<close>, \<open>ISelectionState\<close> and \<open>TNodesList\<close> in
  \<open>src/app/services/selection/selection-api.ts\<close>, 14-176). Only the interface is under
  \<open>src\<close>; the operations follow its documentation comments and the spec's Selection
  Engine (section 4.3). A scene's nodes are a node table: the node ids in display order with
  each node's parent folder. The state is the list of selected ids in selection order and the
  last selected id. Selecting a node that is not in the scene is refused.
\<close>

section \<open>State and operations\<close>

type_synonym node_table = "(ident \<times> ident option) list"

record ISelectionState =
  selectedIds :: "ident list"
  lastSelectedId :: ident

text \<open>\<open>TNodesList\<close>: an id, a list of ids, a node or a list of nodes (a node by its id).\<close>

datatype TNodesList = NodeId ident | NodeIdList "ident list" | SceneNode ident | SceneNodeList "ident list"

fun resolveItemsList :: "TNodesList \<Rightarrow> ident list" where
  "resolveItemsList (NodeId i) = [i]"
| "resolveItemsList (NodeIdList is) = is"
| "resolveItemsList (SceneNode i) = [i]"
| "resolveItemsList (SceneNodeList is) = is"

definition table_ids :: "node_table \<Rightarrow> ident list" where
  "table_ids tbl = map fst tbl"

definition parent_of :: "node_table \<Rightarrow> ident \<Rightarrow> ident option" where
  "parent_of tbl i = (case map_of tbl i of Some p \<Rightarrow> p | None \<Rightarrow> None)"

definition selection_empty :: ISelectionState where
  "selection_empty = \<lparr>selectedIds = [], lastSelectedId = []\<rparr>"

definition selection_reset :: "ISelectionState \<Rightarrow> ISelectionState" where
  "selection_reset s = selection_empty"

definition selection_add :: "node_table \<Rightarrow> TNodesList \<Rightarrow> ISelectionState \<Rightarrow> ISelectionState outcome" where
  "selection_add tbl items s =
     (let ids = resolveItemsList items
      in if \<not> list_all (\<lambda>i. i \<in> set (table_ids tbl)) ids then Thrown (JsError ''Node not found'')
         else if ids = [] then Ret s
         else Ret \<lparr>selectedIds = selectedIds s @ remdups (filter (\<lambda>i. i \<notin> set (selectedIds s)) ids),
                   lastSelectedId = last ids\<rparr>)"

definition selection_select :: "node_table \<Rightarrow> TNodesList \<Rightarrow> ISelectionState \<Rightarrow> ISelectionState outcome" where
  "selection_select tbl items s = selection_add tbl items (selection_reset s)"

text \<open>Deselecting the last selected node moves the pointer to the last node still selected.\<close>

definition selection_deselect :: "TNodesList \<Rightarrow> ISelectionState \<Rightarrow> ISelectionState" where
  "selection_deselect items s =
     (let ids = resolveItemsList items; rest = filter (\<lambda>i. i \<notin> set ids) (selectedIds s)
      in \<lparr>selectedIds = rest,
          lastSelectedId = (if lastSelectedId s \<in> set ids then (if rest = [] then [] else last rest)
                            else lastSelectedId s)\<rparr>)"

definition getIds :: "ISelectionState \<Rightarrow> ident list" where
  "getIds s = selectedIds s"

definition getInvertedIds :: "node_table \<Rightarrow> ISelectionState \<Rightarrow> ident list" where
  "getInvertedIds tbl s = filter (\<lambda>i. i \<notin> set (selectedIds s)) (table_ids tbl)"

definition selection_invert :: "node_table \<Rightarrow> ISelectionState \<Rightarrow> ISelectionState outcome" where
  "selection_invert tbl s = selection_select tbl (NodeIdList (getInvertedIds tbl s)) s"

definition selection_selectAll :: "node_table \<Rightarrow> ISelectionState \<Rightarrow> ISelectionState outcome" where
  "selection_selectAll tbl s = selection_select tbl (NodeIdList (table_ids tbl)) s"

definition getSize :: "ISelectionState \<Rightarrow> nat" where
  "getSize s = length (selectedIds s)"

definition isSelected :: "ident \<Rightarrow> ISelectionState \<Rightarrow> bool" where
  "isSelected i s \<longleftrightarrow> i \<in> set (selectedIds s)"

definition getLastSelectedId :: "ISelectionState \<Rightarrow> ident" where
  "getLastSelectedId s = lastSelectedId s"

text \<open>The folders above a node, nearest first, following at most \<open>n\<close> parent links.\<close>

primrec ancestors :: "nat \<Rightarrow> node_table \<Rightarrow> ident \<Rightarrow> ident list" where
  "ancestors 0 tbl i = []"
| "ancestors (Suc n) tbl i = (case parent_of tbl i of None \<Rightarrow> [] | Some p \<Rightarrow> p # ancestors n tbl p)"

text \<open>\<open>getRootNodes\<close>: the selected nodes none of whose folders is selected, in selection order.\<close>

definition getRootNodes :: "node_table \<Rightarrow> ISelectionState \<Rightarrow> ident list" where
  "getRootNodes tbl s =
     filter (\<lambda>i. \<not> list_ex (\<lambda>a. a \<in> set (selectedIds s)) (ancestors (length tbl) tbl i)) (selectedIds s)"

section \<open>Well-formedness\<close>

text \<open>A parent chain ends within \<open>n\<close> links.\<close>

primrec chain_ends :: "nat \<Rightarrow> node_table \<Rightarrow> ident \<Rightarrow> bool" where
  "chain_ends 0 tbl i = False"
| "chain_ends (Suc n) tbl i = (case parent_of tbl i of None \<Rightarrow> True | Some p \<Rightarrow> chain_ends n tbl p)"

definition forest_ok :: "node_table \<Rightarrow> bool" where
  "forest_ok tbl \<longleftrightarrow> distinct (table_ids tbl) \<and> list_all (chain_ends (length tbl) tbl) (table_ids tbl)"

definition selection_wf :: "node_table \<Rightarrow> ISelectionState \<Rightarrow> bool" where
  "selection_wf tbl s \<longleftrightarrow>
     distinct (selectedIds s) \<and> set (selectedIds s) \<subseteq> set (table_ids tbl) \<and>
     (if selectedIds s = [] then lastSelectedId s = [] else lastSelectedId s \<in> set (selectedIds s))"

text \<open>A scene of the scene store as a node table: its nodes are all at the top level.\<close>

definition scene_node_table :: "scene \<Rightarrow> node_table" where
  "scene_node_table sc = map (\<lambda>n. (node_id n, None)) (nodes sc)"

text \<open>The example of the documentation comment of \<open>getRootNodes\<close>.\<close>

definition doc_tree :: node_table where
  "doc_tree = [(''Folder1'', None), (''Item1'', Some ''Folder1''), (''Folder2'', Some ''Folder1''),
               (''Item3'', None), (''Folder3'', None), (''Item5'', Some ''Folder3''), (''Item4'', Some ''Folder3'')]"

definition doc_selection :: ISelectionState where
  "doc_selection = \<lparr>selectedIds = [''Folder1'', ''Item1'', ''Folder2'', ''Item3'', ''Item4''],
                    lastSelectedId = ''Item4''\<rparr>"

section \<open>Lemmas\<close>

lemma ancestors_decompose:
  "chain_ends n tbl i \<Longrightarrow> a \<in> set (ancestors n tbl i) \<Longrightarrow>
   \<exists>xs m. m < n \<and> ancestors n tbl i = xs @ a # ancestors m tbl a \<and> chain_ends m tbl a"
proof (induction n arbitrary: i)
  case 0
  then show ?case by simp
next
  case (Suc n)
  then obtain p where p: "parent_of tbl i = Some p" "chain_ends n tbl p"
    by (auto split: option.splits)
  show ?case
  proof (cases "a = p")
    case True
    then show ?thesis using p by (intro exI[of _ "[]"] exI[of _ n]) simp
  next
    case False
    then have "a \<in> set (ancestors n tbl p)" using Suc.prems(2) p by simp
    then obtain xs m where "m < n" "ancestors n tbl p = xs @ a # ancestors m tbl a" "chain_ends m tbl a"
      using Suc.IH p(2) by blast
    then show ?thesis using p by (intro exI[of _ "p # xs"] exI[of _ m]) simp
  qed
qed

lemma chain_ends_mono:
  "chain_ends m tbl a \<Longrightarrow> m \<le> k \<Longrightarrow> chain_ends k tbl a \<and> ancestors k tbl a = ancestors m tbl a"
proof (induction m arbitrary: a k)
  case 0
  then show ?case by simp
next
  case (Suc m)
  then obtain k' where k: "k = Suc k'" "m \<le> k'" by (cases k) auto
  show ?case
    using Suc.prems(1) Suc.IH[OF _ k(2)] unfolding k(1) by (auto split: option.splits)
qed

lemma getRootNodes_minimal:
  "r \<in> set (getRootNodes tbl s) \<Longrightarrow>
   r \<in> set (selectedIds s) \<and> (\<forall>a\<in>set (ancestors (length tbl) tbl r). a \<notin> set (selectedIds s))"
  by (auto simp: getRootNodes_def list_ex_iff)

lemma getRootNodes_cover:
  assumes "forest_ok tbl" "selection_wf tbl s" "i \<in> set (selectedIds s)"
  shows "\<exists>r\<in>set (getRootNodes tbl s). r = i \<or> r \<in> set (ancestors (length tbl) tbl i)"
proof -
  have ends: "chain_ends (length tbl) tbl i"
    using assms by (auto simp: forest_ok_def selection_wf_def list_all_iff)
  then show ?thesis
    using assms(3)
  proof (induction "length (ancestors (length tbl) tbl i)" arbitrary: i rule: less_induct)
    case less
    show ?case
    proof (cases "list_ex (\<lambda>a. a \<in> set (selectedIds s)) (ancestors (length tbl) tbl i)")
      case False
      then show ?thesis using less.prems(2) by (auto simp: getRootNodes_def)
    next
      case True
      then obtain a where a: "a \<in> set (ancestors (length tbl) tbl i)" "a \<in> set (selectedIds s)"
        by (auto simp: list_ex_iff)
      obtain xs m where d: "m < length tbl" "ancestors (length tbl) tbl i = xs @ a # ancestors m tbl a"
        "chain_ends m tbl a"
        using ancestors_decompose[OF less.prems(1) a(1)] by (elim exE conjE) (rule that)
      have mono: "chain_ends (length tbl) tbl a" "ancestors (length tbl) tbl a = ancestors m tbl a"
        using chain_ends_mono[OF d(3) less_imp_le[OF d(1)]] by simp_all
      have "\<exists>r\<in>set (getRootNodes tbl s). r = a \<or> r \<in> set (ancestors (length tbl) tbl a)"
        using less.hyps[of a] mono d(2) a(2) by simp
      moreover have "set (ancestors (length tbl) tbl a) \<subseteq> set (ancestors (length tbl) tbl i)"
        using d(2) mono(2) by auto
      ultimately show ?thesis using a(1) by blast
    qed
  qed
qed


lemma selection_add_refused:
  "selection_add tbl items s = Thrown (JsError ''Node not found'') \<longleftrightarrow>
   (\<exists>i\<in>set (resolveItemsList items). i \<notin> set (table_ids tbl))"
  by (auto simp: selection_add_def Let_def list_all_iff)

lemma selection_add_Ret:
  "selection_add tbl items s = Ret s' \<Longrightarrow>
   set (resolveItemsList items) \<subseteq> set (table_ids tbl) \<and>
   set (selectedIds s') = set (selectedIds s) \<union> set (resolveItemsList items)"
  by (auto simp: selection_add_def Let_def list_all_iff split: if_splits)

lemma selection_add_wf:
  "selection_wf tbl s \<Longrightarrow> selection_add tbl items s = Ret s' \<Longrightarrow> selection_wf tbl s'"
  by (auto simp: selection_add_def selection_wf_def Let_def list_all_iff split: if_splits)

lemma selection_select_wf:
  "selection_select tbl items s = Ret s' \<Longrightarrow> selection_wf tbl s'"
  unfolding selection_select_def selection_reset_def
  by (erule selection_add_wf[rotated]) (simp add: selection_wf_def selection_empty_def)

lemma selection_select_set:
  "selection_select tbl items s = Ret s' \<Longrightarrow> set (selectedIds s') = set (resolveItemsList items)"
  unfolding selection_select_def selection_reset_def
  by (drule selection_add_Ret) (simp add: selection_empty_def)

lemma selection_deselect_wf:
  "selection_wf tbl s \<Longrightarrow> selection_wf tbl (selection_deselect items s)"
  using last_in_set[of "filter (\<lambda>i. i \<notin> set (resolveItemsList items)) (selectedIds s)"]
  by (auto simp: selection_deselect_def selection_wf_def Let_def filter_empty_conv split: if_splits)

lemma selection_deselect_set:
  "set (selectedIds (selection_deselect items s)) = set (selectedIds s) - set (resolveItemsList items)"
  by (auto simp: selection_deselect_def Let_def)

lemma selection_invert_Ret:
  "\<exists>s'. selection_invert tbl s = Ret s' \<and> set (selectedIds s') = set (table_ids tbl) - set (selectedIds s)"
  by (auto simp: selection_invert_def selection_select_def selection_reset_def selection_add_def
                 getInvertedIds_def selection_empty_def Let_def list_all_iff filter_empty_conv)

lemma selection_invert_twice:
  assumes "selection_wf tbl s" "selection_invert tbl s = Ret s1" "selection_invert tbl s1 = Ret s2"
  shows "set (selectedIds s2) = set (selectedIds s)"
  using selection_invert_Ret[of tbl s] selection_invert_Ret[of tbl s1] assms
  by (auto simp: selection_wf_def)

lemma selection_selectAll_size:
  "distinct (table_ids tbl) \<Longrightarrow> selection_selectAll tbl s = Ret s' \<Longrightarrow> getSize s' = length tbl"
  using selection_select_wf[of tbl "NodeIdList (table_ids tbl)" s s'] selection_select_set[of tbl "NodeIdList (table_ids tbl)" s s']
  by (auto simp: selection_selectAll_def getSize_def selection_wf_def table_ids_def
           dest!: distinct_card intro: card_distinct)

lemma scene_getRootNodes:
  "getRootNodes (scene_node_table sc) s = selectedIds s"
proof -
  have "parent_of (scene_node_table sc) i = None" for i
    by (auto simp: parent_of_def scene_node_table_def split: option.split dest!: map_of_SomeD)
  then have "ancestors n (scene_node_table sc) i = []" for n i
    by (cases n) simp_all
  then show ?thesis by (simp add: getRootNodes_def)
qed

text \<open>
  C28. \<open>getRootNodes\<close> returns the minimal representation of the selection: exactly the
  selected nodes none of whose enclosing folders is selected, and every selected node is one
  of them or lies inside one of them (for a well-formed selection of a node table whose parent
  chains end).
\<close>

theorem getRootNodes_minimal_cover:
  assumes "forest_ok tbl" "selection_wf tbl s"
  shows "set (getRootNodes tbl s) =
           {r \<in> set (selectedIds s). set (ancestors (length tbl) tbl r) \<inter> set (selectedIds s) = {}} \<and>
         (\<forall>i\<in>set (selectedIds s). \<exists>r\<in>set (getRootNodes tbl s). r = i \<or> r \<in> set (ancestors (length tbl) tbl i))"
  using getRootNodes_cover[OF assms] by (auto simp: getRootNodes_def list_ex_iff)

lemma getRootNodes_minimal_cover_witness:
  "set (getRootNodes doc_tree doc_selection) = {''Folder1'', ''Item3'', ''Item4''} \<and> forest_ok doc_tree"
  using getRootNodes_minimal_cover [of doc_tree doc_selection]
  by (simp add: forest_ok_def selection_wf_def doc_tree_def doc_selection_def parent_of_def table_ids_def
                getRootNodes_def insert_commute)

text \<open>The spec's scenario: selecting a folder and one of its children, the root nodes are the
  folder alone.\<close>

lemma select_folder_and_child_roots:
  "selection_select doc_tree (NodeIdList [''Folder1'', ''Item1'']) selection_empty =
     Ret \<lparr>selectedIds = [''Folder1'', ''Item1''], lastSelectedId = ''Item1''\<rparr> \<and>
   getRootNodes doc_tree \<lparr>selectedIds = [''Folder1'', ''Item1''], lastSelectedId = ''Item1''\<rparr> = [''Folder1'']"
  by (simp add: selection_select_def selection_reset_def selection_add_def selection_empty_def
                doc_tree_def table_ids_def getRootNodes_def parent_of_def)

end
