(* ===== verification/Pages.thy ===== *)
theory Pages
  imports Scenes
begin

text \<open>
  The top navigation bar (\<open>TopNav\<close>, \<open>src/app/components/TopNav.vue.ts\<close> 16-92) and
  the overlay library page (\<open>BrowseOverlays\<close>, same file 116-209), with the notification
  options they push (\<open>notifications-api.ts\<close> 6-29). The services they call (navigation,
  transitions, settings, scene collections, widgets, overlay downloads, notifications,
  Electron's shell and IPC) are effects in an ordered log; the results of their promises and
  of URL parsing are parameters. The page state extends the scene store, so that
  \<open>installWidgets\<close> reads the active scene of the same store.
\<close>

section \<open>Notifications\<close>

datatype ENotificationType = INFO | WARNING | SUCCESS

datatype json_arg = JArgString string | JArgObject "(string \<times> string) list"

text \<open>\<open>jsonrpcService.createRequest(resourceId, method, ...args)\<close>.\<close>

datatype IJsonRpcRequest = JsonRpcRequest string string "json_arg list"

text \<open>\<open>INotificationOptions\<close> without the untyped \<open>data\<close> field.\<close>

record INotificationOptions =
  notification_message :: string
  notification_code :: "string option"
  notification_unread :: "bool option"
  notification_type :: "ENotificationType option"
  notification_action :: "IJsonRpcRequest option"
  notification_playSound :: "bool option"
  notification_lifeTime :: "int option"
  notification_showTime :: "bool option"

section \<open>Effects and state\<close>

datatype page_effect =
    NavigateTo string
  | EnableStudioMode
  | DisableStudioMode
  | ShowSettings
  | OpenExternal string
  | IpcSend string
  | ConsoleError string
  | ExposeApi "string list"
  | SceneCollectionsInstallOverlay string string
  | DownloadOverlay string
  | LoadWidgetFile string ident
  | PushNotification INotificationOptions
  | SetMediaBackupOptOut bool
  | SaveOverlayCall string
  | LoadOverlayCall string string

record pages_world = scenes_world +
  currentPage :: string
  studioMode :: bool
  nightMode :: bool
  slideOpen :: bool
  page_log :: "page_effect list"

definition page_call :: "page_effect \<Rightarrow> 'a pages_world_scheme \<Rightarrow> 'a pages_world_scheme" where
  "page_call e w = w\<lparr>page_log := page_log w @ [e]\<rparr>"

section \<open>TopNav\<close>

definition navigateStudio :: "'a pages_world_scheme \<Rightarrow> 'a pages_world_scheme" where
  "navigateStudio w = page_call (NavigateTo ''Studio'') w"

definition navigateDashboard :: "'a pages_world_scheme \<Rightarrow> 'a pages_world_scheme" where
  "navigateDashboard w = page_call (NavigateTo ''Dashboard'') w"

definition navigateOverlays :: "'a pages_world_scheme \<Rightarrow> 'a pages_world_scheme" where
  "navigateOverlays w = page_call (NavigateTo ''BrowseOverlays'') w"

definition navigateLive :: "'a pages_world_scheme \<Rightarrow> 'a pages_world_scheme" where
  "navigateLive w = page_call (NavigateTo ''Live'') w"

definition navigateOnboarding :: "'a pages_world_scheme \<Rightarrow> 'a pages_world_scheme" where
  "navigateOnboarding w = page_call (NavigateTo ''Onboarding'') w"

definition topnav_studioMode :: "'a pages_world_scheme \<Rightarrow> 'a pages_world_scheme" where
  "topnav_studioMode w = page_call (if studioMode w then DisableStudioMode else EnableStudioMode) w"

definition studioModeEnabled :: "'a pages_world_scheme \<Rightarrow> bool" where
  "studioModeEnabled w = studioMode w"

definition openSettingsWindow :: "'a pages_world_scheme \<Rightarrow> 'a pages_world_scheme" where
  "openSettingsWindow w = page_call ShowSettings w"

definition toggleNightTheme :: "'a pages_world_scheme \<Rightarrow> 'a pages_world_scheme" where
  "toggleNightTheme w = w\<lparr>nightMode := \<not> nightMode w\<rparr>"

definition bugReport :: "'a pages_world_scheme \<Rightarrow> 'a pages_world_scheme" where
  "bugReport w = page_call (OpenExternal ''https://tracker.streamlabs.com'') w"

definition openDiscord :: "'a pages_world_scheme \<Rightarrow> 'a pages_world_scheme" where
  "openDiscord w = page_call (OpenExternal ''https://discordapp.com/invite/stream'') w"

definition openDevTools :: "'a pages_world_scheme \<Rightarrow> 'a pages_world_scheme" where
  "openDevTools w = page_call (IpcSend ''openDevTools'') w"

definition topnav_page :: "'a pages_world_scheme \<Rightarrow> string" where
  "topnav_page w = currentPage w"

section \<open>BrowseOverlays\<close>

text \<open>
  What the page's calls return: \<open>urlLib.parse(url).protocol\<close> (\<open>None\<close> for
  \<open>null\<close>), \<open>new urlLib.URL(url).hostname\<close> (\<open>None\<close> when the constructor throws),
  whether \<open>sceneCollectionsService.installOverlay\<close> and \<open>widgetsService.loadWidgetFile\<close>
  resolve, and the path \<open>overlaysPersistenceService.downloadOverlay\<close> resolves with
  (\<open>None\<close> when it rejects).
\<close>

record browse_env =
  url_protocol :: "string \<Rightarrow> string option"
  url_hostname :: "string \<Rightarrow> string option"
  overlay_install_ok :: "string \<Rightarrow> bool"
  download_result :: "string \<Rightarrow> string option"
  widget_load_ok :: "string \<Rightarrow> bool"

definition trustedHosts :: "string list" where
  "trustedHosts = [''cdn.streamlabs.com'']"

definition browse_mounted :: "'a pages_world_scheme \<Rightarrow> 'a pages_world_scheme" where
  "browse_mounted w = page_call (ExposeApi [''installOverlay'', ''installWidgets'']) w"

text \<open>The \<open>new-window\<close> listener registered by \<open>mounted\<close>.\<close>

definition onNewWindow :: "browse_env \<Rightarrow> string \<Rightarrow> 'a pages_world_scheme \<Rightarrow> 'a pages_world_scheme" where
  "onNewWindow env url w =
     (if url_protocol env url = Some ''http:'' \<or> url_protocol env url = Some ''https:''
      then page_call (OpenExternal url) w else w)"

definition installOverlay :: "browse_env \<Rightarrow> string \<Rightarrow> string \<Rightarrow> 'a pages_world_scheme \<Rightarrow>
    unit outcome \<times> 'a pages_world_scheme" where
  "installOverlay env url name w =
     (case url_hostname env url of
        None \<Rightarrow> (Thrown (TypeError ''Invalid URL''), w)
      | Some host \<Rightarrow>
          if host \<notin> set trustedHosts
          then (Ret (), page_call (ConsoleError (''Ignoring overlay install from untrusted host: '' @ host)) w)
          else (let w1 = page_call (SceneCollectionsInstallOverlay url name) w
                in if overlay_install_ok env url then (Ret (), page_call (NavigateTo ''Studio'') w1)
                   else (Thrown (JsError ''installOverlay rejected''), w1)))"

text \<open>The loop of \<open>installWidgets\<close>: \<open>Ret True\<close> when it ran to the end,
  \<open>Ret False\<close> on the early \<open>return\<close> at an untrusted host.\<close>

fun installWidgets_loop :: "browse_env \<Rightarrow> string list \<Rightarrow> 'a pages_world_scheme \<Rightarrow>
    bool outcome \<times> 'a pages_world_scheme" where
  "installWidgets_loop env [] w = (Ret True, w)"
| "installWidgets_loop env (url # urls) w =
     (case url_hostname env url of
        None \<Rightarrow> (Thrown (TypeError ''Invalid URL''), w)
      | Some host \<Rightarrow>
          if host \<notin> set trustedHosts
          then (Ret False, page_call (ConsoleError (''Ignoring widget install from untrusted host: '' @ host)) w)
          else (let w1 = page_call (DownloadOverlay url) w
                in case download_result env url of
                     None \<Rightarrow> (Thrown (JsError ''downloadOverlay rejected''), w1)
                   | Some path \<Rightarrow>
                       let w2 = page_call (LoadWidgetFile path (activeSceneId w1)) w1
                       in if widget_load_ok env path then installWidgets_loop env urls w2
                          else (Thrown (JsError ''loadWidgetFile rejected''), w2)))"

definition widgets_notification :: INotificationOptions where
  "widgets_notification =
     \<lparr>notification_message = ''Widget Theme installed & activated. Click here to manage your Widget Profiles.'',
      notification_code = None, notification_unread = None, notification_type = Some SUCCESS,
      notification_action = Some (JsonRpcRequest ''NavigationService'' ''navigate''
                                    [JArgString ''Dashboard'', JArgObject [(''subPage'', ''widgetthemes'')]]),
      notification_playSound = None, notification_lifeTime = Some 8000, notification_showTime = Some False\<rparr>"

definition installWidgets :: "browse_env \<Rightarrow> string list \<Rightarrow> 'a pages_world_scheme \<Rightarrow>
    unit outcome \<times> 'a pages_world_scheme" where
  "installWidgets env urls w =
     (case installWidgets_loop env urls w of
        (Ret True, w1) \<Rightarrow> (Ret (), page_call (PushNotification widgets_notification) (page_call (NavigateTo ''Studio'') w1))
      | (Ret False, w1) \<Rightarrow> (Ret (), w1)
      | (Thrown e, w1) \<Rightarrow> (Thrown e, w1))"

definition demo_browse_env :: browse_env where
  "demo_browse_env =
     \<lparr>url_protocol = (\<lambda>u. Some ''https:''),
      url_hostname = (\<lambda>u. if u = ''https://cdn.streamlabs.com/w.zip'' then Some ''cdn.streamlabs.com'' else Some ''evil.example''),
      overlay_install_ok = (\<lambda>u. True), download_result = (\<lambda>u. Some ''/tmp/w.overlay''),
      widget_load_ok = (\<lambda>p. True)\<rparr>"

definition demo_pages :: pages_world where
  "demo_pages = \<lparr>activeSceneId = ''scene1'', displayOrder = [''scene1''], scenes = [], sources = [], events = [],
     uid = 0, currentPage = ''BrowseOverlays'', studioMode = False, nightMode = True, slideOpen = False,
     page_log = []\<rparr>"

section \<open>OverlaySettings\<close>

text \<open>
  \<open>OverlaySettings\<close> (\<open>src/unnamed/part_001\<close> 328-400). Its three actions start a
  promise and set \<open>busy\<close>; the \<open>then\<close> handler of the promise clears it. A started
  promise is a job in \<open>os_pending\<close>, settled later in any order, successfully or not; the
  handlers have no rejection branch. The dialogs' answers (the chosen path, \<open>None\<close> when
  cancelled; the open dialogs allow a single file, so the model gives \<open>chosenPath[0]\<close>) and
  \<open>sceneCollectionsService.suggestName\<close> are parameters.
\<close>

datatype os_job = SaveJob string | LoadOverlayJob string | LoadWidgetJob

record overlay_settings_world = pages_world +
  busy :: bool
  os_message :: string
  mediaBackupOptOut :: bool
  os_pending :: "os_job list"

record overlay_dialogs =
  save_dialog :: "string option"
  open_overlay_dialog :: "string option"
  open_widget_dialog :: "string option"
  suggestName :: "string \<Rightarrow> string"

record bool_form_input =
  input_name :: string
  input_description :: string
  input_value :: bool

text \<open>\<open>path.parse(p).base\<close> and \<open>.name\<close> of a file path (separators \<open>/\<close> and
  backslash, as on Windows).\<close>

definition is_path_sep :: "char \<Rightarrow> bool" where
  "is_path_sep c \<longleftrightarrow> c = CHR ''/'' \<or> c = CHR 0x5C"

definition path_parse_base :: "string \<Rightarrow> string" where
  "path_parse_base p = rev (takeWhile (\<lambda>c. \<not> is_path_sep c) (rev p))"

definition path_parse_name :: "string \<Rightarrow> string" where
  "path_parse_name p =
     (let b = path_parse_base p; k = length (takeWhile (\<lambda>c. c \<noteq> CHR ''.'') (rev b))
      in if Suc k < length b then take (length b - Suc k) b else b)"

definition os_mediaBackupOptOut :: "'a overlay_settings_world_scheme \<Rightarrow> bool_form_input" where
  "os_mediaBackupOptOut w =
     \<lparr>input_name = ''media_backup_opt_out'',
      input_description = ''Do not back up my media files in the cloud (requires app restart)'',
      input_value = mediaBackupOptOut w\<rparr>"

definition setMediaBackupOptOut :: "bool_form_input \<Rightarrow> 'a overlay_settings_world_scheme \<Rightarrow> 'a overlay_settings_world_scheme" where
  "setMediaBackupOptOut model w = page_call (SetMediaBackupOptOut (input_value model)) w"

definition os_start :: "os_job \<Rightarrow> bool \<Rightarrow> 'a overlay_settings_world_scheme \<Rightarrow> 'a overlay_settings_world_scheme" where
  "os_start j clear w =
     w\<lparr>busy := True, os_message := (if clear then [] else os_message w), os_pending := os_pending w @ [j]\<rparr>"

definition saveOverlay :: "overlay_dialogs \<Rightarrow> 'a overlay_settings_world_scheme \<Rightarrow> 'a overlay_settings_world_scheme" where
  "saveOverlay d w =
     (case save_dialog d of
        None \<Rightarrow> w
      | Some p \<Rightarrow> page_call (SaveOverlayCall p) (os_start (SaveJob p) True w))"

definition loadOverlay :: "overlay_dialogs \<Rightarrow> 'a overlay_settings_world_scheme \<Rightarrow> 'a overlay_settings_world_scheme" where
  "loadOverlay d w =
     (case open_overlay_dialog d of
        None \<Rightarrow> w
      | Some p \<Rightarrow>
          let filename = path_parse_name p; configName = suggestName d filename
          in page_call (LoadOverlayCall p configName) (os_start (LoadOverlayJob filename) True w))"

text \<open>\<open>loadWidget\<close> sets \<open>busy\<close> but leaves the message as it was.\<close>

definition loadWidget :: "overlay_dialogs \<Rightarrow> 'a overlay_settings_world_scheme \<Rightarrow> 'a overlay_settings_world_scheme" where
  "loadWidget d w =
     (case open_widget_dialog d of
        None \<Rightarrow> w
      | Some p \<Rightarrow> page_call (LoadWidgetFile p (activeSceneId w)) (os_start LoadWidgetJob False w))"

fun os_then :: "os_job \<Rightarrow> 'a overlay_settings_world_scheme \<Rightarrow> 'a overlay_settings_world_scheme" where
  "os_then (SaveJob p) w = w\<lparr>busy := False, os_message := ''Successfully saved '' @ path_parse_base p\<rparr>"
| "os_then (LoadOverlayJob filename) w = w\<lparr>busy := False, os_message := ''Successfully loaded '' @ filename @ ''.overlay''\<rparr>"
| "os_then LoadWidgetJob w = w\<lparr>busy := False\<rparr>"

text \<open>The \<open>i\<close>-th pending promise settles; \<open>ok\<close> says whether it resolved.\<close>

definition os_settle :: "nat \<Rightarrow> bool \<Rightarrow> 'a overlay_settings_world_scheme \<Rightarrow> 'a overlay_settings_world_scheme option" where
  "os_settle i ok w =
     (if i < length (os_pending w) then
        let j = os_pending w ! i; w1 = w\<lparr>os_pending := remove_nth i (os_pending w)\<rparr>
        in Some (if ok then os_then j w1 else w1)
      else None)"

definition demo_dialogs :: overlay_dialogs where
  "demo_dialogs = \<lparr>save_dialog = Some ''C:/Users/me/stream.overlay'', open_overlay_dialog = Some ''C:/Users/me/theme.overlay'',
     open_widget_dialog = Some ''C:/Users/me/alert.widget'', suggestName = (\<lambda>n. n @ '' 2'')\<rparr>"

definition demo_os :: overlay_settings_world where
  "demo_os = \<lparr>activeSceneId = ''scene1'', displayOrder = [''scene1''], scenes = [], sources = [], events = [],
     uid = 0, currentPage = ''Studio'', studioMode = False, nightMode = True, slideOpen = False,
     page_log = [], busy = False, os_message = [], mediaBackupOptOut = False, os_pending = []\<rparr>"

section \<open>Lemmas\<close>

lemma page_log_page_call [simp]: "page_log (page_call e w) = page_log w @ [e]"
  by (simp add: page_call_def)

lemma activeSceneId_page_call [simp]: "activeSceneId (page_call e w) = activeSceneId w"
  by (simp add: page_call_def)

lemma installWidgets_loop_log:
  "installWidgets_loop env urls w = (r, w') \<Longrightarrow>
   \<exists>xs. page_log w' = page_log w @ xs \<and>
        (\<forall>u. DownloadOverlay u \<in> set xs \<longrightarrow> u \<in> set urls \<and> url_hostname env u = Some ''cdn.streamlabs.com'') \<and>
        (\<forall>p. NavigateTo p \<notin> set xs) \<and> (\<forall>n. PushNotification n \<notin> set xs)"
proof (induction env urls w arbitrary: r rule: installWidgets_loop.induct)
  case (1 env w)
  then show ?case by simp
next
  case (2 env url urls w)
  show ?case
  proof (cases "url_hostname env url")
    case None
    then show ?thesis using "2.prems" by simp
  next
    case (Some host)
    show ?thesis
    proof (cases "host \<in> set trustedHosts")
      case False
      then show ?thesis using "2.prems" Some by auto
    next
      case True
      then have host: "host = ''cdn.streamlabs.com''" by (simp add: trustedHosts_def)
      show ?thesis
      proof (cases "download_result env url")
        case None
        then show ?thesis using "2.prems" Some True host by auto
      next
        case dl: (Some path)
        show ?thesis
        proof (cases "widget_load_ok env path")
          case False
          then show ?thesis using "2.prems" Some dl True host by auto
        next
          case ok: True
          have trusted: "\<not> host \<notin> set trustedHosts" using True by simp
          have "installWidgets_loop env urls
                  (page_call (LoadWidgetFile path (activeSceneId (page_call (DownloadOverlay url) w)))
                    (page_call (DownloadOverlay url) w)) = (r, w')"
            using "2.prems" Some dl True ok by simp
          then obtain xs where "page_log w' = page_log w @ [DownloadOverlay url, LoadWidgetFile path (activeSceneId w)] @ xs"
            "\<forall>u. DownloadOverlay u \<in> set xs \<longrightarrow> u \<in> set urls \<and> url_hostname env u = Some ''cdn.streamlabs.com''"
            "\<forall>p. NavigateTo p \<notin> set xs" "\<forall>n. PushNotification n \<notin> set xs"
            using "2.IH"[OF Some trusted refl dl refl ok] by auto
          then show ?thesis using Some host
            by (intro exI[of _ "[DownloadOverlay url, LoadWidgetFile path (activeSceneId w)] @ xs"]) auto
        qed
      qed
    qed
  qed
qed

text \<open>Every overlay that \<open>installWidgets\<close> downloads is one of its URLs and comes from
  the trusted host; navigation and the notification happen only when every URL was installed.\<close>

lemma installWidgets_trusted:
  "installWidgets env urls w = (r, w') \<Longrightarrow>
   \<exists>xs. page_log w' = page_log w @ xs \<and>
        (\<forall>u. DownloadOverlay u \<in> set xs \<longrightarrow> u \<in> set urls \<and> url_hostname env u = Some ''cdn.streamlabs.com'')"
  using installWidgets_loop_log[of env urls w]
  by (fastforce simp: installWidgets_def split: prod.splits outcome.splits bool.splits)

lemma installWidgets_notifies_only_when_complete:
  "installWidgets env urls w = (r, w') \<Longrightarrow> PushNotification n \<in> set (page_log w') \<Longrightarrow>
   PushNotification n \<notin> set (page_log w) \<Longrightarrow>
   n = widgets_notification \<and> (\<exists>w1. installWidgets_loop env urls w = (Ret True, w1))"
  using installWidgets_loop_log[of env urls w]
  by (fastforce simp: installWidgets_def split: prod.splits outcome.splits bool.splits)

lemma installOverlay_trusted:
  "installOverlay env url name w = (r, w') \<Longrightarrow> SceneCollectionsInstallOverlay u n \<in> set (page_log w') \<Longrightarrow>
   SceneCollectionsInstallOverlay u n \<notin> set (page_log w) \<Longrightarrow>
   u = url \<and> n = name \<and> url_hostname env url = Some ''cdn.streamlabs.com''"
  by (auto simp: installOverlay_def trustedHosts_def Let_def split: option.splits if_splits)

lemma installOverlay_navigates_after_install:
  "installOverlay env url name w = (Ret (), w') \<Longrightarrow> url_hostname env url = Some ''cdn.streamlabs.com'' \<Longrightarrow>
   page_log w' = page_log w @ [SceneCollectionsInstallOverlay url name, NavigateTo ''Studio'']"
  by (auto simp: installOverlay_def trustedHosts_def Let_def split: if_splits)

lemma onNewWindow_web_only:
  "OpenExternal u \<in> set (page_log (onNewWindow env url w)) \<Longrightarrow> OpenExternal u \<notin> set (page_log w) \<Longrightarrow>
   u = url \<and> (url_protocol env url = Some ''http:'' \<or> url_protocol env url = Some ''https:'')"
  by (auto simp: onNewWindow_def split: if_splits)

lemma topnav_studioMode_call:
  "page_log (topnav_studioMode w) = page_log w @ [if studioModeEnabled w then DisableStudioMode else EnableStudioMode]"
  by (simp add: topnav_studioMode_def studioModeEnabled_def)

lemma toggleNightTheme_twice:
  "toggleNightTheme (toggleNightTheme w) = w"
  by (simp add: toggleNightTheme_def)

text \<open>An untrusted URL after a trusted one: the first widget stays installed in the active
  scene, and the page neither navigates nor announces anything.\<close>

lemma installWidgets_partial_install:
  "installWidgets demo_browse_env [''https://cdn.streamlabs.com/w.zip'', ''https://evil.example/w.zip''] demo_pages =
     (Ret (), page_call (ConsoleError ''Ignoring widget install from untrusted host: evil.example'')
                (page_call (LoadWidgetFile ''/tmp/w.overlay'' ''scene1'')
                  (page_call (DownloadOverlay ''https://cdn.streamlabs.com/w.zip'') demo_pages)))"
  by (simp add: installWidgets_def demo_browse_env_def demo_pages_def trustedHosts_def page_call_def)


text \<open>Any successful settlement clears \<open>busy\<close>, whatever else is still pending; a
  rejected one leaves it as it was.\<close>

lemma os_settle_busy:
  "os_settle i ok w = Some w' \<Longrightarrow> busy w' = (busy w \<and> \<not> ok) \<and> os_pending w' = remove_nth i (os_pending w)"
  by (cases "os_pending w ! i") (auto simp: os_settle_def Let_def split: if_splits)

lemma saveOverlay_then:
  "save_dialog d = Some p \<Longrightarrow> os_pending w = [] \<Longrightarrow>
   os_settle 0 True (saveOverlay d w) =
     Some ((page_call (SaveOverlayCall p) w)\<lparr>busy := False, os_message := ''Successfully saved '' @ path_parse_base p\<rparr>)"
  by (simp add: os_settle_def saveOverlay_def os_start_def remove_nth_def page_call_def)

lemma loadOverlay_demo:
  "loadOverlay demo_dialogs demo_os =
     demo_os\<lparr>page_log := [LoadOverlayCall ''C:/Users/me/theme.overlay'' ''theme 2''], busy := True,
             os_pending := [LoadOverlayJob ''theme'']\<rparr> \<and>
   os_settle 0 True (loadOverlay demo_dialogs demo_os) =
     Some (demo_os\<lparr>page_log := [LoadOverlayCall ''C:/Users/me/theme.overlay'' ''theme 2''],
             os_message := ''Successfully loaded theme.overlay''\<rparr>)"
  by (simp add: loadOverlay_def demo_dialogs_def demo_os_def os_start_def page_call_def path_parse_name_def path_parse_base_def
                is_path_sep_def os_settle_def remove_nth_def)

text \<open>Two overlapping actions: when the save finishes first, the page is no longer busy
  although the widget load is still running.\<close>

lemma overlapping_jobs_not_busy:
  "map_option busy (os_settle 0 True (loadWidget demo_dialogs (saveOverlay demo_dialogs demo_os))) = Some False \<and>
   map_option os_pending (os_settle 0 True (loadWidget demo_dialogs (saveOverlay demo_dialogs demo_os))) =
     Some [LoadWidgetJob]"
  by (simp add: os_settle_def loadWidget_def saveOverlay_def demo_dialogs_def demo_os_def os_start_def
                page_call_def remove_nth_def)

text \<open>A failed save leaves the page busy for good, with nothing pending.\<close>

lemma rejected_save_stays_busy:
  "map_option busy (os_settle 0 False (saveOverlay demo_dialogs demo_os)) = Some True \<and>
   map_option os_pending (os_settle 0 False (saveOverlay demo_dialogs demo_os)) = Some []"
  by (simp add: os_settle_def saveOverlay_def demo_dialogs_def demo_os_def os_start_def page_call_def remove_nth_def)

end
