(* ===== verification/SceneTests.thy ===== *)
theory SceneTests
  imports Scenes
begin

text \<open>
  The scene API tests of \<open>src/unnamed/part_000\<close> (lines 1-157) run on the model of the
  scene store. The suite runs with \<open>restartAppAfterEachTest: false\<close>, so the tests share
  one store in file order; each test is a function from the store to the results of its
  assertions and the store it leaves. An assertion that fails does not stop an ava test; a
  throw does, and fails it. The remote client calls the services synchronously, and
  \<open>fetchNextEvent\<close> returns the next event of a subscribed stream. The last test,
  \<open>SceneItem.setSettings()\<close> (160-193), needs the transform of an item, which the store
  does not model.
\<close>

section \<open>What the tests read\<close>

text \<open>An item's \<open>name\<close> is its source's name.\<close>

definition item_name :: "'a scenes_world_scheme \<Rightarrow> scene_item \<Rightarrow> string" where
  "item_name w i = (case map_of (sources w) (item_sourceId i) of Some s \<Rightarrow> source_name s | None \<Rightarrow> [])"

definition item_names :: "'a scenes_world_scheme \<Rightarrow> ident \<Rightarrow> string list" where
  "item_names w sid = (case getScene sid w of Some sc \<Rightarrow> map (item_name w) (getItems sc) | None \<Rightarrow> [])"

definition scene_names :: "'a scenes_world_scheme \<Rightarrow> string list" where
  "scene_names w = map (\<lambda>so. case so of Some sc \<Rightarrow> scene_name sc | None \<Rightarrow> []) (scenes_get w)"

text \<open>The streams the events test subscribes to.\<close>

fun subscribed :: "scene_event \<Rightarrow> bool" where
  "subscribed (SceneAdded sc) = True"
| "subscribed (SceneRemoved sc) = True"
| "subscribed (SceneSwitched sc) = True"
| "subscribed (ItemAdded i) = True"
| "subscribed (ItemRemoved i) = True"
| "subscribed (ItemUpdated i) = True"
| "subscribed _ = False"

text \<open>\<open>client.fetchNextEvent()\<close>: the first subscribed event at or after the cursor, and
  the cursor after it; \<open>None\<close> when there is none (the test would wait for good).\<close>

definition fetchNextEvent :: "nat \<Rightarrow> 'a scenes_world_scheme \<Rightarrow> (scene_event \<times> nat) option" where
  "fetchNextEvent c w =
     map_option (\<lambda>(k, e). (e, Suc k)) (find (\<lambda>(k, e). c \<le> k \<and> subscribed e) (zip [0..<length (events w)] (events w)))"

fun event_scene_name :: "scene_event \<Rightarrow> string option" where
  "event_scene_name (SceneAdded sc) = Some (scene_name sc)"
| "event_scene_name (SceneRemoved sc) = Some (scene_name sc)"
| "event_scene_name (SceneSwitched sc) = Some (scene_name sc)"
| "event_scene_name _ = None"

fun event_item :: "scene_event \<Rightarrow> scene_item option" where
  "event_item (ItemAdded i) = Some i"
| "event_item (ItemRemoved i) = Some i"
| "event_item (ItemUpdated i) = Some i"
| "event_item _ = None"

text \<open>The store the suite starts from: the application's default scene \<open>Scene\<close>, active.\<close>

definition test_start :: scenes_world where
  "test_start = snd (createScene ''Scene'' (no_opts\<lparr>opt_makeActive := True\<rparr>) scenes_initial)"

section \<open>The tests\<close>

definition test_default_scene :: "scenes_world \<Rightarrow> bool list \<times> scenes_world" where
  "test_default_scene w = ([length (scenes_get w) = 1], w)"

definition test_create_remove_scenes :: "scenes_world \<Rightarrow> bool list \<times> scenes_world" where
  "test_create_remove_scenes w =
     (case createScene ''Scene2'' no_opts w of
        (Ret (Some scene2), w1) \<Rightarrow>
          let a1 = (scene_name scene2 = ''Scene2''); a2 = (scene_names w1 = [''Scene'', ''Scene2''])
          in (case drop 1 (scenes_get w1) of
                Some sc # _ \<Rightarrow> let w2 = snd (removeScene (scene_id sc) False w1)
                               in ([a1, a2, scene_names w2 = [''Scene'']], w2)
              | _ \<Rightarrow> ([a1, a2, False], w1))
      | (_, w1) \<Rightarrow> ([False], w1))"

definition test_switch_scenes :: "scenes_world \<Rightarrow> bool list \<times> scenes_world" where
  "test_switch_scenes w =
     (case getSceneByName ''Scene'' w of
        None \<Rightarrow> ([False], w)
      | Some scene \<Rightarrow>
          (case createScene ''Scene2'' no_opts w of
             (Ret (Some scene2), w1) \<Rightarrow>
               let a1 = (scene_id scene = activeSceneId w1);
                   w2 = snd (makeSceneActive (scene_id scene2) w1);
                   a2 = (scene_id scene2 = activeSceneId w2);
                   w3 = snd (removeScene (scene_id scene2) False w2)
               in ([a1, a2, scene_id scene = activeSceneId w3], w3)
           | (_, w1) \<Rightarrow> ([False], w1)))"

definition test_scene_items :: "scenes_world \<Rightarrow> bool list \<times> scenes_world" where
  "test_scene_items w =
     (case getSceneByName ''Scene'' w of
        None \<Rightarrow> ([False], w)
      | Some scene \<Rightarrow>
          let sid = scene_id scene in
          (case createAndAddSource sid ''Image1'' ''image_source'' w of
             (Ret (Some image1), w1) \<Rightarrow>
               (case createAndAddSource sid ''Image2'' ''image_source'' w1 of
                  (Ret (Some image2), w2) \<Rightarrow>
                    let a1 = (item_name w2 image1 = ''Image1'');
                        a2 = (item_names w2 sid = [''Image2'', ''Image1'']);
                        w3 = removeItem sid (sceneItemId image2) w2
                    in ([a1, a2, item_names w3 sid = [''Image1'']], w3)
                | (_, w2) \<Rightarrow> ([False], w2))
           | (_, w1) \<Rightarrow> ([False], w1)))"

text \<open>Each \<open>await client.fetchNextEvent()\<close> of the events test, with the check made on
  the event it returns.\<close>

definition expect_event :: "(scene_event \<Rightarrow> bool) \<Rightarrow> nat \<Rightarrow> scenes_world \<Rightarrow> bool \<times> nat" where
  "expect_event P c w = (case fetchNextEvent c w of Some (e, c') \<Rightarrow> (P e, c') | None \<Rightarrow> (False, c))"

definition test_scene_events :: "scenes_world \<Rightarrow> bool list \<times> scenes_world" where
  "test_scene_events w =
     (let c0 = length (events w) in
      case createScene ''Scene2'' no_opts w of
        (Ret (Some scene2), w1) \<Rightarrow>
          let (a1, c1) = expect_event (\<lambda>e. event_scene_name e = Some ''Scene2'') c0 w1 in
          (case createScene ''Scene3'' no_opts w1 of
             (Ret (Some scene3), w2) \<Rightarrow>
               let (_, c2) = expect_event (\<lambda>e. True) c1 w2;
                   w3 = snd (makeSceneActive (scene_id scene2) w2);
                   (a2, c3) = expect_event (\<lambda>e. event_scene_name e = Some ''Scene2'') c2 w3;
                   w4 = snd (removeScene (scene_id scene3) False w3);
                   (a3, c4) = expect_event (\<lambda>e. event_scene_name e = Some ''Scene3'') c3 w4
               in (case createAndAddSource (scene_id scene2) ''image'' ''image_source'' w4 of
                     (Ret (Some img), w5) \<Rightarrow>
                       let (a4, c5) = expect_event (\<lambda>e. map_option sceneItemId (event_item e) = Some (sceneItemId img)) c4 w5;
                           w6 = setVisibility (scene_id scene2) (sceneItemId img) False w5;
                           (a5, c6) = expect_event (\<lambda>e. map_option item_visible (event_item e) = Some False) c5 w6;
                           w7 = removeItem (scene_id scene2) (sceneItemId img) w6;
                           (a6, c7) = expect_event (\<lambda>e. map_option sceneItemId (event_item e) = Some (sceneItemId img)) c6 w7
                       in ([a1, a2, a3, a4, a5, a6], w7)
                   | (_, w5) \<Rightarrow> ([a1, a2, a3, False], w5))
           | (_, w2) \<Rightarrow> ([a1, False], w2))
      | (_, w1) \<Rightarrow> ([False], w1))"

definition test_nested_scenes :: "scenes_world \<Rightarrow> bool list \<times> scenes_world" where
  "test_nested_scenes w =
     (case createScene ''SceneA'' no_opts w of
        (Ret (Some sceneA), w1) \<Rightarrow>
          (case createScene ''SceneB'' no_opts w1 of
             (Ret (Some sceneB), w2) \<Rightarrow>
               (case createScene ''SceneC'' no_opts w2 of
                  (Ret (Some sceneC), w3) \<Rightarrow>
                    let a = scene_id sceneA; b = scene_id sceneB; c = scene_id sceneC;
                        w4 = snd (addSource a b None w3);
                        a1 = (item_names w4 a = [''SceneB'']);
                        w5 = snd (addSource c a None w4);
                        a2 = (item_names w5 c = [''SceneA'']);
                        w6 = snd (addSource a c None w5)
                    in ([a1, a2, item_names w6 a = [''SceneB'']], w6)
                | (_, w3) \<Rightarrow> ([False], w3))
           | (_, w2) \<Rightarrow> ([False], w2))
      | (_, w1) \<Rightarrow> ([False], w1))"

text \<open>The suite in file order on one store.\<close>

definition scene_test_suite :: "scenes_world \<Rightarrow> bool list list" where
  "scene_test_suite w0 =
     (let (r1, w1) = test_default_scene w0; (r2, w2) = test_create_remove_scenes w1;
          (r3, w3) = test_switch_scenes w2; (r4, w4) = test_scene_items w3;
          (r5, w5) = test_scene_events w4; (r6, w6) = test_nested_scenes w5
      in [r1, r2, r3, r4, r5, r6])"

section \<open>The suite passes\<close>

text \<open>Every assertion of the six tests holds on the model, in the order the suite runs them.\<close>

lemma scene_test_suite_passes:
  "scene_test_suite test_start =
     [[True], [True, True, True], [True, True, True], [True, True, True],
      [True, True, True, True, True, True], [True, True, True]]"
  by code_simp

end
