(* ===== verification/Spec2Isabelle.thy ===== *)
theory Spec2Isabelle
  imports SceneGraph MediaBackup EditStream Mixer NameScene Release Selection Pages SceneTests
begin

text \<open>
  \<^bold>\<open>A verification library of streamlabs-obs.\<close> The program is an Electron
  application whose services are TypeScript classes with a Vuex-style state changed only by
  \<open>@mutation\<close> methods, called from Vue components and from the promises of HTTP
  and OBS requests. The library models these services as state-passing HOL functions (a
  record per service state, one definition per method or mutation, the calls into other
  services and into OBS recorded as an ordered effect log), the asynchronous ones as
  processes whose continuations are resumed in any order, and proves what makes each part
  correct. Every definition is executable; the witnesses run them on concrete inputs by
  \<open>simp\<close> and \<open>code_simp\<close>.

  \<^bold>\<open>Theories and the code they model.\<close>
  \<^item> \<open>Prelude\<close>: JavaScript objects as insertion-ordered association lists
    (\<open>obj_set\<close>, \<open>obj_del\<close>), errors (\<open>js_error\<close>, \<open>'a outcome\<close> with
    \<open>Ret\<close> and \<open>Thrown\<close>: every \<open>throw\<close> and every TypeError on \<open>undefined\<close>
    is a value), numbers printed as decimal strings, removal of the settled promise from a
    pending list, and the lemmas on them the components share.
  \<^item> \<open>Scenes\<close>, \<open>SceneGraph\<close>: \<open>ScenesService\<close>
    (\<open>src/app/services/notifications/notifications-api.ts\<close>) and the scene/item node
    operations its API calls (modelled from the spec, not under \<open>src\<close>); the nesting
    relation of scenes and its acyclicity (claims C1-C5); the queries
    \<open>getSourceScenes\<close> and \<open>getSceneItem\<close>, and \<open>setLockOnAllScenes\<close> with the lemma
    that it locks every item of every displayed scene when each scene is stored under its
    own id.
  \<^item> \<open>Streaming\<close>: \<open>StreamingService\<close>
    (\<open>src/app/services/selection/selection-api.ts\<close>): \<open>toggleStreaming\<close>,
    \<open>toggleRecording\<close>, \<open>handleOBSOutputSignal\<close> and the two status mutations as a
    step function on the service state and an effect log (C6-C13; C13 over every run in
    which the power-save blocker answers id 0).
  \<^item> \<open>MediaBackup\<close>: \<open>MediaBackupService\<close> (\<open>src/unnamed/part_003\<close>): the
    file store, \<open>withRetry\<close>, and \<open>createNewFile\<close>/\<open>syncFile\<close> split at each
    \<open>await\<close> into continuations run as interleaved processes (C14-C20); the request
    callbacks of \<open>uploadFile\<close> and \<open>getFileData\<close>, which decide how (and whether)
    those promises settle.
  \<^item> \<open>StreamInfo\<close>: \<open>StreamInfoService\<close> (\<open>src/app/components/TopNav.vue.ts\<close>)
    with pending refresh, put and viewer-count promises settled in any order (C21-C24);
    the condition \<open>platform instanceof TwitchService || MixerService\<close> of
    \<open>setStreamInfo\<close> is computed with JavaScript's \<open>||\<close> and truthiness
    (\<open>js_or\<close>, \<open>js_truthy\<close>), not assumed.
  \<^item> \<open>GoLive\<close>: the start button, the stream-info window, the footer record button and
    the metrics status line, composed with \<open>Streaming\<close> and \<open>StreamInfo\<close> in one
    \<open>studio\<close> record (C27, C29).
  \<^item> \<open>App\<close>: \<open>AppService\<close> (\<open>src/app/services/app/app.ts\<close>) start-up and
    shutdown with its timer and awaits, and \<open>Main.shouldLockContent\<close> (C30-C31). A
    session (\<open>app_session\<close>) is one \<open>load\<close> followed by any interleaving of the
    other events; \<open>startLoading\<close>/\<open>finishLoading\<close> are public but called nowhere in
    \<open>src\<close>, so C31 is stated over sessions.
  \<^item> \<open>Settings\<close>: \<open>SettingsService\<close> (\<open>src/unnamed/part_002\<close>, 195-521): the form
    data, the state built from it, reading, loading and saving categories, and the audio
    category's sources; \<open>getCategories\<close> takes the \<open>argv\<close> that \<open>AppService\<close>
    stores (C32-C38). A parameter carries both its form \<open>value\<close> and the
    \<open>currentValue\<close> OBS reads and writes; the form helpers \<open>obsValuesToInputValues\<close>
    and \<open>inputValuesToObsValues\<close> (not under \<open>src\<close>) move the value between them,
    their type conversions are not modelled. C36 covers reading the output category under an
    optimized encoder profile.
  \<^item> \<open>NameScene\<close>: the window \<open>NameScene\<close>
    (\<open>src/app/components/windows/NameScene.vue.ts\<close>), \<open>mounted\<close> and \<open>submit\<close>,
    on a record extending the scene store so that its calls into \<open>ScenesService\<close> run on
    the same state (lemmas only).
  \<^item> \<open>Mixer\<close>: \<open>MixerService\<close> (\<open>src/unnamed/part_002\<close>, 11-194): the game-id
    map, every request it builds, the then-handlers, and \<open>setupStreamSettings\<close> composed
    with \<open>Settings\<close> (C39-C40).
  \<^item> \<open>Release\<close>: the interactive release script (\<open>src/unnamed/part_001\<close>, 1-312).
    Each helper (\<open>info\<close>, \<open>error\<close>, \<open>executeCmd\<close>, \<open>sentryCli\<close>,
    \<open>checkEnv\<close>, \<open>uploadS3File\<close>) is a definition that appends its actions to a trace
    and either goes on or ends the run with \<open>sh.exit\<close>; \<open>runScript\<close> is the list of
    its steps, phase by phase (header and environment checks, branch sync, build and tests,
    version and package, commit, deploy, publish), run by \<open>exec_steps\<close>, which stops at
    the first exit. The prompt answers, environment variables, command outcomes, files in
    \<open>dist\<close> and upload outcomes are a record of parameters (C25-C26).
  \<^item> \<open>Selection\<close>: the selection of a scene (\<open>ISelection\<close>,
    \<open>ISelectionState\<close>, \<open>TNodesList\<close> in
    \<open>src/app/services/selection/selection-api.ts\<close>, 14-176). The state record and the
    node-list type come from the source; the operations (\<open>add\<close>, \<open>select\<close>,
    \<open>deselect\<close>, \<open>reset\<close>, \<open>invert\<close>, \<open>selectAll\<close>, the getters and
    \<open>getRootNodes\<close>) from the interface's comments and the spec's Selection Engine, since
    their implementation is not under \<open>src\<close>. They act on a node table (ids in order with
    their parent folders); \<open>scene_node_table\<close> reads one off a scene of the store (C28).
  \<^item> \<open>Pages\<close>: the top navigation bar and the overlay library page
    (\<open>TopNav\<close> and \<open>BrowseOverlays\<close> in \<open>src/app/components/TopNav.vue.ts\<close>)
    and the notification options they push (\<open>notifications-api.ts\<close> 6-29), on a record
    extending the scene store; the calls into services and Electron are an effect log, URL
    parsing and the awaited promises are parameters; \<open>OverlaySettings\<close>
    (\<open>src/unnamed/part_001\<close> 328-400) with its three actions' promises settled in any
    order (lemmas only).
  \<^item> \<open>SceneTests\<close>: the scene API tests of \<open>src/unnamed/part_000\<close> (1-157), each
    a function from the store to its assertions' results, run in file order on one store as
    the suite does; \<open>scene_test_suite_passes\<close> proves every assertion holds on the model.
  \<^item> \<open>EditStream\<close>: the form of \<open>EditStreamInfo\<close>
    (\<open>src/app/components/windows/EditStreamInfo.vue.ts\<close>): its models, the game searches
    as pending promises, the encoder profiles, and the submit that runs \<open>updateAndGoLive\<close>
    of \<open>GoLive\<close> on them (lemmas only). \<open>GoLive\<close> also holds the rest of
    \<open>StudioFooterComponent\<close> (the YouTube checks).

  \<^bold>\<open>What the lemmas show.\<close> Invariants of reachable states by rule induction on the
  \<open>inductive\<close> reachability relations (scene acyclicity, status announced, one pending call
  per unsynced file, StreamInfo flags, shutdown ordering, the page lock of a session);
  functional behaviour of each operation on every branch, errors included; an equivalence
  (the bounded recursive nested-scene search against the transitive closure) and refinements
  (\<open>canAddSource\<close> against reachability, the settings store against the OBS forms); round
  trips (saving and reading back a settings category, reading and saving the audio form);
  liveness of the media backup (a settlement order that empties the pending calls; it
  takes every request to settle, which \<open>upload_without_response_never_settles\<close> shows
  fails when a request gets no response); bounds
  of the stream-delay countdown; the ordering of effects (\<open>occurs_before\<close>); the
  release script's safety (nothing is pushed before the confirmations, the environment
  checks, the tests and the packaging succeeded; a failed test stops it before anything is
  written or uploaded), its exit codes, and its two defects (no \<open>.yml\<close> file crashes it; the
  \<open>finalize\<close> command has an unbalanced quote); the selection's invariant, refusal of foreign
  nodes, \<open>invert\<close> twice, and \<open>getRootNodes\<close> as the minimal cover of the selection;
  the overlay page's trusted-host checks (nothing is downloaded or installed from another
  host, nothing but web URLs is opened externally) and its partial widget install; the
  overlay settings' \<open>busy\<close> flag under overlapping and failed actions; the edit window's
  profiles against its \<open>profiles\<close> getter, and its overlapping game searches.

  \<^bold>\<open>Bounds and fuel.\<close> \<open>hasNestedScene\<close> recurses with a depth; the model gives it the
  number of scenes, which \<open>SceneGraph\<close> proves enough (a path without repeated scenes
  is no longer). \<open>withRetry\<close> is a \<open>function\<close> whose termination measure is the number
  of attempts left (three in the code). The checksum loop of \<open>syncFile\<close> is structural
  recursion on the list of candidate local paths. The release script is straight-line code:
  \<open>exec_steps\<close> recurses on its list of steps. No other loop of the code is unbounded.

  \<^bold>\<open>Environment.\<close> What the services only call is an input or an effect: OBS
  (\<open>nodeObs\<close>) as a store of forms by category and as output signals; HTTP responses as the
  payload of settlement events (or the JSON argument of a then-handler); Electron dialogs and
  power-save ids, \<open>uuid()\<close>, the clock, the audio device list and the confirm answers as
  parameters; \<open>SourcesService\<close>, \<open>WindowsService\<close> and \<open>UserService\<close> calls as
  effect-log entries; for the release script, the prompt answers, environment variables,
  results of shell commands and uploads, and the files in \<open>dist\<close>; for the overlay page,
  the results of \<open>urlLib\<close> parsing and of the awaited service calls.

  \<^bold>\<open>Not modelled.\<close> The bulk actions of the selection that change the scene
  (\<open>copyTo\<close>, \<open>moveTo\<close>, \<open>placeAfter\<close>, \<open>placeBefore\<close>, \<open>setParent\<close>,
  \<open>getBoundingRect\<close>): the scene store here has no folder tree and no transforms;
  view code of the windows and pages (\<open>Main\<close> beyond \<open>shouldLockContent\<close>, getters of \<open>TopNav\<close> and \<open>BrowseOverlays\<close> that only forward to other services) and
  the debounce timer of the game search (the model runs the search when it fires); the method signatures of
  \<open>notifications-api.ts\<close> and of the audio service in \<open>TopNav.vue.ts\<close>;
  the \<open>SceneItem.setSettings()\<close> test of \<open>part_000\<close> (it needs item transforms) and the
  spectron UI tests (\<open>sources.js\<close>, \<open>source-props.ts\<close>, \<open>onboarding.js\<close>), which
  drive the rendered UI; type declarations without behaviour;
  string formatting of durations and metrics.
\<close>

end
